(* ===== verification/Prelude.thy ===== *)
theory Prelude
  imports Main "HOL-Library.Word" "HOL-Library.Sublist" "HOL-Library.List_Lexorder"
    "HOL-Library.Char_ord" "HOL-Library.Code_Target_Numeral"
begin

text \<open>
  Shared ground of the development: the collections of simplification rules, the
  world-passing error monad in which the store operations are written, and the generic
  facts on lists and tables that the component theories use.

  A Rust \<open>String\<close> is modelled as a \<open>string\<close>, the list of its UTF-8 bytes: \<open>length\<close> is
  \<open>str::len\<close>, and the lexicographic order of \<open>HOL-Library.List_Lexorder\<close> on bytes is both
  Rust's \<open>Ord for str\<close> and SQLite's BINARY collation.
\<close>

named_theorems monad_iff \<open>success and failure of the monad's combinators\<close>
named_theorems store_defs \<open>definitions of the store's statements and operations\<close>
named_theorems sel_simps \<open>what a SELECT returns after an INSERT or an UPDATE\<close>
named_theorems wire_simps \<open>the wire names of the enumerations\<close>

section \<open>Types shared by all components\<close>

type_synonym u32 = "32 word"

abbreviation u32_max :: u32 where
  "u32_max \<equiv> 4294967295"

definition saturating_add :: "u32 \<Rightarrow> u32 \<Rightarrow> u32" where
  "saturating_add a b = (if unat a + unat b < 2 ^ 32 then a + b else u32_max)"

lemma unat_u32_max: "unat u32_max = 2 ^ 32 - 1"
  by simp

lemma unat_saturating_add: "unat (saturating_add a b) = min (unat a + unat b) (2 ^ 32 - 1)"
  by (auto simp: saturating_add_def unat_word_ariths unat_u32_max)

section \<open>The error monad over a world\<close>

text \<open>
  An operation takes the world and returns either an error or a value, and in both cases
  the world it leaves. The world is threaded through errors too, because not every effect
  is undone by a rollback (a file already written stays written).
\<close>

type_synonym ('w, 'e, 'a) prog = "'w \<Rightarrow> ('e + 'a) \<times> 'w"

definition mret :: "'a \<Rightarrow> ('w, 'e, 'a) prog" where
  "mret x w = (Inr x, w)"

definition mfail :: "'e \<Rightarrow> ('w, 'e, 'a) prog" where
  "mfail e w = (Inl e, w)"

definition mbind :: "('w, 'e, 'a) prog \<Rightarrow> ('a \<Rightarrow> ('w, 'e, 'b) prog) \<Rightarrow> ('w, 'e, 'b) prog" where
  "mbind m k w = (case m w of (Inl e, w') \<Rightarrow> (Inl e, w') | (Inr x, w') \<Rightarrow> k x w')"

definition mthen :: "('w, 'e, 'a) prog \<Rightarrow> ('w, 'e, 'b) prog \<Rightarrow> ('w, 'e, 'b) prog" where
  "mthen m k = mbind m (\<lambda>_. k)"

definition mget :: "('w \<Rightarrow> 'a) \<Rightarrow> ('w, 'e, 'a) prog" where
  "mget f w = (Inr (f w), w)"

definition mmod :: "('w \<Rightarrow> 'w) \<Rightarrow> ('w, 'e, unit) prog" where
  "mmod f w = (Inr (), f w)"

definition mguard :: "bool \<Rightarrow> 'e \<Rightarrow> ('w, 'e, unit) prog" where
  "mguard b e = (if b then mret () else mfail e)"

definition mlift :: "'e + 'a \<Rightarrow> ('w, 'e, 'a) prog" where
  "mlift r = (case r of Inl e \<Rightarrow> mfail e | Inr x \<Rightarrow> mret x)"

text \<open>\<open>Option::ok_or\<close> followed by \<open>?\<close>.\<close>

definition msome :: "'a option \<Rightarrow> 'e \<Rightarrow> ('w, 'e, 'a) prog" where
  "msome r e = (case r of None \<Rightarrow> mfail e | Some x \<Rightarrow> mret x)"

text \<open>A \<open>for\<close> loop whose body may leave with \<open>?\<close>; the values of the iterations are collected.\<close>

fun mfor :: "('a \<Rightarrow> ('w, 'e, 'b) prog) \<Rightarrow> 'a list \<Rightarrow> ('w, 'e, 'b list) prog" where
  "mfor f [] = mret []"
| "mfor f (x # xs) = mbind (f x) (\<lambda>y. mbind (mfor f xs) (\<lambda>ys. mret (y # ys)))"

lemma mret_iff [monad_iff]:
  "(mret x w = (Inr y, w')) = (y = x \<and> w' = w)" "mret x w \<noteq> (Inl e, w')"
  by (auto simp: mret_def)

lemma mfail_iff [monad_iff]:
  "(mfail e w = (Inl e', w')) = (e' = e \<and> w' = w)" "mfail e w \<noteq> (Inr y, w')"
  by (auto simp: mfail_def)

lemma mbind_iff [monad_iff]:
  "(mbind m k w = (Inr y, w'')) = (\<exists>x w'. m w = (Inr x, w') \<and> k x w' = (Inr y, w''))"
  "(mbind m k w = (Inl e, w'')) =
     (m w = (Inl e, w'') \<or> (\<exists>x w'. m w = (Inr x, w') \<and> k x w' = (Inl e, w'')))"
  by (auto simp: mbind_def split: prod.splits sum.splits)

lemma mthen_iff [monad_iff]:
  "(mthen m k w = (Inr y, w'')) = (\<exists>x w'. m w = (Inr x, w') \<and> k w' = (Inr y, w''))"
  "(mthen m k w = (Inl e, w'')) =
     (m w = (Inl e, w'') \<or> (\<exists>x w'. m w = (Inr x, w') \<and> k w' = (Inl e, w'')))"
  by (auto simp: mthen_def mbind_iff)

lemma mget_iff [monad_iff]:
  "(mget f w = (Inr y, w')) = (y = f w \<and> w' = w)" "mget f w \<noteq> (Inl e, w')"
  by (auto simp: mget_def)

lemma mmod_iff [monad_iff]:
  "(mmod f w = (Inr y, w')) = (w' = f w)" "mmod f w \<noteq> (Inl e, w')"
  by (auto simp: mmod_def)

lemma mguard_iff [monad_iff]:
  "(mguard b e w = (Inr y, w')) = (b \<and> w' = w)"
  "(mguard b e w = (Inl e', w')) = (\<not> b \<and> e' = e \<and> w' = w)"
  by (auto simp: mguard_def monad_iff)

lemma mlift_iff [monad_iff]:
  "(mlift r w = (Inr y, w')) = (r = Inr y \<and> w' = w)"
  "(mlift r w = (Inl e, w')) = (r = Inl e \<and> w' = w)"
  by (auto simp: mlift_def monad_iff split: sum.splits)

lemma msome_iff [monad_iff]:
  "(msome r e w = (Inr y, w')) = (r = Some y \<and> w' = w)"
  "(msome r e w = (Inl e', w')) = (r = None \<and> e' = e \<and> w' = w)"
  by (auto simp: msome_def monad_iff split: option.splits)

text \<open>An invariant kept by the body is kept by the loop, whether it ends or is left early.\<close>

lemma mfor_invariant:
  assumes "\<And>x w r w'. x \<in> set xs \<Longrightarrow> P w \<Longrightarrow> f x w = (r, w') \<Longrightarrow> P w'"
    and "P w" and "mfor f xs w = (r, w')"
  shows "P w'"
  using assms
proof (induction xs arbitrary: w r)
  case Nil
  then show ?case by (simp add: mret_def)
next
  case (Cons x xs)
  obtain r1 w1 where 1: "f x w = (r1, w1)" by fastforce
  with Cons.prems have "P w1" by auto
  with 1 Cons.IH[of w1] Cons.prems show ?case
    by (auto simp: mbind_def mret_def split: sum.splits prod.splits)
qed

section \<open>Lists as tables\<close>

text \<open>
  A table is the list of its rows in rowid order. \<open>UPDATE .. WHERE c\<close> rewrites the rows
  that satisfy \<open>c\<close>; \<open>rows_affected\<close> counts them.
\<close>

definition upd_where :: "('r \<Rightarrow> bool) \<Rightarrow> ('r \<Rightarrow> 'r) \<Rightarrow> 'r list \<Rightarrow> 'r list" where
  "upd_where c f rows = map (\<lambda>r. if c r then f r else r) rows"

definition count_where :: "('r \<Rightarrow> bool) \<Rightarrow> 'r list \<Rightarrow> nat" where
  "count_where c rows = length (filter c rows)"

lemma length_upd_where [simp]: "length (upd_where c f rows) = length rows"
  by (simp add: upd_where_def)

lemma upd_where_Nil [simp]: "upd_where c f [] = []"
  by (simp add: upd_where_def)

lemma set_upd_where: "set (upd_where c f rows) = (\<lambda>r. if c r then f r else r) ` set rows"
  by (simp add: upd_where_def)

lemma in_upd_where: "(r \<in> set (upd_where c f rows)) =
    ((r \<in> set rows \<and> \<not> c r) \<or> (\<exists>q \<in> set rows. c q \<and> r = f q))"
  by (auto simp: set_upd_where)

lemma map_upd_where: "(\<And>r. k (f r) = k r) \<Longrightarrow> map k (upd_where c f rows) = map k rows"
  by (auto simp: upd_where_def)

lemma find_upd_where:
  assumes "\<And>r. k (f r) = k r"
  shows "find (\<lambda>r. k r = i) (upd_where (\<lambda>r. k r = j) f rows) =
    map_option (\<lambda>r. if i = j then f r else r) (find (\<lambda>r. k r = i) rows)"
  using assms by (induction rows) (auto simp: upd_where_def)

lemma find_append: "find p (xs @ ys) = (case find p xs of None \<Rightarrow> find p ys | Some x \<Rightarrow> Some x)"
  by (induction xs) auto

lemma find_Some_mem: "find p xs = Some x \<Longrightarrow> x \<in> set xs \<and> p x"
  by (induction xs) (auto split: if_splits)

lemma find_key_Some:
  "distinct (map k rows) \<Longrightarrow> (find (\<lambda>r. k r = i) rows = Some r) = (r \<in> set rows \<and> k r = i)"
  by (induction rows) (auto simp: image_iff)

lemma find_key_None: "(find (\<lambda>r. k r = i) rows = None) = (i \<notin> k ` set rows)"
  by (induction rows) auto

lemma filter_eq_Nil: "(filter p xs = []) = (\<forall>x \<in> set xs. \<not> p x)"
  by (induction xs) auto

lemma count_key:
  "distinct (map k rows) \<Longrightarrow> count_where (\<lambda>r. k r = i \<and> p r) rows =
     (case find (\<lambda>r. k r = i) rows of None \<Rightarrow> 0 | Some r \<Rightarrow> if p r then 1 else 0)"
proof (induction rows)
  case (Cons a rows)
  have "k a = i \<Longrightarrow> filter (\<lambda>r. k r = i \<and> p r) rows = []"
    using Cons.prems by (auto simp: filter_eq_Nil image_iff)
  with Cons show ?case by (auto simp: count_where_def split: option.splits)
qed (simp add: count_where_def)

section \<open>Keyed tables\<close>

text \<open>\<open>SELECT .. WHERE id = i\<close> with \<open>fetch_optional\<close>, and \<open>UPDATE .. SET f WHERE id = i\<close>.\<close>

definition row_by :: "('r \<Rightarrow> string) \<Rightarrow> string \<Rightarrow> 'r list \<Rightarrow> 'r option" where
  "row_by k i rows = find (\<lambda>r. k r = i) rows"

definition upd_by :: "('r \<Rightarrow> string) \<Rightarrow> string \<Rightarrow> ('r \<Rightarrow> 'r) \<Rightarrow> 'r list \<Rightarrow> 'r list" where
  "upd_by k i f rows = upd_where (\<lambda>r. k r = i) f rows"

lemma row_by_Nil [simp]: "row_by k i [] = None"
  by (simp add: row_by_def)

lemma row_by_Cons: "row_by k i (r # rows) = (if k r = i then Some r else row_by k i rows)"
  by (simp add: row_by_def)

lemma upd_by_Nil [simp]: "upd_by k i f [] = []"
  by (simp add: upd_by_def)

lemma row_by_None: "(row_by k i rows = None) = (i \<notin> k ` set rows)"
  by (simp add: row_by_def find_key_None)

lemma row_by_mem: "row_by k i rows = Some r \<Longrightarrow> r \<in> set rows \<and> k r = i"
  by (auto simp: row_by_def dest: find_Some_mem)

lemma row_by_iff: "distinct (map k rows) \<Longrightarrow> (row_by k i rows = Some r) = (r \<in> set rows \<and> k r = i)"
  by (simp add: row_by_def find_key_Some)

lemma row_by_insert: "row_by k (k r) rows = None \<Longrightarrow>
    row_by k i (rows @ [r]) = (if i = k r then Some r else row_by k i rows)"
  by (cases "row_by k i rows") (auto simp: row_by_def find_append)

lemma row_by_update: "(\<And>r. k (f r) = k r) \<Longrightarrow>
    row_by k i (upd_by k j f rows) = (if i = j then map_option f (row_by k i rows) else row_by k i rows)"
  by (cases "row_by k i rows") (auto simp: row_by_def upd_by_def find_upd_where)

lemma row_by_append: "row_by k i (rows @ rows') = (case row_by k i rows of None \<Rightarrow> row_by k i rows' | Some r \<Rightarrow> Some r)"
  by (simp add: row_by_def find_append split: option.split)

lemma row_by_upd_where:
  assumes "\<And>r. k (f r) = k r"
  shows "row_by k i (upd_where c f rows) = map_option (\<lambda>r. if c r then f r else r) (row_by k i rows)"
  using assms by (induction rows) (auto simp: upd_where_def row_by_def)

lemma row_by_map: "(\<And>r. k (f r) = k r) \<Longrightarrow> row_by k i (map f rows) = map_option f (row_by k i rows)"
  by (induction rows) (auto simp: row_by_def)

lemma keys_update: "(\<And>r. k (f r) = k r) \<Longrightarrow> map k (upd_by k j f rows) = map k rows"
  by (simp add: upd_by_def map_upd_where)

lemma affected_one: "distinct (map k rows) \<Longrightarrow> row_by k i rows = Some r \<Longrightarrow>
    count_where (\<lambda>r. k r = i \<and> p r) rows = (if p r then 1 else 0)"
  by (simp add: count_key row_by_def)

text \<open>
  The contract of a table with a primary key, as the code that reads and writes it by that
  key uses it: what a lookup returns after the insert of a fresh key and after the update of
  one row. Every table of the database gets an interpretation.
\<close>

locale keyed_table =
  fixes lookup :: "string \<Rightarrow> 't \<Rightarrow> 'r option"
    and insert_row :: "'r \<Rightarrow> 't \<Rightarrow> 't"
    and modify :: "string \<Rightarrow> ('r \<Rightarrow> 'r) \<Rightarrow> 't \<Rightarrow> 't"
    and key :: "'r \<Rightarrow> string"
  assumes lookup_insert: "lookup (key r) t = None \<Longrightarrow>
      lookup i (insert_row r t) = (if i = key r then Some r else lookup i t)"
    and lookup_modify: "(\<And>r. key (f r) = key r) \<Longrightarrow>
      lookup i (modify j f t) = (if i = j then map_option f (lookup i t) else lookup i t)"
    and lookup_key: "lookup i t = Some r \<Longrightarrow> key r = i"
begin

lemma insert_keeps: "lookup (key r) t = None \<Longrightarrow> lookup i t = Some q \<Longrightarrow> lookup i (insert_row r t) = Some q"
  by (auto simp: lookup_insert)

lemma inserted: "lookup (key r) t = None \<Longrightarrow> lookup (key r) (insert_row r t) = Some r"
  by (simp add: lookup_insert)

lemma modify_frame: "(\<And>r. key (f r) = key r) \<Longrightarrow> i \<noteq> j \<Longrightarrow> lookup i (modify j f t) = lookup i t"
  by (simp add: lookup_modify)

lemma modified: "(\<And>r. key (f r) = key r) \<Longrightarrow> lookup i t = Some r \<Longrightarrow>
    lookup i (modify i f t) = Some (f r)"
  by (simp add: lookup_modify)

lemma modify_dom: "(\<And>r. key (f r) = key r) \<Longrightarrow> (lookup i (modify j f t) = None) = (lookup i t = None)"
  by (simp add: lookup_modify)

lemma observe_modify:
  assumes "\<And>r. key (f r) = key r" and "\<And>r. obs (f r) = obs r"
  shows "map_option obs (lookup i (modify j f t)) = map_option obs (lookup i t)"
  using assms by (cases "lookup i t") (auto simp: lookup_modify)

end

section \<open>Wire codecs\<close>

text \<open>
  The contract of a serde unit-variant enumeration: \<open>to_wire\<close> gives the text that the JSON
  wire and the TEXT columns hold, and \<open>from_wire\<close> reads exactly the texts that \<open>to_wire\<close>
  writes.
\<close>

locale wire_codec =
  fixes to_w :: "'a \<Rightarrow> string" and from_w :: "string \<Rightarrow> 'a option"
  assumes read_write: "from_w (to_w x) = Some x"
    and write_read: "from_w t = Some x \<Longrightarrow> to_w x = t"
begin

lemma wire_inj: "(to_w x = to_w y) = (x = y)"
  by (metis option.inject read_write)

lemma from_wire_iff: "(from_w t = Some x) = (t = to_w x)"
  using read_write write_read by auto

lemma map_wire_inj: "(map_option to_w a = map_option to_w b) = (a = b)"
  by (cases a; cases b) (auto simp: wire_inj)

end

end
