(* ===== verification/RustStr.thy ===== *)
theory RustStr
  imports Prelude
begin

text \<open>
  The operations of Rust's \<open>str\<close>, \<open>char\<close>, \<open>u8\<close> and \<open>format!\<close> that the source uses, on the
  UTF-8 bytes of a string: ASCII classes and case, \<open>trim\<close> and \<open>split_whitespace\<close> with
  Unicode's White_Space set, \<open>strip_prefix\<close>, \<open>contains\<close>, counting and cutting by characters,
  decimal formatting with zero padding and parsing. The order lemmas at the end are the
  base of every lexical comparison of timestamps in the store.
\<close>

section \<open>Bytes\<close>

abbreviation code :: "char \<Rightarrow> nat" where
  "code c \<equiv> of_char c"

definition is_ascii_digit :: "char \<Rightarrow> bool" where
  "is_ascii_digit c = (48 \<le> code c \<and> code c \<le> 57)"

definition is_ascii_upper :: "char \<Rightarrow> bool" where
  "is_ascii_upper c = (65 \<le> code c \<and> code c \<le> 90)"

definition is_ascii_lower :: "char \<Rightarrow> bool" where
  "is_ascii_lower c = (97 \<le> code c \<and> code c \<le> 122)"

definition is_ascii_alphanumeric :: "char \<Rightarrow> bool" where
  "is_ascii_alphanumeric c = (is_ascii_digit c \<or> is_ascii_upper c \<or> is_ascii_lower c)"

definition ascii_lower :: "char \<Rightarrow> char" where
  "ascii_lower c = (if is_ascii_upper c then char_of (code c + 32) else c)"

definition ascii_upper :: "char \<Rightarrow> char" where
  "ascii_upper c = (if is_ascii_lower c then char_of (code c - 32) else c)"

definition to_ascii_lowercase :: "string \<Rightarrow> string" where
  "to_ascii_lowercase s = map ascii_lower s"

definition to_ascii_uppercase :: "string \<Rightarrow> string" where
  "to_ascii_uppercase s = map ascii_upper s"

lemma code_char_of: "n < 256 \<Longrightarrow> code (char_of n) = n"
  by (simp add: of_char_of)

lemma code_less: "code c < 256"
  by simp

lemma char_less_code: "(c < d) = (code c < code d)" for c d :: char
  by (simp add: less_char_def)

lemma char_eq_code: "(c = d) = (code c = code d)" for c d :: char
  by simp

lemma ascii_upper_lower: "\<not> is_ascii_lower c \<Longrightarrow> ascii_upper (ascii_lower c) = c"
  by (auto simp: ascii_upper_def ascii_lower_def is_ascii_lower_def is_ascii_upper_def of_char_of)

lemma uppercase_lowercase:
  "\<forall>c \<in> set s. \<not> is_ascii_lower c \<Longrightarrow> to_ascii_uppercase (to_ascii_lowercase s) = s"
  by (induction s) (auto simp: to_ascii_lowercase_def to_ascii_uppercase_def ascii_upper_lower)

section \<open>Characters of a UTF-8 string\<close>

text \<open>
  A UTF-8 continuation byte is \<open>0b10xxxxxx\<close>; every other byte starts a character.
  \<open>take_chars n\<close> is \<open>s.chars().take(n).collect()\<close>.
\<close>

definition is_cont :: "char \<Rightarrow> bool" where
  "is_cont c = (128 \<le> code c \<and> code c < 192)"

definition char_count :: "string \<Rightarrow> nat" where
  "char_count s = length (filter (\<lambda>c. \<not> is_cont c) s)"

fun take_chars :: "nat \<Rightarrow> string \<Rightarrow> string" where
  "take_chars n [] = []"
| "take_chars 0 (c # cs) = (if is_cont c then c # take_chars 0 cs else [])"
| "take_chars (Suc n) (c # cs) =
     (if is_cont c then c # take_chars (Suc n) cs else c # take_chars n cs)"

lemma take_chars_prefix: "prefix (take_chars n s) s"
  by (induction n s rule: take_chars.induct) auto

lemma take_chars_count: "char_count (take_chars n s) = min n (char_count s)"
  by (induction n s rule: take_chars.induct) (auto simp: char_count_def)

lemma take_chars_all: "char_count s \<le> n \<Longrightarrow> take_chars n s = s"
  by (induction n s rule: take_chars.induct) (auto simp: char_count_def split: if_splits)

section \<open>White space\<close>

text \<open>
  \<open>ws_prefix s\<close> is the number of bytes of the White_Space character at the front of \<open>s\<close>
  (0 when there is none): U+0009..000D, 0020, 0085, 00A0, 1680, 2000..200A, 2028, 2029,
  202F, 205F and 3000, in their UTF-8 encodings.
\<close>

definition ws_ascii :: "nat \<Rightarrow> bool" where
  "ws_ascii a = (9 \<le> a \<and> a \<le> 13 \<or> a = 32)"

definition ws_two :: "nat \<Rightarrow> nat \<Rightarrow> bool" where
  "ws_two a b = (a = 194 \<and> (b = 133 \<or> b = 160))"

definition ws_three :: "nat \<Rightarrow> nat \<Rightarrow> nat \<Rightarrow> bool" where
  "ws_three a b c =
     (a = 225 \<and> b = 154 \<and> c = 128
      \<or> a = 226 \<and> b = 128 \<and> (128 \<le> c \<and> c \<le> 138 \<or> c = 168 \<or> c = 169 \<or> c = 175)
      \<or> a = 226 \<and> b = 129 \<and> c = 159
      \<or> a = 227 \<and> b = 128 \<and> c = 128)"

fun ws_prefix :: "string \<Rightarrow> nat" where
  "ws_prefix [] = 0"
| "ws_prefix [a] = (if ws_ascii (code a) then 1 else 0)"
| "ws_prefix [a, b] =
     (if ws_ascii (code a) then 1 else if ws_two (code a) (code b) then 2 else 0)"
| "ws_prefix (a # b # c # s) =
     (if ws_ascii (code a) then 1 else if ws_two (code a) (code b) then 2
      else if ws_three (code a) (code b) (code c) then 3 else 0)"

text \<open>The same at the end of the string, on its reversal.\<close>

fun ws_suffix :: "string \<Rightarrow> nat" where
  "ws_suffix [] = 0"
| "ws_suffix [a] = (if ws_ascii (code a) then 1 else 0)"
| "ws_suffix [b, a] =
     (if ws_ascii (code b) then 1 else if ws_two (code a) (code b) then 2 else 0)"
| "ws_suffix (c # b # a # s) =
     (if ws_ascii (code c) then 1 else if ws_two (code b) (code c) then 2
      else if ws_three (code a) (code b) (code c) then 3 else 0)"

lemma ws_prefix_le: "ws_prefix s \<le> length s"
  by (cases s rule: ws_prefix.cases) auto

lemma ws_suffix_le: "ws_suffix s \<le> length s"
  by (cases s rule: ws_suffix.cases) auto

function trim_start :: "string \<Rightarrow> string" where
  "trim_start s = (if ws_prefix s = 0 then s else trim_start (drop (ws_prefix s) s))"
  by pat_completeness auto
termination
proof (relation "measure length")
  show "ws_prefix s \<noteq> 0 \<Longrightarrow> (drop (ws_prefix s) s, s) \<in> measure length" for s
    using ws_prefix_le[of s] by auto
qed simp

declare trim_start.simps [simp del]

function trim_rev :: "string \<Rightarrow> string" where
  "trim_rev s = (if ws_suffix s = 0 then s else trim_rev (drop (ws_suffix s) s))"
  by pat_completeness auto
termination
proof (relation "measure length")
  show "ws_suffix s \<noteq> 0 \<Longrightarrow> (drop (ws_suffix s) s, s) \<in> measure length" for s
    using ws_suffix_le[of s] by auto
qed simp

declare trim_rev.simps [simp del]

definition trim :: "string \<Rightarrow> string" where
  "trim s = rev (trim_rev (rev (trim_start s)))"

lemma trim_rev_suffix: "suffix (trim_rev s) s"
proof (induction s rule: trim_rev.induct)
  case (1 s)
  then show ?case
    by (subst trim_rev.simps) (auto intro: suffix_order.trans suffix_drop)
qed

lemma trim_start_suffix: "suffix (trim_start s) s"
proof (induction s rule: trim_start.induct)
  case (1 s)
  then show ?case
    by (subst trim_start.simps) (auto intro: suffix_order.trans suffix_drop)
qed

lemma trim_start_ws: "ws_prefix (trim_start s) = 0"
proof (induction s rule: trim_start.induct)
  case (1 s)
  then show ?case by (subst trim_start.simps) auto
qed

text \<open>
  \<open>split_whitespace\<close>: the maximal runs of characters that are not White_Space. The first
  argument collects the bytes of the current field in reverse.
\<close>

function split_ws :: "string \<Rightarrow> string \<Rightarrow> string list" where
  "split_ws acc [] = (if acc = [] then [] else [rev acc])"
| "split_ws acc (c # s) =
     (if ws_prefix (c # s) = 0 then split_ws (c # acc) s
      else (if acc = [] then [] else [rev acc]) @ split_ws [] (drop (ws_prefix (c # s)) (c # s)))"
  by pat_completeness auto
termination
proof (relation "measure (\<lambda>(acc, s). length s)")
  show "ws_prefix (c # s) \<noteq> 0 \<Longrightarrow>
     (([], drop (ws_prefix (c # s)) (c # s)), acc, c # s) \<in> measure (\<lambda>(acc, s). length s)" for acc c s
    using ws_prefix_le[of "c # s"] by auto
qed auto

definition split_whitespace :: "string \<Rightarrow> string list" where
  "split_whitespace s = split_ws [] s"

section \<open>Substrings\<close>

definition starts_with :: "string \<Rightarrow> string \<Rightarrow> bool" where
  "starts_with s p = (take (length p) s = p)"

definition strip_prefix :: "string \<Rightarrow> string \<Rightarrow> string option" where
  "strip_prefix s p = (if starts_with s p then Some (drop (length p) s) else None)"

fun contains :: "string \<Rightarrow> string \<Rightarrow> bool" where
  "contains [] p = (p = [])"
| "contains (c # s) p = (starts_with (c # s) p \<or> contains s p)"

lemma starts_with_prefix: "starts_with s p = prefix p s"
  by (metis append_eq_conv_conj append_take_drop_id prefix_def starts_with_def)

lemma contains_sublist: "contains s p = sublist p s"
  by (induction s) (auto simp: starts_with_prefix sublist_Cons_right)

lemma strip_prefix_append [simp]: "strip_prefix (p @ s) p = Some s"
  by (simp add: strip_prefix_def starts_with_def)

lemma strip_prefix_Some: "(strip_prefix s p = Some r) = (s = p @ r)"
  by (auto simp: strip_prefix_def starts_with_def) (metis append_take_drop_id)

text \<open>\<open>str::lines\<close>: cut at line feeds, one carriage return before the feed dropped, no empty last line.\<close>

definition drop_cr :: "string \<Rightarrow> string" where
  "drop_cr s = (if s \<noteq> [] \<and> code (last s) = 13 then butlast s else s)"

fun lines_from :: "string \<Rightarrow> string \<Rightarrow> string list" where
  "lines_from acc [] = (if acc = [] then [] else [rev acc])"
| "lines_from acc (c # cs) = (if code c = 10 then drop_cr (rev acc) # lines_from [] cs else lines_from (c # acc) cs)"

definition str_lines :: "string \<Rightarrow> string list" where
  "str_lines s = lines_from [] s"

section \<open>Decimal numbers\<close>

definition digit_char :: "nat \<Rightarrow> char" where
  "digit_char d = char_of (48 + d)"

fun dec :: "nat \<Rightarrow> string" where
  "dec n = (if n < 10 then [digit_char n] else dec (n div 10) @ [digit_char (n mod 10)])"

declare dec.simps [simp del]

text \<open>\<open>{n:0w}\<close> for an unsigned and for a signed integer; the width counts the sign.\<close>

definition pad0 :: "nat \<Rightarrow> nat \<Rightarrow> string" where
  "pad0 w n = replicate (w - length (dec n)) (CHR ''0'') @ dec n"

definition fmt_int :: "nat \<Rightarrow> int \<Rightarrow> string" where
  "fmt_int w i = (if i < 0 then CHR ''-'' # pad0 (w - 1) (nat (- i)) else pad0 w (nat i))"

definition show_int :: "int \<Rightarrow> string" where
  "show_int i = fmt_int 0 i"

fun digits_value :: "nat \<Rightarrow> string \<Rightarrow> nat" where
  "digits_value acc [] = acc"
| "digits_value acc (c # s) = digits_value (acc * 10 + (code c - 48)) s"

text \<open>
  \<open>str::parse::<u32>().ok()\<close> on a string of digits only; the empty string and a value past
  \<open>u32::MAX\<close> are errors. (Rust also accepts a leading \<open>+\<close>; every caller has checked that
  all bytes are digits.)
\<close>

definition parse_u32 :: "string \<Rightarrow> nat option" where
  "parse_u32 s = (if s \<noteq> [] \<and> list_all is_ascii_digit s \<and> digits_value 0 s < 2 ^ 32
     then Some (digits_value 0 s) else None)"

text \<open>\<open>fixw w n\<close>: the last \<open>w\<close> decimal digits of \<open>n\<close>.\<close>

fun fixw :: "nat \<Rightarrow> nat \<Rightarrow> string" where
  "fixw 0 n = []"
| "fixw (Suc w) n = fixw w (n div 10) @ [digit_char (n mod 10)]"

lemma code_digit: "d < 10 \<Longrightarrow> code (digit_char d) = 48 + d"
  by (simp add: digit_char_def of_char_of)

lemma digit_char_is_digit: "d < 10 \<Longrightarrow> is_ascii_digit (digit_char d)"
  by (simp add: is_ascii_digit_def code_digit)

lemma digit_char_zero: "digit_char 0 = CHR ''0''"
  by code_simp

lemma length_fixw [simp]: "length (fixw w n) = w"
  by (induction w arbitrary: n) auto

lemma fixw_digits: "list_all is_ascii_digit (fixw w n)"
  by (induction w arbitrary: n) (auto simp: digit_char_is_digit)

lemma fixw_zero: "fixw w 0 = replicate w (CHR ''0'')"
  by (induction w) (auto simp: digit_char_zero replicate_append_same)

lemma dec_fixw: "dec n = fixw (length (dec n)) n"
proof (induction n rule: dec.induct)
  case (1 n)
  then show ?case by (subst dec.simps, subst (2) dec.simps) auto
qed

lemma length_dec: "1 \<le> w \<Longrightarrow> n < 10 ^ w \<Longrightarrow> length (dec n) \<le> w"
proof (induction n arbitrary: w rule: dec.induct)
  case (1 n)
  show ?case
  proof (cases "n < 10")
    case False
    with "1.prems" obtain v where w: "w = Suc v" by (cases w) auto
    with False "1.prems" have "v \<noteq> 0" by (cases v) auto
    moreover from w "1.prems" have "n div 10 < 10 ^ v" by (auto simp: less_mult_imp_div_less)
    ultimately show ?thesis using "1.IH"[OF False, of v] w False by (subst dec.simps) simp
  qed (use "1.prems" in \<open>subst dec.simps, simp\<close>)
qed

lemma dec_pos: "0 < length (dec n)"
  by (subst dec.simps) simp

lemma dec_bound: "n < 10 ^ length (dec n)"
proof (induction n rule: dec.induct)
  case (1 n)
  then show ?case by (subst dec.simps) auto
qed

lemma fixw_pad: "n < 10 ^ v \<Longrightarrow> fixw (u + v) n = replicate u (CHR ''0'') @ fixw v n"
  by (induction v arbitrary: n) (auto simp: fixw_zero less_mult_imp_div_less)

lemma pad0_fixw: "1 \<le> w \<Longrightarrow> n < 10 ^ w \<Longrightarrow> pad0 w n = fixw w n"
  using fixw_pad[of n "length (dec n)" "w - length (dec n)"] length_dec[of w n] dec_fixw[of n]
  by (simp add: pad0_def dec_bound)

lemma length_pad0: "1 \<le> w \<Longrightarrow> n < 10 ^ w \<Longrightarrow> length (pad0 w n) = w"
  by (simp add: pad0_fixw)

lemma digits_value_append: "digits_value acc (s @ t) = digits_value (digits_value acc s) t"
  by (induction s arbitrary: acc) auto

lemma digits_value_fixw: "n < 10 ^ w \<Longrightarrow> digits_value 0 (fixw w n) = n"
  by (induction w arbitrary: n) (auto simp: digits_value_append code_digit less_mult_imp_div_less)

lemma digits_value_bound: "list_all is_ascii_digit s \<Longrightarrow> digits_value acc s < (acc + 1) * 10 ^ length s"
proof (induction s arbitrary: acc)
  case (Cons c s)
  let ?a = "acc * 10 + (code c - 48)"
  from Cons have "digits_value ?a s < (?a + 1) * 10 ^ length s" by simp
  also have "\<dots> \<le> ((acc + 1) * 10) * 10 ^ length s"
    using Cons.prems by (intro mult_right_mono) (auto simp: is_ascii_digit_def)
  finally show ?case by (simp add: algebra_simps)
qed simp

lemma fixw_digits_value:
  "list_all is_ascii_digit s \<Longrightarrow> length s = w \<Longrightarrow> fixw w (digits_value 0 s) = s"
proof (induction s arbitrary: w rule: rev_induct)
  case (snoc c s)
  then have c: "is_ascii_digit c" by simp
  have d: "digit_char (code c - 48) = c"
    using c by (auto simp: digit_char_def is_ascii_digit_def)
  obtain k where k: "code c = 48 + k" "k < 10"
    using c by (auto simp: is_ascii_digit_def intro: that[of "code c - 48"])
  with snoc d show ?case by (auto simp: digits_value_append)
qed simp

lemma parse_u32_fixw: "1 \<le> w \<Longrightarrow> w \<le> 9 \<Longrightarrow> n < 10 ^ w \<Longrightarrow> parse_u32 (fixw w n) = Some n"
proof -
  assume w: "1 \<le> w" "w \<le> 9" and n: "n < 10 ^ w"
  have "(10::nat) ^ w \<le> 10 ^ 9" using w by (intro power_increasing) auto
  with n have "n < 2 ^ 32" by simp
  moreover have "fixw w n \<noteq> []" using w by (metis length_fixw list.size(3) not_one_le_zero)
  ultimately show ?thesis
    by (simp add: parse_u32_def fixw_digits digits_value_fixw n)
qed

lemma parse_u32_Some: "parse_u32 s = Some n \<Longrightarrow> list_all is_ascii_digit s \<and> s = fixw (length s) n \<and> n < 10 ^ length s"
  using digits_value_bound[of s 0] by (auto simp: parse_u32_def fixw_digits_value split: if_splits)

section \<open>Lexical order of fixed-width fields\<close>

lemma less_append_same_length:
  fixes u v x y :: "'a::linorder list"
  assumes "length u = length v"
  shows "(u @ x < v @ y) = (u < v \<or> (u = v \<and> x < y))"
  using assms by (induction u v rule: list_induct2) auto

lemma lex_step:
  fixes p q r s :: nat
  assumes "r < 10" "s < 10"
  shows "(q < p \<or> q = p \<and> r < s) = (10 * q + r < 10 * p + s)"
  using assms by (cases q p rule: linorder_cases) auto

lemma fixw_less: "a < 10 ^ w \<Longrightarrow> b < 10 ^ w \<Longrightarrow> (fixw w a < fixw w b) = (a < b)"
proof (induction w arbitrary: a b)
  case (Suc w)
  have ab: "a div 10 < 10 ^ w" "b div 10 < 10 ^ w"
    using Suc.prems by (auto simp: less_mult_imp_div_less)
  have IH: "(fixw w (a div 10) < fixw w (b div 10)) = (a div 10 < b div 10)"
    using Suc.IH[OF ab] .
  have EQ: "(fixw w (a div 10) = fixw w (b div 10)) = (a div 10 = b div 10)"
    using ab by (metis digits_value_fixw)
  have D: "(digit_char (a mod 10) < digit_char (b mod 10)) = (a mod 10 < b mod 10)"
    by (simp add: char_less_code code_digit)
  have "(fixw (Suc w) a < fixw (Suc w) b) =
      (a div 10 < b div 10 \<or> (a div 10 = b div 10 \<and> a mod 10 < b mod 10))"
    by (simp add: less_append_same_length IH EQ D)
  also have "\<dots> = (10 * (a div 10) + a mod 10 < 10 * (b div 10) + b mod 10)"
    by (intro lex_step) simp_all
  finally show ?case by simp
qed simp

lemma fixw_inj: "a < 10 ^ w \<Longrightarrow> b < 10 ^ w \<Longrightarrow> (fixw w a = fixw w b) = (a = b)"
  by (metis digits_value_fixw)

end
