(* ===== verification/Calendar.thy ===== *)
theory Calendar
  imports RustStr
begin

text \<open>
  The time and id helpers of \<open>src/core/util.rs\<close>: ULIDs, the fixed-width UTC timestamp, the
  proleptic Gregorian calendar, ISO-8601 weeks and the cron validator. \<open>u64\<close>, \<open>u32\<close> and
  \<open>i64\<close> are \<open>nat\<close> and \<open>int\<close> here: the largest value any expression reaches is below
  \<open>2 ^ 63\<close> for a \<open>u64\<close> second count (a day count is at most \<open>2 ^ 64 / 86400\<close>), so nothing wraps.
  The clock and the random bytes are arguments.
\<close>

section \<open>ULIDs\<close>

definition B32 :: string where
  "B32 = ''0123456789ABCDEFGHJKMNPQRSTVWXYZ''"

text \<open>The loop \<open>for i in (0..10).rev()\<close>: the last digit is written first.\<close>

fun ulid_time :: "nat \<Rightarrow> nat \<Rightarrow> string" where
  "ulid_time 0 t = []"
| "ulid_time (Suc k) t = ulid_time k (t div 32) @ [B32 ! (t mod 32)]"

definition ulid_of :: "nat \<Rightarrow> nat list \<Rightarrow> string" where
  "ulid_of ms rnd = ulid_time 10 ms @ map (\<lambda>r. B32 ! (r mod 32)) rnd"

section \<open>Civil dates\<close>

definition days_from_civil :: "int \<Rightarrow> int \<Rightarrow> int \<Rightarrow> int" where
  "days_from_civil y0 m d =
     (let y = (if m \<le> 2 then y0 - 1 else y0);
          era = (if y \<ge> 0 then y else y - 399) div 400;
          yoe = y - era * 400;
          mp = (if m > 2 then m - 3 else m + 9);
          doy = (153 * mp + 2) div 5 + d - 1;
          doe = yoe * 365 + yoe div 4 - yoe div 100 + doy
      in era * 146097 + doe - 719468)"

definition civil_from_days :: "int \<Rightarrow> int \<times> int \<times> int" where
  "civil_from_days z0 =
     (let z = z0 + 719468;
          era = z div 146097;
          doe = z mod 146097;
          yoe = (doe - doe div 1460 + doe div 36524 - doe div 146096) div 365;
          y = yoe + era * 400;
          doy = doe - (365 * yoe + yoe div 4 - yoe div 100);
          mp = (5 * doy + 2) div 153;
          d = doy - (153 * mp + 2) div 5 + 1;
          m = (if mp < 10 then mp + 3 else mp - 9)
      in (if m \<le> 2 then y + 1 else y, m, d))"

definition iso_weekday :: "int \<Rightarrow> int" where
  "iso_weekday days = (days + 3) mod 7 + 1"

section \<open>The fixed-width timestamp\<close>

text \<open>
  \<open>iso8601_at\<close> inlines the arithmetic of \<open>civil_from_days\<close> on the day count; the lemma
  \<open>iso8601_at_civil\<close> below says so.
\<close>

definition iso8601_at :: "nat \<Rightarrow> string" where
  "iso8601_at secs =
     (let days = int (secs div 86400);
          rem = secs mod 86400;
          h = rem div 3600; mi = (rem mod 3600) div 60; s = rem mod 60;
          z = days + 719468;
          era = z div 146097;
          doe = z mod 146097;
          yoe = (doe - doe div 1460 + doe div 36524 - doe div 146096) div 365;
          y = yoe + era * 400;
          doy = doe - (365 * yoe + yoe div 4 - yoe div 100);
          mp = (5 * doy + 2) div 153;
          d = doy - (153 * mp + 2) div 5 + 1;
          mo = (if mp < 10 then mp + 3 else mp - 9);
          y = (if mo \<le> 2 then y + 1 else y)
      in fmt_int 4 y @ ''-'' @ fmt_int 2 mo @ ''-'' @ fmt_int 2 d @ ''T'' @
         pad0 2 h @ '':'' @ pad0 2 mi @ '':'' @ pad0 2 s @ ''Z'')"

text \<open>\<open>u64::saturating_add\<close> of the clock reading and the delay.\<close>

definition iso8601_after_secs :: "nat \<Rightarrow> nat \<Rightarrow> string" where
  "iso8601_after_secs now_secs secs_from_now = iso8601_at (min (now_secs + secs_from_now) (2 ^ 64 - 1))"

definition is_fixed_iso8601 :: "string \<Rightarrow> bool" where
  "is_fixed_iso8601 s =
     (length s = 20 \<and> s ! 4 = CHR ''-'' \<and> s ! 7 = CHR ''-'' \<and> s ! 10 = CHR ''T''
      \<and> s ! 13 = CHR '':'' \<and> s ! 16 = CHR '':'' \<and> s ! 19 = CHR ''Z''
      \<and> list_all (\<lambda>(i, c). i \<in> set [4, 7, 10, 13, 16, 19] \<or> is_ascii_digit c) (enumerate 0 s))"

section \<open>Calendar labels\<close>

definition is_leap_year :: "nat \<Rightarrow> bool" where
  "is_leap_year year = (year mod 4 = 0 \<and> (year mod 100 \<noteq> 0 \<or> year mod 400 = 0))"

definition days_in_month :: "nat \<Rightarrow> nat \<Rightarrow> nat" where
  "days_in_month year month =
     (if month \<in> set [1, 3, 5, 7, 8, 10, 12] then 31
      else if month \<in> set [4, 6, 9, 11] then 30
      else if month = 2 then (if is_leap_year year then 29 else 28)
      else 0)"

definition iso_weeks_in_year :: "nat \<Rightarrow> nat" where
  "iso_weeks_in_year year =
     (let y = year - 1;
          jan1 = (1 + 5 * (y mod 4) + 4 * (y mod 100) + 6 * (y mod 400)) mod 7;
          leap = (year mod 4 = 0 \<and> (year mod 100 \<noteq> 0 \<or> year mod 400 = 0))
      in if jan1 = 4 \<or> (leap \<and> jan1 = 3) then 53 else 52)"

text \<open>The closure \<open>digits\<close> of both label parsers, on the bytes \<open>from ..< to\<close>.\<close>

definition digits_at :: "string \<Rightarrow> nat \<Rightarrow> nat \<Rightarrow> nat option" where
  "digits_at s from to =
     (let part = take (to - from) (drop from s)
      in if list_all is_ascii_digit part then parse_u32 part else None)"

definition canonical_iso_week :: "string \<Rightarrow> string option" where
  "canonical_iso_week s =
     (if length s \<noteq> 8 \<or> s ! 4 \<noteq> CHR ''-'' \<or> s ! 5 \<notin> set [CHR ''W'', CHR ''w''] then None
      else case digits_at s 0 4 of None \<Rightarrow> None | Some year \<Rightarrow>
        (case digits_at s 6 8 of None \<Rightarrow> None | Some week \<Rightarrow>
          if year < 1000 \<or> week = 0 \<or> week > iso_weeks_in_year year then None
          else Some (pad0 4 year @ ''-W'' @ pad0 2 week)))"

definition canonical_iso_date :: "string \<Rightarrow> string option" where
  "canonical_iso_date s =
     (if length s \<noteq> 10 \<or> s ! 4 \<noteq> CHR ''-'' \<or> s ! 7 \<noteq> CHR ''-'' then None
      else case digits_at s 0 4 of None \<Rightarrow> None | Some year \<Rightarrow>
        (case digits_at s 5 7 of None \<Rightarrow> None | Some month \<Rightarrow>
          (case digits_at s 8 10 of None \<Rightarrow> None | Some day \<Rightarrow>
            if year < 1000 \<or> month = 0 \<or> month > 12 then None
            else if day = 0 \<or> day > days_in_month year month then None
            else Some (pad0 4 year @ ''-'' @ pad0 2 month @ ''-'' @ pad0 2 day))))"

text \<open>The Monday of ISO week 1 of a year: the week that holds January 4th.\<close>

definition week1_monday :: "int \<Rightarrow> int" where
  "week1_monday year = (let jan4 = days_from_civil year 1 4 in jan4 - (iso_weekday jan4 - 1))"

definition fmt_day_start :: "int \<Rightarrow> string" where
  "fmt_day_start days = (case civil_from_days days of (y, m, d) \<Rightarrow>
     fmt_int 4 y @ ''-'' @ fmt_int 2 m @ ''-'' @ fmt_int 2 d @ ''T00:00:00Z'')"

definition iso_week_bounds :: "string \<Rightarrow> (string \<times> string) option" where
  "iso_week_bounds iso_week =
     (case canonical_iso_week iso_week of None \<Rightarrow> None | Some canon \<Rightarrow>
       (case (digits_at canon 0 4, digits_at canon 6 8) of
          (Some year, Some week) \<Rightarrow>
            (let start_days = week1_monday (int year) + (int week - 1) * 7;
                 end_days = start_days + 7
             in Some (fmt_day_start start_days, fmt_day_start end_days))
        | _ \<Rightarrow> None))"

text \<open>
  The division that gives the week number rounds towards zero in Rust; its dividend is never
  negative, since the Monday lies in a week whose Thursday is in \<open>iso_year\<close>.
\<close>

definition trunc_div :: "int \<Rightarrow> int \<Rightarrow> int" where
  "trunc_div a b = sgn a * sgn b * (\<bar>a\<bar> div \<bar>b\<bar>)"

definition iso_week_of :: "string \<Rightarrow> string option" where
  "iso_week_of at =
     (if \<not> is_fixed_iso8601 at then None
      else case (digits_at at 0 4, digits_at at 5 7, digits_at at 8 10) of
        (Some year, Some month, Some day) \<Rightarrow>
          if year < 1000 \<or> month = 0 \<or> month > 12 \<or> day = 0 \<or> day > days_in_month year month then None
          else
            (let days = days_from_civil (int year) (int month) (int day);
                 wd = iso_weekday days;
                 monday = days - (wd - 1);
                 thursday = monday + 3;
                 iso_year = fst (civil_from_days thursday);
                 week = trunc_div (monday - week1_monday iso_year) 7 + 1
             in Some (fmt_int 4 iso_year @ ''-W'' @ fmt_int 2 week))
      | _ \<Rightarrow> None)"

section \<open>Routine schedules\<close>

text \<open>
  \<open>cron::Schedule::from_str\<close> and \<open>chrono_tz::Tz::from_str\<close> are library code: the arguments
  \<open>schedule_ok\<close> and \<open>tz_ok\<close> say whether they accept a text. The errors keep the reason and
  leave out the echo of the input.
\<close>

definition validate_cron :: "(string \<Rightarrow> bool) \<Rightarrow> string \<Rightarrow> string + unit" where
  "validate_cron schedule_ok expr =
     (let fields = split_whitespace expr
      in if length fields \<noteq> 5 then Inl ''cron must have exactly 5 fields (min hour dom month dow)''
         else
           (let dow = fields ! 4; dom = fields ! 2
            in if list_ex is_ascii_digit dow then
                 Inl ''day-of-week field must be '*' or weekday names''
               else if dom \<noteq> ''*'' \<and> dow \<noteq> ''*'' then
                 Inl ''day-of-month and day-of-week must not both be restricted''
               else if schedule_ok (''0 '' @ expr) then Inr ()
               else Inl ''invalid cron expression''))"

definition validate_tz :: "(string \<Rightarrow> bool) \<Rightarrow> string \<Rightarrow> string + unit" where
  "validate_tz tz_ok tz = (if tz_ok tz then Inr () else Inl ''unknown IANA timezone'')"

end
