(* ===== verification/Calendar_Laws.thy ===== *)
theory Calendar_Laws
  imports Calendar
begin

text \<open>
  The laws of the calendar code: the two conversions between civil dates and day numbers are
  inverse and monotone, timestamps compare as texts the way the instants compare, ISO weeks
  tile the time line and \<open>iso_week_of\<close> agrees with \<open>iso_week_bounds\<close>. The proofs split a day
  number into era, century, four-year cycle, year and day, and never let the arithmetic
  procedures see a division. The last section holds the properties.
\<close>

section \<open>Eras, years and months\<close>

lemma divI: "a = b * q + r \<Longrightarrow> 0 \<le> r \<Longrightarrow> r < b \<Longrightarrow> a div b = q" for a b q r :: int
  by (rule int_div_pos_eq)

lemma modI: "a = b * q + r \<Longrightarrow> 0 \<le> r \<Longrightarrow> r < b \<Longrightarrow> a mod b = r" for a b q r :: int
  by (rule int_mod_pos_eq)

lemma split_year_of_era:
  fixes r :: int
  assumes "0 \<le> r" "r < 400"
  obtains c q s where "r = 100 * c + 4 * q + s" "0 \<le> c" "c \<le> 3" "0 \<le> q" "q \<le> 24" "0 \<le> s" "s \<le> 3"
proof (rule that)
  let ?c = "r div 100" and ?q = "(r mod 100) div 4" and ?s = "(r mod 100) mod 4"
  have "r mod 100 = 4 * ?q + ?s" by simp
  moreover have "r = 100 * ?c + r mod 100" by simp
  ultimately show "r = 100 * ?c + 4 * ?q + ?s" by linarith
  show "0 \<le> ?c" using assms by linarith
  show "?c \<le> 3" using assms by linarith
  show "0 \<le> ?q" by (simp add: pos_imp_zdiv_nonneg_iff)
  have "r mod 100 < 100" by simp
  then show "?q \<le> 24" by linarith
  show "0 \<le> ?s" by simp
  have "?s < 4" by simp then show "?s \<le> 3" by linarith
qed

lemma year_parts:
  fixes c q s :: int
  assumes "0 \<le> c" "c \<le> 3" "0 \<le> q" "q \<le> 24" "0 \<le> s" "s \<le> 3"
  shows "(100 * c + 4 * q + s) div 4 = 25 * c + q" "(100 * c + 4 * q + s) div 100 = c"
    "(100 * c + 4 * q + s) mod 4 = s" "(100 * c + 4 * q + s) mod 100 = 4 * q + s"
proof -
  show "(100 * c + 4 * q + s) div 4 = 25 * c + q" by (rule divI[of _ _ _ s]) (use assms in \<open>simp_all add: algebra_simps\<close>)
  show "(100 * c + 4 * q + s) div 100 = c" by (rule divI[of _ _ _ "4 * q + s"]) (use assms in \<open>simp_all add: algebra_simps\<close>)
  show "(100 * c + 4 * q + s) mod 4 = s" by (rule modI[of _ _ "25 * c + q"]) (use assms in \<open>simp_all add: algebra_simps\<close>)
  show "(100 * c + 4 * q + s) mod 100 = 4 * q + s" by (rule modI[of _ _ c]) (use assms in \<open>simp_all add: algebra_simps\<close>)
qed

lemma yoe_of_parts:
  fixes c q s doy :: int
  assumes cqs: "0 \<le> c" "c \<le> 3" "0 \<le> q" "q \<le> 24" "0 \<le> s" "s \<le> 3" "0 \<le> doy"
    and doy: "doy \<le> 364 \<or> doy = 365 \<and> s = 3 \<and> (q < 24 \<or> c = 3)"
    and doe: "doe = 36524 * c + 1461 * q + 365 * s + doy"
  shows "(doe - doe div 1460 + doe div 36524 - doe div 146096) div 365 = 100 * c + 4 * q + s"
    and "0 \<le> doe" and "doe \<le> 146096"
proof -
  define x where "x = 24 * c + q + 365 * s + doy"
  define b where "b = (if x \<ge> 1460 then 1 else 0 :: int)"
  define l where "l = (if 1461 * q + 365 * s + doy = 36524 then 1 else 0 :: int)"
  have le: "1461 * q + 365 * s + doy \<le> 36524" using cqs doy by linarith
  have l_c: "c = 3" if "l = 1"
  proof -
    from that have "1461 * q + 365 * s + doy = 36524" by (simp add: l_def split: if_splits)
    with cqs have "\<not> doy \<le> 364" "\<not> q < 24" using doy by linarith+
    with doy show ?thesis by blast
  qed
  show rng: "0 \<le> doe" "doe \<le> 146096" using cqs doe le by linarith+
  have 1: "doe div 1460 = 25 * c + q + b"
    by (rule divI[of _ _ _ "x - 1460 * b"]) (use cqs doy doe in \<open>auto simp: b_def x_def\<close>)
  have 2: "doe div 36524 = c + l"
    by (rule divI[of _ _ _ "1461 * q + 365 * s + doy - 36524 * l"]) (use cqs le doe in \<open>auto simp: l_def\<close>)
  have 3: "doe div 146096 = l"
    by (rule divI[of _ _ _ "doe - 146096 * l"]) (use cqs le doe rng l_c in \<open>auto simp: l_def split: if_splits\<close>)
  have b: "0 \<le> doy - b" "doy - b < 365"
    using cqs doy by (auto simp: b_def x_def)
  have "doe - doe div 1460 + doe div 36524 - doe div 146096 = 365 * (100 * c + 4 * q + s) + (doy - b)"
    unfolding 1 2 3 by (simp add: doe)
  then show "(doe - doe div 1460 + doe div 36524 - doe div 146096) div 365 = 100 * c + 4 * q + s"
    by (rule divI) (use b in simp_all)
qed

lemma parts_of_doe:
  fixes doe :: int
  assumes "0 \<le> doe" "doe \<le> 146096"
  obtains c q s doy where "0 \<le> c" "c \<le> 3" "0 \<le> q" "q \<le> 24" "0 \<le> s" "s \<le> 3" "0 \<le> doy"
    "doy \<le> 364 \<or> doy = 365 \<and> s = 3 \<and> (q < 24 \<or> c = 3)"
    "doe = 36524 * c + 1461 * q + 365 * s + doy"
proof -
  define c where "c = (if doe = 146096 then 3 else doe div 36524)"
  define r1 where "r1 = doe - 36524 * c"
  define q where "q = r1 div 1461"
  define r2 where "r2 = r1 mod 1461"
  define s where "s = (if r2 = 1460 then 3 else r2 div 365)"
  define doy where "doy = r2 - 365 * s"
  have c: "0 \<le> c" "c \<le> 3" "0 \<le> r1" "r1 \<le> 36523 \<or> r1 = 36524 \<and> c = 3"
    using assms unfolding c_def r1_def by (auto split: if_splits)
  have r1: "r1 = 1461 * q + r2" "0 \<le> r2" "r2 \<le> 1460"
    unfolding q_def r2_def using pos_mod_bound[of 1461 r1] by (auto simp del: pos_mod_bound)
  have q: "0 \<le> q" "q \<le> 24" using c r1 by linarith+
  have s: "0 \<le> s" "s \<le> 3" "0 \<le> doy" "doy \<le> 364 \<or> doy = 365 \<and> s = 3 \<and> r2 = 1460"
    using r1 unfolding s_def doy_def by (auto split: if_splits)
  have "doy = 365 \<and> s = 3 \<and> r2 = 1460 \<Longrightarrow> q < 24 \<or> c = 3" using c r1 q by linarith
  with s have "doy \<le> 364 \<or> doy = 365 \<and> s = 3 \<and> (q < 24 \<or> c = 3)" by auto
  moreover have "doe = 36524 * c + 1461 * q + 365 * s + doy"
    using r1 by (simp add: doy_def r1_def)
  ultimately show ?thesis using that c q s by blast
qed

text \<open>Months counted from March, as both algorithms do.\<close>

definition mlen :: "bool \<Rightarrow> int \<Rightarrow> int" where
  "mlen leap mp = (if mp \<in> {1, 3, 6, 8} then 30 else if mp = 11 then (if leap then 29 else 28) else 31)"

lemma mp_cases:
  fixes mp :: int
  assumes "0 \<le> mp" "mp \<le> 11"
  shows "mp \<in> {0, 1, 2, 3, 4, 5, 6, 7, 8, 9, 10, 11}"
  using assms by (simp; presburger)

lemma month_of_doy:
  fixes mp d :: int
  assumes "0 \<le> mp" "mp \<le> 11" "1 \<le> d" "d \<le> mlen l mp" and doy: "doy = (153 * mp + 2) div 5 + d - 1"
  shows "(5 * doy + 2) div 153 = mp" and "0 \<le> doy" and "doy \<le> (if l then 365 else 364)"
proof -
  have "(5 * doy + 2) div 153 = mp \<and> 0 \<le> doy \<and> doy \<le> (if l then 365 else 364)"
    using mp_cases[OF assms(1,2)] assms(3,4)
    by (elim insertE emptyE) (auto simp: doy mlen_def split: if_splits intro!: int_div_pos_eq[of _ _ _ "5 * _ + _"])
  then show "(5 * doy + 2) div 153 = mp" "0 \<le> doy" "doy \<le> (if l then 365 else 364)" by auto
qed

lemma doy_of_month:
  fixes doy :: int
  assumes "0 \<le> doy" "doy \<le> (if l then 365 else 364)" and mp: "mp = (5 * doy + 2) div 153"
    and d: "d = doy - (153 * mp + 2) div 5 + 1"
  shows "0 \<le> mp \<and> mp \<le> 11 \<and> 1 \<le> d \<and> d \<le> mlen l mp"
proof -
  have b: "153 * mp \<le> 5 * doy + 2" "5 * doy + 2 < 153 * mp + 153" using mp by linarith+
  have "0 \<le> mp" "mp \<le> 11" using b assms by (auto split: if_splits)
  from mp_cases[OF this] this b assms(1,2) show ?thesis
    by (elim insertE emptyE) (auto simp: d mlen_def split: if_splits)
qed

text \<open>The year that starts in March of \<open>Y\<close> ends with a February 29th.\<close>

definition leap_after :: "int \<Rightarrow> bool" where
  "leap_after Y = ((Y + 1) mod 4 = 0 \<and> ((Y + 1) mod 100 \<noteq> 0 \<or> (Y + 1) mod 400 = 0))"

definition day_number :: "int \<Rightarrow> int \<Rightarrow> int" where
  "day_number Y doy = (Y div 400) * 146097 + ((Y mod 400) * 365 + (Y mod 400) div 4 - (Y mod 400) div 100) + doy"

lemma leap_after_parts:
  fixes e c q s :: int
  assumes "0 \<le> c" "c \<le> 3" "0 \<le> q" "q \<le> 24" "0 \<le> s" "s \<le> 3"
    and Y: "Y = 400 * e + (100 * c + 4 * q + s)"
  shows "leap_after Y = (s = 3 \<and> (q < 24 \<or> c = 3))"
proof -
  have 4: "((Y + 1) mod 4 = 0) = (s = 3)"
  proof -
    have "(Y + 1) mod 4 = (if s = 3 then 0 else s + 1)"
      by (rule int_mod_pos_eq[of _ _ "100 * e + 25 * c + q + (if s = 3 then 1 else 0)"])
        (use assms in \<open>auto\<close>)
    with assms show ?thesis by auto
  qed
  have 100: "((Y + 1) mod 100 = 0) = (4 * q + s = 99)"
  proof -
    have "(Y + 1) mod 100 = (if 4 * q + s = 99 then 0 else 4 * q + s + 1)"
      by (rule int_mod_pos_eq[of _ _ "4 * e + c + (if 4 * q + s = 99 then 1 else 0)"])
        (use assms in \<open>auto\<close>)
    with assms show ?thesis by auto
  qed
  have 400: "((Y + 1) mod 400 = 0) = (100 * c + 4 * q + s = 399)"
  proof -
    have "(Y + 1) mod 400 = (if 100 * c + 4 * q + s = 399 then 0 else 100 * c + 4 * q + s + 1)"
      by (rule int_mod_pos_eq[of _ _ "e + (if 100 * c + 4 * q + s = 399 then 1 else 0)"])
        (use assms in \<open>auto\<close>)
    with assms show ?thesis by auto
  qed
  have "(4 * q + s = 99) = (q = 24 \<and> s = 3)" using assms by (cases "q = 24") auto
  moreover have "(100 * c + 4 * q + s = 399) = (c = 3 \<and> q = 24 \<and> s = 3)"
    using assms by (cases "c = 3"; cases "q = 24") auto
  ultimately show ?thesis
    using assms unfolding leap_after_def 4 100 400 by auto
qed

lemma civil_from_day_number:
  assumes mp: "0 \<le> mp" "mp \<le> 11" and d: "1 \<le> d" "d \<le> mlen (leap_after Y) mp"
    and doy: "doy = (153 * mp + 2) div 5 + d - 1"
  shows "civil_from_days (day_number Y doy - 719468) =
    (if 10 \<le> mp then Y + 1 else Y, if mp < 10 then mp + 3 else mp - 9, d)"
proof -
  note m = month_of_doy[OF mp d doy]
  obtain c q s where r: "Y mod 400 = 100 * c + 4 * q + s"
    and cqs: "0 \<le> c" "c \<le> 3" "0 \<le> q" "q \<le> 24" "0 \<le> s" "s \<le> 3"
    using split_year_of_era[of "Y mod 400"] by auto
  have leap: "leap_after Y = (s = 3 \<and> (q < 24 \<or> c = 3))"
    by (rule leap_after_parts[OF cqs, of _ "Y div 400"]) (use r mult_div_mod_eq[of 400 Y] in simp)
  have yp: "(Y mod 400) div 4 = 25 * c + q" "(Y mod 400) div 100 = c"
    using year_parts[OF cqs] r by simp_all
  define doe where "doe = 36524 * c + 1461 * q + 365 * s + doy"
  have dok: "doy \<le> 364 \<or> doy = 365 \<and> s = 3 \<and> (q < 24 \<or> c = 3)"
    using m(3) leap by (auto split: if_splits)
  note y = yoe_of_parts[OF cqs m(2) dok doe_def]
  have z: "day_number Y doy = 146097 * (Y div 400) + doe"
    by (simp add: day_number_def yp) (simp add: doe_def r)
  have z1: "day_number Y doy div 146097 = Y div 400"
    by (rule int_div_pos_eq[OF z]) (use y in linarith)+
  have z2: "day_number Y doy mod 146097 = doe"
    by (rule int_mod_pos_eq[OF z]) (use y in linarith)+
  have yoe: "(doe - doe div 1460 + doe div 36524 - doe div 146096) div 365 = Y mod 400"
    using y(1) r by simp
  have doy': "doe - (365 * (Y mod 400) + (Y mod 400) div 4 - (Y mod 400) div 100) = doy"
    unfolding yp by (simp add: r doe_def)
  have d': "doy - (153 * mp + 2) div 5 + 1 = d" using doy by simp
  have Y: "Y mod 400 + Y div 400 * 400 = Y" by simp
  have c: "day_number Y doy - 719468 + 719468 = day_number Y doy" by simp
  show ?thesis
    unfolding civil_from_days_def Let_def c z1 z2 yoe doy' m(1) d' Y using mp by auto
qed

definition civil_valid :: "int \<Rightarrow> int \<Rightarrow> int \<Rightarrow> bool" where
  "civil_valid y m d = (0 \<le> y \<and> 1 \<le> m \<and> m \<le> 12 \<and> 1 \<le> d \<and> d \<le> int (days_in_month (nat y) (nat m)))"

text \<open>From the civil month to the month counted from March.\<close>

definition mp_of :: "int \<Rightarrow> int" where
  "mp_of m = (if m > 2 then m - 3 else m + 9)"

definition march_year :: "int \<Rightarrow> int \<Rightarrow> int" where
  "march_year y m = (if m \<le> 2 then y - 1 else y)"

lemma is_leap_int: "0 \<le> y \<Longrightarrow> is_leap_year (nat y) = (y mod 4 = 0 \<and> (y mod 100 \<noteq> 0 \<or> y mod 400 = 0))"
proof -
  assume "0 \<le> y"
  then obtain n where "y = int n" by (metis nonneg_int_cases)
  moreover have "(int n mod numeral k = 0) = (n mod numeral k = 0)" for k
    by (metis of_nat_eq_0_iff of_nat_mod of_nat_numeral)
  ultimately show ?thesis by (simp add: is_leap_year_def)
qed

lemma m_cases: fixes m :: int shows "1 \<le> m \<Longrightarrow> m \<le> 12 \<Longrightarrow> m \<in> {1, 2, 3, 4, 5, 6, 7, 8, 9, 10, 11, 12}"
  by (simp; presburger)

lemma days_in_month_mlen:
  assumes "0 \<le> y" "1 \<le> m" "m \<le> 12"
  shows "int (days_in_month (nat y) (nat m)) = mlen (leap_after (march_year y m)) (mp_of m)"
  using m_cases[OF assms(2,3)] assms(1)
  by (elim insertE emptyE) (simp_all add: days_in_month_def mlen_def mp_of_def march_year_def
      is_leap_int leap_after_def)

lemma era_floor: "- 1 \<le> Y \<Longrightarrow> (if 0 \<le> Y then Y else Y - 399) div 400 = Y div 400" for Y :: int
  by (cases "Y = -1") auto

lemma days_from_civil_number:
  assumes "0 \<le> y"
  shows "days_from_civil y m d =
    day_number (march_year y m) ((153 * mp_of m + 2) div 5 + d - 1) - 719468"
proof -
  have e: "- 1 \<le> march_year y m" using assms by (simp add: march_year_def)
  have r: "march_year y m - march_year y m div 400 * 400 = march_year y m mod 400"
    by (simp add: minus_div_mult_eq_mod)
  show ?thesis
    unfolding days_from_civil_def Let_def march_year_def[symmetric] mp_of_def[symmetric]
      era_floor[OF e] r day_number_def
    by simp
qed

lemma civil_from_days_from_civil:
  assumes "civil_valid y m d"
  shows "civil_from_days (days_from_civil y m d) = (y, m, d)"
proof -
  have v: "0 \<le> y" "1 \<le> m" "m \<le> 12" "1 \<le> d" "d \<le> mlen (leap_after (march_year y m)) (mp_of m)"
    using assms days_in_month_mlen[of y m] by (auto simp: civil_valid_def)
  have mp: "0 \<le> mp_of m" "mp_of m \<le> 11" using v by (auto simp: mp_of_def)
  show ?thesis
    unfolding days_from_civil_number[OF v(1)] civil_from_day_number[OF mp v(4,5) refl]
    using v by (auto simp: mp_of_def march_year_def)
qed

lemma number_of_day:
  assumes "0 \<le> z"
  obtains Y doy where "z = day_number Y doy" "0 \<le> Y" "0 \<le> doy" "doy \<le> (if leap_after Y then 365 else 364)"
proof -
  have "0 \<le> z mod 146097" "z mod 146097 \<le> 146096" using pos_mod_bound[of 146097 z] by simp_all
  then obtain c q s doy where p: "0 \<le> c" "c \<le> 3" "0 \<le> q" "q \<le> 24" "0 \<le> s" "s \<le> 3" "0 \<le> doy"
    "doy \<le> 364 \<or> doy = 365 \<and> s = 3 \<and> (q < 24 \<or> c = 3)"
    "z mod 146097 = 36524 * c + 1461 * q + 365 * s + doy"
    by (rule parts_of_doe)
  define Y where "Y = 400 * (z div 146097) + (100 * c + 4 * q + s)"
  have r: "0 \<le> 100 * c + 4 * q + s" "100 * c + 4 * q + s < 400" using p by linarith+
  have Y: "Y div 400 = z div 146097" "Y mod 400 = 100 * c + 4 * q + s"
    by (rule int_div_pos_eq[OF Y_def r], rule int_mod_pos_eq[OF Y_def r])
  have yp: "(Y mod 400) div 4 = 25 * c + q" "(Y mod 400) div 100 = c"
    unfolding Y(2) using year_parts(1,2)[OF p(1-6)] by simp_all
  define E R where "E = z div 146097" and "R = z mod 146097"
  have zz: "z = 146097 * E + R" by (simp add: E_def R_def)
  have "day_number Y doy = E * 146097 + ((100 * c + 4 * q + s) * 365 + (25 * c + q) - c) + doy"
    unfolding day_number_def yp unfolding Y E_def ..
  also have "\<dots> = z" unfolding zz p(9)[folded R_def] by (simp add: algebra_simps)
  finally have z: "z = day_number Y doy" ..
  have "leap_after Y = (s = 3 \<and> (q < 24 \<or> c = 3))"
    by (rule leap_after_parts[OF p(1-6) Y_def])
  then have "doy \<le> (if leap_after Y then 365 else 364)" using p(8) by auto
  moreover have "0 \<le> Y" using assms r by (simp add: Y_def pos_imp_zdiv_nonneg_iff)
  ultimately show ?thesis using that z p(7) by blast
qed

lemma days_from_civil_from_days:
  assumes "- 719468 \<le> z" and "civil_from_days z = (y, m, d)"
  shows "civil_valid y m d" and "days_from_civil y m d = z"
proof -
  obtain Y doy where z: "z + 719468 = day_number Y doy" "0 \<le> Y" "0 \<le> doy"
    "doy \<le> (if leap_after Y then 365 else 364)"
    using number_of_day[of "z + 719468"] assms(1) by auto
  define mp where "mp = (5 * doy + 2) div 153"
  define d' where "d' = doy - (153 * mp + 2) div 5 + 1"
  have md: "0 \<le> mp" "mp \<le> 11" "1 \<le> d'" "d' \<le> mlen (leap_after Y) mp"
    using doy_of_month[OF z(3,4) mp_def d'_def] by auto
  have doy: "doy = (153 * mp + 2) div 5 + d' - 1" by (simp add: d'_def)
  have "civil_from_days z = (if 10 \<le> mp then Y + 1 else Y, if mp < 10 then mp + 3 else mp - 9, d')"
    using civil_from_day_number[OF md doy] z(1) by (metis add_diff_cancel_right')
  with assms(2) have ymd: "y = (if 10 \<le> mp then Y + 1 else Y)" "m = (if mp < 10 then mp + 3 else mp - 9)" "d = d'"
    by simp_all
  have bk: "mp_of m = mp" "march_year y m = Y" "0 \<le> y" "1 \<le> m" "m \<le> 12"
    using md z(2) by (auto simp: ymd mp_of_def march_year_def)
  show "civil_valid y m d"
    using days_in_month_mlen[OF bk(3-5)] md bk ymd by (simp add: civil_valid_def)
  show "days_from_civil y m d = z"
    using days_from_civil_number[OF bk(3), of m d] doy bk z(1) ymd(3) by simp
qed

text \<open>Day numbers grow with the date.\<close>

lemma day_number_step:
  "day_number (Y + 1) 0 = day_number Y 0 + (if leap_after Y then 366 else 365)"
proof -
  obtain c q s where r: "Y mod 400 = 100 * c + 4 * q + s"
    and cqs: "0 \<le> c" "c \<le> 3" "0 \<le> q" "q \<le> 24" "0 \<le> s" "s \<le> 3"
    using split_year_of_era[of "Y mod 400"] by auto
  define E where "E = Y div 400"
  have Y: "Y = 400 * E + (100 * c + 4 * q + s)"
    using r mult_div_mod_eq[of 400 Y] by (simp add: E_def)
  have leap: "leap_after Y = (s = 3 \<and> (q < 24 \<or> c = 3))" by (rule leap_after_parts[OF cqs Y])
  have parts: "day_number (400 * E + (100 * c + 4 * q + s)) 0
      = E * 146097 + ((100 * c + 4 * q + s) * 365 + (25 * c + q) - c)"
    if "0 \<le> c" "c \<le> 3" "0 \<le> q" "q \<le> 24" "0 \<le> s" "s \<le> 3" for E c q s
  proof -
    have b: "0 \<le> 100 * c + 4 * q + s" "100 * c + 4 * q + s < 400" using that by linarith+
    show ?thesis
      unfolding day_number_def int_div_pos_eq[OF refl b] int_mod_pos_eq[OF refl b] year_parts[OF that] by simp
  qed
  have here: "day_number Y 0 = E * 146097 + ((100 * c + 4 * q + s) * 365 + (25 * c + q) - c)"
    unfolding Y by (rule parts[OF cqs])
  consider "s < 3" | "s = 3" "q < 24" | "s = 3" "q = 24" "c < 3" | "s = 3" "q = 24" "c = 3"
    using cqs by fastforce
  then show ?thesis
  proof cases
    case 1
    then have y: "Y + 1 = 400 * E + (100 * c + 4 * q + (s + 1))" using Y by simp
    then show ?thesis unfolding y here using parts[of c q "s + 1" E] cqs 1 leap by simp
  next
    case 2
    then have y: "Y + 1 = 400 * E + (100 * c + 4 * (q + 1) + 0)" using Y by simp
    then show ?thesis unfolding y here using parts[of c "q + 1" 0 E] cqs 2 leap by simp
  next
    case 3
    then have y: "Y + 1 = 400 * E + (100 * (c + 1) + 4 * 0 + 0)" using Y by simp
    then show ?thesis unfolding y here using parts[of "c + 1" 0 0 E] cqs 3 leap by simp
  next
    case 4
    then have y: "Y + 1 = 400 * (E + 1) + (100 * 0 + 4 * 0 + 0)" using Y by simp
    then show ?thesis unfolding y here using parts[of 0 0 0 "E + 1"] cqs 4 leap by simp
  qed
qed

lemma day_number_shift: "day_number Y doy = day_number Y 0 + doy"
  by (simp add: day_number_def)

lemma day_number_mono: "Y \<le> Y' \<Longrightarrow> day_number Y 0 \<le> day_number Y' 0"
proof (induction Y' rule: int_ge_induct)
  case (step i)
  then show ?case using day_number_step[of i] by (simp split: if_splits)
qed simp

lemma day_number_less:
  assumes "Y < Y'" "doy \<le> (if leap_after Y then 365 else 364)" "0 \<le> doy'"
  shows "day_number Y doy < day_number Y' doy'"
  using day_number_mono[of "Y + 1" Y'] day_number_step[of Y] assms
    day_number_shift[of Y doy] day_number_shift[of Y' doy']
  by (simp split: if_splits)

lemma month_start_mono:
  fixes mp mp' d :: int
  assumes "0 \<le> mp" "mp < mp'" "mp' \<le> 11" "d \<le> mlen l mp" "1 \<le> d'"
  shows "(153 * mp + 2) div 5 + d - 1 < (153 * mp' + 2) div 5 + d' - 1"
proof -
  have "(153 * (mp + 1) + 2) div 5 \<le> (153 * mp' + 2) div 5"
    using assms(2) by (intro zdiv_mono1) auto
  moreover have "(153 * mp + 2) div 5 + mlen l mp \<le> (153 * (mp + 1) + 2) div 5"
  proof -
    have "mp \<in> {0, 1, 2, 3, 4, 5, 6, 7, 8, 9, 10, 11}" using assms by (intro mp_cases) auto
    then show ?thesis using assms(2,3) by (elim insertE emptyE) (auto simp: mlen_def)
  qed
  ultimately show ?thesis using assms(4,5) by linarith
qed

definition date_less :: "int \<times> int \<times> int \<Rightarrow> int \<times> int \<times> int \<Rightarrow> bool" where
  "date_less p q = (case p of (y, m, d) \<Rightarrow> case q of (y', m', d') \<Rightarrow>
     y < y' \<or> y = y' \<and> (m < m' \<or> m = m' \<and> d < d'))"

lemma days_from_civil_less:
  assumes v: "civil_valid y m d" and v': "civil_valid y' m' d'"
    and less: "date_less (y, m, d) (y', m', d')"
  shows "days_from_civil y m d < days_from_civil y' m' d'"
proof -
  have r: "0 \<le> y" "1 \<le> m" "m \<le> 12" "1 \<le> d" "d \<le> mlen (leap_after (march_year y m)) (mp_of m)"
    using v days_in_month_mlen[of y m] by (auto simp: civil_valid_def)
  have r': "0 \<le> y'" "1 \<le> m'" "m' \<le> 12" "1 \<le> d'" "d' \<le> mlen (leap_after (march_year y' m')) (mp_of m')"
    using v' days_in_month_mlen[of y' m'] by (auto simp: civil_valid_def)
  have mp: "0 \<le> mp_of m" "mp_of m \<le> 11" "0 \<le> mp_of m'" "mp_of m' \<le> 11"
    using r r' by (auto simp: mp_of_def)
  note b = month_of_doy[OF mp(1,2) r(4,5) refl] month_of_doy[OF mp(3,4) r'(4,5) refl]
  have "march_year y m < march_year y' m' \<or> march_year y m = march_year y' m' \<and>
      (mp_of m < mp_of m' \<or> m = m' \<and> d < d')"
    using less r r' by (auto simp: date_less_def march_year_def mp_of_def)
  then show ?thesis
  proof (elim disjE conjE)
    assume "march_year y m < march_year y' m'"
    then show ?thesis
      unfolding days_from_civil_number[OF r(1)] days_from_civil_number[OF r'(1)]
      using day_number_less[OF _ b(3) b(5)] by simp
  next
    assume e: "march_year y m = march_year y' m'" and "mp_of m < mp_of m'"
    with month_start_mono[OF mp(1) _ mp(4) r(5) r'(4)]
    show ?thesis
      unfolding days_from_civil_number[OF r(1)] days_from_civil_number[OF r'(1)] e
      by (simp add: day_number_shift[of _ "_ + _"] day_number_shift[of _ "_ - _"])
  next
    assume e: "march_year y m = march_year y' m'" and "m = m'" "d < d'"
    then show ?thesis
      unfolding days_from_civil_number[OF r(1)] days_from_civil_number[OF r'(1)] e
      by (simp add: day_number_def)
  qed
qed

lemma date_less_total: "p = q \<or> date_less p q \<or> date_less q p"
  by (cases p; cases q) (auto simp: date_less_def)

lemma civil_from_days_less:
  assumes "- 719468 \<le> a" "a < b"
  shows "date_less (civil_from_days a) (civil_from_days b)"
proof -
  obtain y m d y' m' d' where e: "civil_from_days a = (y, m, d)" "civil_from_days b = (y', m', d')"
    by (metis surj_pair)
  note A = days_from_civil_from_days[OF assms(1) e(1)]
  have B: "civil_valid y' m' d'" "days_from_civil y' m' d' = b"
    using days_from_civil_from_days[OF _ e(2)] assms by auto
  have "(y, m, d) \<noteq> (y', m', d')" using A B assms by auto
  moreover have "\<not> date_less (y', m', d') (y, m, d)"
    using days_from_civil_less[OF B(1) A(1)] A B assms by auto
  ultimately show ?thesis using date_less_total e by metis
qed

lemma civil_year_bounds:
  assumes "0 \<le> y1" "days_from_civil y1 1 1 \<le> z" "z < days_from_civil y2 1 1" "0 \<le> y2"
    and "- 719468 \<le> z"
  shows "y1 \<le> fst (civil_from_days z) \<and> fst (civil_from_days z) < y2"
proof -
  obtain y m d where e: "civil_from_days z = (y, m, d)" by (metis surj_pair)
  note A = days_from_civil_from_days[OF assms(5) e]
  have J: "civil_valid y1 1 1" "civil_valid y2 1 1" using assms by (auto simp: civil_valid_def days_in_month_def)
  have m: "1 \<le> m" "1 \<le> d" using A(1) by (auto simp: civil_valid_def)
  have "y1 \<le> y" using days_from_civil_less[OF A(1) J(1)] A(2) assms(2) by (force simp: date_less_def)
  moreover have "y < y2"
  proof (rule ccontr)
    assume "\<not> y < y2"
    then have "date_less (y2, 1, 1) (y, m, d) \<or> (y2, 1, 1) = (y, m, d)" using m by (auto simp: date_less_def)
    with days_from_civil_less[OF J(2) A(1)] A(2) assms(3) show False by auto
  qed
  ultimately show ?thesis using e by simp
qed

section \<open>Timestamps\<close>

text \<open>A timestamp by its fields, and the timestamp of a second of a day.\<close>

definition stamp :: "nat \<Rightarrow> nat \<Rightarrow> nat \<Rightarrow> nat \<Rightarrow> nat \<Rightarrow> nat \<Rightarrow> string" where
  "stamp y m d h mi s = fixw 4 y @ ''-'' @ fixw 2 m @ ''-'' @ fixw 2 d @ ''T'' @
     fixw 2 h @ '':'' @ fixw 2 mi @ '':'' @ fixw 2 s @ ''Z''"

definition day_stamp :: "int \<Rightarrow> nat \<Rightarrow> string" where
  "day_stamp z rem = (case civil_from_days z of (y, m, d) \<Rightarrow>
     stamp (nat y) (nat m) (nat d) (rem div 3600) ((rem mod 3600) div 60) (rem mod 60))"

lemma fmt_fixw: "0 \<le> i \<Longrightarrow> 1 \<le> w \<Longrightarrow> i < 10 ^ w \<Longrightarrow> fmt_int w i = fixw w (nat i)"
  by (simp add: fmt_int_def pad0_fixw nat_less_iff)

text \<open>Day numbers of the years 0000-03 to 9999.\<close>

definition day_ok :: "int \<Rightarrow> bool" where
  "day_ok z = (- 719468 \<le> z \<and> z < 2932897)"

lemma day_fields:
  assumes "day_ok z" "civil_from_days z = (y, m, d)"
  shows "0 \<le> y" "y \<le> 9999" "1 \<le> m" "m \<le> 12" "1 \<le> d" "d \<le> 31" "civil_valid y m d"
proof -
  have v: "civil_valid y m d" "days_from_civil y m d = z"
    using days_from_civil_from_days[OF _ assms(2)] assms(1) by (auto simp: day_ok_def)
  then show "0 \<le> y" "1 \<le> m" "m \<le> 12" "1 \<le> d" "d \<le> 31" "civil_valid y m d"
    by (auto simp: civil_valid_def days_in_month_def split: if_splits)
  have J: "civil_valid 10000 1 1" "days_from_civil 10000 1 1 = 2932897"
    by (auto simp: civil_valid_def days_in_month_def days_from_civil_def)
  show "y \<le> 9999"
  proof (rule ccontr)
    assume "\<not> y \<le> 9999"
    then have "date_less (10000, 1, 1) (y, m, d) \<or> (10000, 1, 1) = (y, m, d)"
      using \<open>1 \<le> m\<close> \<open>1 \<le> d\<close> by (auto simp: date_less_def)
    with days_from_civil_less[OF J(1) v(1)] J v assms(1) show False by (auto simp: day_ok_def)
  qed
qed

lemma iso8601_at_civil: "iso8601_at secs =
    (case civil_from_days (int (secs div 86400)) of (y, m, d) \<Rightarrow>
       fmt_int 4 y @ ''-'' @ fmt_int 2 m @ ''-'' @ fmt_int 2 d @ ''T'' @
       pad0 2 (secs mod 86400 div 3600) @ '':'' @ pad0 2 (secs mod 86400 mod 3600 div 60) @ '':'' @
       pad0 2 (secs mod 86400 mod 60) @ ''Z'')"
  unfolding iso8601_at_def civil_from_days_def Let_def prod.case by (rule refl)

lemma clock_fields:
  fixes r :: nat
  assumes "r < 86400"
  shows "r div 3600 < 24" "r mod 3600 div 60 < 60" "r mod 60 < 60"
  using assms by auto

lemma iso8601_at_stamp:
  assumes "day_ok (int (secs div 86400))"
  shows "iso8601_at secs = day_stamp (int (secs div 86400)) (secs mod 86400)"
proof -
  obtain y m d where e: "civil_from_days (int (secs div 86400)) = (y, m, d)" by (metis surj_pair)
  note f = day_fields[OF assms e]
  have r: "secs mod 86400 < 86400" by simp
  note c = clock_fields[OF r]
  show ?thesis
    using f c unfolding iso8601_at_civil day_stamp_def e
    by (simp add: stamp_def fmt_fixw pad0_fixw)
qed

lemma fmt_day_start_stamp:
  assumes "day_ok z"
  shows "fmt_day_start z = day_stamp z 0"
proof -
  obtain y m d where e: "civil_from_days z = (y, m, d)" by (metis surj_pair)
  note f = day_fields[OF assms e]
  have "fixw 2 0 = ''00''" by code_simp
  with f show ?thesis
    unfolding fmt_day_start_def day_stamp_def e by (simp add: stamp_def fmt_fixw)
qed

lemma stamp_less:
  assumes "y < 10000" "y' < 10000" "m < 100" "m' < 100" "d < 100" "d' < 100"
    "h < 100" "h' < 100" "mi < 100" "mi' < 100" "s < 100" "s' < 100"
  shows "(stamp y m d h mi s < stamp y' m' d' h' mi' s') =
    (y < y' \<or> y = y' \<and> (m < m' \<or> m = m' \<and> (d < d' \<or> d = d' \<and>
      (h < h' \<or> h = h' \<and> (mi < mi' \<or> mi = mi' \<and> s < s')))))"
proof -
  note b = fixw_less fixw_inj
  show ?thesis
    using assms unfolding stamp_def
    by (simp add: less_append_same_length b del: fixw.simps)
qed

lemma length_stamp [simp]: "length (stamp y m d h mi s) = 20"
  by (simp add: stamp_def)

lemma clock_less:
  fixes r r' :: nat
  assumes "r < r'"
  shows "r div 3600 < r' div 3600 \<or> r div 3600 = r' div 3600 \<and>
    (r mod 3600 div 60 < r' mod 3600 div 60 \<or> r mod 3600 div 60 = r' mod 3600 div 60 \<and> r mod 60 < r' mod 60)"
proof -
  have "r div 3600 \<le> r' div 3600" using assms by (simp add: div_le_mono)
  moreover have "r mod 3600 div 60 < r' mod 3600 div 60 \<or> r mod 3600 div 60 = r' mod 3600 div 60 \<and> r mod 60 < r' mod 60"
    if "r div 3600 = r' div 3600"
  proof -
    define u u' where "u = r mod 3600" and "u' = r' mod 3600"
    have "r = 3600 * (r' div 3600) + u" "r' = 3600 * (r' div 3600) + u'"
      unfolding u_def u'_def that[symmetric] mult_div_mod_eq
      unfolding that mult_div_mod_eq by (rule refl)+
    with assms have uu: "u < u'" by linarith
    have m: "r mod 60 = u mod 60" "r' mod 60 = u' mod 60"
      by (simp_all add: u_def u'_def mod_mod_cancel)
    have "u div 60 \<le> u' div 60" using uu by (simp add: div_le_mono)
    moreover have "u mod 60 < u' mod 60" if e: "u div 60 = u' div 60"
      using uu mult_div_mod_eq[of 60 u] mult_div_mod_eq[of 60 u'] unfolding e by linarith
    ultimately show ?thesis using m by (auto simp: u_def u'_def)
  qed
  ultimately show ?thesis by auto
qed

lemma day_stamp_mono:
  assumes ok: "day_ok a" "day_ok b" "r < 86400" "r' < 86400" and less: "a < b \<or> a = b \<and> r < r'"
  shows "day_stamp a r < day_stamp b r'"
proof -
  obtain y m d y' m' d' where e: "civil_from_days a = (y, m, d)" "civil_from_days b = (y', m', d')"
    by (metis surj_pair)
  note f = day_fields[OF ok(1) e(1)] and f' = day_fields[OF ok(2) e(2)]
  have lo: "- 719468 \<le> a" using ok(1) by (simp add: day_ok_def)
  have c: "r div 3600 < 100" "r mod 3600 div 60 < 100" "r mod 60 < 100"
    "r' div 3600 < 100" "r' mod 3600 div 60 < 100" "r' mod 60 < 100"
    using clock_fields[OF ok(3)] clock_fields[OF ok(4)] by auto
  have n: "nat y < 10000" "nat y' < 10000" "nat m < 100" "nat m' < 100" "nat d < 100" "nat d' < 100"
    using f f' by auto
  have "date_less (y, m, d) (y', m', d') \<or> (y, m, d) = (y', m', d') \<and> r < r'"
    using less civil_from_days_less[OF lo, of b] e by auto
  then show ?thesis
  proof
    assume "date_less (y, m, d) (y', m', d')"
    then show ?thesis
      unfolding day_stamp_def e prod.case stamp_less[OF n c(1,4,2,5,3,6)]
      using f f' by (auto simp: date_less_def)
  next
    assume "(y, m, d) = (y', m', d') \<and> r < r'"
    then show ?thesis
      unfolding day_stamp_def e prod.case stamp_less[OF n c(1,4,2,5,3,6)]
      using clock_less[of r r'] by simp
  qed
qed

lemma day_stamp_less_iff:
  assumes "day_ok a" "day_ok b" "r < 86400" "r' < 86400"
  shows "(day_stamp a r < day_stamp b r') = (a < b \<or> a = b \<and> r < r')"
proof (cases "a < b \<or> a = b \<and> r < r'")
  case False
  then have "b < a \<or> b = a \<and> r' < r \<or> b = a \<and> r' = r" by auto
  with day_stamp_mono[OF assms(2,1,4,3)] False show ?thesis by auto
qed (use day_stamp_mono[OF assms] in auto)

lemma day_split_less:
  fixes a b :: nat
  shows "(a div 86400 < b div 86400 \<or> a div 86400 = b div 86400 \<and> a mod 86400 < b mod 86400) = (a < b)"
proof -
  define p q u v where "p = a div 86400" and "q = b div 86400" and "u = a mod 86400" and "v = b mod 86400"
  have ab: "a = 86400 * p + u" "b = 86400 * q + v" by (simp_all add: p_def q_def u_def v_def)
  have uv: "u < 86400" "v < 86400" by (simp_all add: u_def v_def)
  show ?thesis
    unfolding p_def[symmetric] q_def[symmetric] u_def[symmetric] v_def[symmetric] ab using uv
    by (cases p q rule: linorder_cases) auto
qed

lemma iso8601_at_less_iff:
  assumes "a < 253402300800" "b < 253402300800"
  shows "(iso8601_at a < iso8601_at b) = (a < b)"
proof -
  have ok: "day_ok (int (a div 86400))" "day_ok (int (b div 86400))"
    unfolding day_ok_def using assms less_mult_imp_div_less[of _ 2932897 86400] by simp_all
  have m: "a mod 86400 < 86400" "b mod 86400 < 86400" by auto
  have "(a div 86400 < b div 86400 \<or> a div 86400 = b div 86400 \<and> a mod 86400 < b mod 86400) = (a < b)"
    by (rule day_split_less)
  then show ?thesis
    unfolding iso8601_at_stamp[OF ok(1)] iso8601_at_stamp[OF ok(2)] day_stamp_less_iff[OF ok m]
    by simp
qed

lemma iso8601_at_inj: "a < 253402300800 \<Longrightarrow> b < 253402300800 \<Longrightarrow> (iso8601_at a = iso8601_at b) = (a = b)"
  using iso8601_at_less_iff by (metis linorder_neq_iff)

section \<open>ISO weeks\<close>

lemma jan_number: "0 \<le> y \<Longrightarrow> days_from_civil y 1 d = day_number (y - 1) 0 + 305 + d - 719468"
  using days_from_civil_number[of y 1 d] day_number_shift[of "y - 1" "305 + d"]
  by (simp add: march_year_def mp_of_def)

text \<open>The weekday of January 1st, 0 for Monday.\<close>

definition jan1_wd :: "int \<Rightarrow> int" where
  "jan1_wd y = (days_from_civil y 1 1 + 3) mod 7"

lemma jan1_wd_parts:
  fixes y :: nat
  assumes y: "int y - 1 = 400 * E + (100 * c + 4 * q + s)"
    and cqs: "0 \<le> c" "c \<le> 3" "0 \<le> q" "q \<le> 24" "0 \<le> s" "s \<le> 3"
  shows "jan1_wd (int y) = (5 * c + 5 * q + s) mod 7"
proof -
  have b: "0 \<le> 100 * c + 4 * q + s" "100 * c + 4 * q + s < 400" using cqs by linarith+
  have "day_number (int y - 1) 0 = E * 146097 + ((100 * c + 4 * q + s) * 365 + (25 * c + q) - c)"
    unfolding y day_number_def int_div_pos_eq[OF refl b] int_mod_pos_eq[OF refl b] year_parts[OF cqs] by simp
  then have "days_from_civil (int y) 1 1 + 3 =
      (5 * c + 5 * q + s) + 7 * (20871 * E + 5217 * c + 208 * q + 52 * s - 102737)"
    using jan_number[of "int y" 1] by simp
  then show ?thesis unfolding jan1_wd_def by (simp only: mod_mult_self2)
qed

lemma jan1_formula:
  fixes y :: nat
  assumes "1 \<le> y"
  shows "int ((1 + 5 * ((y - 1) mod 4) + 4 * ((y - 1) mod 100) + 6 * ((y - 1) mod 400)) mod 7) =
    (jan1_wd (int y) + 1) mod 7"
proof -
  define x where "x = int y - 1"
  obtain c q s where r: "x mod 400 = 100 * c + 4 * q + s"
    and cqs: "0 \<le> c" "c \<le> 3" "0 \<le> q" "q \<le> 24" "0 \<le> s" "s \<le> 3"
    using split_year_of_era[of "x mod 400"] by auto
  have e: "int y - 1 = 400 * (x div 400) + (100 * c + 4 * q + s)"
    using r mult_div_mod_eq[of 400 x] by (simp add: x_def)
  have m: "x mod 4 = s" "x mod 100 = 4 * q + s"
  proof -
    have "x mod 4 = (x mod 400) mod 4" "x mod 100 = (x mod 400) mod 100" by (simp_all add: mod_mod_cancel)
    then show "x mod 4 = s" "x mod 100 = 4 * q + s" unfolding r using year_parts(3,4)[OF cqs] by simp_all
  qed
  have i: "int (y - 1) = x" using assms by (simp add: x_def)
  have "int ((1 + 5 * ((y - 1) mod 4) + 4 * ((y - 1) mod 100) + 6 * ((y - 1) mod 400)) mod 7)
      = (1 + 5 * s + 4 * (4 * q + s) + 6 * (100 * c + 4 * q + s)) mod 7"
    unfolding of_nat_mod of_nat_add of_nat_mult of_nat_numeral of_nat_1 i m r by (rule refl)
  also have "1 + 5 * s + 4 * (4 * q + s) + 6 * (100 * c + 4 * q + s) =
      (5 * c + 5 * q + s + 1) + 7 * (85 * c + 5 * q + 2 * s)"
    by (simp add: algebra_simps)
  also have "\<dots> mod 7 = (5 * c + 5 * q + s + 1) mod 7" by (rule mod_mult_self2)
  finally show ?thesis unfolding jan1_wd_parts[OF e cqs] by (simp add: mod_add_left_eq)
qed

lemma week1_monday_wd: "0 \<le> y \<Longrightarrow> week1_monday y = days_from_civil y 1 1 + 3 - (jan1_wd y + 3) mod 7"
  using jan_number[of y 4] jan_number[of y 1]
  by (simp add: week1_monday_def Let_def iso_weekday_def jan1_wd_def mod_add_left_eq)

lemma jan1_wd_bound: "0 \<le> jan1_wd y" "jan1_wd y < 7"
  by (simp_all add: jan1_wd_def)

lemma wd_cases:
  fixes k :: int
  assumes "0 \<le> k" "k < 7"
  shows "k \<in> {0, 1, 2, 3, 4, 5, 6}"
  using assms by (simp; presburger)

text \<open>The number of weeks the formula gives is the distance of the two week-1 Mondays.\<close>

lemma week1_monday_next:
  fixes y :: nat
  assumes "1 \<le> y"
  shows "week1_monday (int y + 1) = week1_monday (int y) + 7 * int (iso_weeks_in_year y)"
proof -
  define k where "k = jan1_wd (int y)"
  define l where "l = is_leap_year y"
  have leap: "leap_after (int y - 1) = l"
    using is_leap_int[of "int y"] by (simp add: l_def leap_after_def)
  have jan: "days_from_civil (int y + 1) 1 1 = days_from_civil (int y) 1 1 + (if l then 366 else 365)"
    using jan_number[of "int y + 1" 1] jan_number[of "int y" 1] day_number_step[of "int y - 1"] leap by simp
  have k': "jan1_wd (int y + 1) = (k + (if l then 366 else 365)) mod 7"
    unfolding k_def jan1_wd_def jan by (simp add: mod_add_left_eq)
  have f: "int ((1 + 5 * ((y - 1) mod 4) + 4 * ((y - 1) mod 100) + 6 * ((y - 1) mod 400)) mod 7) = (k + 1) mod 7"
    using jan1_formula[OF assms] by (simp add: k_def)
  have n: "iso_weeks_in_year y = (if (k + 1) mod 7 = 4 \<or> l \<and> (k + 1) mod 7 = 3 then 53 else 52)"
    unfolding f[symmetric] iso_weeks_in_year_def Let_def l_def is_leap_year_def by simp
  have "week1_monday (int y + 1) - week1_monday (int y) =
      (if l then 366 else 365) - (jan1_wd (int y + 1) + 3) mod 7 + (k + 3) mod 7"
    using week1_monday_wd[of "int y + 1"] week1_monday_wd[of "int y"] jan by (simp add: k_def)
  also have "\<dots> = 7 * int (iso_weeks_in_year y)"
  proof -
    have "k \<in> {0, 1, 2, 3, 4, 5, 6}" unfolding k_def by (intro wd_cases jan1_wd_bound)
    then show ?thesis unfolding k' n by (elim insertE emptyE; cases l) simp_all
  qed
  finally show ?thesis by linarith
qed

lemma week1_monday_near_jan1:
  assumes "0 \<le> y"
  shows "days_from_civil y 1 1 - 3 \<le> week1_monday y" "week1_monday y \<le> days_from_civil y 1 1 + 3"
proof -
  have "jan1_wd y \<in> {0, 1, 2, 3, 4, 5, 6}" by (intro wd_cases jan1_wd_bound)
  then show "days_from_civil y 1 1 - 3 \<le> week1_monday y" "week1_monday y \<le> days_from_civil y 1 1 + 3"
    unfolding week1_monday_wd[OF assms] by auto
qed

lemma week1_monday_is_monday: "0 \<le> y \<Longrightarrow> (week1_monday y + 3) mod 7 = 0"
proof -
  define j where "j = days_from_civil y 1 1 + 3 + 3"
  assume "0 \<le> y"
  then have "week1_monday y + 3 = j - j mod 7"
    unfolding week1_monday_wd[OF \<open>0 \<le> y\<close>] jan1_wd_def j_def
    by (simp add: mod_add_left_eq)
  then show ?thesis by (simp add: minus_mod_eq_mult_div)
qed

text \<open>The Thursday of a week decides its year; \<open>monday_of z\<close> is the Monday of the week of \<open>z\<close>.\<close>

definition monday_of :: "int \<Rightarrow> int" where
  "monday_of z = z - (iso_weekday z - 1)"

lemma monday_of_bounds: "monday_of z \<le> z" "z < monday_of z + 7" "(monday_of z + 3) mod 7 = 0"
proof -
  have m: "0 \<le> (z + 3) mod 7" "(z + 3) mod 7 < 7" by simp_all
  then show "monday_of z \<le> z" "z < monday_of z + 7" by (auto simp: monday_of_def iso_weekday_def)
  have "monday_of z + 3 = (z + 3) - (z + 3) mod 7" by (simp add: monday_of_def iso_weekday_def)
  then show "(monday_of z + 3) mod 7 = 0" by (simp add: minus_mod_eq_mult_div)
qed

lemma monday_unique:
  assumes "(a + 3) mod 7 = 0" "(b + 3) mod 7 = 0" "a \<le> z" "z < a + 7" "b \<le> z" "z < b + 7"
  shows "a = (b :: int)"
proof -
  obtain i j where ij: "a + 3 = 7 * i" "b + 3 = 7 * j" using assms(1,2) by (auto elim!: dvdE simp: mod_eq_0_iff_dvd)
  then have "7 * i < 7 * (j + 1)" "7 * j < 7 * (i + 1)" using assms(3,6) assms(4,5) by auto
  then have "i < j + 1" "j < i + 1" by simp_all
  then have "i = j" by simp
  with ij show ?thesis by simp
qed

section \<open>Labels\<close>

definition week_label :: "nat \<Rightarrow> nat \<Rightarrow> string" where
  "week_label y w = fixw 4 y @ ''-W'' @ fixw 2 w"

definition week_ok :: "nat \<Rightarrow> nat \<Rightarrow> bool" where
  "week_ok y w = (1000 \<le> y \<and> y \<le> 9999 \<and> 1 \<le> w \<and> w \<le> iso_weeks_in_year y)"

lemma weeks_le: "iso_weeks_in_year y \<le> 53"
  by (simp add: iso_weeks_in_year_def Let_def)

lemma fixw2: "fixw 2 n = [digit_char (n div 10 mod 10), digit_char (n mod 10)]"
  by (simp add: numeral_2_eq_2)

lemma fixw4: "fixw 4 n = [digit_char (n div 10 div 10 div 10 mod 10), digit_char (n div 10 div 10 mod 10),
    digit_char (n div 10 mod 10), digit_char (n mod 10)]"
proof -
  have "(4::nat) = Suc (Suc (Suc (Suc 0)))" by simp
  then show ?thesis by (simp only: fixw.simps append.simps)
qed

lemma digits_at_fixw:
  assumes "1 \<le> v" "v \<le> 9" "n < 10 ^ v" "i = length p"
  shows "digits_at (p @ fixw v n @ q) i (i + v) = Some n"
  using assms by (simp add: digits_at_def fixw_digits parse_u32_fixw)

lemma digits_at_stamp:
  assumes "y < 10000" "m < 100" "d < 100"
  shows "digits_at (stamp y m d h mi s) 0 4 = Some y" "digits_at (stamp y m d h mi s) 5 7 = Some m"
    "digits_at (stamp y m d h mi s) 8 10 = Some d"
  using assms digits_at_fixw[of 4 y 0 "[]"] digits_at_fixw[of 2 m 5 "fixw 4 y @ ''-''"]
    digits_at_fixw[of 2 d 8 "fixw 4 y @ ''-'' @ fixw 2 m @ ''-''"]
  by (simp_all add: stamp_def del: fixw.simps)

lemma is_fixed_stamp: "is_fixed_iso8601 (stamp y m d h mi s)"
  by (simp add: is_fixed_iso8601_def stamp_def fixw2 fixw4 digit_char_is_digit)

lemma digits_at_label:
  assumes "y < 10000" "w < 100"
  shows "digits_at (week_label y w) 0 4 = Some y" "digits_at (week_label y w) 6 8 = Some w"
  using assms digits_at_fixw[of 4 y 0 "[]"] digits_at_fixw[of 2 w 6 "fixw 4 y @ ''-W''" "[]"]
  by (simp_all add: week_label_def del: fixw.simps)

lemma canonical_label:
  assumes "week_ok y w"
  shows "canonical_iso_week (week_label y w) = Some (week_label y w)"
proof -
  have b: "y < 10000" "w < 100" using assms weeks_le[of y] by (auto simp: week_ok_def)
  have "length (week_label y w) = 8" "week_label y w ! 4 = CHR ''-''" "week_label y w ! 5 = CHR ''W''"
    by (simp_all add: week_label_def fixw2 fixw4)
  with b assms show ?thesis
    by (simp add: canonical_iso_week_def digits_at_label week_ok_def) (simp add: week_label_def pad0_fixw)
qed

lemma digits_at_bound: "digits_at s i j = Some n \<Longrightarrow> n < 10 ^ (j - i)"
proof -
  assume "digits_at s i j = Some n"
  then have "n < 10 ^ length (take (j - i) (drop i s))"
    by (auto simp: digits_at_def Let_def split: if_splits dest!: parse_u32_Some)
  also have "\<dots> \<le> 10 ^ (j - i)" by (intro power_increasing) auto
  finally show ?thesis .
qed

lemma canonical_iso_week_Some:
  assumes "canonical_iso_week s = Some c"
  obtains y w where "c = week_label y w" "week_ok y w"
proof -
  from assms obtain y w where yw: "digits_at s 0 4 = Some y" "digits_at s 6 8 = Some w" "1000 \<le> y" "w \<noteq> 0"
    "w \<le> iso_weeks_in_year y" "c = pad0 4 y @ ''-W'' @ pad0 2 w"
    by (auto simp: canonical_iso_week_def split: if_splits option.splits)
  have "y < 10000" using digits_at_bound[OF yw(1)] by simp
  moreover have "w < 100" using digits_at_bound[OF yw(2)] by simp
  ultimately show ?thesis
    using yw that[of y w] by (simp add: week_label_def week_ok_def pad0_fixw)
qed

lemma canonical_iso_week_idem: "canonical_iso_week s = Some c \<Longrightarrow> canonical_iso_week c = Some c"
  by (metis canonical_iso_week_Some canonical_label)

lemma week_label_inj:
  assumes "week_ok y w" "week_ok y' w'"
  shows "(week_label y w = week_label y' w') = (y = y' \<and> w = w')"
proof -
  have b: "y < 10000" "w < 100" "y' < 10000" "w' < 100"
    using assms weeks_le[of y] weeks_le[of y'] by (auto simp: week_ok_def)
  show ?thesis using digits_at_label[OF b(1,2)] digits_at_label[OF b(3,4)] by (metis option.inject)
qed

section \<open>The week of a timestamp\<close>

definition week_start :: "nat \<Rightarrow> nat \<Rightarrow> int" where
  "week_start y w = week1_monday (int y) + 7 * (int w - 1)"

lemma iso_week_bounds_label:
  assumes "week_ok y w"
  shows "iso_week_bounds (week_label y w) =
    Some (fmt_day_start (week_start y w), fmt_day_start (week_start y w + 7))"
proof -
  have b: "y < 10000" "w < 100" using assms weeks_le[of y] by (auto simp: week_ok_def)
  show ?thesis
    by (simp add: iso_week_bounds_def canonical_label[OF assms] digits_at_label[OF b] Let_def
        week_start_def algebra_simps)
qed

text \<open>The ISO year of a week lies between its week-1 Monday and the next one.\<close>

lemma monday_between:
  assumes z: "- 719000 \<le> z" and Y: "Y = fst (civil_from_days (monday_of z + 3))"
  shows "week1_monday Y \<le> monday_of z" "monday_of z < week1_monday (Y + 1)" "0 \<le> Y"
proof -
  define th where "th = monday_of z + 3"
  obtain m d where e: "civil_from_days th = (Y, m, d)" using Y by (metis th_def surj_pair fst_conv)
  have lo: "- 719468 \<le> th" using z monday_of_bounds[of z] by (simp add: th_def)
  note A = days_from_civil_from_days[OF lo e]
  show Y0: "0 \<le> Y" using A(1) by (simp add: civil_valid_def)
  have md: "1 \<le> m" "m \<le> 12" "1 \<le> d" using A(1) by (auto simp: civil_valid_def)
  have J: "civil_valid Y 1 1" "civil_valid (Y + 1) 1 1" using Y0 by (auto simp: civil_valid_def days_in_month_def)
  have "days_from_civil Y 1 1 \<le> th"
  proof -
    have "(Y, 1, 1) = (Y, m, d) \<or> date_less (Y, 1, 1) (Y, m, d)" using md by (auto simp: date_less_def)
    then show ?thesis using days_from_civil_less[OF J(1) A(1)] A(2) by auto
  qed
  moreover have "th < days_from_civil (Y + 1) 1 1"
    using days_from_civil_less[OF A(1) J(2)] A(2) by (simp add: date_less_def)
  moreover have n: "days_from_civil Y 1 1 - 3 \<le> week1_monday Y" "week1_monday Y \<le> days_from_civil Y 1 1 + 3"
      "days_from_civil (Y + 1) 1 1 - 3 \<le> week1_monday (Y + 1)"
    using week1_monday_near_jan1[of Y] week1_monday_near_jan1[of "Y + 1"] Y0 by auto
  ultimately have b: "days_from_civil Y 1 1 - 3 \<le> monday_of z" "monday_of z < week1_monday (Y + 1)"
    by (auto simp: th_def)
  then show "monday_of z < week1_monday (Y + 1)" by simp
  show "week1_monday Y \<le> monday_of z"
  proof (rule ccontr)
    assume c: "\<not> week1_monday Y \<le> monday_of z"
    then have "monday_of z = week1_monday Y"
      using b n
      by (intro monday_unique[OF monday_of_bounds(3)[of z] week1_monday_is_monday[OF Y0], of "week1_monday Y"]) linarith+
    with c show False by simp
  qed
qed

lemma trunc_div_nonneg: "0 \<le> a \<Longrightarrow> 0 < b \<Longrightarrow> trunc_div a b = a div b"
  by (cases "a = 0") (auto simp: trunc_div_def)

definition year_of_week :: "int \<Rightarrow> int" where
  "year_of_week z = fst (civil_from_days (monday_of z + 3))"

definition week_no :: "int \<Rightarrow> int" where
  "week_no z = (monday_of z - week1_monday (year_of_week z)) div 7 + 1"

lemma mondays_apart:
  assumes "(a + 3) mod 7 = 0" "(b + 3) mod 7 = (0 :: int)"
  shows "a = b + 7 * ((a - b) div 7)"
proof -
  obtain i j where ij: "a + 3 = 7 * i" "b + 3 = 7 * j" using assms by (auto elim!: dvdE simp: mod_eq_0_iff_dvd)
  then have "a - b = 7 * (i - j)" by simp
  then show ?thesis by simp
qed

lemma week_facts:
  assumes ok: "day_ok z" and lo: "- 719000 \<le> z"
  shows "0 \<le> year_of_week z" "year_of_week z \<le> 9999" "1 \<le> week_no z" "week_no z \<le> 53"
    "monday_of z = week1_monday (year_of_week z) + 7 * (week_no z - 1)"
proof -
  have m: "monday_of z \<le> z" "z < monday_of z + 7" "(monday_of z + 3) mod 7 = 0" by (rule monday_of_bounds)+
  obtain i where i: "monday_of z + 3 = 7 * i" using m(3) by (auto elim!: dvdE simp: mod_eq_0_iff_dvd)
  have "7 * i < 7 * 418986" using m(1) ok i by (auto simp: day_ok_def)
  then have "i \<le> 418985" by simp
  then have th: "day_ok (monday_of z + 3)" using m lo i by (auto simp: day_ok_def)
  obtain mo d where e: "civil_from_days (monday_of z + 3) = (year_of_week z, mo, d)"
    by (metis year_of_week_def surj_pair fst_conv)
  show Y: "0 \<le> year_of_week z" "year_of_week z \<le> 9999" using day_fields[OF th e] by auto
  have b: "week1_monday (year_of_week z) \<le> monday_of z" "monday_of z < week1_monday (year_of_week z + 1)"
    using monday_between[OF lo] by (auto simp: year_of_week_def)
  show mo: "monday_of z = week1_monday (year_of_week z) + 7 * (week_no z - 1)"
    using mondays_apart[OF m(3) week1_monday_is_monday[OF Y(1)]] by (simp add: week_no_def)
  show "1 \<le> week_no z" using b(1) by (simp add: week_no_def pos_imp_zdiv_nonneg_iff)
  have "week1_monday (year_of_week z + 1) \<le> week1_monday (year_of_week z) + 377"
    using week1_monday_near_jan1[of "year_of_week z"] week1_monday_near_jan1[of "year_of_week z + 1"] Y
      jan_number[of "year_of_week z" 1] jan_number[of "year_of_week z + 1" 1] day_number_step[of "year_of_week z - 1"]
    by (auto split: if_splits)
  then have "7 * (week_no z - 1) < 7 * 54" using mo b by linarith
  moreover have "week_no z \<noteq> 54"
  proof
    assume w: "week_no z = 54"
    show False
    proof (cases "1 \<le> year_of_week z")
      case True
      then have "week1_monday (year_of_week z + 1) \<le> week1_monday (year_of_week z) + 7 * 53"
        using week1_monday_next[of "nat (year_of_week z)"] weeks_le[of "nat (year_of_week z)"] by simp
      with mo b w show False by simp
    next
      case False
      with Y have "year_of_week z = 0" by simp
      moreover have "week1_monday 0 = -719526" "week1_monday (0 + 1) = - 719162" by code_simp+
      ultimately show False using mo b w by simp
    qed
  qed
  ultimately show "week_no z \<le> 53" by simp
qed

lemma year_1000_days:
  assumes ok: "day_ok z" and y: "1000 \<le> fst (civil_from_days z)"
  shows "- 354285 \<le> z"
proof -
  have jan: "days_from_civil 1000 1 1 = - 354285" by code_simp
  obtain y0 m0 d0 where e: "civil_from_days z = (y0, m0, d0)" by (metis surj_pair)
  note f = day_fields[OF ok e]
  have v: "civil_valid 1000 1 1" by (simp add: civil_valid_def days_in_month_def)
  have "date_less (1000, 1, 1) (y0, m0, d0) \<or> (1000, 1, 1) = (y0, m0, d0)"
    using y e f by (auto simp: date_less_def)
  moreover have "days_from_civil y0 m0 d0 = z"
    using days_from_civil_from_days[OF _ e] ok by (auto simp: day_ok_def)
  ultimately show ?thesis using days_from_civil_less[OF v f(7)] jan by auto
qed

lemma iso_week_of_stamp:
  assumes ok: "day_ok z" and y: "1000 \<le> fst (civil_from_days z)"
  shows "iso_week_of (day_stamp z r) = Some (week_label (nat (year_of_week z)) (nat (week_no z)))"
proof -
  obtain y m d where e: "civil_from_days z = (y, m, d)" by (metis surj_pair)
  note f = day_fields[OF ok e]
  have zlo: "- 719000 \<le> z" using year_1000_days[OF ok y] by simp
  note w = week_facts[OF ok zlo]
  have b: "nat y < 10000" "nat m < 100" "nat d < 100" using f by auto
  have v: "\<not> (nat y < 1000 \<or> nat m = 0 \<or> nat m > 12 \<or> nat d = 0 \<or> nat d > days_in_month (nat y) (nat m))"
    using f(3,4,5) f(7)[unfolded civil_valid_def] y[unfolded e fst_conv]
    by (simp add: not_less nat_le_iff le_nat_iff)
  have z: "days_from_civil (int (nat y)) (int (nat m)) (int (nat d)) = z"
    using days_from_civil_from_days(2)[OF _ e] zlo f(1,3,5) by simp
  have t: "trunc_div (monday_of z - week1_monday (year_of_week z)) 7 + 1 = week_no z"
  proof -
    have "monday_of z - week1_monday (year_of_week z) = 7 * (week_no z - 1)" using w(5) by simp
    moreover have "trunc_div (7 * (week_no z - 1)) 7 = week_no z - 1"
      using w(3) by (subst trunc_div_nonneg) simp_all
    ultimately show ?thesis by simp
  qed
  have s: "day_stamp z r = stamp (nat y) (nat m) (nat d) (r div 3600) ((r mod 3600) div 60) (r mod 60)"
    by (simp add: day_stamp_def e)
  show ?thesis
    unfolding s iso_week_of_def Let_def digits_at_stamp[OF b] z prod.case option.case
      monday_of_def[symmetric] year_of_week_def[symmetric] t if_not_P[OF v]
    using w by (simp add: is_fixed_stamp week_label_def fmt_fixw)
qed

text \<open>The two directions meet: a timestamp has the label of exactly the week whose days hold it.\<close>

lemma iso_week_of_iff:
  assumes ok: "day_ok z" and y: "1000 \<le> fst (civil_from_days z)" and w: "week_ok y w"
  shows "(iso_week_of (day_stamp z r) = Some (week_label y w)) = (week_start y w \<le> z \<and> z < week_start y w + 7)"
proof -
  have y1: "1 \<le> y" "y < 10000" "w < 100" "1 \<le> w" using w weeks_le[of y] by (auto simp: week_ok_def)
  have zlo: "- 719000 \<le> z" using year_1000_days[OF ok y] by simp
  note k = week_facts[OF ok zlo]
  note m = monday_of_bounds[of z]
  have n: "week1_monday (int y + 1) = week1_monday (int y) + 7 * int (iso_weeks_in_year y)"
    by (rule week1_monday_next[OF y1(1)])
  have "(week_label (nat (year_of_week z)) (nat (week_no z)) = week_label y w) =
      (nat (year_of_week z) = y \<and> nat (week_no z) = w)"
  proof -
    have b: "nat (year_of_week z) < 10000" "nat (week_no z) < 100" using k by auto
    show ?thesis using digits_at_label[OF b] digits_at_label[OF y1(2,3)] by (metis option.inject)
  qed
  also have "\<dots> = (year_of_week z = int y \<and> week_no z = int w)" using k by auto
  also have "\<dots> = (monday_of z = week_start y w)"
  proof
    assume "year_of_week z = int y \<and> week_no z = int w"
    then show "monday_of z = week_start y w" using k(5) by (simp add: week_start_def)
  next
    assume a: "monday_of z = week_start y w"
    have "days_from_civil (int y) 1 1 \<le> monday_of z + 3"
      using a week1_monday_near_jan1[of "int y"] y1 by (simp add: week_start_def)
    moreover have "monday_of z + 3 < days_from_civil (int y + 1) 1 1"
    proof -
      have "int w \<le> int (iso_weeks_in_year y)" using w by (simp add: week_ok_def)
      then show ?thesis using a n week1_monday_near_jan1[of "int y + 1"] by (simp add: week_start_def)
    qed
    ultimately have "int y \<le> year_of_week z \<and> year_of_week z < int y + 1"
      unfolding year_of_week_def using zlo m by (intro civil_year_bounds) auto
    then have "year_of_week z = int y" by simp
    with a k(5) show "year_of_week z = int y \<and> week_no z = int w" by (simp add: week_start_def)
  qed
  also have "\<dots> = (week_start y w \<le> z \<and> z < week_start y w + 7)"
  proof
    assume "week_start y w \<le> z \<and> z < week_start y w + 7"
    moreover have "(week_start y w + 3) mod 7 = 0"
    proof -
      have "week_start y w + 3 = (week1_monday (int y) + 3) + 7 * (int w - 1)" by (simp add: week_start_def)
      then show ?thesis using week1_monday_is_monday[of "int y"] by (simp only: mod_mult_self2)
    qed
    ultimately show "monday_of z = week_start y w" by (intro monday_unique[OF m(3) _ m(1,2)]) auto
  qed (use m in auto)
  finally show ?thesis unfolding iso_week_of_stamp[OF ok y] by simp
qed

lemma lexical_week:
  assumes secs: "secs < 253402300800" and w: "week_ok y w" and e: "week_start y w + 7 < 2932897"
  shows "iso_week_bounds (week_label y w) = Some (fmt_day_start (week_start y w), fmt_day_start (week_start y w + 7))"
    and "(fmt_day_start (week_start y w) \<le> iso8601_at secs \<and> iso8601_at secs < fmt_day_start (week_start y w + 7))
      = (iso_week_of (iso8601_at secs) = Some (week_label y w))"
proof -
  show "iso_week_bounds (week_label y w) = Some (fmt_day_start (week_start y w), fmt_day_start (week_start y w + 7))"
    by (rule iso_week_bounds_label[OF w])
  define z r where "z = int (secs div 86400)" and "r = secs mod 86400"
  have zr: "day_ok z" "r < 86400" "0 \<le> z"
    unfolding day_ok_def z_def r_def using secs less_mult_imp_div_less[of secs 2932897 86400] by simp_all
  have y: "1000 \<le> fst (civil_from_days z)"
  proof -
    have j: "days_from_civil 1000 1 1 = - 354285" "days_from_civil 10000 1 1 = 2932897" by code_simp+
    have "1000 \<le> fst (civil_from_days z) \<and> fst (civil_from_days z) < 10000"
      using zr(1,3) by (intro civil_year_bounds) (simp_all add: j day_ok_def)
    then show ?thesis by simp
  qed
  have "- 354285 - 3 \<le> week_start y w"
  proof -
    have y1: "1000 \<le> int y" "1 \<le> int w" using w by (auto simp: week_ok_def)
    have "days_from_civil 1000 1 1 \<le> days_from_civil (int y) 1 1"
      using jan_number[of 1000 1] jan_number[of "int y" 1] day_number_mono[of 999 "int y - 1"] y1 by simp
    moreover have "days_from_civil 1000 1 1 = - 354285" by code_simp
    ultimately show ?thesis using week1_monday_near_jan1[of "int y"] y1 by (simp add: week_start_def)
  qed
  then have ok: "day_ok (week_start y w)" "day_ok (week_start y w + 7)" using e by (auto simp: day_ok_def)
  have s: "iso8601_at secs = day_stamp z r" using iso8601_at_stamp[of secs] zr by (simp add: z_def r_def)
  show "(fmt_day_start (week_start y w) \<le> iso8601_at secs \<and> iso8601_at secs < fmt_day_start (week_start y w + 7))
      = (iso_week_of (iso8601_at secs) = Some (week_label y w))"
    unfolding s iso_week_of_iff[OF zr(1) y w] fmt_day_start_stamp[OF ok(1)] fmt_day_start_stamp[OF ok(2)]
      not_less[symmetric]
    using day_stamp_less_iff[OF zr(1) ok(1) zr(2), of 0] day_stamp_less_iff[OF zr(1) ok(2) zr(2), of 0] by auto
qed

lemma last_week_only:
  assumes "week_ok y w" "week_label y w \<noteq> ''9999-W52''"
  shows "week_start y w + 7 < 2932897"
proof -
  have y: "1 \<le> y" "y \<le> 9999" "int w \<le> int (iso_weeks_in_year y)" using assms(1) by (auto simp: week_ok_def)
  have n: "week1_monday (int y + 1) = week1_monday (int y) + 7 * int (iso_weeks_in_year y)"
    by (rule week1_monday_next[OF y(1)])
  have c: "week1_monday 9999 = 2932535" "iso_weeks_in_year 9999 = 52" "week_label 9999 52 = ''9999-W52''"
    by code_simp+
  show ?thesis
  proof (cases "y = 9999")
    case True
    with assms c have "w \<noteq> 52" by auto
    with True y c have "int w \<le> 51" by simp
    with True c show ?thesis by (simp add: week_start_def)
  next
    case False
    then have "int y \<le> 9998" using y by simp
    then have "days_from_civil (int y + 1) 1 1 \<le> days_from_civil 9999 1 1"
      using jan_number[of "int y + 1" 1] jan_number[of 9999 1] day_number_mono[of "int y" 9998] by simp
    moreover have "days_from_civil 9999 1 1 = 2932532" by code_simp
    ultimately show ?thesis
      using n y(3) week1_monday_near_jan1[of "int y + 1"] by (simp add: week_start_def)
  qed
qed

section \<open>Properties\<close>

text \<open>
  \<open>days_from_civil\<close> and \<open>civil_from_days\<close> are inverse to each other, on every valid civil date
  of the years from 0 on and on every day number from 0000-03-01 on (leap days and centuries
  included).
\<close>

lemma civil_round_trip:
  "(civil_valid y m d \<longrightarrow> civil_from_days (days_from_civil y m d) = (y, m, d)) \<and>
   (- 719468 \<le> z \<longrightarrow> (case civil_from_days z of (y, m, d) \<Rightarrow>
      civil_valid y m d \<and> days_from_civil y m d = z))"
  using civil_from_days_from_civil days_from_civil_from_days by (auto split: prod.splits)

theorem civil_round_trip_witness:
  "civil_from_days (days_from_civil 2028 2 29) = (2028, 2, 29) \<and>
   (case civil_from_days (- 719468) of (y, m, d) \<Rightarrow> civil_valid y m d \<and> days_from_civil y m d = - 719468)"
proof -
  have "civil_valid 2028 2 29" by code_simp
  then show ?thesis using civil_round_trip[of 2028 2 29 "- 719468"] by simp
qed

text \<open>
  the timestamp of any second before the year 10000 has the fixed shape the store demands,
  and comparing two timestamps as texts (as every ORDER BY, BETWEEN and \<open><=\<close> of the store does)
  is comparing the instants.
\<close>

lemma timestamp_order:
  assumes "a < 253402300800" "b < 253402300800"
  shows "(iso8601_at a < iso8601_at b) = (a < b) \<and> is_fixed_iso8601 (iso8601_at a)"
proof -
  have "day_ok (int (a div 86400))"
    unfolding day_ok_def using assms less_mult_imp_div_less[of a 2932897 86400] by simp
  then have "is_fixed_iso8601 (iso8601_at a)"
    by (simp add: iso8601_at_stamp day_stamp_def is_fixed_stamp split: prod.split)
  with iso8601_at_less_iff[OF assms] show ?thesis by simp
qed

theorem timestamp_order_witness:
  "iso8601_at 1767225599 < iso8601_at 1767225600 \<and> is_fixed_iso8601 (iso8601_at 1767225599)"
  using timestamp_order[of 1767225599 1767225600] by simp

text \<open>
  C15: a timestamp lies, as a text, between the two bounds of an ISO week exactly when
  \<open>iso_week_of\<close> gives it that week's label; the bounds accept the lower-case spelling of the
  label too. The last week of the year 9999 is left out, since its end has five year digits.
\<close>

theorem week_bounds_exact:
  assumes "canonical_iso_week label = Some w" "w \<noteq> ''9999-W52''" "secs < 253402300800"
  shows "\<exists>s e. iso_week_bounds label = Some (s, e) \<and>
    (s \<le> iso8601_at secs \<and> iso8601_at secs < e) = (iso_week_of (iso8601_at secs) = Some w)"
proof -
  obtain y k where w: "w = week_label y k" "week_ok y k" by (rule canonical_iso_week_Some[OF assms(1)])
  have "iso_week_bounds label = iso_week_bounds w"
    using assms(1) canonical_iso_week_idem[OF assms(1)] by (simp add: iso_week_bounds_def)
  then show ?thesis
    using lexical_week[OF assms(3) w(2) last_week_only[OF w(2)]] assms(2) w(1) by metis
qed

theorem week_bounds_exact_witness:
  "\<exists>s e. iso_week_bounds ''2026-w53'' = Some (s, e) \<and>
    (s \<le> iso8601_at 1798761600 \<and> iso8601_at 1798761600 < e) =
      (iso_week_of (iso8601_at 1798761600) = Some ''2026-W53'')"
proof -
  have "canonical_iso_week ''2026-w53'' = Some ''2026-W53''" by code_simp
  then show ?thesis by (rule week_bounds_exact) simp_all
qed

text \<open>
  the weeks leave no gap and do not overlap: the day after a week's Sunday is the Monday of
  the next label, across the year boundary too, with the number of weeks the formula of
  \<open>iso_weeks_in_year\<close> gives.
\<close>

lemma weeks_tile:
  assumes "week_ok y w"
  shows "(if w < iso_weeks_in_year y then week_ok y (w + 1) \<and> week_start y (w + 1) = week_start y w + 7
          else week_start (y + 1) 1 = week_start y w + 7)"
proof (cases "w < iso_weeks_in_year y")
  case False
  then have "w = iso_weeks_in_year y" using assms by (simp add: week_ok_def)
  then show ?thesis
    using week1_monday_next[of y] assms False by (simp add: week_start_def week_ok_def add.commute)
qed (use assms in \<open>simp add: week_ok_def week_start_def\<close>)

theorem weeks_tile_witness:
  "week_start 2027 1 = week_start 2026 53 + 7 \<and> week_start 2025 2 = week_start 2025 1 + 7"
proof -
  have k: "week_ok 2026 53" "week_ok 2025 1" "\<not> 53 < iso_weeks_in_year 2026" "1 < iso_weeks_in_year 2025"
    by code_simp+
  show ?thesis using weeks_tile[OF k(1)] weeks_tile[OF k(2)] k(3,4) by (simp add: numeral_2_eq_2)
qed

section \<open>Where the code and its documentation part\<close>

text \<open>
  Three corners: for negative years the era is floored twice, so the conversion is not the
  inverse its comment promises (no caller passes such a year); the exclusive end of the last
  week of 9999 has five year digits and sorts before every timestamp of that week; and the
  first day of 1000-W01 lies in the year 999, which \<open>iso_week_of\<close> refuses.
\<close>

lemma negative_era_not_inverse: "civil_from_days (days_from_civil (- 4) 3 1) = (- 4, 2, 29)"
  by code_simp

lemma last_week_end_not_ordered:
  "iso_week_bounds ''9999-W52'' = Some (''9999-12-27T00:00:00Z'', ''10000-01-03T00:00:00Z'')
   \<and> iso_week_of ''9999-12-28T00:00:00Z'' = Some ''9999-W52''
   \<and> \<not> ''9999-12-28T00:00:00Z'' < ''10000-01-03T00:00:00Z''"
  by code_simp

lemma first_week_start_refused:
  "iso_week_bounds ''1000-W01'' = Some (''0999-12-30T00:00:00Z'', ''1000-01-06T00:00:00Z'')
   \<and> iso_week_of ''0999-12-30T00:00:00Z'' = None"
  by code_simp

end
