(* ===== verification/Types.thy ===== *)
theory Types
  imports Prelude
begin

text \<open>
  The wire shapes of \<open>src/core/types.rs\<close>: the status and value enumerations with the
  snake_case names serde gives them on the JSON wire and in the TEXT columns
  (\<open>to_wire\<close>/\<open>from_wire\<close> of \<open>src/store/repo.rs\<close>), and the entity structs as records.
  The constructors of an enumeration carry its name as a prefix, since several
  enumerations of the source share variant names; record fields carry the entity's.
\<close>

section \<open>Identifiers\<close>

type_synonym DirectionId = string
type_synonym TaskId = string
type_synonym WeekId = string
type_synonym RhythmId = string
type_synonym ScheduleBlockId = string
type_synonym ReviewId = string
type_synonym AreaId = string
type_synonym RoutineId = string

definition TRIAGE_DIRECTION_ID :: DirectionId where
  "TRIAGE_DIRECTION_ID = ''sin90-triage''"

section \<open>Enumerations\<close>

datatype AreaStatus = Area_Active | Area_Archived

datatype DirectionStatus = Direction_Draft | Direction_Active | Direction_Paused | Direction_Achieved | Direction_Abandoned

datatype TaskStatus = Task_Backlog | Task_Planned | Task_InProgress | Task_Done | Task_Dropped | Task_CarriedOver

datatype WeekStatus = Week_Planning | Week_Active | Week_Reviewing | Week_Closed

datatype ScheduleBlockStatus = Block_Planned | Block_Started | Block_Completed | Block_Skipped

datatype RhythmStatus = Rhythm_Active | Rhythm_Adjusted | Rhythm_Retired

datatype ReviewStatus = Review_Draft | Review_Finalized

datatype RoutineStatus = Routine_Active | Routine_Paused | Routine_Retired

datatype RoutineKind = RoutineKind_DeepWork | RoutineKind_Exercise | RoutineKind_Review | RoutineKind_Read | RoutineKind_Other

datatype ProposalStatus = Proposal_Pending | Proposal_Applying | Proposal_Applied | Proposal_Rejected

datatype TaskKind = TaskKind_DeepWork | TaskKind_Admin | TaskKind_Meeting | TaskKind_Learning | TaskKind_Other

datatype Energy = Energy_High | Energy_Mid | Energy_Low

datatype ReviewKind = ReviewKind_Daily | ReviewKind_Weekly | ReviewKind_Rhythm

datatype FireTrigger = Trigger_Tick | Trigger_RunNow

section \<open>Their wire names\<close>

fun area_status_wire :: "AreaStatus \<Rightarrow> string" where
  "area_status_wire Area_Active = ''active''"
| "area_status_wire Area_Archived = ''archived''"

definition area_status_of :: "string \<Rightarrow> AreaStatus option" where
  "area_status_of t =
     (if t = ''active'' then Some Area_Active
      else if t = ''archived'' then Some Area_Archived
      else None)"

lemma area_status_codec: "wire_codec area_status_wire area_status_of"
proof
  show "area_status_of (area_status_wire x) = Some x" for x
    by (cases x) (simp_all add: area_status_of_def)
  show "area_status_of t = Some x \<Longrightarrow> area_status_wire x = t" for t x
    by (auto simp: area_status_of_def split: if_splits)
qed

interpretation area_status: wire_codec area_status_wire area_status_of
  by (rule area_status_codec)

fun direction_status_wire :: "DirectionStatus \<Rightarrow> string" where
  "direction_status_wire Direction_Draft = ''draft''"
| "direction_status_wire Direction_Active = ''active''"
| "direction_status_wire Direction_Paused = ''paused''"
| "direction_status_wire Direction_Achieved = ''achieved''"
| "direction_status_wire Direction_Abandoned = ''abandoned''"

definition direction_status_of :: "string \<Rightarrow> DirectionStatus option" where
  "direction_status_of t =
     (if t = ''draft'' then Some Direction_Draft
      else if t = ''active'' then Some Direction_Active
      else if t = ''paused'' then Some Direction_Paused
      else if t = ''achieved'' then Some Direction_Achieved
      else if t = ''abandoned'' then Some Direction_Abandoned
      else None)"

lemma direction_status_codec: "wire_codec direction_status_wire direction_status_of"
proof
  show "direction_status_of (direction_status_wire x) = Some x" for x
    by (cases x) (simp_all add: direction_status_of_def)
  show "direction_status_of t = Some x \<Longrightarrow> direction_status_wire x = t" for t x
    by (auto simp: direction_status_of_def split: if_splits)
qed

interpretation direction_status: wire_codec direction_status_wire direction_status_of
  by (rule direction_status_codec)

fun task_status_wire :: "TaskStatus \<Rightarrow> string" where
  "task_status_wire Task_Backlog = ''backlog''"
| "task_status_wire Task_Planned = ''planned''"
| "task_status_wire Task_InProgress = ''in_progress''"
| "task_status_wire Task_Done = ''done''"
| "task_status_wire Task_Dropped = ''dropped''"
| "task_status_wire Task_CarriedOver = ''carried_over''"

definition task_status_of :: "string \<Rightarrow> TaskStatus option" where
  "task_status_of t =
     (if t = ''backlog'' then Some Task_Backlog
      else if t = ''planned'' then Some Task_Planned
      else if t = ''in_progress'' then Some Task_InProgress
      else if t = ''done'' then Some Task_Done
      else if t = ''dropped'' then Some Task_Dropped
      else if t = ''carried_over'' then Some Task_CarriedOver
      else None)"

lemma task_status_codec: "wire_codec task_status_wire task_status_of"
proof
  show "task_status_of (task_status_wire x) = Some x" for x
    by (cases x) (simp_all add: task_status_of_def)
  show "task_status_of t = Some x \<Longrightarrow> task_status_wire x = t" for t x
    by (auto simp: task_status_of_def split: if_splits)
qed

interpretation task_status: wire_codec task_status_wire task_status_of
  by (rule task_status_codec)

fun week_status_wire :: "WeekStatus \<Rightarrow> string" where
  "week_status_wire Week_Planning = ''planning''"
| "week_status_wire Week_Active = ''active''"
| "week_status_wire Week_Reviewing = ''reviewing''"
| "week_status_wire Week_Closed = ''closed''"

definition week_status_of :: "string \<Rightarrow> WeekStatus option" where
  "week_status_of t =
     (if t = ''planning'' then Some Week_Planning
      else if t = ''active'' then Some Week_Active
      else if t = ''reviewing'' then Some Week_Reviewing
      else if t = ''closed'' then Some Week_Closed
      else None)"

lemma week_status_codec: "wire_codec week_status_wire week_status_of"
proof
  show "week_status_of (week_status_wire x) = Some x" for x
    by (cases x) (simp_all add: week_status_of_def)
  show "week_status_of t = Some x \<Longrightarrow> week_status_wire x = t" for t x
    by (auto simp: week_status_of_def split: if_splits)
qed

interpretation week_status: wire_codec week_status_wire week_status_of
  by (rule week_status_codec)

fun schedule_block_status_wire :: "ScheduleBlockStatus \<Rightarrow> string" where
  "schedule_block_status_wire Block_Planned = ''planned''"
| "schedule_block_status_wire Block_Started = ''started''"
| "schedule_block_status_wire Block_Completed = ''completed''"
| "schedule_block_status_wire Block_Skipped = ''skipped''"

definition schedule_block_status_of :: "string \<Rightarrow> ScheduleBlockStatus option" where
  "schedule_block_status_of t =
     (if t = ''planned'' then Some Block_Planned
      else if t = ''started'' then Some Block_Started
      else if t = ''completed'' then Some Block_Completed
      else if t = ''skipped'' then Some Block_Skipped
      else None)"

lemma schedule_block_status_codec: "wire_codec schedule_block_status_wire schedule_block_status_of"
proof
  show "schedule_block_status_of (schedule_block_status_wire x) = Some x" for x
    by (cases x) (simp_all add: schedule_block_status_of_def)
  show "schedule_block_status_of t = Some x \<Longrightarrow> schedule_block_status_wire x = t" for t x
    by (auto simp: schedule_block_status_of_def split: if_splits)
qed

interpretation schedule_block_status: wire_codec schedule_block_status_wire schedule_block_status_of
  by (rule schedule_block_status_codec)

fun rhythm_status_wire :: "RhythmStatus \<Rightarrow> string" where
  "rhythm_status_wire Rhythm_Active = ''active''"
| "rhythm_status_wire Rhythm_Adjusted = ''adjusted''"
| "rhythm_status_wire Rhythm_Retired = ''retired''"

definition rhythm_status_of :: "string \<Rightarrow> RhythmStatus option" where
  "rhythm_status_of t =
     (if t = ''active'' then Some Rhythm_Active
      else if t = ''adjusted'' then Some Rhythm_Adjusted
      else if t = ''retired'' then Some Rhythm_Retired
      else None)"

lemma rhythm_status_codec: "wire_codec rhythm_status_wire rhythm_status_of"
proof
  show "rhythm_status_of (rhythm_status_wire x) = Some x" for x
    by (cases x) (simp_all add: rhythm_status_of_def)
  show "rhythm_status_of t = Some x \<Longrightarrow> rhythm_status_wire x = t" for t x
    by (auto simp: rhythm_status_of_def split: if_splits)
qed

interpretation rhythm_status: wire_codec rhythm_status_wire rhythm_status_of
  by (rule rhythm_status_codec)

fun review_status_wire :: "ReviewStatus \<Rightarrow> string" where
  "review_status_wire Review_Draft = ''draft''"
| "review_status_wire Review_Finalized = ''finalized''"

definition review_status_of :: "string \<Rightarrow> ReviewStatus option" where
  "review_status_of t =
     (if t = ''draft'' then Some Review_Draft
      else if t = ''finalized'' then Some Review_Finalized
      else None)"

lemma review_status_codec: "wire_codec review_status_wire review_status_of"
proof
  show "review_status_of (review_status_wire x) = Some x" for x
    by (cases x) (simp_all add: review_status_of_def)
  show "review_status_of t = Some x \<Longrightarrow> review_status_wire x = t" for t x
    by (auto simp: review_status_of_def split: if_splits)
qed

interpretation review_status: wire_codec review_status_wire review_status_of
  by (rule review_status_codec)

fun routine_status_wire :: "RoutineStatus \<Rightarrow> string" where
  "routine_status_wire Routine_Active = ''active''"
| "routine_status_wire Routine_Paused = ''paused''"
| "routine_status_wire Routine_Retired = ''retired''"

definition routine_status_of :: "string \<Rightarrow> RoutineStatus option" where
  "routine_status_of t =
     (if t = ''active'' then Some Routine_Active
      else if t = ''paused'' then Some Routine_Paused
      else if t = ''retired'' then Some Routine_Retired
      else None)"

lemma routine_status_codec: "wire_codec routine_status_wire routine_status_of"
proof
  show "routine_status_of (routine_status_wire x) = Some x" for x
    by (cases x) (simp_all add: routine_status_of_def)
  show "routine_status_of t = Some x \<Longrightarrow> routine_status_wire x = t" for t x
    by (auto simp: routine_status_of_def split: if_splits)
qed

interpretation routine_status: wire_codec routine_status_wire routine_status_of
  by (rule routine_status_codec)

fun routine_kind_wire :: "RoutineKind \<Rightarrow> string" where
  "routine_kind_wire RoutineKind_DeepWork = ''deep_work''"
| "routine_kind_wire RoutineKind_Exercise = ''exercise''"
| "routine_kind_wire RoutineKind_Review = ''review''"
| "routine_kind_wire RoutineKind_Read = ''read''"
| "routine_kind_wire RoutineKind_Other = ''other''"

definition routine_kind_of :: "string \<Rightarrow> RoutineKind option" where
  "routine_kind_of t =
     (if t = ''deep_work'' then Some RoutineKind_DeepWork
      else if t = ''exercise'' then Some RoutineKind_Exercise
      else if t = ''review'' then Some RoutineKind_Review
      else if t = ''read'' then Some RoutineKind_Read
      else if t = ''other'' then Some RoutineKind_Other
      else None)"

lemma routine_kind_codec: "wire_codec routine_kind_wire routine_kind_of"
proof
  show "routine_kind_of (routine_kind_wire x) = Some x" for x
    by (cases x) (simp_all add: routine_kind_of_def)
  show "routine_kind_of t = Some x \<Longrightarrow> routine_kind_wire x = t" for t x
    by (auto simp: routine_kind_of_def split: if_splits)
qed

interpretation routine_kind: wire_codec routine_kind_wire routine_kind_of
  by (rule routine_kind_codec)

fun proposal_status_wire :: "ProposalStatus \<Rightarrow> string" where
  "proposal_status_wire Proposal_Pending = ''pending''"
| "proposal_status_wire Proposal_Applying = ''applying''"
| "proposal_status_wire Proposal_Applied = ''applied''"
| "proposal_status_wire Proposal_Rejected = ''rejected''"

definition proposal_status_of :: "string \<Rightarrow> ProposalStatus option" where
  "proposal_status_of t =
     (if t = ''pending'' then Some Proposal_Pending
      else if t = ''applying'' then Some Proposal_Applying
      else if t = ''applied'' then Some Proposal_Applied
      else if t = ''rejected'' then Some Proposal_Rejected
      else None)"

lemma proposal_status_codec: "wire_codec proposal_status_wire proposal_status_of"
proof
  show "proposal_status_of (proposal_status_wire x) = Some x" for x
    by (cases x) (simp_all add: proposal_status_of_def)
  show "proposal_status_of t = Some x \<Longrightarrow> proposal_status_wire x = t" for t x
    by (auto simp: proposal_status_of_def split: if_splits)
qed

interpretation proposal_status: wire_codec proposal_status_wire proposal_status_of
  by (rule proposal_status_codec)

fun task_kind_wire :: "TaskKind \<Rightarrow> string" where
  "task_kind_wire TaskKind_DeepWork = ''deep_work''"
| "task_kind_wire TaskKind_Admin = ''admin''"
| "task_kind_wire TaskKind_Meeting = ''meeting''"
| "task_kind_wire TaskKind_Learning = ''learning''"
| "task_kind_wire TaskKind_Other = ''other''"

definition task_kind_of :: "string \<Rightarrow> TaskKind option" where
  "task_kind_of t =
     (if t = ''deep_work'' then Some TaskKind_DeepWork
      else if t = ''admin'' then Some TaskKind_Admin
      else if t = ''meeting'' then Some TaskKind_Meeting
      else if t = ''learning'' then Some TaskKind_Learning
      else if t = ''other'' then Some TaskKind_Other
      else None)"

lemma task_kind_codec: "wire_codec task_kind_wire task_kind_of"
proof
  show "task_kind_of (task_kind_wire x) = Some x" for x
    by (cases x) (simp_all add: task_kind_of_def)
  show "task_kind_of t = Some x \<Longrightarrow> task_kind_wire x = t" for t x
    by (auto simp: task_kind_of_def split: if_splits)
qed

interpretation task_kind: wire_codec task_kind_wire task_kind_of
  by (rule task_kind_codec)

fun energy_wire :: "Energy \<Rightarrow> string" where
  "energy_wire Energy_High = ''high''"
| "energy_wire Energy_Mid = ''mid''"
| "energy_wire Energy_Low = ''low''"

definition energy_of :: "string \<Rightarrow> Energy option" where
  "energy_of t =
     (if t = ''high'' then Some Energy_High
      else if t = ''mid'' then Some Energy_Mid
      else if t = ''low'' then Some Energy_Low
      else None)"

lemma energy_codec: "wire_codec energy_wire energy_of"
proof
  show "energy_of (energy_wire x) = Some x" for x
    by (cases x) (simp_all add: energy_of_def)
  show "energy_of t = Some x \<Longrightarrow> energy_wire x = t" for t x
    by (auto simp: energy_of_def split: if_splits)
qed

interpretation energy: wire_codec energy_wire energy_of
  by (rule energy_codec)

fun review_kind_wire :: "ReviewKind \<Rightarrow> string" where
  "review_kind_wire ReviewKind_Daily = ''daily''"
| "review_kind_wire ReviewKind_Weekly = ''weekly''"
| "review_kind_wire ReviewKind_Rhythm = ''rhythm''"

definition review_kind_of :: "string \<Rightarrow> ReviewKind option" where
  "review_kind_of t =
     (if t = ''daily'' then Some ReviewKind_Daily
      else if t = ''weekly'' then Some ReviewKind_Weekly
      else if t = ''rhythm'' then Some ReviewKind_Rhythm
      else None)"

lemma review_kind_codec: "wire_codec review_kind_wire review_kind_of"
proof
  show "review_kind_of (review_kind_wire x) = Some x" for x
    by (cases x) (simp_all add: review_kind_of_def)
  show "review_kind_of t = Some x \<Longrightarrow> review_kind_wire x = t" for t x
    by (auto simp: review_kind_of_def split: if_splits)
qed

interpretation review_kind: wire_codec review_kind_wire review_kind_of
  by (rule review_kind_codec)

fun fire_trigger_wire :: "FireTrigger \<Rightarrow> string" where
  "fire_trigger_wire Trigger_Tick = ''tick''"
| "fire_trigger_wire Trigger_RunNow = ''run_now''"

definition fire_trigger_of :: "string \<Rightarrow> FireTrigger option" where
  "fire_trigger_of t =
     (if t = ''tick'' then Some Trigger_Tick
      else if t = ''run_now'' then Some Trigger_RunNow
      else None)"

lemma fire_trigger_codec: "wire_codec fire_trigger_wire fire_trigger_of"
proof
  show "fire_trigger_of (fire_trigger_wire x) = Some x" for x
    by (cases x) (simp_all add: fire_trigger_of_def)
  show "fire_trigger_of t = Some x \<Longrightarrow> fire_trigger_wire x = t" for t x
    by (auto simp: fire_trigger_of_def split: if_splits)
qed

interpretation fire_trigger: wire_codec fire_trigger_wire fire_trigger_of
  by (rule fire_trigger_codec)

lemmas wire_injs [wire_simps] = area_status.wire_inj direction_status.wire_inj task_status.wire_inj week_status.wire_inj schedule_block_status.wire_inj rhythm_status.wire_inj review_status.wire_inj routine_status.wire_inj routine_kind.wire_inj proposal_status.wire_inj task_kind.wire_inj energy.wire_inj review_kind.wire_inj fire_trigger.wire_inj

lemmas wire_reads [wire_simps] = area_status.read_write direction_status.read_write task_status.read_write week_status.read_write schedule_block_status.read_write rhythm_status.read_write review_status.read_write routine_status.read_write routine_kind.read_write proposal_status.read_write task_kind.read_write energy.read_write review_kind.read_write fire_trigger.read_write

section \<open>Entities\<close>

record Alloc =
  al_direction_id :: DirectionId
  al_pct :: u32

record Area =
  ar_id :: AreaId
  ar_title :: string
  ar_slug :: string
  ar_status :: AreaStatus
  ar_sort_key :: int
  ar_created_at :: string
  ar_updated_at :: string

record Direction =
  di_id :: DirectionId
  di_area_id :: "AreaId option"
  di_title :: string
  di_status :: DirectionStatus
  di_target_window :: string
  di_created_at :: string
  di_updated_at :: string

record Task =
  tk_id :: TaskId
  tk_direction_id :: "DirectionId option"
  tk_week_id :: "WeekId option"
  tk_parent_task_id :: "TaskId option"
  tk_title :: string
  tk_status :: TaskStatus
  tk_kind :: TaskKind
  tk_energy :: Energy
  tk_est_minutes :: "u32 option"
  tk_carried_from :: "TaskId option"
  tk_created_at :: string
  tk_updated_at :: string

record Week =
  wk_id :: WeekId
  wk_status :: WeekStatus
  wk_iso_week :: string
  wk_created_at :: string
  wk_updated_at :: string

record Rhythm =
  rh_id :: RhythmId
  rh_status :: RhythmStatus
  rh_allocations :: "Alloc list"
  rh_created_at :: string
  rh_updated_at :: string

record ScheduleBlock =
  bl_id :: ScheduleBlockId
  bl_direction_id :: "DirectionId option"
  bl_task_id :: "TaskId option"
  bl_status :: ScheduleBlockStatus
  bl_planned_minutes :: u32
  bl_created_at :: string
  bl_updated_at :: string

record Review =
  rv_id :: ReviewId
  rv_kind :: ReviewKind
  rv_status :: ReviewStatus
  rv_week_id :: "WeekId option"
  rv_period :: string
  rv_body :: string
  rv_body_ref :: "string option"
  rv_created_at :: string
  rv_updated_at :: string

record NewReview =
  nr_kind :: ReviewKind
  nr_period :: string

record Routine =
  ro_id :: RoutineId
  ro_area_id :: "AreaId option"
  ro_direction_id :: "DirectionId option"
  ro_title :: string
  ro_kind :: RoutineKind
  ro_cron :: string
  ro_tz :: string
  ro_target_count :: "u32 option"
  ro_target_minutes :: "u32 option"
  ro_status :: RoutineStatus
  ro_created_at :: string
  ro_updated_at :: string

record NewRoutine =
  nro_title :: string
  nro_area_id :: "AreaId option"
  nro_direction_id :: "DirectionId option"
  nro_kind :: RoutineKind
  nro_cron :: string
  nro_tz :: "string option"
  nro_target_count :: "u32 option"
  nro_target_minutes :: "u32 option"

text \<open>
  A patch tells an absent key (\<open>None\<close>) from \<open>null\<close> (\<open>Some None\<close>) and from a value, for
  the two nullable columns.
\<close>

record RoutinePatch =
  rp_title :: "string option"
  rp_cron :: "string option"
  rp_tz :: "string option"
  rp_target_count :: "u32 option option"
  rp_target_minutes :: "u32 option option"

definition RoutinePatch_default :: RoutinePatch where
  "RoutinePatch_default = \<lparr>rp_title = None, rp_cron = None, rp_tz = None,
     rp_target_count = None, rp_target_minutes = None\<rparr>"

end
