(* ===== verification/Transitions.thy ===== *)
theory Transitions
  imports Types
begin

text \<open>
  The legal status transitions of \<open>src/core/transitions.rs\<close>: one \<open>matches!\<close> matrix per
  entity, the \<open>check_*\<close> wrappers with their precise error, the \<open>*_is_terminal\<close> predicates
  and \<open>week_is_open\<close>. The interface \<open>status_machine\<close> states what the store relies on (no
  edge leaves a terminal status); every machine of the source interprets it, and the
  facts about whole runs of a machine are proved once inside it.
\<close>

datatype TransitionError =
    TE_Area AreaStatus AreaStatus
  | TE_Direction DirectionStatus DirectionStatus
  | TE_Proposal ProposalStatus ProposalStatus
  | TE_Task TaskStatus TaskStatus
  | TE_Week WeekStatus WeekStatus
  | TE_ScheduleBlock ScheduleBlockStatus ScheduleBlockStatus
  | TE_Rhythm RhythmStatus RhythmStatus
  | TE_Review ReviewStatus ReviewStatus
  | TE_Routine RoutineStatus RoutineStatus

section \<open>The matrices\<close>

fun area_transition_allowed :: "AreaStatus \<Rightarrow> AreaStatus \<Rightarrow> bool" where
  "area_transition_allowed Area_Active Area_Archived = True"
| "area_transition_allowed Area_Archived Area_Active = True"
| "area_transition_allowed _ _ = False"

definition check_area_transition :: "AreaStatus \<Rightarrow> AreaStatus \<Rightarrow> TransitionError + unit" where
  "check_area_transition f t = (if area_transition_allowed f t then Inr () else Inl (TE_Area f t))"

fun direction_transition_allowed :: "DirectionStatus \<Rightarrow> DirectionStatus \<Rightarrow> bool" where
  "direction_transition_allowed Direction_Draft Direction_Active = True"
| "direction_transition_allowed Direction_Draft Direction_Abandoned = True"
| "direction_transition_allowed Direction_Active Direction_Achieved = True"
| "direction_transition_allowed Direction_Active Direction_Abandoned = True"
| "direction_transition_allowed Direction_Active Direction_Paused = True"
| "direction_transition_allowed Direction_Paused Direction_Active = True"
| "direction_transition_allowed Direction_Paused Direction_Abandoned = True"
| "direction_transition_allowed _ _ = False"

definition check_direction_transition ::
  "DirectionStatus \<Rightarrow> DirectionStatus \<Rightarrow> TransitionError + unit" where
  "check_direction_transition f t =
     (if direction_transition_allowed f t then Inr () else Inl (TE_Direction f t))"

fun direction_is_terminal :: "DirectionStatus \<Rightarrow> bool" where
  "direction_is_terminal Direction_Achieved = True"
| "direction_is_terminal Direction_Abandoned = True"
| "direction_is_terminal _ = False"

fun task_transition_allowed :: "TaskStatus \<Rightarrow> TaskStatus \<Rightarrow> bool" where
  "task_transition_allowed Task_Backlog Task_Planned = True"
| "task_transition_allowed Task_Backlog Task_Dropped = True"
| "task_transition_allowed Task_Planned Task_InProgress = True"
| "task_transition_allowed Task_Planned Task_Dropped = True"
| "task_transition_allowed Task_Planned Task_CarriedOver = True"
| "task_transition_allowed Task_InProgress Task_Done = True"
| "task_transition_allowed Task_InProgress Task_Dropped = True"
| "task_transition_allowed Task_InProgress Task_CarriedOver = True"
| "task_transition_allowed _ _ = False"

definition check_task_transition :: "TaskStatus \<Rightarrow> TaskStatus \<Rightarrow> TransitionError + unit" where
  "check_task_transition f t = (if task_transition_allowed f t then Inr () else Inl (TE_Task f t))"

fun task_is_terminal :: "TaskStatus \<Rightarrow> bool" where
  "task_is_terminal Task_Done = True"
| "task_is_terminal Task_Dropped = True"
| "task_is_terminal Task_CarriedOver = True"
| "task_is_terminal _ = False"

fun week_transition_allowed :: "WeekStatus \<Rightarrow> WeekStatus \<Rightarrow> bool" where
  "week_transition_allowed Week_Planning Week_Active = True"
| "week_transition_allowed Week_Active Week_Reviewing = True"
| "week_transition_allowed Week_Reviewing Week_Closed = True"
| "week_transition_allowed _ _ = False"

definition check_week_transition :: "WeekStatus \<Rightarrow> WeekStatus \<Rightarrow> TransitionError + unit" where
  "check_week_transition f t = (if week_transition_allowed f t then Inr () else Inl (TE_Week f t))"

definition week_is_terminal :: "WeekStatus \<Rightarrow> bool" where
  "week_is_terminal s = (s = Week_Closed)"

fun week_is_open :: "WeekStatus \<Rightarrow> bool" where
  "week_is_open Week_Planning = True"
| "week_is_open Week_Active = True"
| "week_is_open _ = False"

fun schedule_block_transition_allowed :: "ScheduleBlockStatus \<Rightarrow> ScheduleBlockStatus \<Rightarrow> bool" where
  "schedule_block_transition_allowed Block_Planned Block_Started = True"
| "schedule_block_transition_allowed Block_Planned Block_Skipped = True"
| "schedule_block_transition_allowed Block_Started Block_Completed = True"
| "schedule_block_transition_allowed Block_Started Block_Skipped = True"
| "schedule_block_transition_allowed _ _ = False"

definition check_schedule_block_transition ::
  "ScheduleBlockStatus \<Rightarrow> ScheduleBlockStatus \<Rightarrow> TransitionError + unit" where
  "check_schedule_block_transition f t =
     (if schedule_block_transition_allowed f t then Inr () else Inl (TE_ScheduleBlock f t))"

fun schedule_block_is_terminal :: "ScheduleBlockStatus \<Rightarrow> bool" where
  "schedule_block_is_terminal Block_Completed = True"
| "schedule_block_is_terminal Block_Skipped = True"
| "schedule_block_is_terminal _ = False"

fun rhythm_transition_allowed :: "RhythmStatus \<Rightarrow> RhythmStatus \<Rightarrow> bool" where
  "rhythm_transition_allowed Rhythm_Active Rhythm_Adjusted = True"
| "rhythm_transition_allowed Rhythm_Active Rhythm_Retired = True"
| "rhythm_transition_allowed Rhythm_Adjusted Rhythm_Adjusted = True"
| "rhythm_transition_allowed Rhythm_Adjusted Rhythm_Retired = True"
| "rhythm_transition_allowed _ _ = False"

definition check_rhythm_transition :: "RhythmStatus \<Rightarrow> RhythmStatus \<Rightarrow> TransitionError + unit" where
  "check_rhythm_transition f t =
     (if rhythm_transition_allowed f t then Inr () else Inl (TE_Rhythm f t))"

definition rhythm_is_terminal :: "RhythmStatus \<Rightarrow> bool" where
  "rhythm_is_terminal s = (s = Rhythm_Retired)"

fun review_transition_allowed :: "ReviewStatus \<Rightarrow> ReviewStatus \<Rightarrow> bool" where
  "review_transition_allowed Review_Draft Review_Finalized = True"
| "review_transition_allowed _ _ = False"

definition check_review_transition :: "ReviewStatus \<Rightarrow> ReviewStatus \<Rightarrow> TransitionError + unit" where
  "check_review_transition f t =
     (if review_transition_allowed f t then Inr () else Inl (TE_Review f t))"

definition review_is_terminal :: "ReviewStatus \<Rightarrow> bool" where
  "review_is_terminal s = (s = Review_Finalized)"

fun routine_transition_allowed :: "RoutineStatus \<Rightarrow> RoutineStatus \<Rightarrow> bool" where
  "routine_transition_allowed Routine_Active Routine_Paused = True"
| "routine_transition_allowed Routine_Paused Routine_Active = True"
| "routine_transition_allowed Routine_Active Routine_Retired = True"
| "routine_transition_allowed Routine_Paused Routine_Retired = True"
| "routine_transition_allowed _ _ = False"

definition check_routine_transition ::
  "RoutineStatus \<Rightarrow> RoutineStatus \<Rightarrow> TransitionError + unit" where
  "check_routine_transition f t =
     (if routine_transition_allowed f t then Inr () else Inl (TE_Routine f t))"

definition routine_is_terminal :: "RoutineStatus \<Rightarrow> bool" where
  "routine_is_terminal s = (s = Routine_Retired)"

fun proposal_transition_allowed :: "ProposalStatus \<Rightarrow> ProposalStatus \<Rightarrow> bool" where
  "proposal_transition_allowed Proposal_Pending Proposal_Applying = True"
| "proposal_transition_allowed Proposal_Pending Proposal_Rejected = True"
| "proposal_transition_allowed Proposal_Applying Proposal_Applied = True"
| "proposal_transition_allowed Proposal_Applying Proposal_Rejected = True"
| "proposal_transition_allowed _ _ = False"

definition check_proposal_transition ::
  "ProposalStatus \<Rightarrow> ProposalStatus \<Rightarrow> TransitionError + unit" where
  "check_proposal_transition f t =
     (if proposal_transition_allowed f t then Inr () else Inl (TE_Proposal f t))"

fun proposal_is_terminal :: "ProposalStatus \<Rightarrow> bool" where
  "proposal_is_terminal Proposal_Applied = True"
| "proposal_is_terminal Proposal_Rejected = True"
| "proposal_is_terminal _ = False"

section \<open>Status machines\<close>

text \<open>A run of a machine: each status is one legal edge away from the one before.\<close>

fun legal_run :: "('s \<Rightarrow> 's \<Rightarrow> bool) \<Rightarrow> 's \<Rightarrow> 's list \<Rightarrow> bool" where
  "legal_run a s [] = True"
| "legal_run a s (t # ts) = (a s t \<and> legal_run a t ts)"

locale status_machine =
  fixes allowed :: "'s \<Rightarrow> 's \<Rightarrow> bool"
    and terminal :: "'s \<Rightarrow> bool"
    and check :: "'s \<Rightarrow> 's \<Rightarrow> TransitionError + unit"
    and err :: "'s \<Rightarrow> 's \<Rightarrow> TransitionError"
  assumes terminal_iff: "terminal s = (\<forall>t. \<not> allowed s t)"
    and check_spec: "check s t = (if allowed s t then Inr () else Inl (err s t))"
begin

lemma terminal_run: "terminal s \<Longrightarrow> legal_run allowed s ts \<Longrightarrow> ts = []"
  by (cases ts) (auto simp: terminal_iff)

lemma check_ok_iff: "(check s t = Inr ()) = allowed s t"
  by (simp add: check_spec)

lemma check_err_iff: "(check s t = Inl e) = (\<not> allowed s t \<and> e = err s t)"
  by (auto simp: check_spec)

lemma terminal_check: "terminal s \<Longrightarrow> check s t = Inl (err s t)"
  by (simp add: check_spec terminal_iff)

text \<open>A run can pass through a terminal status only as its last one.\<close>

lemma terminal_last: "legal_run allowed s (ts @ [t] @ us) \<Longrightarrow> terminal t \<Longrightarrow> us = []"
  by (induction ts arbitrary: s) (auto dest: terminal_run)

end

text \<open>
  The eight machines with terminal statuses. The area machine has none: both of its edges
  are legal, so it interprets the interface with an empty set of terminal statuses.
\<close>

interpretation area_m: status_machine area_transition_allowed "\<lambda>_. False" check_area_transition TE_Area
proof
  show "False = (\<forall>t. \<not> area_transition_allowed s t)" for s
    by (metis AreaStatus.exhaust area_transition_allowed.simps(1,2))
qed (simp add: check_area_transition_def)

interpretation direction_m: status_machine direction_transition_allowed direction_is_terminal
  check_direction_transition TE_Direction
proof
  show "direction_is_terminal s = (\<forall>t. \<not> direction_transition_allowed s t)" for s
    by (cases s; auto; metis direction_transition_allowed.simps)
qed (simp add: check_direction_transition_def)

interpretation task_m: status_machine task_transition_allowed task_is_terminal check_task_transition TE_Task
proof
  show "task_is_terminal s = (\<forall>t. \<not> task_transition_allowed s t)" for s
    by (cases s; auto; metis task_transition_allowed.simps)
qed (simp add: check_task_transition_def)

interpretation week_m: status_machine week_transition_allowed week_is_terminal check_week_transition TE_Week
proof
  show "week_is_terminal s = (\<forall>t. \<not> week_transition_allowed s t)" for s
    by (cases s; auto simp: week_is_terminal_def; metis week_transition_allowed.simps)
qed (simp add: check_week_transition_def)

interpretation block_m: status_machine schedule_block_transition_allowed schedule_block_is_terminal
  check_schedule_block_transition TE_ScheduleBlock
proof
  show "schedule_block_is_terminal s = (\<forall>t. \<not> schedule_block_transition_allowed s t)" for s
    by (cases s; auto; metis schedule_block_transition_allowed.simps)
qed (simp add: check_schedule_block_transition_def)

interpretation rhythm_m: status_machine rhythm_transition_allowed rhythm_is_terminal
  check_rhythm_transition TE_Rhythm
proof
  show "rhythm_is_terminal s = (\<forall>t. \<not> rhythm_transition_allowed s t)" for s
    by (cases s; auto simp: rhythm_is_terminal_def; metis rhythm_transition_allowed.simps)
qed (simp add: check_rhythm_transition_def)

interpretation review_m: status_machine review_transition_allowed review_is_terminal
  check_review_transition TE_Review
proof
  show "review_is_terminal s = (\<forall>t. \<not> review_transition_allowed s t)" for s
    by (cases s; auto simp: review_is_terminal_def; metis review_transition_allowed.simps)
qed (simp add: check_review_transition_def)

interpretation routine_m: status_machine routine_transition_allowed routine_is_terminal
  check_routine_transition TE_Routine
proof
  show "routine_is_terminal s = (\<forall>t. \<not> routine_transition_allowed s t)" for s
    by (cases s; auto simp: routine_is_terminal_def; metis routine_transition_allowed.simps)
qed (simp add: check_routine_transition_def)

interpretation proposal_m: status_machine proposal_transition_allowed proposal_is_terminal
  check_proposal_transition TE_Proposal
proof
  show "proposal_is_terminal s = (\<forall>t. \<not> proposal_transition_allowed s t)" for s
    by (cases s; auto; metis proposal_transition_allowed.simps)
qed (simp add: check_proposal_transition_def)

fun_cases task_allowed_cases: "task_transition_allowed s t"
fun_cases week_allowed_cases: "week_transition_allowed s t"
fun_cases block_allowed_cases: "schedule_block_transition_allowed s t"
fun_cases routine_allowed_cases: "routine_transition_allowed s t"
fun_cases review_allowed_cases: "review_transition_allowed s t"
fun_cases area_allowed_cases: "area_transition_allowed s t"

lemmas check_ok_iffs = area_m.check_ok_iff direction_m.check_ok_iff task_m.check_ok_iff
  week_m.check_ok_iff block_m.check_ok_iff rhythm_m.check_ok_iff review_m.check_ok_iff
  routine_m.check_ok_iff proposal_m.check_ok_iff

lemmas check_err_iffs = area_m.check_err_iff direction_m.check_err_iff task_m.check_err_iff
  week_m.check_err_iff block_m.check_err_iff rhythm_m.check_err_iff review_m.check_err_iff
  routine_m.check_err_iff proposal_m.check_err_iff

lemma carried_over_open: "task_transition_allowed s Task_CarriedOver \<Longrightarrow> \<not> task_is_terminal s"
  by (auto elim: task_allowed_cases)

lemma adjusted_allowed: "rhythm_transition_allowed s Rhythm_Adjusted = (s \<noteq> Rhythm_Retired)"
  by (cases s) auto

end
