(* ===== verification/Proposal.thy ===== *)
theory Proposal
  imports Transitions RustStr
begin

text \<open>
  The pure validator of \<open>src/core/proposal.rs\<close>: the operations an AI may propose, the read-only
  view of the store (\<open>ValidationCtx\<close>), the overlay \<open>Working\<close> that carries the effects of the
  earlier operations of a batch, and \<open>validate\<close>. A validation step is a program of the error
  monad over \<open>Working\<close>. \<open>Sha256::digest\<close> is library code: the digest of a body is the argument
  \<open>sha\<close> of the definitions that use it.
\<close>

section \<open>Operations and proposals\<close>

record NewTask =
  nt_title :: string
  nt_direction_id :: "DirectionId option"

datatype Sin90Op =
    CreateArea string
  | CreateTask string "DirectionId option" "TaskId option" "TaskKind option" "Energy option" "u32 option"
  | CreateDirection string string
  | TransitionTask TaskId TaskStatus
  | CreateTasks WeekId "NewTask list"
  | ReorderTasks WeekId "TaskId list"
  | AdjustRhythm RhythmId "Alloc list"
  | CarryOverTask TaskId WeekId
  | AssignTaskDirection TaskId DirectionId
  | DraftReviewBody ReviewId string string

datatype ProposalSource = Source_LocalBrain | Source_Executive | Source_Rule

fun proposal_source_wire :: "ProposalSource \<Rightarrow> string" where
  "proposal_source_wire Source_LocalBrain = ''local_brain''"
| "proposal_source_wire Source_Executive = ''executive''"
| "proposal_source_wire Source_Rule = ''rule''"

record Sin90Proposal =
  pr_id :: string
  pr_status :: ProposalStatus
  pr_source :: ProposalSource
  pr_ops :: "Sin90Op list"
  pr_rationale :: "string option"

definition MAX_REVIEW_BODY_BYTES :: nat where
  "MAX_REVIEW_BODY_BYTES = 64 * 1024"

definition is_lowercase_hex_sha256 :: "string \<Rightarrow> bool" where
  "is_lowercase_hex_sha256 s =
     (length s = 64 \<and> list_all (\<lambda>b. is_ascii_digit b \<or> (97 \<le> code b \<and> code b \<le> 102)) s)"

record ReviewSnap =
  rs_status :: ReviewStatus
  rs_body_sha256 :: string

section \<open>Errors\<close>

datatype ProposalError =
    PE_Empty
  | PE_UnknownEntity string string
  | PE_IllegalTransition TransitionError
  | PE_WeekNotOpen WeekId WeekStatus
  | PE_RhythmRetired RhythmId
  | PE_EmptyList string WeekId
  | PE_DuplicateRef string string
  | PE_InvalidAlloc u32
  | PE_EmptyAllocations
  | PE_PctOutOfRange DirectionId u32
  | PE_BlankField string
  | PE_NestedProject TaskId
  | PE_NotInInbox TaskId DirectionId
  | PE_TaskClosed TaskId TaskStatus
  | PE_DirectionClosed DirectionId DirectionStatus
  | PE_ReviewNotDraft ReviewId
  | PE_StaleBase string string
  | PE_NoChange string
  | PE_TooLarge string nat
  | PE_BadHash

text \<open>The conversion \<open>#[from] TransitionError\<close> that \<open>?\<close> applies.\<close>

definition illegal :: "TransitionError + 'a \<Rightarrow> ProposalError + 'a" where
  "illegal r = (case r of Inl e \<Rightarrow> Inl (PE_IllegalTransition e) | Inr x \<Rightarrow> Inr x)"

section \<open>The view of the store and the overlay of a batch\<close>

text \<open>
  The trait \<open>ValidationCtx\<close> as a record of functions. For \<open>vc_task_parent\<close> and
  \<open>vc_task_direction\<close> the outer \<open>None\<close> is "no such task".
\<close>

record ValidationCtx =
  vc_task_status :: "string \<Rightarrow> TaskStatus option"
  vc_week_status :: "string \<Rightarrow> WeekStatus option"
  vc_rhythm_is_retired :: "string \<Rightarrow> bool option"
  vc_area_exists :: "string \<Rightarrow> bool"
  vc_task_parent :: "string \<Rightarrow> TaskId option option"
  vc_direction_status :: "string \<Rightarrow> DirectionStatus option"
  vc_task_triage_via_classify :: "string \<Rightarrow> bool"
  vc_task_direction :: "string \<Rightarrow> DirectionId option option"
  vc_review_snap :: "string \<Rightarrow> ReviewSnap option"

record Working =
  w_ctx :: ValidationCtx
  w_task :: "string \<rightharpoonup> TaskStatus"
  w_task_directions :: "string \<rightharpoonup> DirectionId option"
  w_review_hash :: "string \<rightharpoonup> string"

type_synonym 'a validator = "(Working, ProposalError, 'a) prog"

definition Working_new :: "ValidationCtx \<Rightarrow> Working" where
  "Working_new ctx = \<lparr>w_ctx = ctx, w_task = Map.empty, w_task_directions = Map.empty,
     w_review_hash = Map.empty\<rparr>"

definition working_task_status :: "string \<Rightarrow> Working \<Rightarrow> TaskStatus option" where
  "working_task_status i w = (case w_task w i of Some s \<Rightarrow> Some s | None \<Rightarrow> vc_task_status (w_ctx w) i)"

definition set_task :: "string \<Rightarrow> TaskStatus \<Rightarrow> unit validator" where
  "set_task i s = mmod (\<lambda>w. w\<lparr>w_task := (w_task w)(i \<mapsto> s)\<rparr>)"

definition working_task_direction :: "string \<Rightarrow> Working \<Rightarrow> DirectionId option option" where
  "working_task_direction i w =
     (case w_task_directions w i of Some d \<Rightarrow> Some d | None \<Rightarrow> vc_task_direction (w_ctx w) i)"

definition set_task_direction :: "string \<Rightarrow> DirectionId option \<Rightarrow> unit validator" where
  "set_task_direction i d = mmod (\<lambda>w. w\<lparr>w_task_directions := (w_task_directions w)(i \<mapsto> d)\<rparr>)"

definition working_review_hash :: "string \<Rightarrow> Working \<Rightarrow> string option" where
  "working_review_hash i w =
     (case w_review_hash w i of Some h \<Rightarrow> Some h
      | None \<Rightarrow> map_option rs_body_sha256 (vc_review_snap (w_ctx w) i))"

definition set_review_hash :: "string \<Rightarrow> string \<Rightarrow> unit validator" where
  "set_review_hash i h = mmod (\<lambda>w. w\<lparr>w_review_hash := (w_review_hash w)(i \<mapsto> h)\<rparr>)"

section \<open>The checks\<close>

definition non_blank :: "string \<Rightarrow> string \<Rightarrow> ProposalError + unit" where
  "non_blank field value = (if trim value = [] then Inl (PE_BlankField field) else Inr ())"

definition task_status :: "string \<Rightarrow> TaskStatus validator" where
  "task_status i = mbind (mget (working_task_status i)) (\<lambda>s. msome s (PE_UnknownEntity ''task'' i))"

definition require_open_week :: "string \<Rightarrow> unit validator" where
  "require_open_week i =
     mbind (mget (\<lambda>w. vc_week_status (w_ctx w) i)) (\<lambda>r.
     mbind (msome r (PE_UnknownEntity ''week'' i)) (\<lambda>status.
       mguard (week_is_open status) (PE_WeekNotOpen i status)))"

fun reject_dupes_from :: "string \<Rightarrow> string set \<Rightarrow> string list \<Rightarrow> ProposalError + unit" where
  "reject_dupes_from op seen [] = Inr ()"
| "reject_dupes_from op seen (i # ids) =
     (if i \<in> seen then Inl (PE_DuplicateRef op i) else reject_dupes_from op (insert i seen) ids)"

definition reject_dupes :: "string \<Rightarrow> string list \<Rightarrow> ProposalError + unit" where
  "reject_dupes op ids = reject_dupes_from op {} ids"

fun check_alloc_from :: "string set \<Rightarrow> u32 \<Rightarrow> Alloc list \<Rightarrow> ProposalError + unit" where
  "check_alloc_from seen acc [] = (if acc > 100 then Inl (PE_InvalidAlloc acc) else Inr ())"
| "check_alloc_from seen acc (a # as) =
     (if \<not> (1 \<le> al_pct a \<and> al_pct a \<le> 100) then Inl (PE_PctOutOfRange (al_direction_id a) (al_pct a))
      else if al_direction_id a \<in> seen then Inl (PE_DuplicateRef ''adjust_rhythm'' (al_direction_id a))
      else check_alloc_from (insert (al_direction_id a) seen) (saturating_add acc (al_pct a)) as)"

definition check_alloc :: "Alloc list \<Rightarrow> ProposalError + unit" where
  "check_alloc alloc = (if alloc = [] then Inl PE_EmptyAllocations else check_alloc_from {} 0 alloc)"

definition reclassifiable_from_triage :: "string \<Rightarrow> Working \<Rightarrow> TaskId \<Rightarrow> DirectionId \<Rightarrow> DirectionId \<Rightarrow> bool" where
  "reclassifiable_from_triage capability_source w task_id direction_id existing =
     (existing = TRIAGE_DIRECTION_ID \<and> direction_id \<noteq> TRIAGE_DIRECTION_ID
      \<and> (capability_source = ''direct'' \<or> vc_task_triage_via_classify (w_ctx w) task_id))"

section \<open>One operation\<close>

definition validate_assign :: "string \<Rightarrow> TaskId \<Rightarrow> DirectionId \<Rightarrow> unit validator" where
  "validate_assign capability_source task_id direction_id =
     mbind (mget (working_task_direction task_id)) (\<lambda>cur.
     mbind (msome cur (PE_UnknownEntity ''task'' task_id)) (\<lambda>current_direction.
     mbind (task_status task_id) (\<lambda>status.
     mthen (mguard (\<not> task_is_terminal status) (PE_TaskClosed task_id status))
     (mthen (case current_direction of
               Some existing \<Rightarrow>
                 mbind (mget (\<lambda>w. reclassifiable_from_triage capability_source w task_id direction_id existing))
                   (\<lambda>b. mguard b (PE_NotInInbox task_id existing))
             | None \<Rightarrow> mret ())
     (mbind (mget (\<lambda>w. vc_direction_status (w_ctx w) direction_id)) (\<lambda>r.
      mbind (msome r (PE_UnknownEntity ''direction'' direction_id)) (\<lambda>dstatus.
      mthen (mguard (\<not> direction_is_terminal dstatus) (PE_DirectionClosed direction_id dstatus))
        (set_task_direction task_id (Some direction_id)))))))))"

definition validate_draft_body :: "(string \<Rightarrow> string) \<Rightarrow> ReviewId \<Rightarrow> string \<Rightarrow> string \<Rightarrow> unit validator" where
  "validate_draft_body sha review_id base body =
     mthen (mlift (non_blank ''body'' body))
     (mthen (mguard (length body \<le> MAX_REVIEW_BODY_BYTES) (PE_TooLarge ''body'' MAX_REVIEW_BODY_BYTES))
     (mthen (mguard (is_lowercase_hex_sha256 base) PE_BadHash)
     (mbind (mget (\<lambda>w. vc_review_snap (w_ctx w) review_id)) (\<lambda>r.
      mbind (msome r (PE_UnknownEntity ''review'' review_id)) (\<lambda>snap.
      mthen (mguard (rs_status snap = Review_Draft) (PE_ReviewNotDraft review_id))
      (mbind (mget (working_review_hash review_id)) (\<lambda>h.
       let current_hash = (case h of Some x \<Rightarrow> x | None \<Rightarrow> rs_body_sha256 snap);
           new_hash = sha body
       in mthen (mguard (current_hash = base) (PE_StaleBase ''review'' review_id))
         (mthen (mguard (new_hash \<noteq> current_hash) (PE_NoChange ''draft_review_body''))
           (set_review_hash review_id new_hash)))))))))"

definition validate_create_task :: "string \<Rightarrow> TaskId option \<Rightarrow> unit validator" where
  "validate_create_task title parent_task_id =
     mthen (mlift (non_blank ''title'' title))
     (case parent_task_id of
        None \<Rightarrow> mret ()
      | Some parent_id \<Rightarrow>
          mbind (mget (\<lambda>w. vc_task_parent (w_ctx w) parent_id)) (\<lambda>r.
          mbind (msome r (PE_UnknownEntity ''task'' parent_id)) (\<lambda>parent.
            mguard (parent = None) (PE_NestedProject parent_id))))"

fun validate_op :: "(string \<Rightarrow> string) \<Rightarrow> string \<Rightarrow> Sin90Op \<Rightarrow> unit validator" where
  "validate_op sha cs (CreateArea title) = mlift (non_blank ''title'' title)"
| "validate_op sha cs (CreateTask title direction parent_id kind energy est) =
     validate_create_task title parent_id"
| "validate_op sha cs (CreateDirection title target_window) =
     mthen (mlift (non_blank ''title'' title)) (mlift (non_blank ''target_window'' target_window))"
| "validate_op sha cs (TransitionTask task_id to) =
     mbind (task_status task_id) (\<lambda>from.
     mthen (mlift (illegal (check_task_transition from to))) (set_task task_id to))"
| "validate_op sha cs (CreateTasks week_id tasks) =
     mthen (mguard (tasks \<noteq> []) (PE_EmptyList ''create_tasks'' week_id)) (require_open_week week_id)"
| "validate_op sha cs (ReorderTasks week_id order) =
     mthen (require_open_week week_id)
     (mthen (mguard (order \<noteq> []) (PE_EmptyList ''reorder_tasks'' week_id))
       (mlift (reject_dupes ''reorder_tasks'' order)))"
| "validate_op sha cs (AdjustRhythm rhythm_id new_alloc) =
     mbind (mget (\<lambda>w. vc_rhythm_is_retired (w_ctx w) rhythm_id)) (\<lambda>r.
     mbind (msome r (PE_UnknownEntity ''rhythm'' rhythm_id)) (\<lambda>retired.
     mthen (mguard (\<not> retired) (PE_RhythmRetired rhythm_id)) (mlift (check_alloc new_alloc))))"
| "validate_op sha cs (CarryOverTask task_id to_week) =
     mbind (task_status task_id) (\<lambda>from.
     mthen (mlift (illegal (check_task_transition from Task_CarriedOver)))
     (mthen (require_open_week to_week) (set_task task_id Task_CarriedOver)))"
| "validate_op sha cs (AssignTaskDirection task_id direction_id) = validate_assign cs task_id direction_id"
| "validate_op sha cs (DraftReviewBody review_id base body) = validate_draft_body sha review_id base body"

section \<open>The batch\<close>

definition validate :: "(string \<Rightarrow> string) \<Rightarrow> Sin90Proposal \<Rightarrow> ValidationCtx \<Rightarrow> string \<Rightarrow> ProposalError + unit" where
  "validate sha p ctx capability_source =
     (if pr_ops p = [] then Inl PE_Empty
      else case mfor (validate_op sha capability_source) (pr_ops p) (Working_new ctx) of
        (Inl e, _) \<Rightarrow> Inl e | (Inr _, _) \<Rightarrow> Inr ())"

end
