(* ===== verification/Proposal_Laws.thy ===== *)
theory Proposal_Laws
  imports Proposal
begin

text \<open>
  What the structural checks of the validator accept and what one accepted operation changes in
  the overlay, then the law of a whole batch: the statuses it asks of a task are a legal run.
\<close>

section \<open>What the structural checks accept\<close>

lemma reject_dupes_from_ok:
  "(reject_dupes_from op seen ids = Inr ()) = (distinct ids \<and> seen \<inter> set ids = {})"
  by (induction ids arbitrary: seen) auto

lemma reject_dupes_ok: "(reject_dupes op ids = Inr ()) = distinct ids"
  by (simp add: reject_dupes_def reject_dupes_from_ok)

lemma check_alloc_from_ok:
  "(check_alloc_from seen acc as = Inr ()) =
     ((\<forall>a \<in> set as. 1 \<le> unat (al_pct a) \<and> unat (al_pct a) \<le> 100)
      \<and> distinct (map al_direction_id as) \<and> seen \<inter> al_direction_id ` set as = {}
      \<and> unat acc + sum_list (map (unat \<circ> al_pct) as) \<le> 100)"
proof (induction as arbitrary: seen acc)
  case Nil
  then show ?case by (auto simp: word_less_nat_alt not_less)
next
  case (Cons a as)
  have r: "(1 \<le> al_pct a \<and> al_pct a \<le> 100) = (1 \<le> unat (al_pct a) \<and> unat (al_pct a) \<le> 100)"
    by (simp add: word_le_nat_alt)
  show ?case
    by (auto simp: r Cons.IH unat_saturating_add)
qed

lemma check_alloc_ok:
  "(check_alloc as = Inr ()) = (as \<noteq> [] \<and> (\<forall>a \<in> set as. 1 \<le> unat (al_pct a) \<and> unat (al_pct a) \<le> 100)
     \<and> distinct (map al_direction_id as) \<and> sum_list (map (unat \<circ> al_pct) as) \<le> 100)"
  by (simp add: check_alloc_def check_alloc_from_ok)

lemma illegal_iff:
  "(illegal r = Inr x) = (r = Inr x)"
  "(illegal r = Inl e) = (\<exists>t. r = Inl t \<and> e = PE_IllegalTransition t)"
  by (auto simp: illegal_def split: sum.splits)

lemma non_blank_iff: "(non_blank f v = Inr ()) = (trim v \<noteq> [])" "(non_blank f v = Inl e) = (trim v = [] \<and> e = PE_BlankField f)"
  by (auto simp: non_blank_def)

section \<open>What one accepted operation knows and changes\<close>

lemmas validator_defs = validate_assign_def validate_draft_body_def validate_create_task_def task_status_def
  require_open_week_def set_task_def set_task_direction_def set_review_hash_def

lemma validate_op_ctx: "validate_op sha cs op w = (Inr x, w') \<Longrightarrow> w_ctx w' = w_ctx w"
  by (cases op) (auto simp: validator_defs monad_iff Let_def split: option.splits)

lemma validate_transition:
  "(validate_op sha cs (TransitionTask t to) w = (Inr x, w')) =
     (\<exists>s. working_task_status t w = Some s \<and> task_transition_allowed s to \<and> w' = w\<lparr>w_task := (w_task w)(t \<mapsto> to)\<rparr>)"
  by (auto simp: validator_defs monad_iff illegal_iff task_m.check_ok_iff)

lemma validate_carry_over:
  "(validate_op sha cs (CarryOverTask t week) w = (Inr x, w')) =
     (\<exists>s k. working_task_status t w = Some s \<and> task_transition_allowed s Task_CarriedOver
        \<and> vc_week_status (w_ctx w) week = Some k \<and> week_is_open k
        \<and> w' = w\<lparr>w_task := (w_task w)(t \<mapsto> Task_CarriedOver)\<rparr>)"
  by (auto simp: validator_defs monad_iff illegal_iff task_m.check_ok_iff)

text \<open>The statuses a batch asks of one task, in order.\<close>

fun moves :: "TaskId \<Rightarrow> Sin90Op list \<Rightarrow> TaskStatus list" where
  "moves t [] = []"
| "moves t (TransitionTask i to # ops) = (if i = t then to # moves t ops else moves t ops)"
| "moves t (CarryOverTask i week # ops) = (if i = t then Task_CarriedOver # moves t ops else moves t ops)"
| "moves t (_ # ops) = moves t ops"

lemma other_ops_keep_tasks:
  "validate_op sha cs op w = (Inr x, w') \<Longrightarrow> moves t [op] = [] \<Longrightarrow> w_task w' t = w_task w t"
  by (cases op) (auto simp: validator_defs monad_iff Let_def illegal_iff split: option.splits if_splits)

lemma moves_Cons: "moves t (op # ops) = moves t [op] @ moves t ops"
  by (cases op) auto

lemma mfor_moves:
  assumes "mfor (validate_op sha cs) ops w = (Inr xs, w')"
  shows "moves t ops \<noteq> [] \<Longrightarrow> \<exists>s. working_task_status t w = Some s \<and> legal_run task_transition_allowed s (moves t ops)"
  using assms
proof (induction ops arbitrary: w xs)
  case (Cons op ops)
  from Cons.prems(2) obtain x w1 ys where s: "validate_op sha cs op w = (Inr x, w1)"
    and r: "mfor (validate_op sha cs) ops w1 = (Inr ys, w')"
    by (auto simp: monad_iff)
  have IH: "moves t ops \<noteq> [] \<Longrightarrow>
      \<exists>s. working_task_status t w1 = Some s \<and> legal_run task_transition_allowed s (moves t ops)"
    by (rule Cons.IH[OF _ r])
  show ?case
  proof (cases "moves t [op] = []")
    case True
    then have "working_task_status t w1 = working_task_status t w"
      using other_ops_keep_tasks[OF s] validate_op_ctx[OF s] by (simp add: working_task_status_def split: option.split)
    then show ?thesis using IH Cons.prems(1) True moves_Cons[of t op ops] by simp
  next
    case False
    then obtain to k where to: "moves t [op] = [to]" "op = TransitionTask t to \<or> op = CarryOverTask t k \<and> to = Task_CarriedOver"
      by (cases op) (auto split: if_splits)
    then obtain q where q: "working_task_status t w = Some q" "task_transition_allowed q to"
        "working_task_status t w1 = Some to"
      using s to(2)
      by (auto simp: validate_transition validate_carry_over working_task_status_def simp del: validate_op.simps)
    show ?thesis
      using q IH to(1) moves_Cons[of t op ops] by (cases "moves t ops = []") auto
  qed
qed simp

lemma validate_ok:
  "(validate sha p ctx cs = Inr ()) =
    (pr_ops p \<noteq> [] \<and> (\<exists>xs w. mfor (validate_op sha cs) (pr_ops p) (Working_new ctx) = (Inr xs, w)))"
  by (auto simp: validate_def split: prod.splits sum.splits)

lemma validate_err:
  "(validate sha p ctx cs = Inl e) =
    (pr_ops p = [] \<and> e = PE_Empty \<or>
     pr_ops p \<noteq> [] \<and> (\<exists>w. mfor (validate_op sha cs) (pr_ops p) (Working_new ctx) = (Inl e, w)))"
  by (auto simp: validate_def split: prod.splits sum.splits)

section \<open>Properties\<close>

text \<open>
  the allocation check accepts exactly the non-empty lists of distinct directions whose
  percentages are all between 1 and 100 and sum to at most 100; the saturating addition makes
  the sum of any number of 32-bit percentages come out right.
\<close>

lemma check_alloc_exact:
  "(check_alloc as = Inr ()) = (as \<noteq> [] \<and> list_all (\<lambda>a. 1 \<le> unat (al_pct a) \<and> unat (al_pct a) \<le> 100) as
     \<and> distinct (map al_direction_id as) \<and> sum_list (map (unat \<circ> al_pct) as) \<le> 100)"
  unfolding list_all_iff by (rule check_alloc_ok)

text \<open>
  C25: a batch validates as the sequence it is: when the proposal is accepted, the statuses it
  asks of any one task, in the order of the batch, are a legal run of the task machine from the
  task's current status.
\<close>

theorem batch_is_legal_run:
  assumes "validate sha p ctx cs = Inr ()" "moves t (pr_ops p) \<noteq> []"
  shows "\<exists>s. vc_task_status ctx t = Some s \<and> legal_run task_transition_allowed s (moves t (pr_ops p))"
  using assms mfor_moves[where w = "Working_new ctx" and t = t]
  by (fastforce simp: validate_ok working_task_status_def Working_new_def)

definition witness_ctx :: ValidationCtx where
  "witness_ctx = \<lparr>vc_task_status = (\<lambda>i. if i = ''t1'' then Some Task_Planned else None),
     vc_week_status = (\<lambda>i. if i = ''w1'' then Some Week_Active else None), vc_rhythm_is_retired = (\<lambda>_. None),
     vc_area_exists = (\<lambda>_. False), vc_task_parent = (\<lambda>_. None), vc_direction_status = (\<lambda>_. None),
     vc_task_triage_via_classify = (\<lambda>_. False), vc_task_direction = (\<lambda>_. None), vc_review_snap = (\<lambda>_. None)\<rparr>"

definition witness_proposal :: Sin90Proposal where
  "witness_proposal = \<lparr>pr_id = ''p1'', pr_status = Proposal_Pending, pr_source = Source_Executive,
     pr_ops = [TransitionTask ''t1'' Task_InProgress, CreateArea ''Health'', CarryOverTask ''t1'' ''w1''],
     pr_rationale = None\<rparr>"

theorem batch_is_legal_run_witness:
  "\<exists>s. vc_task_status witness_ctx ''t1'' = Some s
     \<and> legal_run task_transition_allowed s [Task_InProgress, Task_CarriedOver]"
proof -
  have v: "validate (\<lambda>b. b) witness_proposal witness_ctx ''direct'' = Inr ()" by code_simp
  have m: "moves ''t1'' (pr_ops witness_proposal) = [Task_InProgress, Task_CarriedOver]"
    by (simp add: witness_proposal_def)
  show ?thesis using batch_is_legal_run[OF v, of "''t1''"] unfolding m by simp
qed

end
