(* ===== verification/Ai_Ports.thy ===== *)
theory Ai_Ports
  imports Proposal
begin

text \<open>
  The vocabulary of \<open>src/ai/ports.rs\<close>: capabilities, engines, tiers, the model access of the
  manifest, the failures of a model call with what the ladder does about each, and the record
  of a call. The traits of that file are the arguments of the ladder and the store.
\<close>

datatype Capability = Cap_Classify | Cap_Summarize | Cap_Propose

fun capability_wire :: "Capability \<Rightarrow> string" where
  "capability_wire Cap_Classify = ''classify''"
| "capability_wire Cap_Summarize = ''summarize''"
| "capability_wire Cap_Propose = ''propose''"

datatype Engine = Engine_Reflex | Engine_Local | Engine_Executive

fun engine_wire :: "Engine \<Rightarrow> string" where
  "engine_wire Engine_Reflex = ''reflex''"
| "engine_wire Engine_Local = ''local''"
| "engine_wire Engine_Executive = ''executive''"

datatype ServedTier = Tier_Local | Tier_Remote

fun served_tier_wire :: "ServedTier \<Rightarrow> string" where
  "served_tier_wire Tier_Local = ''local''"
| "served_tier_wire Tier_Remote = ''remote''"

datatype ModelAccess = Access_LocalOnly | Access_RemoteAllowed

fun model_access_wire :: "ModelAccess \<Rightarrow> string" where
  "model_access_wire Access_LocalOnly = ''local_only''"
| "model_access_wire Access_RemoteAllowed = ''remote_allowed''"

text \<open>\<open>find_map\<close> over the lines: the first one that holds the key decides.\<close>

definition parse_model_access :: "string \<Rightarrow> ModelAccess" where
  "parse_model_access yaml =
     (case List.map_filter (\<lambda>line. strip_prefix (trim line) ''model_access:'') (str_lines yaml) of
        [] \<Rightarrow> Access_LocalOnly
      | v # _ \<Rightarrow> if trim v = ''remote_allowed'' then Access_RemoteAllowed else Access_LocalOnly)"

record AiSettings =
  as_executive_enabled :: bool

definition AiSettings_default :: AiSettings where
  "AiSettings_default = \<lparr>as_executive_enabled = False\<rparr>"

section \<open>Failures of a model call\<close>

datatype UnavailableCause = Cause_NoProvider | Cause_RequestRejected | Cause_BackendConfig | Cause_ResponseTooLarge

datatype ModelFailure =
    MF_Unavailable bool UnavailableCause
  | MF_Busy
  | MF_RateLimited
  | MF_NotReady
  | MF_Timeout
  | MF_Forbidden
  | MF_BadRequest
  | MF_Other
  | MF_GenerationEnding
  | MF_ConnectionLost
  | MF_Cancelled

datatype LadderAction = Act_Degrade | Act_Defer | Act_Abort

fun failure_action :: "ModelFailure \<Rightarrow> LadderAction" where
  "failure_action MF_ConnectionLost = Act_Abort"
| "failure_action MF_Cancelled = Act_Abort"
| "failure_action MF_GenerationEnding = Act_Abort"
| "failure_action MF_Busy = Act_Defer"
| "failure_action MF_RateLimited = Act_Defer"
| "failure_action MF_NotReady = Act_Defer"
| "failure_action (MF_Unavailable retryable cause) = Act_Degrade"
| "failure_action MF_Timeout = Act_Degrade"
| "failure_action MF_Forbidden = Act_Degrade"
| "failure_action MF_BadRequest = Act_Degrade"
| "failure_action MF_Other = Act_Degrade"

fun kind_str :: "ModelFailure \<Rightarrow> string" where
  "kind_str (MF_Unavailable retryable Cause_NoProvider) = ''unavailable.no_provider''"
| "kind_str (MF_Unavailable retryable Cause_RequestRejected) = ''unavailable.request_rejected''"
| "kind_str (MF_Unavailable retryable Cause_BackendConfig) = ''unavailable.backend_config''"
| "kind_str (MF_Unavailable retryable Cause_ResponseTooLarge) = ''unavailable.response_too_large''"
| "kind_str MF_Busy = ''busy''"
| "kind_str MF_RateLimited = ''rate_limited''"
| "kind_str MF_NotReady = ''not_ready''"
| "kind_str MF_Timeout = ''timeout''"
| "kind_str MF_Forbidden = ''forbidden''"
| "kind_str MF_BadRequest = ''bad_request''"
| "kind_str MF_Other = ''other''"
| "kind_str MF_GenerationEnding = ''generation_ending''"
| "kind_str MF_ConnectionLost = ''connection_lost''"
| "kind_str MF_Cancelled = ''cancelled''"

fun opens_circuit :: "ModelFailure \<Rightarrow> bool" where
  "opens_circuit (MF_Unavailable retryable cause) = (cause = Cause_NoProvider \<or> cause = Cause_BackendConfig)"
| "opens_circuit MF_Forbidden = True"
| "opens_circuit _ = False"

record ModelReply =
  mr_text :: string
  mr_model_id :: "string option"
  mr_tier :: ServedTier
  mr_prompt_tokens :: "u32 option"
  mr_completion_tokens :: "u32 option"

section \<open>Records\<close>

record AiCallRecord =
  ac_id :: string
  ac_run_id :: string
  ac_task_kind :: Capability
  ac_engine :: Engine
  ac_fallback_from :: "Engine option"
  ac_served_tier :: "ServedTier option"
  ac_model_id :: "string option"
  ac_prompt_tokens :: "u32 option"
  ac_completion_tokens :: "u32 option"
  ac_latency_ms :: nat
  ac_ok :: bool
  ac_error_kind :: "string option"
  ac_proposal_id :: "string option"
  ac_at :: string

record ProposalDraft =
  pd_id :: string
  pd_ops :: "Sin90Op list"
  pd_rationale :: "string option"

record DirectionCandidate =
  dc_direction_id :: DirectionId
  dc_title :: string
  dc_status :: DirectionStatus
  dc_area_title :: "string option"

record SummarizeBucket =
  sb_label :: "string option"
  sb_minutes :: int

record SummarizeRoutineRow =
  sr_label :: string
  sr_fired :: nat
  sr_completed :: nat

record SummarizeDraft =
  su_week :: string
  su_by_area :: "SummarizeBucket list"
  su_by_direction :: "SummarizeBucket list"
  su_tasks_done :: nat
  su_routines :: "SummarizeRoutineRow list"
  su_auto_draft_md :: string

end
