(* ===== verification/Json.thy ===== *)
theory Json
  imports RustStr
begin

text \<open>
  The \<open>serde_json::Value\<close>s the store keeps as event payloads and as the \<open>desired\<close> column of the
  outbox. A number is an integer (no payload holds a fraction) and an object is the list of its
  entries in the order the source writes them; keys of one object are distinct. \<open>jget\<close> is
  \<open>Value::get\<close>, and on a payload column it is SQLite's \<open>json_extract(payload, '$.key')\<close>.
\<close>

datatype Json =
    JNull
  | JBool bool
  | JInt int
  | JStr string
  | JArr "Json list"
  | JObj "(string \<times> Json) list"

fun jget :: "string \<Rightarrow> Json \<Rightarrow> Json option" where
  "jget k (JObj kvs) = map_of kvs k"
| "jget k _ = None"

fun jstr :: "Json \<Rightarrow> string option" where
  "jstr (JStr s) = Some s"
| "jstr _ = None"

fun jint :: "Json \<Rightarrow> int option" where
  "jint (JInt i) = Some i"
| "jint _ = None"

text \<open>An optional field, a 32-bit field and a list of strings, as the \<open>json!\<close> macro writes them.\<close>

definition jopt :: "('a \<Rightarrow> Json) \<Rightarrow> 'a option \<Rightarrow> Json" where
  "jopt f x = (case x of None \<Rightarrow> JNull | Some y \<Rightarrow> f y)"

definition ju32 :: "u32 \<Rightarrow> Json" where
  "ju32 n = JInt (uint n)"

definition jstrs :: "string list \<Rightarrow> Json" where
  "jstrs xs = JArr (map JStr xs)"

lemma jget_JObj [simp]: "jget k (JObj ((k', v) # kvs)) = (if k = k' then Some v else jget k (JObj kvs))"
  by simp

end
