(* ===== verification/Database.thy ===== *)
theory Database
  imports Ai_Ports Calendar Json
begin

text \<open>
  The database of \<open>src/store\<close>: the tables of the migrations as lists of rows in rowid order,
  with the columns at the types the code reads them at, the store's errors, the world that the
  operations thread (the database, the clock, the id source and the files), transactions, the
  INSERT statements with the constraints the schema declares, and \<open>append_event\<close>.

  A transaction runs \<open>BEGIN IMMEDIATE\<close>, so it holds the write lock from its first statement:
  operations are atomic and run one after the other. An error leaves the transaction
  uncommitted and the database as it was. Failures of SQLite itself (a full disk, a busy
  timeout) are outside of the model.
\<close>

section \<open>Errors\<close>

datatype SqlxError = Sqlx_Unique | Sqlx_Foreign_Key | Sqlx_Check | Sqlx_Column_Decode

datatype StoreError =
    SE_Sqlx SqlxError
  | SE_Transition TransitionError
  | SE_Proposal ProposalError
  | SE_NotFound string
  | SE_Conflict string
  | SE_WeekNotOpen string
  | SE_SameWeekCarry string
  | SE_Invalid string
  | SE_Internal string

definition is_fk_violation :: "StoreError \<Rightarrow> bool" where
  "is_fk_violation e = (e = SE_Sqlx Sqlx_Foreign_Key)"

definition transition_err :: "TransitionError + 'a \<Rightarrow> StoreError + 'a" where
  "transition_err r = (case r of Inl e \<Rightarrow> Inl (SE_Transition e) | Inr x \<Rightarrow> Inr x)"

definition proposal_err :: "ProposalError + 'a \<Rightarrow> StoreError + 'a" where
  "proposal_err r = (case r of Inl e \<Rightarrow> Inl (SE_Proposal e) | Inr x \<Rightarrow> Inr x)"

section \<open>Rows\<close>

record TaskRow = Task +
  tr_sort_key :: int
  tr_triage_via :: "string option"
  tr_triage_entered_at :: "string option"

record RoutineRow = Routine +
  rr_kernel_suspended_at :: "string option"

record Event =
  ev_seq :: nat
  ev_id :: string
  ev_entity :: string
  ev_entity_id :: string
  ev_kind :: string
  ev_from :: "string option"
  ev_to :: "string option"
  ev_payload :: Json
  ev_at :: string

record AppliedProposal =
  ap_proposal_id :: string
  ap_event_ids :: "string list"

record ProposalRow =
  pp_id :: string
  pp_status :: ProposalStatus
  pp_source :: ProposalSource
  pp_ops :: "Sin90Op list"
  pp_rationale :: "string option"
  pp_result :: "AppliedProposal option"
  pp_created_at :: string
  pp_decided_at :: "string option"

record OutboxRow =
  ob_id :: string
  ob_kind :: string
  ob_dedup_key :: string
  ob_desired :: Json
  ob_status :: string
  ob_created_at :: string
  ob_done_at :: "string option"
  ob_failure_kind :: "string option"
  ob_last_error :: "string option"
  ob_attempts :: nat
  ob_next_attempt_at :: "string option"
  ob_version :: nat
  ob_other_bucket_attempts :: nat
  ob_result_ref :: "string option"

record RoutineFire =
  rf_fire_id :: string
  rf_routine_id :: string
  rf_scheduled_for :: string
  rf_trigger :: FireTrigger
  rf_received_at :: string

record Rejection =
  rj_id :: string
  rj_proposal_id :: string
  rj_capability_source :: string
  rj_proposal_source :: ProposalSource
  rj_ops_summary :: string
  rj_rationale :: "string option"
  rj_reason :: "string option"
  rj_proposed_at :: string
  rj_rejected_at :: string

record SettingRow =
  sg_key :: string
  sg_value :: Json
  sg_updated_at :: string

record AttentionDailyRow =
  ad_day :: string
  ad_direction_id :: DirectionId
  ad_actual_min :: int

text \<open>The last time the classifier looked at a task.\<close>

record ClassifyEval =
  ce_task_id :: string
  ce_evaluated_at :: string

record Db =
  db_areas :: "Area list"
  db_directions :: "Direction list"
  db_weeks :: "Week list"
  db_rhythms :: "Rhythm list"
  db_tasks :: "TaskRow list"
  db_blocks :: "ScheduleBlock list"
  db_reviews :: "Review list"
  db_routines :: "RoutineRow list"
  db_fires :: "RoutineFire list"
  db_events :: "Event list"
  db_proposals :: "ProposalRow list"
  db_rejections :: "Rejection list"
  db_outbox :: "OutboxRow list"
  db_ai_calls :: "AiCallRecord list"
  db_attention :: "AttentionDailyRow list"
  db_watermark :: nat
  db_classify_evals :: "ClassifyEval list"
  db_settings :: "SettingRow list"

text \<open>The database after the migrations: the watermark row and the reserved triage direction.\<close>

definition triage_direction :: Direction where
  "triage_direction = \<lparr>di_id = TRIAGE_DIRECTION_ID, di_area_id = None,
     di_title = map char_of [229, 190, 133, 229, 174, 154 :: nat], di_status = Direction_Active,
     di_target_window = ''n/a'', di_created_at = ''2026-09-26T00:00:00Z'',
     di_updated_at = ''2026-09-26T00:00:00Z''\<rparr>"

definition migrated_db :: Db where
  "migrated_db = \<lparr>db_areas = [], db_directions = [triage_direction], db_weeks = [], db_rhythms = [],
     db_tasks = [], db_blocks = [], db_reviews = [], db_routines = [], db_fires = [], db_events = [],
     db_proposals = [], db_rejections = [], db_outbox = [], db_ai_calls = [], db_attention = [],
     db_watermark = 0, db_classify_evals = [], db_settings = []\<rparr>"

section \<open>The world\<close>

text \<open>
  The environment: the readings of the clock and the entropy of the ids in the order they are
  drawn, the library functions, the store's \<open>data_dir\<close>, and the failures of the file system.
\<close>

record Env =
  en_clock :: "nat \<Rightarrow> nat"
  en_ulid_ms :: "nat \<Rightarrow> nat"
  en_ulid_rnd :: "nat \<Rightarrow> nat list"
  en_sha256 :: "string \<Rightarrow> string"
  en_cron_ok :: "string \<Rightarrow> bool"
  en_tz_ok :: "string \<Rightarrow> bool"
  en_local_day_start :: "nat \<Rightarrow> string"
  en_data_dir :: "string option"
  en_write_fails :: "string \<Rightarrow> bool"

record Sin90Store =
  st_env :: Env
  st_ticks :: nat
  st_draws :: nat
  st_db :: Db
  st_files :: "string \<rightharpoonup> string"
  st_notify :: bool

type_synonym 'a store = "(Sin90Store, StoreError, 'a) prog"

definition opened :: "Env \<Rightarrow> Sin90Store" where
  "opened env = \<lparr>st_env = env, st_ticks = 0, st_draws = 0, st_db = migrated_db, st_files = Map.empty,
     st_notify = False\<rparr>"

definition now_iso8601 :: "string store" where
  "now_iso8601 = mbind (mget (\<lambda>w. iso8601_at (en_clock (st_env w) (st_ticks w))))
     (\<lambda>t. mthen (mmod (\<lambda>w. w\<lparr>st_ticks := Suc (st_ticks w)\<rparr>)) (mret t))"

definition ulid :: "string store" where
  "ulid = mbind (mget (\<lambda>w. ulid_of (en_ulid_ms (st_env w) (st_draws w)) (en_ulid_rnd (st_env w) (st_draws w))))
     (\<lambda>i. mthen (mmod (\<lambda>w. w\<lparr>st_draws := Suc (st_draws w)\<rparr>)) (mret i))"

definition query :: "(Db \<Rightarrow> 'a) \<Rightarrow> 'a store" where
  "query f = mget (\<lambda>w. f (st_db w))"

definition stmt :: "(Db \<Rightarrow> Db) \<Rightarrow> unit store" where
  "stmt f = mmod (\<lambda>w. w\<lparr>st_db := f (st_db w)\<rparr>)"

text \<open>A statement that the schema may refuse: \<open>check\<close> names the violated constraint.\<close>

definition checked_stmt :: "(Db \<Rightarrow> SqlxError option) \<Rightarrow> (Db \<Rightarrow> Db) \<Rightarrow> unit store" where
  "checked_stmt check f = mbind (query check)
     (\<lambda>v. case v of Some e \<Rightarrow> mfail (SE_Sqlx e) | None \<Rightarrow> stmt f)"

definition with_tx :: "'a store \<Rightarrow> 'a store" where
  "with_tx m w = (case m w of (Inl e, w') \<Rightarrow> (Inl e, w'\<lparr>st_db := st_db w\<rparr>) | (Inr x, w') \<Rightarrow> (Inr x, w'))"

text \<open>\<open>self.outbox_notify().notify_one()\<close> after the commit.\<close>

definition notify_one :: "unit store" where
  "notify_one = mmod (\<lambda>w. w\<lparr>st_notify := True\<rparr>)"

section \<open>Constraints\<close>

definition taken :: "('r \<Rightarrow> 'k) \<Rightarrow> 'k \<Rightarrow> 'r list \<Rightarrow> bool" where
  "taken k i rows = (i \<in> k ` set rows)"

definition fk :: "('r \<Rightarrow> string) \<Rightarrow> 'r list \<Rightarrow> string option \<Rightarrow> bool" where
  "fk k rows r = (case r of None \<Rightarrow> True | Some i \<Rightarrow> taken k i rows)"

definition violated :: "bool \<Rightarrow> bool \<Rightarrow> bool \<Rightarrow> SqlxError option" where
  "violated checks uniques fks =
     (if \<not> checks then Some Sqlx_Check else if \<not> uniques then Some Sqlx_Unique
      else if \<not> fks then Some Sqlx_Foreign_Key else None)"

lemma violated_None: "(violated c u f = None) = (c \<and> u \<and> f)"
  by (simp add: violated_def)

definition area_violation :: "Area \<Rightarrow> Db \<Rightarrow> SqlxError option" where
  "area_violation r db = violated True
     (\<not> taken ar_id (ar_id r) (db_areas db) \<and> \<not> taken ar_slug (ar_slug r) (db_areas db)) True"

definition direction_violation :: "Direction \<Rightarrow> Db \<Rightarrow> SqlxError option" where
  "direction_violation r db = violated True (\<not> taken di_id (di_id r) (db_directions db))
     (fk ar_id (db_areas db) (di_area_id r))"

definition week_violation :: "Week \<Rightarrow> Db \<Rightarrow> SqlxError option" where
  "week_violation r db = violated True
     (\<not> taken wk_id (wk_id r) (db_weeks db) \<and> \<not> taken wk_iso_week (wk_iso_week r) (db_weeks db)) True"

definition rhythm_violation :: "Rhythm \<Rightarrow> Db \<Rightarrow> SqlxError option" where
  "rhythm_violation r db = violated True (\<not> taken rh_id (rh_id r) (db_rhythms db)) True"

definition triage_via_ok :: "string option \<Rightarrow> bool" where
  "triage_via_ok v = (v \<in> set [None, Some ''classify'', Some ''direct''])"

text \<open>A task may name itself as its own parent or source as far as the schema goes.\<close>

definition task_violation :: "TaskRow \<Rightarrow> Db \<Rightarrow> SqlxError option" where
  "task_violation r db = violated (triage_via_ok (tr_triage_via r))
     (\<not> taken tk_id (tk_id r) (db_tasks db)
      \<and> (tk_carried_from r = None \<or> \<not> taken tk_carried_from (tk_carried_from r) (db_tasks db)))
     (fk di_id (db_directions db) (tk_direction_id r) \<and> fk wk_id (db_weeks db) (tk_week_id r)
      \<and> fk tk_id (db_tasks db @ [r]) (tk_carried_from r) \<and> fk tk_id (db_tasks db @ [r]) (tk_parent_task_id r))"

definition block_violation :: "ScheduleBlock \<Rightarrow> Db \<Rightarrow> SqlxError option" where
  "block_violation r db = violated True (\<not> taken bl_id (bl_id r) (db_blocks db))
     (fk di_id (db_directions db) (bl_direction_id r) \<and> fk tk_id (db_tasks db) (bl_task_id r))"

definition review_violation :: "Review \<Rightarrow> Db \<Rightarrow> SqlxError option" where
  "review_violation r db = violated True
     (\<not> taken rv_id (rv_id r) (db_reviews db)
      \<and> \<not> taken (\<lambda>q. (rv_kind q, rv_period q)) (rv_kind r, rv_period r) (db_reviews db))
     (fk wk_id (db_weeks db) (rv_week_id r))"

definition target_ok :: "u32 option \<Rightarrow> bool" where
  "target_ok v = (v \<noteq> Some 0)"

definition routine_violation :: "RoutineRow \<Rightarrow> Db \<Rightarrow> SqlxError option" where
  "routine_violation r db = violated (target_ok (ro_target_count r) \<and> target_ok (ro_target_minutes r))
     (\<not> taken ro_id (ro_id r) (db_routines db))
     (fk ar_id (db_areas db) (ro_area_id r) \<and> fk di_id (db_directions db) (ro_direction_id r))"

definition fire_violation :: "RoutineFire \<Rightarrow> Db \<Rightarrow> SqlxError option" where
  "fire_violation r db = violated True (\<not> taken rf_fire_id (rf_fire_id r) (db_fires db))
     (taken ro_id (rf_routine_id r) (db_routines db))"

definition event_violation :: "Event \<Rightarrow> Db \<Rightarrow> SqlxError option" where
  "event_violation r db = violated True
     (\<not> taken ev_seq (ev_seq r) (db_events db) \<and> \<not> taken ev_id (ev_id r) (db_events db)) True"

definition proposal_violation :: "ProposalRow \<Rightarrow> Db \<Rightarrow> SqlxError option" where
  "proposal_violation r db = violated True (\<not> taken pp_id (pp_id r) (db_proposals db)) True"

definition rejection_violation :: "Rejection \<Rightarrow> Db \<Rightarrow> SqlxError option" where
  "rejection_violation r db = violated True (\<not> taken rj_id (rj_id r) (db_rejections db))
     (taken pp_id (rj_proposal_id r) (db_proposals db))"

definition outbox_violation :: "OutboxRow \<Rightarrow> Db \<Rightarrow> SqlxError option" where
  "outbox_violation r db = violated True (\<not> taken ob_id (ob_id r) (db_outbox db)) True"

definition eval_violation :: "ClassifyEval \<Rightarrow> Db \<Rightarrow> SqlxError option" where
  "eval_violation r db = violated True (\<not> taken ce_task_id (ce_task_id r) (db_classify_evals db))
     (taken tk_id (ce_task_id r) (db_tasks db))"

section \<open>INSERT statements\<close>

definition insert_area :: "Area \<Rightarrow> unit store" where
  "insert_area r = checked_stmt (area_violation r) (\<lambda>db. db\<lparr>db_areas := db_areas db @ [r]\<rparr>)"

definition insert_direction :: "Direction \<Rightarrow> unit store" where
  "insert_direction r = checked_stmt (direction_violation r) (\<lambda>db. db\<lparr>db_directions := db_directions db @ [r]\<rparr>)"

definition insert_week :: "Week \<Rightarrow> unit store" where
  "insert_week r = checked_stmt (week_violation r) (\<lambda>db. db\<lparr>db_weeks := db_weeks db @ [r]\<rparr>)"

definition insert_rhythm :: "Rhythm \<Rightarrow> unit store" where
  "insert_rhythm r = checked_stmt (rhythm_violation r) (\<lambda>db. db\<lparr>db_rhythms := db_rhythms db @ [r]\<rparr>)"

definition insert_task :: "TaskRow \<Rightarrow> unit store" where
  "insert_task r = checked_stmt (task_violation r) (\<lambda>db. db\<lparr>db_tasks := db_tasks db @ [r]\<rparr>)"

definition insert_block :: "ScheduleBlock \<Rightarrow> unit store" where
  "insert_block r = checked_stmt (block_violation r) (\<lambda>db. db\<lparr>db_blocks := db_blocks db @ [r]\<rparr>)"

definition insert_review :: "Review \<Rightarrow> unit store" where
  "insert_review r = checked_stmt (review_violation r) (\<lambda>db. db\<lparr>db_reviews := db_reviews db @ [r]\<rparr>)"

definition insert_routine :: "RoutineRow \<Rightarrow> unit store" where
  "insert_routine r = checked_stmt (routine_violation r) (\<lambda>db. db\<lparr>db_routines := db_routines db @ [r]\<rparr>)"

definition insert_fire :: "RoutineFire \<Rightarrow> unit store" where
  "insert_fire r = checked_stmt (fire_violation r) (\<lambda>db. db\<lparr>db_fires := db_fires db @ [r]\<rparr>)"

definition insert_event :: "Event \<Rightarrow> unit store" where
  "insert_event r = checked_stmt (event_violation r) (\<lambda>db. db\<lparr>db_events := db_events db @ [r]\<rparr>)"

definition insert_proposal :: "ProposalRow \<Rightarrow> unit store" where
  "insert_proposal r = checked_stmt (proposal_violation r) (\<lambda>db. db\<lparr>db_proposals := db_proposals db @ [r]\<rparr>)"

definition insert_rejection :: "Rejection \<Rightarrow> unit store" where
  "insert_rejection r = checked_stmt (rejection_violation r) (\<lambda>db. db\<lparr>db_rejections := db_rejections db @ [r]\<rparr>)"

definition insert_outbox :: "OutboxRow \<Rightarrow> unit store" where
  "insert_outbox r = checked_stmt (outbox_violation r) (\<lambda>db. db\<lparr>db_outbox := db_outbox db @ [r]\<rparr>)"

definition call_violation :: "AiCallRecord \<Rightarrow> Db \<Rightarrow> SqlxError option" where
  "call_violation r db = violated True (\<not> taken ac_id (ac_id r) (db_ai_calls db)) True"

definition insert_call_row :: "AiCallRecord \<Rightarrow> unit store" where
  "insert_call_row r = checked_stmt (call_violation r) (\<lambda>db. db\<lparr>db_ai_calls := db_ai_calls db @ [r]\<rparr>)"

definition insert_eval :: "ClassifyEval \<Rightarrow> unit store" where
  "insert_eval r = checked_stmt (eval_violation r) (\<lambda>db. db\<lparr>db_classify_evals := db_classify_evals db @ [r]\<rparr>)"

section \<open>Events\<close>

text \<open>\<open>INTEGER PRIMARY KEY AUTOINCREMENT\<close>: one past the largest sequence number given out.\<close>

definition next_seq :: "Event list \<Rightarrow> nat" where
  "next_seq es = Suc (fold max (map ev_seq es) 0)"

definition append_event ::
  "string \<Rightarrow> string \<Rightarrow> string \<Rightarrow> string option \<Rightarrow> string option \<Rightarrow> Json \<Rightarrow> string \<Rightarrow> string store" where
  "append_event entity entity_id kind from_state to_state payload at =
     mbind ulid (\<lambda>i.
     mbind (query (\<lambda>db. next_seq (db_events db))) (\<lambda>seq.
     mthen (insert_event \<lparr>ev_seq = seq, ev_id = i, ev_entity = entity, ev_entity_id = entity_id, ev_kind = kind,
        ev_from = from_state, ev_to = to_state, ev_payload = payload, ev_at = at\<rparr>)
     (mret i)))"

end
