(* ===== verification/Outbox.thy ===== *)
theory Outbox
  imports Database
begin

text \<open>
  The outbox of \<open>src/store/repo.rs\<close>: the desired state of the kernel scheduler, one live row per
  entity, and the write-backs of the reconciler with their version guard.
\<close>

section \<open>Keys and desired states\<close>

definition routine_dedup_key :: "string \<Rightarrow> string" where
  "routine_dedup_key i = ''routine:'' @ i"

definition routine_kernel_key :: "string \<Rightarrow> string" where
  "routine_kernel_key i = ''routine.'' @ to_ascii_lowercase i"

definition routine_outbox_upsert_desired :: "string \<Rightarrow> string \<Rightarrow> string \<Rightarrow> bool \<Rightarrow> Json" where
  "routine_outbox_upsert_desired i cron tz enabled =
     JObj [(''key'', JStr (routine_kernel_key i)),
           (''spec'', JObj [(''cron'', JStr cron), (''tz'', JStr tz)]),
           (''enabled'', JBool enabled)]"

definition routine_outbox_delete_desired :: "string \<Rightarrow> Json" where
  "routine_outbox_delete_desired i = JObj [(''key'', JStr (routine_kernel_key i))]"

section \<open>The idempotent upsert\<close>

definition ob_live :: "OutboxRow \<Rightarrow> bool" where
  "ob_live r = (ob_status r = ''pending'' \<or> ob_status r = ''failed'')"

text \<open>\<open>ORDER BY created_at DESC LIMIT 1\<close> over the live rows of a key.\<close>

definition live_row :: "string \<Rightarrow> OutboxRow list \<Rightarrow> OutboxRow option" where
  "live_row dedup_key rows =
     (case rev (sort_key ob_created_at (filter (\<lambda>r. ob_dedup_key r = dedup_key \<and> ob_live r) rows)) of
        [] \<Rightarrow> None | r # _ \<Rightarrow> Some r)"

definition overwrite_row :: "string \<Rightarrow> Json \<Rightarrow> OutboxRow \<Rightarrow> OutboxRow" where
  "overwrite_row kind desired r = r\<lparr>ob_kind := kind, ob_desired := desired, ob_status := ''pending'', ob_attempts := 0,
     ob_other_bucket_attempts := 0, ob_version := ob_version r + 1, ob_failure_kind := None, ob_last_error := None,
     ob_next_attempt_at := None\<rparr>"

definition upsert_outbox :: "string \<Rightarrow> string \<Rightarrow> Json \<Rightarrow> unit store" where
  "upsert_outbox kind dedup_key desired =
     mbind (query (\<lambda>db. live_row dedup_key (db_outbox db))) (\<lambda>existing.
     case existing of
       Some r \<Rightarrow> stmt (\<lambda>db. db\<lparr>db_outbox := upd_by ob_id (ob_id r) (overwrite_row kind desired) (db_outbox db)\<rparr>)
     | None \<Rightarrow>
         mbind ulid (\<lambda>i. mbind now_iso8601 (\<lambda>now.
         insert_outbox \<lparr>ob_id = i, ob_kind = kind, ob_dedup_key = dedup_key, ob_desired = desired,
           ob_status = ''pending'', ob_created_at = now, ob_done_at = None, ob_failure_kind = None,
           ob_last_error = None, ob_attempts = 0, ob_next_attempt_at = None, ob_version = 1,
           ob_other_bucket_attempts = 0, ob_result_ref = None\<rparr>)))"

section \<open>The reconciler's reads and write-backs\<close>

definition outbox_due_pending :: "string \<Rightarrow> OutboxRow list store" where
  "outbox_due_pending now = query (\<lambda>db. sort_key ob_created_at
     (filter (\<lambda>r. ob_status r = ''pending'' \<and>
        (case ob_next_attempt_at r of None \<Rightarrow> True | Some t \<Rightarrow> t \<le> now)) (db_outbox db)))"

text \<open>The WHERE clause of all three write-backs and of the check before the kernel call.\<close>

definition pending_at :: "string \<Rightarrow> nat \<Rightarrow> OutboxRow \<Rightarrow> bool" where
  "pending_at i version r = (ob_id r = i \<and> ob_status r = ''pending'' \<and> ob_version r = version)"

definition outbox_row_is_current :: "string \<Rightarrow> nat \<Rightarrow> bool store" where
  "outbox_row_is_current i version = query (\<lambda>db. list_ex (pending_at i version) (db_outbox db))"

definition outbox_mark_done :: "string \<Rightarrow> nat \<Rightarrow> string option \<Rightarrow> unit store" where
  "outbox_mark_done i expected_version result_ref =
     mbind now_iso8601 (\<lambda>now.
     stmt (\<lambda>db. db\<lparr>db_outbox := upd_where (pending_at i expected_version)
       (\<lambda>r. r\<lparr>ob_status := ''done'', ob_done_at := Some now, ob_result_ref := result_ref\<rparr>) (db_outbox db)\<rparr>))"

definition outbox_mark_retry :: "string \<Rightarrow> nat \<Rightarrow> string \<Rightarrow> string \<Rightarrow> bool \<Rightarrow> unit store" where
  "outbox_mark_retry i expected_version error next_attempt_at bump_other_bucket =
     stmt (\<lambda>db. db\<lparr>db_outbox := upd_where (pending_at i expected_version)
       (\<lambda>r. r\<lparr>ob_attempts := ob_attempts r + 1,
              ob_other_bucket_attempts := ob_other_bucket_attempts r + (if bump_other_bucket then 1 else 0),
              ob_last_error := Some error, ob_next_attempt_at := Some next_attempt_at\<rparr>) (db_outbox db)\<rparr>)"

definition outbox_mark_failed :: "string \<Rightarrow> nat \<Rightarrow> string \<Rightarrow> string \<Rightarrow> unit store" where
  "outbox_mark_failed i expected_version failure_kind error =
     stmt (\<lambda>db. db\<lparr>db_outbox := upd_where (pending_at i expected_version)
       (\<lambda>r. r\<lparr>ob_status := ''failed'', ob_attempts := ob_attempts r + 1, ob_failure_kind := Some failure_kind,
              ob_last_error := Some error, ob_next_attempt_at := None\<rparr>) (db_outbox db)\<rparr>)"

end
