(* ===== verification/Messages.thy ===== *)
theory Messages
  imports Proposal
begin

text \<open>
  The texts of the errors: the \<open>Debug\<close> names of the statuses (\<open>src/core/types.rs\<close>) inside the
  \<open>Display\<close> of \<open>TransitionError\<close> (\<open>src/core/transitions.rs\<close>) and of \<open>ProposalError\<close>
  (\<open>src/core/proposal.rs\<close>). Clients see them in the bodies of error answers.
\<close>

fun area_status_debug :: "AreaStatus \<Rightarrow> string" where
  "area_status_debug Area_Active = ''Active''"
| "area_status_debug Area_Archived = ''Archived''"

fun direction_status_debug :: "DirectionStatus \<Rightarrow> string" where
  "direction_status_debug Direction_Draft = ''Draft''"
| "direction_status_debug Direction_Active = ''Active''"
| "direction_status_debug Direction_Paused = ''Paused''"
| "direction_status_debug Direction_Achieved = ''Achieved''"
| "direction_status_debug Direction_Abandoned = ''Abandoned''"

fun proposal_status_debug :: "ProposalStatus \<Rightarrow> string" where
  "proposal_status_debug Proposal_Pending = ''Pending''"
| "proposal_status_debug Proposal_Applying = ''Applying''"
| "proposal_status_debug Proposal_Applied = ''Applied''"
| "proposal_status_debug Proposal_Rejected = ''Rejected''"

fun task_status_debug :: "TaskStatus \<Rightarrow> string" where
  "task_status_debug Task_Backlog = ''Backlog''"
| "task_status_debug Task_Planned = ''Planned''"
| "task_status_debug Task_InProgress = ''InProgress''"
| "task_status_debug Task_Done = ''Done''"
| "task_status_debug Task_Dropped = ''Dropped''"
| "task_status_debug Task_CarriedOver = ''CarriedOver''"

fun week_status_debug :: "WeekStatus \<Rightarrow> string" where
  "week_status_debug Week_Planning = ''Planning''"
| "week_status_debug Week_Active = ''Active''"
| "week_status_debug Week_Reviewing = ''Reviewing''"
| "week_status_debug Week_Closed = ''Closed''"

fun schedule_block_status_debug :: "ScheduleBlockStatus \<Rightarrow> string" where
  "schedule_block_status_debug Block_Planned = ''Planned''"
| "schedule_block_status_debug Block_Started = ''Started''"
| "schedule_block_status_debug Block_Completed = ''Completed''"
| "schedule_block_status_debug Block_Skipped = ''Skipped''"

fun rhythm_status_debug :: "RhythmStatus \<Rightarrow> string" where
  "rhythm_status_debug Rhythm_Active = ''Active''"
| "rhythm_status_debug Rhythm_Adjusted = ''Adjusted''"
| "rhythm_status_debug Rhythm_Retired = ''Retired''"

fun review_status_debug :: "ReviewStatus \<Rightarrow> string" where
  "review_status_debug Review_Draft = ''Draft''"
| "review_status_debug Review_Finalized = ''Finalized''"

fun routine_status_debug :: "RoutineStatus \<Rightarrow> string" where
  "routine_status_debug Routine_Active = ''Active''"
| "routine_status_debug Routine_Paused = ''Paused''"
| "routine_status_debug Routine_Retired = ''Retired''"

fun review_kind_debug :: "ReviewKind \<Rightarrow> string" where
  "review_kind_debug ReviewKind_Daily = ''Daily''"
| "review_kind_debug ReviewKind_Weekly = ''Weekly''"
| "review_kind_debug ReviewKind_Rhythm = ''Rhythm''"

definition illegal_move :: "string \<Rightarrow> string \<Rightarrow> string \<Rightarrow> string" where
  "illegal_move what from_state to_state = ''illegal '' @ what @ '' transition: '' @ from_state @ '' -> '' @ to_state"

fun transition_error_text :: "TransitionError \<Rightarrow> string" where
  "transition_error_text (TE_Area a b) = illegal_move ''area'' (area_status_debug a) (area_status_debug b)"
| "transition_error_text (TE_Direction a b) = illegal_move ''direction'' (direction_status_debug a) (direction_status_debug b)"
| "transition_error_text (TE_Proposal a b) = illegal_move ''proposal'' (proposal_status_debug a) (proposal_status_debug b)"
| "transition_error_text (TE_Task a b) = illegal_move ''task'' (task_status_debug a) (task_status_debug b)"
| "transition_error_text (TE_Week a b) = illegal_move ''week'' (week_status_debug a) (week_status_debug b)"
| "transition_error_text (TE_ScheduleBlock a b) =
     illegal_move ''schedule-block'' (schedule_block_status_debug a) (schedule_block_status_debug b)"
| "transition_error_text (TE_Rhythm a b) = illegal_move ''rhythm'' (rhythm_status_debug a) (rhythm_status_debug b)"
| "transition_error_text (TE_Review a b) = illegal_move ''review'' (review_status_debug a) (review_status_debug b)"
| "transition_error_text (TE_Routine a b) = illegal_move ''routine'' (routine_status_debug a) (routine_status_debug b)"

fun proposal_error_text :: "ProposalError \<Rightarrow> string" where
  "proposal_error_text PE_Empty = ''proposal has no ops''"
| "proposal_error_text (PE_UnknownEntity entity i) = ''unknown '' @ entity @ '': '' @ i"
| "proposal_error_text (PE_IllegalTransition e) = transition_error_text e"
| "proposal_error_text (PE_WeekNotOpen i s) = ''week '' @ i @ '' is not open (status '' @ week_status_debug s @ '')''"
| "proposal_error_text (PE_RhythmRetired i) = ''rhythm '' @ i @ '' is retired; cannot adjust''"
| "proposal_error_text (PE_EmptyList op i) = op @ '' for week '' @ i @ '' has an empty list''"
| "proposal_error_text (PE_DuplicateRef op i) = op @ '' references '' @ i @ '' more than once''"
| "proposal_error_text (PE_InvalidAlloc n) = ''allocation percentages sum to '' @ dec (unat n) @ '' (must be <= 100)''"
| "proposal_error_text PE_EmptyAllocations = ''allocations must not be empty''"
| "proposal_error_text (PE_PctOutOfRange d pct) =
     ''pct must be an integer 1..=100, got '' @ dec (unat pct) @ '' for direction '' @ d"
| "proposal_error_text (PE_BlankField f) = f @ '' must not be blank''"
| "proposal_error_text (PE_NestedProject i) =
     ''task '' @ i @ '' already has a parent; a task may only be nested one level deep''"
| "proposal_error_text (PE_NotInInbox i d) =
     ''task '' @ i @ '' is not in the inbox (already assigned to direction '' @ d @ '')''"
| "proposal_error_text (PE_TaskClosed i s) =
     ''task '' @ i @ '' is closed (status '' @ task_status_debug s @ ''); cannot assign a direction''"
| "proposal_error_text (PE_DirectionClosed i s) =
     ''direction '' @ i @ '' is closed (status '' @ direction_status_debug s @ ''); cannot assign''"
| "proposal_error_text (PE_ReviewNotDraft i) =
     ''review '' @ i @ '' is not a draft; no further body changes are accepted''"
| "proposal_error_text (PE_StaleBase entity i) =
     entity @ '' '' @ i @ [CHR 0x27] @ ''s body has changed since this proposal was generated''"
| "proposal_error_text (PE_NoChange op) = op @ '' would not change anything''"
| "proposal_error_text (PE_TooLarge f n) = f @ '' exceeds the '' @ dec n @ ''-byte limit''"
| "proposal_error_text PE_BadHash = ''base_body_sha256 must be 64 lowercase hex characters''"

end
