(* ===== verification/Store_Plan.thy ===== *)
theory Store_Plan
  imports Database Messages
begin

text \<open>
  The planning entities of \<open>src/store/repo.rs\<close>: areas with their slugs, directions, rhythms and
  weeks. Each operation is the whole method: its checks, its transaction, the row it writes, the
  event it appends and the value it returns.
\<close>

section \<open>Slugs\<close>

text \<open>
  \<open>slugify\<close> walks the characters; every byte of a character outside of ASCII is outside of the
  alphanumerics, so on bytes the same loop collapses it into one dash.
\<close>

fun slug_chars :: "bool \<Rightarrow> string \<Rightarrow> string \<Rightarrow> string" where
  "slug_chars last_dash out [] = out"
| "slug_chars last_dash out (c # cs) =
     (if is_ascii_alphanumeric c then slug_chars False (out @ [ascii_lower c]) cs
      else if \<not> last_dash \<and> out \<noteq> [] then slug_chars True (out @ ''-'') cs
      else slug_chars last_dash out cs)"

definition slugify :: "string \<Rightarrow> string" where
  "slugify title =
     (let out = rev (dropWhile (\<lambda>c. c = CHR ''-'') (rev (slug_chars False [] title)))
      in if out = [] then ''area'' else out)"

definition numbered :: "string \<Rightarrow> nat \<Rightarrow> string" where
  "numbered base n = base @ ''-'' @ dec n"

lemma dec_inj: "dec m = dec n \<Longrightarrow> m = n"
  by (metis dec_bound dec_fixw fixw_inj)

lemma numbered_inj: "numbered base m = numbered base n \<Longrightarrow> m = n"
  by (auto simp: numbered_def dest: dec_inj)

text \<open>
  The loop of \<open>allocate_area_slug\<close>: \<open>slug\<close> is the name to look up, \<open>n\<close> the number of the next
  one. The counter is a u32 and its addition wraps, as in the release build that the project ships.
  \<open>None\<close> is a search that goes on for ever: it looks up the \<open>2 ^ 32\<close> numbered names again and again
  when all of them are taken.
\<close>

partial_function (option) slug_loop :: "string list \<Rightarrow> string \<Rightarrow> string \<Rightarrow> u32 \<Rightarrow> string option" where
  "slug_loop slugs base_slug slug n =
     (if slug \<notin> set slugs then Some slug
      else slug_loop slugs base_slug (numbered base_slug (unat n)) (n + 1))"

text \<open>
  A call whose search goes on for ever never answers and its transaction never commits. The calls of
  the model all answer, so there the model has an error, which leaves the database as it was in the
  same way; in a debug build the addition panics at \<open>2 ^ 32 - 1\<close> instead.
\<close>

definition allocate_area_slug :: "string \<Rightarrow> string store" where
  "allocate_area_slug title =
     (let base_slug = slugify title in
      mbind (query (\<lambda>db. slug_loop (map ar_slug (db_areas db)) base_slug base_slug 2))
        (\<lambda>found. msome found (SE_Internal ''the search for a slug does not end'')))"

section \<open>Areas\<close>

definition create_area :: "string \<Rightarrow> Area store" where
  "create_area title =
     mbind ulid (\<lambda>i. mbind now_iso8601 (\<lambda>now.
     with_tx (mbind (allocate_area_slug title) (\<lambda>slug.
       let a = \<lparr>ar_id = i, ar_title = title, ar_slug = slug, ar_status = Area_Active, ar_sort_key = 0,
                ar_created_at = now, ar_updated_at = now\<rparr>
       in mthen (insert_area a)
         (mthen (append_event ''area'' i ''created'' None (Some ''active'')
            (JObj [(''id'', JStr i), (''title'', JStr title), (''slug'', JStr slug), (''status'', JStr ''active'')])
            now)
         (mret a))))))"

text \<open>\<open>ORDER BY created_at DESC, rowid DESC\<close>.\<close>

definition newest_first :: "('r \<Rightarrow> string) \<Rightarrow> 'r list \<Rightarrow> 'r list" where
  "newest_first created rows = rev (sort_key created rows)"

definition list_areas :: "Area list store" where
  "list_areas = query (\<lambda>db. newest_first ar_created_at (db_areas db))"

definition transition_area :: "string \<Rightarrow> AreaStatus \<Rightarrow> Area store" where
  "transition_area i to = with_tx
     (mbind (query (\<lambda>db. row_by ar_id i (db_areas db))) (\<lambda>r.
      mbind (msome r (SE_NotFound (''area '' @ i))) (\<lambda>row.
      mthen (mlift (transition_err (check_area_transition (ar_status row) to)))
      (mbind now_iso8601 (\<lambda>now.
       mthen (stmt (\<lambda>db. db\<lparr>db_areas := upd_by ar_id i (\<lambda>a. a\<lparr>ar_status := to, ar_updated_at := now\<rparr>) (db_areas db)\<rparr>))
       (mthen (append_event ''area'' i ''transitioned'' (Some (area_status_wire (ar_status row)))
          (Some (area_status_wire to)) (JObj [(''area_id'', JStr i)]) now)
       (mret (row\<lparr>ar_status := to, ar_updated_at := now\<rparr>))))))))"

section \<open>Directions and rhythms\<close>

definition create_direction :: "string \<Rightarrow> string \<Rightarrow> string option \<Rightarrow> Direction store" where
  "create_direction title target_window area_id =
     mbind ulid (\<lambda>i. mbind now_iso8601 (\<lambda>now.
     with_tx (
       let d = \<lparr>di_id = i, di_area_id = area_id, di_title = title, di_status = Direction_Draft,
                di_target_window = target_window, di_created_at = now, di_updated_at = now\<rparr>
       in mthen (insert_direction d)
         (mthen (append_event ''direction'' i ''created'' None (Some ''draft'')
            (JObj [(''id'', JStr i), (''area_id'', jopt JStr area_id), (''title'', JStr title),
                   (''status'', JStr ''draft''), (''target_window'', JStr target_window)]) now)
         (mret d)))))"

fun require_directions_exist :: "Alloc list \<Rightarrow> unit store" where
  "require_directions_exist [] = mret ()"
| "require_directions_exist (a # as) =
     mbind (query (\<lambda>db. taken di_id (al_direction_id a) (db_directions db))) (\<lambda>found.
     mthen (mguard found (SE_NotFound (''direction '' @ al_direction_id a))) (require_directions_exist as))"

definition alloc_json :: "Alloc list \<Rightarrow> Json" where
  "alloc_json as = JArr (map (\<lambda>a. JObj [(''direction_id'', JStr (al_direction_id a)), (''pct'', ju32 (al_pct a))]) as)"

definition create_rhythm :: "Alloc list \<Rightarrow> Rhythm store" where
  "create_rhythm allocations =
     mthen (mlift (case check_alloc allocations of Inl e \<Rightarrow> Inl (SE_Invalid (proposal_error_text e)) | Inr u \<Rightarrow> Inr u))
     (mbind ulid (\<lambda>i. mbind now_iso8601 (\<lambda>now.
      with_tx (mthen (require_directions_exist allocations)
       (let r = \<lparr>rh_id = i, rh_status = Rhythm_Active, rh_allocations = allocations,
                 rh_created_at = now, rh_updated_at = now\<rparr>
        in mthen (insert_rhythm r)
          (mthen (append_event ''rhythm'' i ''created'' None (Some ''active'')
             (JObj [(''id'', JStr i), (''status'', JStr ''active''), (''allocations'', alloc_json allocations)]) now)
          (mret r)))))))"

section \<open>Weeks\<close>

definition create_week :: "string \<Rightarrow> Week store" where
  "create_week label =
     mbind (msome (canonical_iso_week label) (SE_Invalid ''iso_week must be an ISO-8601 week like 2026-W42''))
     (\<lambda>iso_week. mbind ulid (\<lambda>i. mbind now_iso8601 (\<lambda>now.
      with_tx (mbind (query (\<lambda>db. taken wk_iso_week iso_week (db_weeks db))) (\<lambda>taken_week.
       mthen (mguard (\<not> taken_week) (SE_Conflict (''week '' @ iso_week @ '' already exists'')))
       (let wk = \<lparr>wk_id = i, wk_status = Week_Planning, wk_iso_week = iso_week,
                  wk_created_at = now, wk_updated_at = now\<rparr>
        in mthen (insert_week wk)
          (mthen (append_event ''week'' i ''created'' None (Some ''planning'')
             (JObj [(''id'', JStr i), (''iso_week'', JStr iso_week), (''status'', JStr ''planning'')]) now)
          (mret wk))))))))"

definition list_weeks :: "Week list store" where
  "list_weeks = query (\<lambda>db. newest_first wk_created_at (db_weeks db))"

definition transition_week :: "string \<Rightarrow> WeekStatus \<Rightarrow> Week store" where
  "transition_week i to = with_tx
     (mbind (query (\<lambda>db. row_by wk_id i (db_weeks db))) (\<lambda>r.
      mbind (msome r (SE_NotFound (''week '' @ i))) (\<lambda>row.
      mthen (mlift (transition_err (check_week_transition (wk_status row) to)))
      (mbind now_iso8601 (\<lambda>now.
       mthen (stmt (\<lambda>db. db\<lparr>db_weeks := upd_by wk_id i (\<lambda>k. k\<lparr>wk_status := to, wk_updated_at := now\<rparr>) (db_weeks db)\<rparr>))
       (mthen (append_event ''week'' i ''transitioned'' (Some (week_status_wire (wk_status row)))
          (Some (week_status_wire to)) (JObj [(''week_id'', JStr i)]) now)
       (mret (row\<lparr>wk_status := to, wk_updated_at := now\<rparr>))))))))"

record WeekAttention =
  wa_week_id :: WeekId
  wa_planned_min :: int
  wa_actual_min :: int
  wa_deviation_min :: int

text \<open>\<open>SUM(b.planned_minutes)\<close> over the join of the blocks with their tasks.\<close>

definition planned_minutes_of :: "string \<Rightarrow> Db \<Rightarrow> int" where
  "planned_minutes_of week_id db =
     sum_list [uint (bl_planned_minutes b). b \<leftarrow> db_blocks db, t \<leftarrow> db_tasks db,
       bl_task_id b = Some (tk_id t) \<and> tk_week_id t = Some week_id]"

definition payload_minutes :: "Event \<Rightarrow> int" where
  "payload_minutes e = (case jget ''minutes'' (ev_payload e) of Some (JInt m) \<Rightarrow> m | _ \<Rightarrow> 0)"

definition block_completed :: "Event \<Rightarrow> bool" where
  "block_completed e = (ev_entity e = ''block'' \<and> ev_kind e = ''transitioned'' \<and> ev_to e = Some ''completed'')"

definition actual_minutes_of :: "string \<Rightarrow> Event list \<Rightarrow> int" where
  "actual_minutes_of week_id events =
     sum_list (map payload_minutes
       (filter (\<lambda>e. block_completed e \<and> jget ''week_id'' (ev_payload e) = Some (JStr week_id)) events))"

definition week_attention :: "string \<Rightarrow> WeekAttention store" where
  "week_attention week_id =
     mbind (query (\<lambda>db. taken wk_id week_id (db_weeks db))) (\<lambda>exists_week.
     mthen (mguard exists_week (SE_NotFound (''week '' @ week_id)))
     (mbind (query (planned_minutes_of week_id)) (\<lambda>planned_min.
      mbind (query (\<lambda>db. actual_minutes_of week_id (db_events db))) (\<lambda>actual_min.
      mret \<lparr>wa_week_id = week_id, wa_planned_min = planned_min, wa_actual_min = actual_min,
            wa_deviation_min = actual_min - planned_min\<rparr>))))"

end
