(* ===== verification/Store_Task.thy ===== *)
theory Store_Task
  imports Store_Plan
begin

text \<open>
  Schedule blocks, tasks and the read-only \<open>today_view\<close> of \<open>src/store/repo.rs\<close>.
\<close>

section \<open>Checks against live rows\<close>

definition read_task_status :: "string \<Rightarrow> TaskStatus store" where
  "read_task_status i =
     mbind (query (\<lambda>db. map_option tk_status (row_by tk_id i (db_tasks db))))
       (\<lambda>r. msome r (SE_NotFound (''task '' @ i)))"

text \<open>The week of a task, as the join of the two tables finds it.\<close>

definition week_of_task :: "string \<Rightarrow> Db \<Rightarrow> Week option" where
  "week_of_task i db =
     (case row_by tk_id i (db_tasks db) of None \<Rightarrow> None
      | Some t \<Rightarrow> (case tk_week_id t of None \<Rightarrow> None | Some k \<Rightarrow> row_by wk_id k (db_weeks db)))"

definition require_task_week_open :: "string \<Rightarrow> unit store" where
  "require_task_week_open i =
     mbind (query (week_of_task i)) (\<lambda>r.
       case r of None \<Rightarrow> mret () | Some k \<Rightarrow> mguard (week_is_open (wk_status k)) (SE_WeekNotOpen i))"

definition require_area_exists :: "string \<Rightarrow> unit store" where
  "require_area_exists i =
     mbind (query (\<lambda>db. taken ar_id i (db_areas db))) (\<lambda>found. mguard found (SE_NotFound (''area '' @ i)))"

definition require_direction_exists :: "string \<Rightarrow> unit store" where
  "require_direction_exists i =
     mbind (query (\<lambda>db. taken di_id i (db_directions db))) (\<lambda>found. mguard found (SE_NotFound (''direction '' @ i)))"

section \<open>Schedule blocks\<close>

definition create_block :: "string option \<Rightarrow> string option \<Rightarrow> u32 \<Rightarrow> ScheduleBlock store" where
  "create_block direction_id task_id planned_minutes =
     mbind ulid (\<lambda>i. mbind now_iso8601 (\<lambda>now.
     with_tx (
       let b = \<lparr>bl_id = i, bl_direction_id = direction_id, bl_task_id = task_id, bl_status = Block_Planned,
                bl_planned_minutes = planned_minutes, bl_created_at = now, bl_updated_at = now\<rparr>
       in mthen (insert_block b)
         (mthen (append_event ''block'' i ''created'' None (Some ''planned'')
            (JObj [(''id'', JStr i), (''direction_id'', jopt JStr direction_id),
                   (''planned_minutes'', ju32 planned_minutes)]) now)
         (mret b)))))"

definition title_of_direction :: "string option \<Rightarrow> Db \<Rightarrow> string option" where
  "title_of_direction d db =
     (case d of None \<Rightarrow> None | Some i \<Rightarrow> map_option di_title (row_by di_id i (db_directions db)))"

definition week_id_of_task :: "string option \<Rightarrow> Db \<Rightarrow> string option" where
  "week_id_of_task t db =
     (case t of None \<Rightarrow> None
      | Some i \<Rightarrow> (case row_by tk_id i (db_tasks db) of None \<Rightarrow> None | Some r \<Rightarrow> tk_week_id r))"

definition transition_block :: "string \<Rightarrow> ScheduleBlockStatus \<Rightarrow> ScheduleBlock store" where
  "transition_block i to = with_tx
     (mbind (query (\<lambda>db. row_by bl_id i (db_blocks db))) (\<lambda>r.
      mbind (msome r (SE_NotFound (''schedule_block '' @ i))) (\<lambda>row.
      mthen (mlift (transition_err (check_schedule_block_transition (bl_status row) to)))
      (mbind now_iso8601 (\<lambda>now.
       mthen (stmt (\<lambda>db. db\<lparr>db_blocks := upd_by bl_id i (\<lambda>b. b\<lparr>bl_status := to, bl_updated_at := now\<rparr>) (db_blocks db)\<rparr>))
       (mbind (query (title_of_direction (bl_direction_id row))) (\<lambda>direction_title.
        mbind (query (week_id_of_task (bl_task_id row))) (\<lambda>week_id.
        mthen (append_event ''block'' i ''transitioned'' (Some (schedule_block_status_wire (bl_status row)))
          (Some (schedule_block_status_wire to))
          (JObj [(''block_id'', JStr i), (''direction_id'', jopt JStr (bl_direction_id row)),
                 (''week_id'', jopt JStr week_id), (''direction_title'', jopt JStr direction_title),
                 (''minutes'', ju32 (bl_planned_minutes row)), (''occurred_at'', JStr now)]) now)
        (mret (row\<lparr>bl_status := to, bl_updated_at := now\<rparr>))))))))))"

section \<open>Tasks\<close>

text \<open>The triage columns of a task that is filed under \<open>direction_id\<close> when it is created.\<close>

definition triage_columns :: "string option \<Rightarrow> string \<Rightarrow> string option \<times> string option" where
  "triage_columns direction_id now =
     (if direction_id = Some TRIAGE_DIRECTION_ID then (Some ''direct'', Some now) else (None, None))"

definition check_parent :: "string option \<Rightarrow> unit store" where
  "check_parent parent_task_id =
     (case parent_task_id of None \<Rightarrow> mret ()
      | Some parent_id \<Rightarrow>
          mbind (query (\<lambda>db. map_option tk_parent_task_id (row_by tk_id parent_id (db_tasks db)))) (\<lambda>r.
          mbind (msome r (SE_NotFound (''task '' @ parent_id))) (\<lambda>grandparent.
          mguard (grandparent = None)
            (SE_Conflict (''task '' @ parent_id @ '' already has a parent; nesting is limited to one level'')))))"

definition create_task ::
  "string \<Rightarrow> string option \<Rightarrow> string option \<Rightarrow> TaskKind \<Rightarrow> Energy \<Rightarrow> u32 option \<Rightarrow> Task store" where
  "create_task title direction_id parent_task_id kind energy est_minutes = with_tx
     (mthen (check_parent parent_task_id)
     (mbind ulid (\<lambda>i. mbind now_iso8601 (\<lambda>now.
      let t = \<lparr>tk_id = i, tk_direction_id = direction_id, tk_week_id = None, tk_parent_task_id = parent_task_id,
               tk_title = title, tk_status = Task_Backlog, tk_kind = kind, tk_energy = energy,
               tk_est_minutes = est_minutes, tk_carried_from = None, tk_created_at = now, tk_updated_at = now,
               tr_sort_key = 0, tr_triage_via = fst (triage_columns direction_id now),
               tr_triage_entered_at = snd (triage_columns direction_id now)\<rparr>
      in mthen (insert_task t)
        (mthen (append_event ''task'' i ''created'' None (Some ''backlog'')
           (JObj [(''id'', JStr i), (''direction_id'', jopt JStr direction_id),
                  (''parent_task_id'', jopt JStr parent_task_id), (''title'', JStr title)]) now)
        (mret (Task.truncate t)))))))"

definition transition_task :: "string \<Rightarrow> TaskStatus \<Rightarrow> Task store" where
  "transition_task i to = with_tx
     (mbind (query (\<lambda>db. row_by tk_id i (db_tasks db))) (\<lambda>r.
      mbind (msome r (SE_NotFound (''task '' @ i))) (\<lambda>row.
      mthen (require_task_week_open i)
      (mthen (mlift (transition_err (check_task_transition (tk_status row) to)))
      (mbind now_iso8601 (\<lambda>now.
       mthen (stmt (\<lambda>db. db\<lparr>db_tasks := upd_by tk_id i (\<lambda>t. t\<lparr>tk_status := to, tk_updated_at := now\<rparr>) (db_tasks db)\<rparr>))
       (mthen (append_event ''task'' i ''transitioned'' (Some (task_status_wire (tk_status row)))
          (Some (task_status_wire to)) (JObj [(''task_id'', JStr i)]) now)
       (mret ((Task.truncate row)\<lparr>tk_status := to, tk_updated_at := now\<rparr>)))))))))"

text \<open>The optional predicates of the query; the join is there only with an area filter.\<close>

definition task_matches :: "string option \<Rightarrow> string option \<Rightarrow> TaskStatus option \<Rightarrow> Db \<Rightarrow> TaskRow \<Rightarrow> bool" where
  "task_matches direction_id area_id status db t =
     ((case direction_id of None \<Rightarrow> True | Some d \<Rightarrow> tk_direction_id t = Some d)
      \<and> (case area_id of None \<Rightarrow> True
         | Some a \<Rightarrow> (case tk_direction_id t of None \<Rightarrow> False
             | Some d \<Rightarrow> list_ex (\<lambda>q. di_id q = d \<and> di_area_id q = Some a) (db_directions db)))
      \<and> (case status of None \<Rightarrow> True | Some s \<Rightarrow> tk_status t = s))"

definition list_tasks :: "string option \<Rightarrow> string option \<Rightarrow> TaskStatus option \<Rightarrow> Task list store" where
  "list_tasks direction_id area_id status = query (\<lambda>db.
     map Task.truncate (newest_first tk_created_at (filter (task_matches direction_id area_id status db) (db_tasks db))))"

section \<open>Today\<close>

record TodayView =
  tv_must_do :: "Task list"
  tv_deep_block :: "ScheduleBlock option"
  tv_inbox :: "Task list"
  tv_carry_over_candidates :: "Task list"
  tv_fired_routines :: "Routine list"
  tv_kernel_suspended_routines :: "Routine list"

fun must_do_tier :: "TaskStatus \<Rightarrow> nat" where
  "must_do_tier Task_InProgress = 0"
| "must_do_tier Task_Planned = 1"
| "must_do_tier _ = 2"

text \<open>Rows with equal ORDER BY keys come in rowid order here; the query leaves their order open.\<close>

definition must_do :: "Db \<Rightarrow> Task list" where
  "must_do db = map Task.truncate (take 3 (sort_key (\<lambda>t. must_do_tier (tk_status t)) (sort_key tk_created_at
     (filter (\<lambda>t. tk_direction_id t \<noteq> None \<and> tk_status t \<in> set [Task_InProgress, Task_Planned, Task_Backlog])
       (db_tasks db)))))"

definition deep_block :: "Db \<Rightarrow> ScheduleBlock option" where
  "deep_block db = (case sort_key bl_created_at (filter (\<lambda>b. bl_status b = Block_Planned) (db_blocks db)) of
     [] \<Rightarrow> None | b # _ \<Rightarrow> Some b)"

definition inbox :: "Db \<Rightarrow> Task list" where
  "inbox db = map Task.truncate (sort_key tk_created_at
     (filter (\<lambda>t. tk_direction_id t = None \<and> tk_status t \<notin> set [Task_Done, Task_Dropped]) (db_tasks db)))"

text \<open>\<open>COALESCE((SELECT MAX(e.at) ..), t.created_at)\<close>.\<close>

definition started_at :: "Event list \<Rightarrow> TaskRow \<Rightarrow> string" where
  "started_at events t =
     (case map ev_at (filter (\<lambda>e. ev_entity e = ''task'' \<and> ev_entity_id e = tk_id t \<and> ev_to e = Some ''in_progress'') events) of
        [] \<Rightarrow> tk_created_at t
      | a # as \<Rightarrow> fold max as a)"

definition carry_over_candidates :: "string \<Rightarrow> Db \<Rightarrow> Task list" where
  "carry_over_candidates today_start db = map Task.truncate (sort_key tk_created_at
     (filter (\<lambda>t. tk_direction_id t \<noteq> None \<and> tk_status t = Task_InProgress
        \<and> started_at (db_events db) t < today_start) (db_tasks db)))"

definition fired_routines :: "string \<Rightarrow> Db \<Rightarrow> Routine list" where
  "fired_routines today_start db = map Routine.truncate (sort_key ro_title
     (filter (\<lambda>r. list_ex (\<lambda>f. rf_routine_id f = ro_id r \<and> today_start \<le> rf_received_at f) (db_fires db))
       (db_routines db)))"

definition kernel_suspended_routines :: "Db \<Rightarrow> Routine list" where
  "kernel_suspended_routines db = map Routine.truncate (sort_key ro_title
     (filter (\<lambda>r. rr_kernel_suspended_at r \<noteq> None \<and> ro_status r \<noteq> Routine_Retired) (db_routines db)))"

definition local_day_start_utc :: "string store" where
  "local_day_start_utc = mbind (mget (\<lambda>w. en_local_day_start (st_env w) (st_ticks w)))
     (\<lambda>t. mthen (mmod (\<lambda>w. w\<lparr>st_ticks := Suc (st_ticks w)\<rparr>)) (mret t))"

definition today_view :: "TodayView store" where
  "today_view = mbind local_day_start_utc (\<lambda>today_start. query (\<lambda>db.
     \<lparr>tv_must_do = must_do db, tv_deep_block = deep_block db, tv_inbox = inbox db,
      tv_carry_over_candidates = carry_over_candidates today_start db,
      tv_fired_routines = fired_routines today_start db,
      tv_kernel_suspended_routines = kernel_suspended_routines db\<rparr>))"

end
