(* ===== verification/Attention.thy ===== *)
theory Attention
  imports Store_Task
begin

text \<open>
  \<open>src/store/attention.rs\<close>: the replay of completed blocks over a window, the materialised view
  \<open>sin90_attention_daily\<close> that is advanced by a watermark, its rebuild and its read.
\<close>

section \<open>Replay\<close>

record AttentionRow =
  aw_direction_id :: string
  aw_direction_title :: "string option"
  aw_actual_min :: int

text \<open>\<open>COALESCE(json_extract(payload,'$.direction_id'),'')\<close> and the title snapshot.\<close>

definition payload_direction :: "Event \<Rightarrow> string" where
  "payload_direction e = (case jget ''direction_id'' (ev_payload e) of Some (JStr d) \<Rightarrow> d | _ \<Rightarrow> [])"

definition payload_title :: "Event \<Rightarrow> string option" where
  "payload_title e = (case jget ''direction_title'' (ev_payload e) of Some (JStr t) \<Rightarrow> Some t | _ \<Rightarrow> None)"

definition in_window :: "string \<Rightarrow> string \<Rightarrow> Event \<Rightarrow> bool" where
  "in_window start end e = (start \<le> ev_at e \<and> ev_at e < end)"

text \<open>\<open>MAX\<close> of a column that may be NULL.\<close>

definition max_text :: "string option list \<Rightarrow> string option" where
  "max_text ts = (case List.map_filter id ts of [] \<Rightarrow> None | x # xs \<Rightarrow> Some (fold max xs x))"

text \<open>\<open>GROUP BY dir ORDER BY actual DESC, dir\<close>.\<close>

definition attention_rows :: "Event list \<Rightarrow> AttentionRow list" where
  "attention_rows es =
     sort_key (\<lambda>r. - aw_actual_min r)
       (map (\<lambda>d. let grp = filter (\<lambda>e. payload_direction e = d) es
          in \<lparr>aw_direction_id = d, aw_direction_title = max_text (map payload_title grp),
              aw_actual_min = sum_list (map payload_minutes grp)\<rparr>)
         (sort (remdups (map payload_direction es))))"

definition attention_on :: "string \<Rightarrow> string \<Rightarrow> AttentionRow list store" where
  "attention_on start end = query (\<lambda>db.
     attention_rows (filter (\<lambda>e. block_completed e \<and> in_window start end e) (db_events db)))"

definition attention :: "string \<Rightarrow> string \<Rightarrow> AttentionRow list store" where
  "attention start end = attention_on start end"

section \<open>The materialised view\<close>

text \<open>\<open>occurred_at.get(0..10).unwrap_or("")\<close>: absent when the cut is inside of a character.\<close>

definition day_of :: "string \<Rightarrow> string" where
  "day_of t = (if length t = 10 \<or> length t > 10 \<and> \<not> is_cont (t ! 10) then take 10 t else [])"

text \<open>\<open>INSERT .. ON CONFLICT(day, direction_id) DO UPDATE SET actual_min = actual_min + excluded.actual_min\<close>.\<close>

definition bump :: "string \<Rightarrow> string \<Rightarrow> int \<Rightarrow> AttentionDailyRow list \<Rightarrow> AttentionDailyRow list" where
  "bump day dir minutes rows =
     (if list_ex (\<lambda>r. ad_day r = day \<and> ad_direction_id r = dir) rows
      then upd_where (\<lambda>r. ad_day r = day \<and> ad_direction_id r = dir)
             (\<lambda>r. r\<lparr>ad_actual_min := ad_actual_min r + minutes\<rparr>) rows
      else rows @ [\<lparr>ad_day = day, ad_direction_id = dir, ad_actual_min = minutes\<rparr>])"

text \<open>One completed event; a missing \<open>occurred_at\<close> or \<open>minutes\<close> is a decoding error.\<close>

definition fold_event :: "Event \<Rightarrow> unit store" where
  "fold_event e =
     (case (jget ''occurred_at'' (ev_payload e), jget ''minutes'' (ev_payload e)) of
        (Some (JStr occurred_at), Some (JInt minutes)) \<Rightarrow>
          stmt (\<lambda>db. db\<lparr>db_attention := bump (day_of occurred_at) (payload_direction e) minutes (db_attention db)\<rparr>)
      | _ \<Rightarrow> mfail (SE_Sqlx Sqlx_Column_Decode))"

definition max_seq :: "Event list \<Rightarrow> nat" where
  "max_seq es = fold max (map ev_seq es) 0"

definition attention_apply_new_events :: "unit store" where
  "attention_apply_new_events = with_tx
     (mbind (query db_watermark) (\<lambda>wm.
      mbind (query (\<lambda>db. max_seq (db_events db))) (\<lambda>top.
      if top \<le> wm then mret ()
      else
        mbind (query (\<lambda>db. sort_key ev_seq
           (filter (\<lambda>e. wm < ev_seq e \<and> ev_seq e \<le> top \<and> block_completed e) (db_events db)))) (\<lambda>rows.
        mthen (mfor fold_event rows)
          (stmt (\<lambda>db. db\<lparr>db_watermark := top\<rparr>))))))"

definition attention_rebuild :: "unit store" where
  "attention_rebuild =
     mthen (with_tx (mthen (stmt (\<lambda>db. db\<lparr>db_attention := []\<rparr>)) (stmt (\<lambda>db. db\<lparr>db_watermark := 0\<rparr>))))
       attention_apply_new_events"

definition attention_daily :: "AttentionDailyRow list store" where
  "attention_daily = query (\<lambda>db. sort_key ad_day (sort_key ad_direction_id (db_attention db)))"

end
