(* ===== verification/Weekly_Draft.thy ===== *)
theory Weekly_Draft
  imports Attention
begin

text \<open>
  \<open>src/store/weekly_draft.rs\<close>: the numbers of one ISO week, all replayed from the event log, and
  their Markdown rendering; and \<open>src/store/packs.rs\<close>, the seed of areas and directions.
\<close>

record DirectionMinutes =
  dm_direction_id :: string
  dm_minutes :: int

record AreaMinutes =
  am_area_id :: string
  am_minutes :: int

record RoutineDraftRow =
  rd_routine_id :: string
  rd_fired :: nat
  rd_completed :: nat

record WeeklyDraft =
  wd_week :: string
  wd_by_area :: "AreaMinutes list"
  wd_by_direction :: "DirectionMinutes list"
  wd_tasks_done :: nat
  wd_routines :: "RoutineDraftRow list"

text \<open>The em dash of the heading in UTF-8.\<close>

definition em_dash :: string where
  "em_dash = map char_of [226, 128, 148 :: nat]"

definition newline :: string where
  "newline = [char_of (10 :: nat)]"

definition label_or :: "string \<Rightarrow> string \<Rightarrow> string" where
  "label_or fallback i = (if i = [] then fallback else i)"

definition minutes_line :: "string \<Rightarrow> string \<Rightarrow> int \<Rightarrow> string" where
  "minutes_line fallback i m = ''- '' @ label_or fallback i @ '': '' @ show_int m @ '' min'' @ newline"

definition render_weekly_draft_markdown :: "WeeklyDraft \<Rightarrow> string" where
  "render_weekly_draft_markdown draft =
     ''# Weekly Review Draft '' @ em_dash @ '' '' @ wd_week draft @ newline @ newline @
     ''## By Area'' @ newline @ newline @
     (if wd_by_area draft = [] then ''_no attention recorded this week_'' @ newline @ newline
      else concat (map (\<lambda>a. minutes_line ''(no area)'' (am_area_id a) (am_minutes a)) (wd_by_area draft)) @ newline) @
     ''## By Direction'' @ newline @ newline @
     (if wd_by_direction draft = [] then ''_no attention recorded this week_'' @ newline @ newline
      else concat (map (\<lambda>d. minutes_line ''(no direction)'' (dm_direction_id d) (dm_minutes d)) (wd_by_direction draft)) @
        newline) @
     ''## Tasks done: '' @ dec (wd_tasks_done draft) @ newline @ newline @
     ''## Routines fired'' @ newline @ newline @
     (if wd_routines draft = [] then ''_no routines fired this week_'' @ newline
      else concat (map (\<lambda>r. ''- '' @ rd_routine_id r @ '': fired '' @ dec (rd_fired r) @ '', completed '' @
        dec (rd_completed r) @ newline) (wd_routines draft)))"

text \<open>Collecting into a \<open>HashMap\<close> keeps the last entry of a key.\<close>

definition direction_area_snapshot :: "Event list \<Rightarrow> (string \<times> string) list" where
  "direction_area_snapshot es =
     List.map_filter (\<lambda>e. case jget ''area_id'' (ev_payload e) of Some (JStr a) \<Rightarrow> Some (ev_entity_id e, a) | _ \<Rightarrow> None)
       (filter (\<lambda>e. ev_entity e = ''direction'' \<and> ev_kind e = ''created'') es)"

definition area_of :: "Event list \<Rightarrow> string \<Rightarrow> string" where
  "area_of es d = (if d = [] then []
     else case map_of (rev (direction_area_snapshot es)) d of Some a \<Rightarrow> a | None \<Rightarrow> [])"

text \<open>The fold into a \<open>BTreeMap\<close>: one total per area, in the order of the area ids.\<close>

definition area_totals :: "Event list \<Rightarrow> AttentionRow list \<Rightarrow> AreaMinutes list" where
  "area_totals es rows =
     map (\<lambda>a. \<lparr>am_area_id = a, am_minutes =
         sum_list (map aw_actual_min (filter (\<lambda>r. area_of es (aw_direction_id r) = a) rows))\<rparr>)
       (sort (remdups (map (\<lambda>r. area_of es (aw_direction_id r)) rows)))"

definition task_done_event :: "Event \<Rightarrow> bool" where
  "task_done_event e = (ev_entity e = ''task'' \<and> ev_kind e = ''transitioned'' \<and> ev_to e = Some ''done'')"

definition fired_event :: "Event \<Rightarrow> bool" where
  "fired_event e = (ev_entity e = ''routine'' \<and> ev_kind e = ''fired'')"

definition fired_rows :: "Event list \<Rightarrow> RoutineDraftRow list" where
  "fired_rows es =
     map (\<lambda>i. \<lparr>rd_routine_id = i, rd_fired = count_where (\<lambda>e. ev_entity_id e = i) es, rd_completed = 0\<rparr>)
       (sort (remdups (map ev_entity_id es)))"

definition draft_of_events :: "string \<Rightarrow> string \<Rightarrow> string \<Rightarrow> Event list \<Rightarrow> WeeklyDraft" where
  "draft_of_events week start end es =
     (let attention_rs = attention_rows (filter (\<lambda>e. block_completed e \<and> in_window start end e) es)
      in \<lparr>wd_week = week, wd_by_area = area_totals es attention_rs,
          wd_by_direction = map (\<lambda>r. \<lparr>dm_direction_id = aw_direction_id r, dm_minutes = aw_actual_min r\<rparr>) attention_rs,
          wd_tasks_done = count_where (\<lambda>e. task_done_event e \<and> in_window start end e) es,
          wd_routines = fired_rows (filter (\<lambda>e. fired_event e \<and> in_window start end e) es)\<rparr>)"

definition weekly_draft_on :: "string \<Rightarrow> WeeklyDraft store" where
  "weekly_draft_on iso_week =
     mbind (msome (iso_week_bounds iso_week) (SE_Invalid ''week must be an ISO-8601 week like 2026-W39'')) (\<lambda>(start, end).
     mbind (msome (canonical_iso_week iso_week) (SE_Internal ''iso_week_bounds already validated this parses'')) (\<lambda>week.
     query (\<lambda>db. draft_of_events week start end (db_events db))))"

definition weekly_draft :: "string \<Rightarrow> WeeklyDraft store" where
  "weekly_draft iso_week = weekly_draft_on iso_week"

section \<open>The seed pack\<close>

record SeedArea =
  sd_title :: string
  sd_directions :: "string list"

definition install_seed_pack :: "SeedArea list \<Rightarrow> Area list store" where
  "install_seed_pack pack =
     mfor (\<lambda>seed. mbind (create_area (sd_title seed)) (\<lambda>area.
       mthen (mfor (\<lambda>title. create_direction title ''ongoing'' (Some (ar_id area))) (sd_directions seed))
         (mret area))) pack"

end
