(* ===== verification/Store_Routine.thy ===== *)
theory Store_Routine
  imports Outbox Weekly_Draft
begin

text \<open>
  Routines and their fires in \<open>src/store/repo.rs\<close>: creation, patches, transitions, the mirror of
  their state into the outbox, the corrections the reconciler enqueues, the derived
  suspension column, and the idempotent receipt of a fire with its weekly draft review.
\<close>

section \<open>Creation and reads\<close>

definition check_positive_target :: "u32 option \<Rightarrow> string \<Rightarrow> StoreError + unit" where
  "check_positive_target value field =
     (if value = Some 0 then Inl (SE_Invalid (field @ '' must be > 0 when present, got 0'')) else Inr ())"

definition invalid_err :: "string + 'a \<Rightarrow> StoreError + 'a" where
  "invalid_err r = (case r of Inl e \<Rightarrow> Inl (SE_Invalid e) | Inr x \<Rightarrow> Inr x)"

definition cron_check :: "string \<Rightarrow> unit store" where
  "cron_check expr = mbind (mget (\<lambda>w. validate_cron (en_cron_ok (st_env w)) expr)) (\<lambda>r. mlift (invalid_err r))"

definition tz_check :: "string \<Rightarrow> unit store" where
  "tz_check tz = mbind (mget (\<lambda>w. validate_tz (en_tz_ok (st_env w)) tz)) (\<lambda>r. mlift (invalid_err r))"

definition opt_check :: "('a \<Rightarrow> unit store) \<Rightarrow> 'a option \<Rightarrow> unit store" where
  "opt_check f x = (case x of None \<Rightarrow> mret () | Some y \<Rightarrow> f y)"

definition default_tz :: "string option \<Rightarrow> StoreError + string" where
  "default_tz tz = (case tz of None \<Rightarrow> Inr ''UTC''
     | Some t \<Rightarrow> if t = [] then Inl (SE_Invalid ''tz must not be an empty string (omit the field to default to UTC)'')
                 else Inr t)"

definition insert_new_routine :: "NewRoutine \<Rightarrow> string \<Rightarrow> string \<Rightarrow> Routine store" where
  "insert_new_routine new title tz =
     mthen (opt_check require_area_exists (nro_area_id new))
     (mthen (opt_check require_direction_exists (nro_direction_id new))
     (mbind ulid (\<lambda>i. mbind now_iso8601 (\<lambda>now.
      let r = \<lparr>ro_id = i, ro_area_id = nro_area_id new, ro_direction_id = nro_direction_id new,
               ro_title = title, ro_kind = nro_kind new, ro_cron = nro_cron new, ro_tz = tz,
               ro_target_count = nro_target_count new, ro_target_minutes = nro_target_minutes new,
               ro_status = Routine_Active, ro_created_at = now, ro_updated_at = now,
               rr_kernel_suspended_at = None\<rparr>
      in mthen (insert_routine r)
        (mthen (append_event ''routine'' i ''created'' None (Some ''active'')
           (JObj [(''routine_id'', JStr i), (''area_id'', jopt JStr (nro_area_id new)),
                  (''direction_id'', jopt JStr (nro_direction_id new)), (''title'', JStr title),
                  (''kind'', JStr (routine_kind_wire (nro_kind new))), (''cron'', JStr (nro_cron new)),
                  (''tz'', JStr tz), (''target_count'', jopt ju32 (nro_target_count new)),
                  (''target_minutes'', jopt ju32 (nro_target_minutes new)), (''status'', JStr ''active'')]) now)
        (mthen (upsert_outbox ''scheduler.upsert'' (routine_dedup_key i)
           (routine_outbox_upsert_desired i (nro_cron new) tz True))
        (mret (Routine.truncate r))))))))"

definition create_routine :: "NewRoutine \<Rightarrow> Routine store" where
  "create_routine new =
     (let title = trim (nro_title new) in
      mthen (mguard (title \<noteq> []) (SE_Invalid ''title must not be blank''))
      (mbind (mlift (default_tz (nro_tz new))) (\<lambda>tz.
      mthen (cron_check (nro_cron new))
      (mthen (tz_check tz)
      (mthen (mlift (check_positive_target (nro_target_count new) ''target_count''))
      (mthen (mlift (check_positive_target (nro_target_minutes new) ''target_minutes''))
      (mbind (with_tx (insert_new_routine new title tz)) (\<lambda>routine.
       mthen notify_one (mret routine)))))))))"

definition get_routine :: "string \<Rightarrow> Routine store" where
  "get_routine i = mbind (query (\<lambda>db. row_by ro_id i (db_routines db))) (\<lambda>r.
     mbind (msome r (SE_NotFound (''routine '' @ i))) (\<lambda>row. mret (Routine.truncate row)))"

definition list_routines :: "string option \<Rightarrow> string option \<Rightarrow> RoutineStatus option \<Rightarrow> Routine list store" where
  "list_routines area_id direction_id status = query (\<lambda>db. map Routine.truncate (newest_first ro_created_at
     (filter (\<lambda>r. (area_id = None \<or> ro_area_id r = area_id) \<and> (direction_id = None \<or> ro_direction_id r = direction_id)
        \<and> (case status of None \<Rightarrow> True | Some s \<Rightarrow> ro_status r = s)) (db_routines db))))"

section \<open>Patches\<close>

record RoutineUpdate =
  ru_routine :: Routine
  ru_changed :: "string list"

definition patch_checks :: "RoutinePatch \<Rightarrow> unit store" where
  "patch_checks patch =
     mthen (opt_check (\<lambda>t. mguard (trim t \<noteq> []) (SE_Invalid ''title must not be blank'')) (rp_title patch))
     (mthen (opt_check cron_check (rp_cron patch))
     (mthen (opt_check (\<lambda>t. mthen (mguard (t \<noteq> []) (SE_Invalid ''tz must not be an empty string'')) (tz_check t)) (rp_tz patch))
     (mthen (opt_check (\<lambda>tc. mlift (check_positive_target tc ''target_count'')) (rp_target_count patch))
       (opt_check (\<lambda>tm. mlift (check_positive_target tm ''target_minutes'')) (rp_target_minutes patch)))))"

definition or_current :: "'a option \<Rightarrow> 'a \<Rightarrow> 'a" where
  "or_current x c = (case x of None \<Rightarrow> c | Some y \<Rightarrow> y)"

text \<open>The row after the patch, timestamps aside.\<close>

definition patched :: "RoutinePatch \<Rightarrow> Routine \<Rightarrow> Routine" where
  "patched patch c = c\<lparr>ro_title := or_current (map_option trim (rp_title patch)) (ro_title c),
     ro_cron := or_current (rp_cron patch) (ro_cron c), ro_tz := or_current (rp_tz patch) (ro_tz c),
     ro_target_count := or_current (rp_target_count patch) (ro_target_count c),
     ro_target_minutes := or_current (rp_target_minutes patch) (ro_target_minutes c)\<rparr>"

definition changed_fields :: "Routine \<Rightarrow> Routine \<Rightarrow> string list" where
  "changed_fields n c =
     (if ro_title n \<noteq> ro_title c then [''title''] else []) @
     (if ro_cron n \<noteq> ro_cron c then [''cron''] else []) @
     (if ro_tz n \<noteq> ro_tz c then [''tz''] else []) @
     (if ro_target_count n \<noteq> ro_target_count c then [''target_count''] else []) @
     (if ro_target_minutes n \<noteq> ro_target_minutes c then [''target_minutes''] else [])"

text \<open>\<open>serde_json::to_value(&updated)\<close> with the \<open>changed\<close> array put in.\<close>

definition routine_snapshot :: "Routine \<Rightarrow> string list \<Rightarrow> Json" where
  "routine_snapshot r changed =
     JObj [(''id'', JStr (ro_id r)), (''area_id'', jopt JStr (ro_area_id r)),
           (''direction_id'', jopt JStr (ro_direction_id r)), (''title'', JStr (ro_title r)),
           (''kind'', JStr (routine_kind_wire (ro_kind r))), (''cron'', JStr (ro_cron r)), (''tz'', JStr (ro_tz r)),
           (''target_count'', jopt ju32 (ro_target_count r)), (''target_minutes'', jopt ju32 (ro_target_minutes r)),
           (''status'', JStr (routine_status_wire (ro_status r))), (''created_at'', JStr (ro_created_at r)),
           (''updated_at'', JStr (ro_updated_at r)), (''changed'', jstrs changed)]"

definition write_patch :: "string \<Rightarrow> Routine \<Rightarrow> Routine \<Rightarrow> string list \<Rightarrow> RoutineUpdate store" where
  "write_patch i current new changed =
     mbind now_iso8601 (\<lambda>now.
     let updated = new\<lparr>ro_updated_at := now\<rparr> in
     mthen (checked_stmt
       (\<lambda>db. violated (target_ok (ro_target_count new) \<and> target_ok (ro_target_minutes new)) True True)
       (\<lambda>db. db\<lparr>db_routines := upd_by ro_id i (\<lambda>r. r\<lparr>ro_title := ro_title new, ro_cron := ro_cron new,
          ro_tz := ro_tz new, ro_target_count := ro_target_count new, ro_target_minutes := ro_target_minutes new,
          ro_updated_at := now\<rparr>) (db_routines db)\<rparr>))
     (mthen (append_event ''routine'' i ''updated'' None None (routine_snapshot updated changed) now)
     (mthen (if ''cron'' \<in> set changed \<or> ''tz'' \<in> set changed
             then upsert_outbox ''scheduler.upsert'' (routine_dedup_key i)
               (routine_outbox_upsert_desired i (ro_cron new) (ro_tz new) (ro_status current = Routine_Active))
             else mret ())
     (mret \<lparr>ru_routine = updated, ru_changed = changed\<rparr>))))"

definition update_routine :: "string \<Rightarrow> RoutinePatch \<Rightarrow> RoutineUpdate store" where
  "update_routine i patch =
     mthen (patch_checks patch)
     (mbind (with_tx
        (mbind (query (\<lambda>db. row_by ro_id i (db_routines db))) (\<lambda>r.
         mbind (msome r (SE_NotFound (''routine '' @ i))) (\<lambda>row.
         let current = Routine.truncate row; new = patched patch current; changed = changed_fields new current in
         mthen (mguard (\<not> routine_is_terminal (ro_status current))
           (SE_Conflict (''routine '' @ i @ '' is retired; no further changes are accepted'')))
         (if changed = [] then mret \<lparr>ru_routine = current, ru_changed = changed\<rparr>
          else write_patch i current new changed)))))
      (\<lambda>u. if ''cron'' \<in> set (ru_changed u) \<or> ''tz'' \<in> set (ru_changed u)
           then mthen notify_one (mret u) else mret u))"

section \<open>Transitions\<close>

fun routine_event_kind :: "RoutineStatus \<Rightarrow> string" where
  "routine_event_kind Routine_Paused = ''paused''"
| "routine_event_kind Routine_Active = ''resumed''"
| "routine_event_kind Routine_Retired = ''retired''"

definition mirror_status :: "string \<Rightarrow> Routine \<Rightarrow> RoutineStatus \<Rightarrow> unit store" where
  "mirror_status i current to =
     (case to of
        Routine_Retired \<Rightarrow> upsert_outbox ''scheduler.delete'' (routine_dedup_key i) (routine_outbox_delete_desired i)
      | _ \<Rightarrow> upsert_outbox ''scheduler.upsert'' (routine_dedup_key i)
               (routine_outbox_upsert_desired i (ro_cron current) (ro_tz current) (to = Routine_Active)))"

definition transition_routine :: "string \<Rightarrow> RoutineStatus \<Rightarrow> Routine store" where
  "transition_routine i to =
     mbind (with_tx
       (mbind (query (\<lambda>db. row_by ro_id i (db_routines db))) (\<lambda>r.
        mbind (msome r (SE_NotFound (''routine '' @ i))) (\<lambda>row.
        let current = Routine.truncate row in
        mthen (mlift (transition_err (check_routine_transition (ro_status current) to)))
        (mbind now_iso8601 (\<lambda>now.
         mthen (stmt (\<lambda>db. db\<lparr>db_routines := upd_by ro_id i (\<lambda>q. q\<lparr>ro_status := to, ro_updated_at := now\<rparr>) (db_routines db)\<rparr>))
         (mthen (append_event ''routine'' i (routine_event_kind to) (Some (routine_status_wire (ro_status current)))
            (Some (routine_status_wire to)) (JObj [(''routine_id'', JStr i)]) now)
         (mthen (mirror_status i current to)
         (mret (current\<lparr>ro_status := to, ro_updated_at := now\<rparr>))))))))))
     (\<lambda>routine. mthen notify_one (mret routine))"

section \<open>The reconciler's corrections\<close>

definition already_pending :: "string \<Rightarrow> Db \<Rightarrow> bool" where
  "already_pending dedup_key db = list_ex (\<lambda>r. ob_dedup_key r = dedup_key \<and> ob_status r = ''pending'') (db_outbox db)"

text \<open>Both methods return early without a write; only a queued correction wakes the pump.\<close>

definition outbox_enqueue_upsert_for_routine :: "string \<Rightarrow> unit store" where
  "outbox_enqueue_upsert_for_routine routine_id =
     mbind (with_tx
       (mbind (query (\<lambda>db. row_by ro_id routine_id (db_routines db))) (\<lambda>r.
        case r of
          None \<Rightarrow> mret False
        | Some routine \<Rightarrow>
            if ro_status routine = Routine_Retired then mret False
            else mbind (query (already_pending (routine_dedup_key routine_id))) (\<lambda>pending.
              if pending then mret False
              else mthen (upsert_outbox ''scheduler.upsert'' (routine_dedup_key routine_id)
                     (routine_outbox_upsert_desired routine_id (ro_cron routine) (ro_tz routine)
                        (ro_status routine = Routine_Active)))
                   (mret True)))))
     (\<lambda>queued. if queued then notify_one else mret ())"

definition outbox_enqueue_delete_for_orphan :: "string \<Rightarrow> string \<Rightarrow> unit store" where
  "outbox_enqueue_delete_for_orphan routine_id kernel_key =
     mbind (with_tx
       (mbind (query (\<lambda>db. row_by ro_id routine_id (db_routines db))) (\<lambda>r.
        if (case r of None \<Rightarrow> False | Some routine \<Rightarrow> ro_status routine \<noteq> Routine_Retired) then mret False
        else mbind (query (already_pending (routine_dedup_key routine_id))) (\<lambda>pending.
          if pending then mret False
          else mthen (upsert_outbox ''scheduler.delete'' (routine_dedup_key routine_id) (JObj [(''key'', JStr kernel_key)]))
               (mret True)))))
     (\<lambda>queued. if queued then notify_one else mret ())"

definition sync_kernel_suspended_routines :: "string list \<Rightarrow> unit store" where
  "sync_kernel_suspended_routines ids = with_tx
     (mthen (stmt (\<lambda>db. db\<lparr>db_routines := map (\<lambda>r. r\<lparr>rr_kernel_suspended_at := None\<rparr>) (db_routines db)\<rparr>))
     (if ids = [] then mret ()
      else mbind now_iso8601 (\<lambda>now.
        mthen (mfor (\<lambda>i. stmt (\<lambda>db. db\<lparr>db_routines :=
            upd_by ro_id i (\<lambda>r. r\<lparr>rr_kernel_suspended_at := Some now\<rparr>) (db_routines db)\<rparr>)) ids)
          (mret ()))))"

section \<open>Fires\<close>

record AutoReviewCreated =
  arc_review_id :: string
  arc_period :: string

datatype RoutineFireOutcome =
    Fire_Recorded string "AutoReviewCreated option"
  | Fire_Duplicate string
  | Fire_UnknownKey
  | Fire_RoutineRetired string

definition insert_weekly_review_draft_if_absent :: "string \<Rightarrow> string \<Rightarrow> string \<Rightarrow> AutoReviewCreated option store" where
  "insert_weekly_review_draft_if_absent week body now =
     mbind (query (\<lambda>db. list_ex (\<lambda>r. rv_kind r = ReviewKind_Weekly \<and> rv_period r = week) (db_reviews db))) (\<lambda>found.
     if found then mret None
     else mbind ulid (\<lambda>i.
       mthen (insert_review \<lparr>rv_id = i, rv_kind = ReviewKind_Weekly, rv_status = Review_Draft, rv_week_id = None,
         rv_period = week, rv_body = body, rv_body_ref = None, rv_created_at = now, rv_updated_at = now\<rparr>)
       (mthen (append_event ''review'' i ''created'' None (Some ''draft'')
          (JObj [(''review_id'', JStr i), (''kind'', JStr ''weekly''), (''period'', JStr week),
                 (''status'', JStr ''draft''), (''source'', JStr ''routine'')]) now)
       (mret (Some \<lparr>arc_review_id = i, arc_period = week\<rparr>)))))"

text \<open>The routine id behind a kernel key.\<close>

definition fire_routine_id :: "string \<Rightarrow> string option" where
  "fire_routine_id key = (case strip_prefix key ''routine.'' of None \<Rightarrow> None
     | Some rest \<Rightarrow> if rest = [] then None else Some (to_ascii_uppercase rest))"

definition auto_review :: "RoutineKind \<Rightarrow> string \<Rightarrow> string \<Rightarrow> AutoReviewCreated option store" where
  "auto_review kind scheduled_for now =
     (if kind \<noteq> RoutineKind_Review then mret None
      else case iso_week_of scheduled_for of
        None \<Rightarrow> mret None
      | Some week \<Rightarrow>
          mbind (weekly_draft_on week) (\<lambda>draft.
            insert_weekly_review_draft_if_absent week (render_weekly_draft_markdown draft) now))"

definition record_new_fire :: "string \<Rightarrow> RoutineRow \<Rightarrow> string \<Rightarrow> string \<Rightarrow> FireTrigger \<Rightarrow> RoutineFireOutcome store" where
  "record_new_fire routine_id row fire_id scheduled_for trigger =
     mbind now_iso8601 (\<lambda>now.
     mbind (query (\<lambda>db. taken rf_fire_id fire_id (db_fires db))) (\<lambda>known.
     if known then mret (Fire_Duplicate routine_id)
     else
       mthen (insert_fire \<lparr>rf_fire_id = fire_id, rf_routine_id = routine_id, rf_scheduled_for = scheduled_for,
         rf_trigger = trigger, rf_received_at = now\<rparr>)
       (mthen (append_event ''routine'' routine_id ''fired'' None None
          (JObj [(''routine_id'', JStr routine_id), (''fire_id'', JStr fire_id),
                 (''scheduled_for'', JStr scheduled_for), (''trigger'', JStr (fire_trigger_wire trigger))]) now)
       (mbind (auto_review (ro_kind row) scheduled_for now) (\<lambda>review.
        mret (Fire_Recorded routine_id review))))))"

definition record_routine_fire :: "string \<Rightarrow> string \<Rightarrow> string \<Rightarrow> FireTrigger \<Rightarrow> RoutineFireOutcome store" where
  "record_routine_fire fire_id key scheduled_for trigger =
     (case fire_routine_id key of
        None \<Rightarrow> mret Fire_UnknownKey
      | Some routine_id \<Rightarrow> with_tx
          (mbind (query (\<lambda>db. row_by ro_id routine_id (db_routines db))) (\<lambda>r.
           case r of
             None \<Rightarrow> mret Fire_UnknownKey
           | Some row \<Rightarrow>
               if ro_status row = Routine_Retired then mret (Fire_RoutineRetired routine_id)
               else record_new_fire routine_id row fire_id scheduled_for trigger)))"

end
