(* ===== verification/Store_Review.thy ===== *)
theory Store_Review
  imports Store_Routine
begin

text \<open>
  Reviews in \<open>src/store/repo.rs\<close>: periods, the Markdown export with its path check, the summary
  for the kernel's memory, creation, edits of the body and finalisation.
\<close>

section \<open>Periods and paths\<close>

fun validate_review_period :: "ReviewKind \<Rightarrow> string \<Rightarrow> StoreError + string" where
  "validate_review_period ReviewKind_Daily period =
     (case canonical_iso_date period of
        None \<Rightarrow> Inl (SE_Invalid ''daily review period must be a calendar date like 2026-09-24'') | Some p \<Rightarrow> Inr p)"
| "validate_review_period ReviewKind_Weekly period =
     (case canonical_iso_week period of
        None \<Rightarrow> Inl (SE_Invalid ''weekly review period must be an ISO-8601 week like 2026-W39'') | Some p \<Rightarrow> Inr p)"
| "validate_review_period ReviewKind_Rhythm period =
     (let trimmed = trim period in
      if trimmed = [] then Inl (SE_Invalid ''rhythm review period must be a non-empty rhythm id'') else Inr trimmed)"

definition ULID_ALPHABET :: string where
  "ULID_ALPHABET = ''0123456789ABCDEFGHJKMNPQRSTVWXYZ''"

definition unsafe_component :: "string \<Rightarrow> bool" where
  "unsafe_component period =
     (period = [] \<or> period = ''.'' \<or> period = ''..'' \<or> starts_with period ''.'' \<or> contains period ''/''
      \<or> contains period [char_of (92 :: nat)] \<or> contains period ''..'' \<or> contains period [char_of (0 :: nat)])"

definition review_markdown_relpath :: "ReviewKind \<Rightarrow> string \<Rightarrow> StoreError + string" where
  "review_markdown_relpath kind period =
     (if unsafe_component period then Inl (SE_Invalid ''review period is not a safe filename component'')
      else if kind = ReviewKind_Rhythm \<and> \<not> list_all (\<lambda>b. b \<in> set ULID_ALPHABET) period
           then Inl (SE_Invalid ''rhythm review period is not a valid rhythm id'')
      else Inr (''reviews/'' @ review_kind_wire kind @ ''/'' @ period @ ''.md''))"

text \<open>
  The export: the content reaches the final path by a rename, so a failure leaves the file that
  was there. \<open>en_write_fails\<close> says for which paths the file system refuses.
\<close>

definition write_markdown_atomic :: "string \<Rightarrow> string \<Rightarrow> string \<Rightarrow> unit store" where
  "write_markdown_atomic data_dir relpath body =
     mbind ulid (\<lambda>tmp.
     mbind (mget (\<lambda>w. en_write_fails (st_env w) relpath)) (\<lambda>fails.
     mthen (mguard (\<not> fails) (SE_Internal (''failed writing review markdown export '' @ relpath)))
       (mmod (\<lambda>w. w\<lparr>st_files := (st_files w)(data_dir @ ''/'' @ relpath \<mapsto> body)\<rparr>))))"

section \<open>The summary for the kernel's memory\<close>

definition review_remember_dedup_key :: "string \<Rightarrow> string" where
  "review_remember_dedup_key i = ''review:'' @ i"

definition REVIEW_SUMMARY_MAX_CHARS :: nat where
  "REVIEW_SUMMARY_MAX_CHARS = 500"

definition ellipsis :: string where
  "ellipsis = map char_of [226, 128, 166 :: nat]"

definition truncate_review_summary :: "string \<Rightarrow> string" where
  "truncate_review_summary body =
     (let head = take_chars REVIEW_SUMMARY_MAX_CHARS body
      in if length head < length body then head @ ellipsis else head)"

definition review_remember_desired :: "Review \<Rightarrow> string \<Rightarrow> Json" where
  "review_remember_desired review finalized_at =
     JObj [(''dedup_key'', JStr (review_remember_dedup_key (rv_id review))),
           (''review_id'', JStr (rv_id review)), (''review_kind'', JStr (review_kind_wire (rv_kind review))),
           (''period'', JStr (rv_period review)),
           (''summary'', JStr (truncate_review_summary (rv_body review))),
           (''finalized_at'', JStr finalized_at)]"

section \<open>Operations\<close>

definition read_rhythm_status :: "string \<Rightarrow> RhythmStatus store" where
  "read_rhythm_status i =
     mbind (query (\<lambda>db. map_option rh_status (row_by rh_id i (db_rhythms db))))
       (\<lambda>r. msome r (SE_NotFound (''rhythm '' @ i)))"

definition create_review :: "NewReview \<Rightarrow> Review store" where
  "create_review new =
     mbind (mlift (validate_review_period (nr_kind new) (nr_period new))) (\<lambda>period. with_tx
     (mthen (if nr_kind new = ReviewKind_Rhythm then mthen (read_rhythm_status period) (mret ()) else mret ())
     (mbind (query (\<lambda>db. list_ex (\<lambda>r. rv_kind r = nr_kind new \<and> rv_period r = period) (db_reviews db))) (\<lambda>found.
      mthen (mguard (\<not> found) (SE_Conflict (''a '' @ review_kind_wire (nr_kind new) @ '' review for period '' @
         period @ '' already exists'')))
      (mbind ulid (\<lambda>i. mbind now_iso8601 (\<lambda>now.
       let r = \<lparr>rv_id = i, rv_kind = nr_kind new, rv_status = Review_Draft, rv_week_id = None, rv_period = period,
                rv_body = [], rv_body_ref = None, rv_created_at = now, rv_updated_at = now\<rparr>
       in mthen (insert_review r)
         (mthen (append_event ''review'' i ''created'' None (Some ''draft'')
            (JObj [(''review_id'', JStr i), (''kind'', JStr (review_kind_wire (nr_kind new))),
                   (''period'', JStr period), (''status'', JStr ''draft''), (''source'', JStr ''human'')]) now)
         (mret r)))))))))"

definition get_review :: "string \<Rightarrow> Review store" where
  "get_review i = mbind (query (\<lambda>db. row_by rv_id i (db_reviews db))) (\<lambda>r. msome r (SE_NotFound (''review '' @ i)))"

definition list_reviews :: "ReviewKind option \<Rightarrow> string option \<Rightarrow> Review list store" where
  "list_reviews kind period = query (\<lambda>db. newest_first rv_created_at
     (filter (\<lambda>r. (case kind of None \<Rightarrow> True | Some k \<Rightarrow> rv_kind r = k)
        \<and> (case period of None \<Rightarrow> True | Some p \<Rightarrow> rv_period r = p)) (db_reviews db)))"

record ReviewUpdate =
  rvu_review :: Review
  rvu_changed :: bool

definition update_review_body :: "string \<Rightarrow> string \<Rightarrow> ReviewUpdate store" where
  "update_review_body i body = with_tx
     (mbind (query (\<lambda>db. row_by rv_id i (db_reviews db))) (\<lambda>r.
      mbind (msome r (SE_NotFound (''review '' @ i))) (\<lambda>current.
      mthen (mguard (\<not> review_is_terminal (rv_status current))
        (SE_Conflict (''review '' @ i @ '' is finalized; no further changes are accepted'')))
      (if body = rv_body current then mret \<lparr>rvu_review = current, rvu_changed = False\<rparr>
       else mbind now_iso8601 (\<lambda>now.
         mthen (stmt (\<lambda>db. db\<lparr>db_reviews := upd_by rv_id i (\<lambda>q. q\<lparr>rv_body := body, rv_updated_at := now\<rparr>) (db_reviews db)\<rparr>))
         (mthen (append_event ''review'' i ''updated'' None None
            (JObj [(''review_id'', JStr i), (''body'', JStr body)]) now)
         (mret \<lparr>rvu_review = current\<lparr>rv_body := body, rv_updated_at := now\<rparr>, rvu_changed = True\<rparr>)))))))"

definition export_markdown :: "Review \<Rightarrow> string option store" where
  "export_markdown current =
     mbind (mget (\<lambda>w. en_data_dir (st_env w))) (\<lambda>data_dir.
     case data_dir of
       None \<Rightarrow> mret None
     | Some dir \<Rightarrow>
         mbind (mlift (review_markdown_relpath (rv_kind current) (rv_period current))) (\<lambda>relpath.
         mthen (write_markdown_atomic dir relpath (rv_body current)) (mret (Some relpath))))"

definition finalize_review :: "string \<Rightarrow> Review store" where
  "finalize_review i =
     mbind (with_tx
       (mbind (query (\<lambda>db. row_by rv_id i (db_reviews db))) (\<lambda>r.
        mbind (msome r (SE_NotFound (''review '' @ i))) (\<lambda>current.
        mthen (mlift (transition_err (check_review_transition (rv_status current) Review_Finalized)))
        (mbind (export_markdown current) (\<lambda>body_ref.
        mbind now_iso8601 (\<lambda>now.
         mthen (stmt (\<lambda>db. db\<lparr>db_reviews := upd_by rv_id i
           (\<lambda>q. q\<lparr>rv_status := Review_Finalized, rv_body_ref := body_ref, rv_updated_at := now\<rparr>) (db_reviews db)\<rparr>))
         (mthen (append_event ''review'' i ''finalized'' (Some ''draft'') (Some ''finalized'')
            (JObj [(''review_id'', JStr i)]) now)
         (mthen (if trim (rv_body current) \<noteq> []
                 then upsert_outbox ''memory.remember'' (review_remember_dedup_key i) (review_remember_desired current now)
                 else mret ())
         (mret (current\<lparr>rv_status := Review_Finalized, rv_body_ref := body_ref, rv_updated_at := now\<rparr>)))))))))))
     (\<lambda>review. mthen notify_one (mret review))"

end
