(* ===== verification/Store_Proposal.thy ===== *)
theory Store_Proposal
  imports Store_Review
begin

text \<open>
  The proposal gate of \<open>src/store/repo.rs\<close>: the snapshot that makes the validator pure, the apply
  step of each operation, submission, acceptance and rejection, and the reads around them.
  The ops of a proposal are kept as values: that \<open>serde_json\<close> reads back the JSON it wrote is
  its documented behaviour. \<open>Sha256\<close> is the environment's \<open>en_sha256\<close>.
\<close>

section \<open>The snapshot\<close>

record DbSnapshot =
  sn_tasks :: "string \<rightharpoonup> TaskStatus"
  sn_task_parents :: "string \<rightharpoonup> string option"
  sn_weeks :: "string \<rightharpoonup> WeekStatus"
  sn_rhythms_retired :: "string \<rightharpoonup> bool"
  sn_areas :: "string set"
  sn_direction_statuses :: "string \<rightharpoonup> DirectionStatus"
  sn_task_directions :: "string \<rightharpoonup> string option"
  sn_reviews :: "string \<rightharpoonup> ReviewSnap"
  sn_triage_via_classify :: "string set"

definition DbSnapshot_default :: DbSnapshot where
  "DbSnapshot_default = \<lparr>sn_tasks = Map.empty, sn_task_parents = Map.empty, sn_weeks = Map.empty,
     sn_rhythms_retired = Map.empty, sn_areas = {}, sn_direction_statuses = Map.empty,
     sn_task_directions = Map.empty, sn_reviews = Map.empty, sn_triage_via_classify = {}\<rparr>"

definition snapshot_ctx :: "DbSnapshot \<Rightarrow> ValidationCtx" where
  "snapshot_ctx s = \<lparr>vc_task_status = sn_tasks s, vc_week_status = sn_weeks s,
     vc_rhythm_is_retired = sn_rhythms_retired s, vc_area_exists = (\<lambda>i. i \<in> sn_areas s),
     vc_task_parent = sn_task_parents s, vc_direction_status = sn_direction_statuses s,
     vc_task_triage_via_classify = (\<lambda>i. i \<in> sn_triage_via_classify s),
     vc_task_direction = sn_task_directions s, vc_review_snap = sn_reviews s\<rparr>"

text \<open>Each loader inserts an entry only when the row exists.\<close>

definition put :: "string \<Rightarrow> 'a option \<Rightarrow> (string \<rightharpoonup> 'a) \<Rightarrow> (string \<rightharpoonup> 'a)" where
  "put i v m = (case v of None \<Rightarrow> m | Some x \<Rightarrow> m(i \<mapsto> x))"

definition load_task :: "Db \<Rightarrow> string \<Rightarrow> DbSnapshot \<Rightarrow> DbSnapshot" where
  "load_task db i s = s\<lparr>sn_tasks := put i (map_option tk_status (row_by tk_id i (db_tasks db))) (sn_tasks s)\<rparr>"

definition load_task_parent :: "Db \<Rightarrow> string \<Rightarrow> DbSnapshot \<Rightarrow> DbSnapshot" where
  "load_task_parent db i s =
     s\<lparr>sn_task_parents := put i (map_option tk_parent_task_id (row_by tk_id i (db_tasks db))) (sn_task_parents s)\<rparr>"

definition load_week :: "Db \<Rightarrow> string \<Rightarrow> DbSnapshot \<Rightarrow> DbSnapshot" where
  "load_week db i s = s\<lparr>sn_weeks := put i (map_option wk_status (row_by wk_id i (db_weeks db))) (sn_weeks s)\<rparr>"

definition load_task_direction :: "Db \<Rightarrow> string \<Rightarrow> DbSnapshot \<Rightarrow> DbSnapshot" where
  "load_task_direction db i s =
     s\<lparr>sn_task_directions := put i (map_option tk_direction_id (row_by tk_id i (db_tasks db))) (sn_task_directions s)\<rparr>"

definition load_task_triage_via_classify :: "Db \<Rightarrow> string \<Rightarrow> DbSnapshot \<Rightarrow> DbSnapshot" where
  "load_task_triage_via_classify db i s =
     (if map_option tr_triage_via (row_by tk_id i (db_tasks db)) = Some (Some ''classify'')
      then s\<lparr>sn_triage_via_classify := insert i (sn_triage_via_classify s)\<rparr> else s)"

definition load_direction_status :: "Db \<Rightarrow> string \<Rightarrow> DbSnapshot \<Rightarrow> DbSnapshot" where
  "load_direction_status db i s =
     s\<lparr>sn_direction_statuses := put i (map_option di_status (row_by di_id i (db_directions db))) (sn_direction_statuses s)\<rparr>"

definition load_review_snap :: "(string \<Rightarrow> string) \<Rightarrow> Db \<Rightarrow> string \<Rightarrow> DbSnapshot \<Rightarrow> DbSnapshot" where
  "load_review_snap sha db i s =
     s\<lparr>sn_reviews := put i (map_option (\<lambda>r. \<lparr>rs_status = rv_status r, rs_body_sha256 = sha (rv_body r)\<rparr>)
        (row_by rv_id i (db_reviews db))) (sn_reviews s)\<rparr>"

definition load_rhythm :: "Db \<Rightarrow> string \<Rightarrow> DbSnapshot \<Rightarrow> DbSnapshot" where
  "load_rhythm db i s =
     s\<lparr>sn_rhythms_retired := put i (map_option (\<lambda>r. rh_status r = Rhythm_Retired) (row_by rh_id i (db_rhythms db)))
        (sn_rhythms_retired s)\<rparr>"

definition load_assign :: "Db \<Rightarrow> string \<Rightarrow> string \<Rightarrow> DbSnapshot \<Rightarrow> DbSnapshot" where
  "load_assign db task_id direction_id s =
     (let s1 = load_direction_status db direction_id (load_task_direction db task_id (load_task db task_id s))
      in if sn_task_directions s1 task_id = Some (Some TRIAGE_DIRECTION_ID)
         then load_task_triage_via_classify db task_id s1 else s1)"

fun snapshot_op :: "(string \<Rightarrow> string) \<Rightarrow> Db \<Rightarrow> Sin90Op \<Rightarrow> DbSnapshot \<Rightarrow> DbSnapshot" where
  "snapshot_op sha db (CreateArea title) s = s"
| "snapshot_op sha db (CreateDirection title target_window) s = s"
| "snapshot_op sha db (CreateTask title d parent_id kind energy est) s =
     (case parent_id of None \<Rightarrow> s | Some pid \<Rightarrow> load_task_parent db pid s)"
| "snapshot_op sha db (TransitionTask task_id to) s = load_task db task_id s"
| "snapshot_op sha db (CreateTasks week_id tasks) s = load_week db week_id s"
| "snapshot_op sha db (ReorderTasks week_id order) s = load_week db week_id s"
| "snapshot_op sha db (AdjustRhythm rhythm_id new_alloc) s = load_rhythm db rhythm_id s"
| "snapshot_op sha db (CarryOverTask task_id to_week) s = load_week db to_week (load_task db task_id s)"
| "snapshot_op sha db (AssignTaskDirection task_id direction_id) s = load_assign db task_id direction_id s"
| "snapshot_op sha db (DraftReviewBody review_id base body) s = load_review_snap sha db review_id s"

definition snapshot_of :: "(string \<Rightarrow> string) \<Rightarrow> Sin90Op list \<Rightarrow> Db \<Rightarrow> DbSnapshot" where
  "snapshot_of sha ops db = fold (snapshot_op sha db) ops DbSnapshot_default"

definition build_snapshot :: "Sin90Op list \<Rightarrow> DbSnapshot store" where
  "build_snapshot ops = mget (\<lambda>w. snapshot_of (en_sha256 (st_env w)) ops (st_db w))"

section \<open>Applying one operation\<close>

text \<open>Every arm returns the ids of the events it appended, in order.\<close>

definition apply_create_area :: "string \<Rightarrow> string \<Rightarrow> string list store" where
  "apply_create_area now title =
     mbind ulid (\<lambda>i. mbind (allocate_area_slug title) (\<lambda>slug.
     mthen (insert_area \<lparr>ar_id = i, ar_title = title, ar_slug = slug, ar_status = Area_Active, ar_sort_key = 0,
        ar_created_at = now, ar_updated_at = now\<rparr>)
     (mbind (append_event ''area'' i ''created'' None (Some ''active'')
        (JObj [(''id'', JStr i), (''title'', JStr title), (''slug'', JStr slug)]) now) (\<lambda>ev. mret [ev]))))"

definition apply_create_task ::
  "string \<Rightarrow> string \<Rightarrow> string option \<Rightarrow> string option \<Rightarrow> TaskKind option \<Rightarrow> Energy option \<Rightarrow> u32 option \<Rightarrow> string list store" where
  "apply_create_task now title direction_id parent_task_id kind energy est_minutes =
     mbind ulid (\<lambda>i.
     mthen (insert_task \<lparr>tk_id = i, tk_direction_id = direction_id, tk_week_id = None,
        tk_parent_task_id = parent_task_id, tk_title = title, tk_status = Task_Backlog,
        tk_kind = or_current kind TaskKind_Other, tk_energy = or_current energy Energy_Mid,
        tk_est_minutes = est_minutes, tk_carried_from = None, tk_created_at = now, tk_updated_at = now,
        tr_sort_key = 0, tr_triage_via = fst (triage_columns direction_id now),
        tr_triage_entered_at = snd (triage_columns direction_id now)\<rparr>)
     (mbind (append_event ''task'' i ''created'' None (Some ''backlog'')
        (JObj [(''id'', JStr i), (''direction_id'', jopt JStr direction_id),
               (''parent_task_id'', jopt JStr parent_task_id), (''title'', JStr title)]) now) (\<lambda>ev. mret [ev])))"

definition apply_create_direction :: "string \<Rightarrow> string \<Rightarrow> string \<Rightarrow> string list store" where
  "apply_create_direction now title target_window =
     mbind ulid (\<lambda>i.
     mthen (insert_direction \<lparr>di_id = i, di_area_id = None, di_title = title, di_status = Direction_Draft,
        di_target_window = target_window, di_created_at = now, di_updated_at = now\<rparr>)
     (mbind (append_event ''direction'' i ''created'' None (Some ''draft'')
        (JObj [(''id'', JStr i), (''title'', JStr title), (''status'', JStr ''draft''),
               (''target_window'', JStr target_window)]) now) (\<lambda>ev. mret [ev])))"

definition set_task_status :: "string \<Rightarrow> string \<Rightarrow> TaskStatus \<Rightarrow> unit store" where
  "set_task_status now i to =
     stmt (\<lambda>db. db\<lparr>db_tasks := upd_by tk_id i (\<lambda>t. t\<lparr>tk_status := to, tk_updated_at := now\<rparr>) (db_tasks db)\<rparr>)"

definition apply_transition_task :: "string \<Rightarrow> string \<Rightarrow> TaskStatus \<Rightarrow> string list store" where
  "apply_transition_task now task_id to =
     mthen (require_task_week_open task_id)
     (mbind (read_task_status task_id) (\<lambda>from.
      mthen (mlift (transition_err (check_task_transition from to)))
      (mthen (set_task_status now task_id to)
      (mbind (append_event ''task'' task_id ''transitioned'' (Some (task_status_wire from))
         (Some (task_status_wire to)) (JObj [(''task_id'', JStr task_id)]) now) (\<lambda>ev. mret [ev])))))"

definition apply_new_task :: "string \<Rightarrow> string \<Rightarrow> nat \<times> NewTask \<Rightarrow> string store" where
  "apply_new_task now week_id = (\<lambda>(n, t).
     mbind ulid (\<lambda>i.
     mthen (insert_task \<lparr>tk_id = i, tk_direction_id = nt_direction_id t, tk_week_id = Some week_id,
        tk_parent_task_id = None, tk_title = nt_title t, tk_status = Task_Planned, tk_kind = TaskKind_Other,
        tk_energy = Energy_Mid, tk_est_minutes = None, tk_carried_from = None, tk_created_at = now,
        tk_updated_at = now, tr_sort_key = int n, tr_triage_via = fst (triage_columns (nt_direction_id t) now),
        tr_triage_entered_at = snd (triage_columns (nt_direction_id t) now)\<rparr>)
     (append_event ''task'' i ''created'' None (Some ''planned'')
        (JObj [(''id'', JStr i), (''week_id'', JStr week_id), (''title'', JStr (nt_title t)),
               (''direction_id'', jopt JStr (nt_direction_id t))]) now)))"

definition apply_create_tasks :: "string \<Rightarrow> string \<Rightarrow> NewTask list \<Rightarrow> string list store" where
  "apply_create_tasks now week_id tasks = mfor (apply_new_task now week_id) (enumerate 0 tasks)"

definition reorder_one :: "string \<Rightarrow> string \<Rightarrow> nat \<times> string \<Rightarrow> unit store" where
  "reorder_one now week_id = (\<lambda>(n, tid).
     mbind (query (\<lambda>db. count_where (\<lambda>t. tk_id t = tid \<and> tk_week_id t = Some week_id) (db_tasks db))) (\<lambda>affected.
     mthen (stmt (\<lambda>db. db\<lparr>db_tasks := upd_where (\<lambda>t. tk_id t = tid \<and> tk_week_id t = Some week_id)
        (\<lambda>t. t\<lparr>tk_updated_at := now, tr_sort_key := int n\<rparr>) (db_tasks db)\<rparr>))
     (mguard (affected = 1) (SE_NotFound (''task '' @ tid @ '' not in week '' @ week_id @ '' (reorder)'')))))"

definition apply_reorder_tasks :: "string \<Rightarrow> string \<Rightarrow> string list \<Rightarrow> string list store" where
  "apply_reorder_tasks now week_id order =
     mthen (mfor (reorder_one now week_id) (enumerate 0 order))
     (mbind (append_event ''week'' week_id ''reordered'' None None
        (JObj [(''week_id'', JStr week_id), (''order'', jstrs order)]) now) (\<lambda>ev. mret [ev]))"

definition apply_adjust_rhythm :: "string \<Rightarrow> string \<Rightarrow> Alloc list \<Rightarrow> string list store" where
  "apply_adjust_rhythm now rhythm_id new_alloc =
     mthen (require_directions_exist new_alloc)
     (mbind (read_rhythm_status rhythm_id) (\<lambda>from.
      mthen (mlift (transition_err (check_rhythm_transition from Rhythm_Adjusted)))
      (mthen (stmt (\<lambda>db. db\<lparr>db_rhythms := upd_by rh_id rhythm_id
         (\<lambda>r. r\<lparr>rh_status := Rhythm_Adjusted, rh_allocations := new_alloc, rh_updated_at := now\<rparr>) (db_rhythms db)\<rparr>))
      (mbind (append_event ''rhythm'' rhythm_id ''adjusted'' (Some (rhythm_status_wire from)) (Some ''adjusted'')
         (JObj [(''rhythm_id'', JStr rhythm_id), (''allocations'', alloc_json new_alloc)]) now) (\<lambda>ev. mret [ev])))))"

text \<open>\<open>INSERT .. SELECT\<close>: nothing is inserted when the source task was never evaluated.\<close>

definition copy_eval :: "string \<Rightarrow> string \<Rightarrow> unit store" where
  "copy_eval task_id new_id =
     mbind (query (\<lambda>db. row_by ce_task_id task_id (db_classify_evals db))) (\<lambda>r.
     case r of None \<Rightarrow> mret ()
     | Some e \<Rightarrow> insert_eval \<lparr>ce_task_id = new_id, ce_evaluated_at = ce_evaluated_at e\<rparr>)"

definition carried_row :: "string \<Rightarrow> string \<Rightarrow> string \<Rightarrow> TaskRow \<Rightarrow> TaskRow" where
  "carried_row now new_id to_week src = src\<lparr>tk_id := new_id, tk_week_id := Some to_week, tk_status := Task_Planned,
     tk_carried_from := Some (tk_id src), tk_created_at := now, tk_updated_at := now, tr_sort_key := 0\<rparr>"

definition apply_carry_over :: "string \<Rightarrow> string \<Rightarrow> string \<Rightarrow> string list store" where
  "apply_carry_over now task_id to_week =
     mthen (require_task_week_open task_id)
     (mbind (query (\<lambda>db. row_by tk_id task_id (db_tasks db))) (\<lambda>r.
      mbind (msome r (SE_NotFound (''task '' @ task_id))) (\<lambda>src.
      mthen (mguard (tk_week_id src \<noteq> Some to_week) (SE_SameWeekCarry task_id))
      (mbind (read_task_status task_id) (\<lambda>from.
       mthen (mlift (transition_err (check_task_transition from Task_CarriedOver)))
       (mthen (set_task_status now task_id Task_CarriedOver)
       (mbind (append_event ''task'' task_id ''transitioned'' (Some (task_status_wire from)) (Some ''carried_over'')
          (JObj [(''task_id'', JStr task_id)]) now) (\<lambda>close_ev.
        mbind ulid (\<lambda>new_id.
        mthen (insert_task (carried_row now new_id to_week src))
        (mthen (copy_eval task_id new_id)
        (mbind (append_event ''task'' new_id ''created'' None (Some ''planned'')
           (JObj [(''id'', JStr new_id), (''week_id'', JStr to_week), (''carried_from'', JStr task_id),
                  (''direction_id'', jopt JStr (tk_direction_id src))]) now) (\<lambda>create_ev.
         mret [close_ev, create_ev]))))))))))))"

definition in_inbox :: "string \<Rightarrow> TaskRow \<Rightarrow> bool" where
  "in_inbox task_id t = (tk_id t = task_id \<and> (tk_direction_id t = None \<or> tk_direction_id t = Some TRIAGE_DIRECTION_ID))"

text \<open>The \<open>UPDATE\<close> with its constraints: the direction must exist and the provenance be one of two.\<close>

definition assign_violation :: "string \<Rightarrow> string \<Rightarrow> string option \<Rightarrow> Db \<Rightarrow> SqlxError option" where
  "assign_violation task_id direction_id via db =
     (if count_where (in_inbox task_id) (db_tasks db) = 0 then None
      else violated (triage_via_ok via) True (taken di_id direction_id (db_directions db)))"

definition apply_assign_direction :: "string \<Rightarrow> string \<Rightarrow> string \<Rightarrow> string \<Rightarrow> string list store" where
  "apply_assign_direction now capability_source task_id direction_id =
     mthen (require_task_week_open task_id)
     (mbind (query (\<lambda>db. case row_by di_id direction_id (db_directions db) of None \<Rightarrow> None | Some d \<Rightarrow> di_area_id d)) (\<lambda>area_id.
      mbind (query (\<lambda>db. case row_by tk_id task_id (db_tasks db) of None \<Rightarrow> None | Some t \<Rightarrow> tk_direction_id t)) (\<lambda>old_direction_id.
      let (via, entered_at) = (if direction_id = TRIAGE_DIRECTION_ID then (Some capability_source, Some now) else (None, None)) in
      mbind (query (\<lambda>db. count_where (in_inbox task_id) (db_tasks db))) (\<lambda>affected.
      mthen (checked_stmt (assign_violation task_id direction_id via)
        (\<lambda>db. db\<lparr>db_tasks := upd_where (in_inbox task_id) (\<lambda>t. t\<lparr>tk_direction_id := Some direction_id, tk_updated_at := now,
           tr_triage_via := via, tr_triage_entered_at := entered_at\<rparr>) (db_tasks db)\<rparr>))
      (mthen (mguard (affected = 1)
         (SE_Conflict (''task '' @ task_id @ '' is no longer in the inbox (assign_task_direction CAS)'')))
      (mbind (append_event ''task'' task_id ''direction_assigned'' None None
         (JObj [(''task_id'', JStr task_id), (''from_direction_id'', jopt JStr old_direction_id),
                (''direction_id'', JStr direction_id), (''area_id'', jopt JStr area_id)]) now) (\<lambda>ev. mret [ev])))))))"

definition apply_draft_body :: "string \<Rightarrow> string \<Rightarrow> string \<Rightarrow> string list store" where
  "apply_draft_body now review_id body =
     mbind (query (\<lambda>db. count_where (\<lambda>r. rv_id r = review_id \<and> rv_status r = Review_Draft) (db_reviews db))) (\<lambda>affected.
     mthen (stmt (\<lambda>db. db\<lparr>db_reviews := upd_where (\<lambda>r. rv_id r = review_id \<and> rv_status r = Review_Draft)
        (\<lambda>r. r\<lparr>rv_body := body, rv_updated_at := now\<rparr>) (db_reviews db)\<rparr>))
     (mthen (mguard (affected = 1)
        (SE_Conflict (''review '' @ review_id @ '' is not accepting further changes (draft_review_body CAS)'')))
     (mbind (append_event ''review'' review_id ''updated'' None None
        (JObj [(''review_id'', JStr review_id), (''body'', JStr body)]) now) (\<lambda>ev. mret [ev]))))"

fun apply_arm :: "string \<Rightarrow> string \<Rightarrow> Sin90Op \<Rightarrow> string list store" where
  "apply_arm now cs (CreateArea title) = apply_create_area now title"
| "apply_arm now cs (CreateTask title d p kind energy est) = apply_create_task now title d p kind energy est"
| "apply_arm now cs (CreateDirection title target_window) = apply_create_direction now title target_window"
| "apply_arm now cs (TransitionTask task_id to) = apply_transition_task now task_id to"
| "apply_arm now cs (CreateTasks week_id tasks) = apply_create_tasks now week_id tasks"
| "apply_arm now cs (ReorderTasks week_id order) = apply_reorder_tasks now week_id order"
| "apply_arm now cs (AdjustRhythm rhythm_id new_alloc) = apply_adjust_rhythm now rhythm_id new_alloc"
| "apply_arm now cs (CarryOverTask task_id to_week) = apply_carry_over now task_id to_week"
| "apply_arm now cs (AssignTaskDirection task_id direction_id) = apply_assign_direction now cs task_id direction_id"
| "apply_arm now cs (DraftReviewBody review_id base body) = apply_draft_body now review_id body"

definition apply_op :: "string \<Rightarrow> Sin90Op \<Rightarrow> string list store" where
  "apply_op capability_source op = mbind now_iso8601 (\<lambda>now. apply_arm now capability_source op)"

definition apply_ops :: "string \<Rightarrow> Sin90Op list \<Rightarrow> string list store" where
  "apply_ops capability_source ops = mbind (mfor (apply_op capability_source) ops) (\<lambda>evs. mret (concat evs))"

section \<open>Submit, accept, reject\<close>

definition validate_in :: "Sin90Proposal \<Rightarrow> string \<Rightarrow> unit store" where
  "validate_in p capability_source =
     mbind (build_snapshot (pr_ops p)) (\<lambda>snapshot.
     mbind (mget (\<lambda>w. validate (en_sha256 (st_env w)) p (snapshot_ctx snapshot) capability_source))
       (\<lambda>r. mlift (proposal_err r)))"

definition submit_proposal :: "Sin90Proposal \<Rightarrow> unit store" where
  "submit_proposal p =
     mbind now_iso8601 (\<lambda>now. with_tx
     (mbind (query (\<lambda>db. row_by pp_id (pr_id p) (db_proposals db))) (\<lambda>existing.
      case existing of
        Some row \<Rightarrow> mguard (pp_ops row = pr_ops p)
          (SE_Conflict (''proposal '' @ pr_id p @ '' already exists with different ops''))
      | None \<Rightarrow>
          mthen (validate_in p ''direct'')
          (mthen (insert_proposal \<lparr>pp_id = pr_id p, pp_status = Proposal_Pending, pp_source = pr_source p,
             pp_ops = pr_ops p, pp_rationale = pr_rationale p, pp_result = None, pp_created_at = now,
             pp_decided_at = None\<rparr>)
          (mthen (append_event ''proposal'' (pr_id p) ''submitted'' None (Some ''pending'')
             (JObj [(''id'', JStr (pr_id p)), (''source'', JStr (proposal_source_wire (pr_source p))),
                    (''ops_count'', JInt (int (length (pr_ops p))))]) now)
          (mret ()))))))"

text \<open>\<open>SELECT task_kind .. WHERE proposal_id = ? AND ok = 1 LIMIT 1\<close>, or \<open>direct\<close>.\<close>

definition capability_of :: "string \<Rightarrow> Db \<Rightarrow> string" where
  "capability_of proposal_id db =
     (case find (\<lambda>c. ac_proposal_id c = Some proposal_id \<and> ac_ok c) (db_ai_calls db) of
        None \<Rightarrow> ''direct'' | Some c \<Rightarrow> capability_wire (ac_task_kind c))"

record ApplyOutcome =
  ao_receipt :: AppliedProposal
  ao_applied_now :: bool

text \<open>The answer for a proposal that is not pending.\<close>

definition replay_applied :: "string \<Rightarrow> ApplyOutcome store" where
  "replay_applied proposal_id =
     mbind (query (\<lambda>db. row_by pp_id proposal_id (db_proposals db))) (\<lambda>existing.
     case existing of
       None \<Rightarrow> mfail (SE_NotFound (''proposal '' @ proposal_id))
     | Some r \<Rightarrow> (case pp_status r of
         Proposal_Applied \<Rightarrow> mbind (msome (pp_result r) (SE_Internal ''applied proposal has no result'')) (\<lambda>result.
           mret \<lparr>ao_receipt = result, ao_applied_now = False\<rparr>)
       | Proposal_Applying \<Rightarrow> mfail (SE_Conflict (''proposal '' @ proposal_id @ '' is already being applied''))
       | other \<Rightarrow> mfail (SE_Conflict (''proposal '' @ proposal_id @ '' is '' @ proposal_status_wire other @
           '', not pending''))))"

definition apply_claimed :: "string \<Rightarrow> ProposalRow \<Rightarrow> ApplyOutcome store" where
  "apply_claimed proposal_id claimed =
     mbind (query (capability_of proposal_id)) (\<lambda>capability_source.
     mthen (validate_in \<lparr>pr_id = proposal_id, pr_status = Proposal_Applying, pr_source = pp_source claimed,
        pr_ops = pp_ops claimed, pr_rationale = None\<rparr> capability_source)
     (mbind (apply_ops capability_source (pp_ops claimed)) (\<lambda>event_ids.
      let receipt = \<lparr>ap_proposal_id = proposal_id, ap_event_ids = event_ids\<rparr> in
      mbind now_iso8601 (\<lambda>decided.
      mthen (stmt (\<lambda>db. db\<lparr>db_proposals := upd_by pp_id proposal_id
         (\<lambda>r. r\<lparr>pp_status := Proposal_Applied, pp_result := Some receipt, pp_decided_at := Some decided\<rparr>) (db_proposals db)\<rparr>))
      (mret \<lparr>ao_receipt = receipt, ao_applied_now = True\<rparr>)))))"

text \<open>The compare-and-set \<open>UPDATE .. WHERE id = ? AND status = 'pending' RETURNING ..\<close>.\<close>

definition pending_proposal :: "string \<Rightarrow> Db \<Rightarrow> ProposalRow option" where
  "pending_proposal proposal_id db =
     (case row_by pp_id proposal_id (db_proposals db) of None \<Rightarrow> None
      | Some r \<Rightarrow> if pp_status r = Proposal_Pending then Some r else None)"

definition set_proposal :: "string \<Rightarrow> (ProposalRow \<Rightarrow> ProposalRow) \<Rightarrow> unit store" where
  "set_proposal proposal_id f = stmt (\<lambda>db. db\<lparr>db_proposals := upd_by pp_id proposal_id f (db_proposals db)\<rparr>)"

definition apply_proposal :: "string \<Rightarrow> ApplyOutcome store" where
  "apply_proposal proposal_id = with_tx
     (mbind (query (pending_proposal proposal_id)) (\<lambda>claimed.
      case claimed of
        None \<Rightarrow> replay_applied proposal_id
      | Some row \<Rightarrow>
          mthen (set_proposal proposal_id (\<lambda>r. r\<lparr>pp_status := Proposal_Applying\<rparr>))
            (apply_claimed proposal_id row)))"

section \<open>Rejection\<close>

fun op_tag :: "Sin90Op \<Rightarrow> string" where
  "op_tag (CreateArea _) = ''create_area''"
| "op_tag (CreateTask _ _ _ _ _ _) = ''create_task''"
| "op_tag (CreateDirection _ _) = ''create_direction''"
| "op_tag (TransitionTask _ _) = ''transition_task''"
| "op_tag (CreateTasks _ _) = ''create_tasks''"
| "op_tag (ReorderTasks _ _) = ''reorder_tasks''"
| "op_tag (AdjustRhythm _ _) = ''adjust_rhythm''"
| "op_tag (CarryOverTask _ _) = ''carry_over_task''"
| "op_tag (AssignTaskDirection _ _) = ''assign_task_direction''"
| "op_tag (DraftReviewBody _ _ _) = ''draft_review_body''"

fun join_with :: "string \<Rightarrow> string list \<Rightarrow> string" where
  "join_with sep [] = []"
| "join_with sep [x] = x"
| "join_with sep (x # y # xs) = x @ sep @ join_with sep (y # xs)"

definition summarize_ops :: "Sin90Op list \<Rightarrow> string" where
  "summarize_ops ops = join_with '','' (map (\<lambda>k. k @ '' x'' @ dec (count_where (\<lambda>op. op_tag op = k) ops))
     (sort (remdups (map op_tag ops))))"

record RejectOutcome =
  rjo_capability_source :: string
  rjo_ops_summary :: string

definition reject_proposal :: "string \<Rightarrow> string option \<Rightarrow> RejectOutcome store" where
  "reject_proposal proposal_id reason =
     mbind now_iso8601 (\<lambda>now. with_tx
     (mbind (query (pending_proposal proposal_id)) (\<lambda>claimed.
      case claimed of
        None \<Rightarrow> mbind (query (\<lambda>db. row_by pp_id proposal_id (db_proposals db))) (\<lambda>existing.
          case existing of
            None \<Rightarrow> mfail (SE_NotFound (''proposal '' @ proposal_id))
          | Some r \<Rightarrow> mfail (SE_Conflict (''proposal '' @ proposal_id @ '' is '' @ proposal_status_wire (pp_status r) @
              '', not pending'')))
      | Some row \<Rightarrow>
          mthen (set_proposal proposal_id (\<lambda>r. r\<lparr>pp_status := Proposal_Rejected, pp_decided_at := Some now\<rparr>))
          (mbind (query (capability_of proposal_id)) (\<lambda>capability_source.
           mbind ulid (\<lambda>rid.
           mthen (insert_rejection \<lparr>rj_id = rid, rj_proposal_id = proposal_id,
              rj_capability_source = capability_source, rj_proposal_source = pp_source row,
              rj_ops_summary = summarize_ops (pp_ops row), rj_rationale = pp_rationale row, rj_reason = reason,
              rj_proposed_at = pp_created_at row, rj_rejected_at = now\<rparr>)
           (mthen (append_event ''proposal'' proposal_id ''rejected'' (Some ''pending'') (Some ''rejected'')
              (JObj [(''proposal_id'', JStr proposal_id), (''capability_source'', JStr capability_source),
                     (''reason'', jopt JStr reason)]) now)
           (mret \<lparr>rjo_capability_source = capability_source, rjo_ops_summary = summarize_ops (pp_ops row)\<rparr>))))))))"

section \<open>Reads\<close>

definition clamp_limit :: "int option \<Rightarrow> nat" where
  "clamp_limit limit = nat (max 1 (min 500 (or_current limit 100)))"

definition list_events :: "string option \<Rightarrow> string option \<Rightarrow> int option \<Rightarrow> int option \<Rightarrow> Event list store" where
  "list_events entity entity_id since_seq limit = query (\<lambda>db.
     take (clamp_limit limit) (sort_key ev_seq (filter (\<lambda>e.
       (case entity of None \<Rightarrow> True | Some x \<Rightarrow> ev_entity e = x)
       \<and> (case entity_id of None \<Rightarrow> True | Some x \<Rightarrow> ev_entity_id e = x)
       \<and> (case since_seq of None \<Rightarrow> True | Some s \<Rightarrow> s < int (ev_seq e))) (db_events db))))"

definition list_directions :: "Direction list store" where
  "list_directions = query (\<lambda>db. newest_first di_created_at (db_directions db))"

definition list_rhythms :: "Rhythm list store" where
  "list_rhythms = query (\<lambda>db. newest_first rh_created_at (db_rhythms db))"

definition get_rhythm :: "string \<Rightarrow> Rhythm store" where
  "get_rhythm i = mbind (query (\<lambda>db. row_by rh_id i (db_rhythms db))) (\<lambda>r. msome r (SE_NotFound (''rhythm '' @ i)))"

definition list_blocks :: "ScheduleBlock list store" where
  "list_blocks = query (\<lambda>db. newest_first bl_created_at (db_blocks db))"

definition list_proposals :: "ProposalRow list store" where
  "list_proposals = query (\<lambda>db. newest_first pp_created_at (db_proposals db))"

definition list_pending_proposals :: "ProposalRow list store" where
  "list_pending_proposals = query (\<lambda>db. newest_first pp_created_at
     (filter (\<lambda>p. pp_status p = Proposal_Pending) (db_proposals db)))"

definition get_proposal :: "string \<Rightarrow> ProposalRow store" where
  "get_proposal i =
     mbind (query (\<lambda>db. row_by pp_id i (db_proposals db))) (\<lambda>r. msome r (SE_NotFound (''proposal '' @ i)))"

record RejectedOpsRow =
  ror_ops :: "Sin90Op list"
  ror_rejected_at :: string
  ror_proposed_at :: string

definition list_rejected_ops :: "string \<Rightarrow> RejectedOpsRow list store" where
  "list_rejected_ops capability_source = query (\<lambda>db.
     [\<lparr>ror_ops = pp_ops p, ror_rejected_at = rj_rejected_at r, ror_proposed_at = pp_created_at p\<rparr>.
       r \<leftarrow> sort_key rj_rejected_at (filter (\<lambda>r. rj_capability_source r = capability_source) (db_rejections db)),
       p \<leftarrow> db_proposals db, pp_id p = rj_proposal_id r])"

definition task_modified_since :: "string \<Rightarrow> string \<Rightarrow> bool store" where
  "task_modified_since task_id since = query (\<lambda>db. list_ex (\<lambda>e. ev_entity e = ''task'' \<and> ev_entity_id e = task_id
     \<and> ev_kind e \<noteq> ''direction_assigned'' \<and> since < ev_at e) (db_events db))"

definition week_activity_since :: "string \<Rightarrow> string \<Rightarrow> bool store" where
  "week_activity_since iso_week since =
     mbind (msome (iso_week_bounds iso_week) (SE_Invalid ''week must be an ISO-8601 week like 2026-W39'')) (\<lambda>(start, end).
     query (\<lambda>db. list_ex (\<lambda>e. (ev_entity e = ''task'' \<or> ev_entity e = ''routine'')
       \<and> in_window start end e \<and> since < ev_at e) (db_events db)))"

end
