(* ===== verification/Ladder.thy ===== *)
theory Ladder
  imports Ai_Ports
begin

text \<open>
  The engine ladder of \<open>src/ai/ladder.rs\<close>: the plan of a capability, the budget and the circuit
  breaker of a run, and \<open>run_item\<close>. The ports are arguments: the model, the settings reader,
  the clock and the id source are oracles indexed by \<open>rn_tick\<close>, the number of steps taken in
  the run so far, so that each may answer differently every time. Recording a call is
  best-effort, so it has no outcome; the records handed to the sink are returned in order.
\<close>

datatype Step = Step_ReflexDecisive | Step_Model Engine | Step_ReflexFallback

definition plan :: "Capability \<Rightarrow> ModelAccess \<Rightarrow> AiSettings \<Rightarrow> bool \<Rightarrow> Step list" where
  "plan cap access settings model_port_present =
     (if cap = Cap_Classify then [Step_ReflexDecisive] else []) @
     (if model_port_present then
        (if access = Access_RemoteAllowed \<and> as_executive_enabled settings then [Step_Model Engine_Executive] else []) @
        [Step_Model Engine_Local]
      else []) @
     [Step_ReflexFallback]"

fun source_for :: "Engine \<Rightarrow> ServedTier option \<Rightarrow> ProposalSource" where
  "source_for Engine_Reflex _ = Source_Rule"
| "source_for _ (Some Tier_Remote) = Source_Executive"
| "source_for _ _ = Source_LocalBrain"

definition tripwire :: "ServedTier \<Rightarrow> AiSettings \<Rightarrow> bool" where
  "tripwire served settings = (served = Tier_Remote \<and> \<not> as_executive_enabled settings)"

definition MAX_MODEL_CALLS_PER_RUN :: nat where
  "MAX_MODEL_CALLS_PER_RUN = 20"

record RunState =
  rn_calls_left :: nat
  rn_skip :: "Engine set"
  rn_models_off :: bool
  rn_aborted :: bool
  rn_tick :: nat

definition RunState_new :: RunState where
  "RunState_new = \<lparr>rn_calls_left = MAX_MODEL_CALLS_PER_RUN, rn_skip = {}, rn_models_off = False,
     rn_aborted = False, rn_tick = 0\<rparr>"

datatype 'v Outcome =
    Produced 'v Engine AiCallRecord
  | Nothing_Produced bool
  | Deferred
  | Aborted

record 'v Ports =
  po_run_id :: string
  po_model_present :: bool
  po_complete :: "nat \<Rightarrow> Engine \<Rightarrow> ModelFailure + ModelReply"
  po_settings :: "nat \<Rightarrow> AiSettings option"
  po_past_deadline :: "nat \<Rightarrow> bool"
  po_now :: "nat \<Rightarrow> string"
  po_mint_id :: "nat \<Rightarrow> string"
  po_elapsed_ms :: "nat \<Rightarrow> nat"
  po_parse :: "ModelReply \<Rightarrow> string + 'v"
  po_reflex_decisive :: "'v option"
  po_reflex_fallback :: "'v option"

text \<open>The record of a step before the step runs; the latency is filled in with it.\<close>

definition fresh_record :: "'v Ports \<Rightarrow> Capability \<Rightarrow> nat \<Rightarrow> AiCallRecord" where
  "fresh_record po cap n = \<lparr>ac_id = po_mint_id po n, ac_run_id = po_run_id po, ac_task_kind = cap,
     ac_engine = Engine_Reflex, ac_fallback_from = None, ac_served_tier = None, ac_model_id = None,
     ac_prompt_tokens = None, ac_completion_tokens = None, ac_latency_ms = po_elapsed_ms po n, ac_ok = False,
     ac_error_kind = None, ac_proposal_id = None, ac_at = po_now po n\<rparr>"

definition with_reply :: "ModelReply \<Rightarrow> AiCallRecord \<Rightarrow> AiCallRecord" where
  "with_reply reply rec = rec\<lparr>ac_served_tier := Some (mr_tier reply), ac_model_id := mr_model_id reply,
     ac_prompt_tokens := mr_prompt_tokens reply, ac_completion_tokens := mr_completion_tokens reply\<rparr>"

text \<open>
  What one step does with the item: it ends it, or the ladder goes on with the engine that
  failed last and the \<open>deterministic\<close> flag.
\<close>

datatype 'v StepResult = Stop "'v Outcome" | Go_On "Engine option" bool

definition fresh_settings :: "'v Ports \<Rightarrow> nat \<Rightarrow> AiSettings" where
  "fresh_settings po n = (case po_settings po n of None \<Rightarrow> AiSettings_default | Some s \<Rightarrow> s)"

definition reflex_step ::
  "'v option \<Rightarrow> string \<Rightarrow> AiCallRecord \<Rightarrow> Engine option \<Rightarrow> bool \<Rightarrow> RunState \<Rightarrow> 'v StepResult \<times> RunState \<times> AiCallRecord list" where
  "reflex_step got why rec failed_from det st =
     (case got of
        Some v \<Rightarrow> (Stop (Produced v Engine_Reflex (rec\<lparr>ac_ok := True\<rparr>)), st, [])
      | None \<Rightarrow> (Go_On failed_from det, st, [rec\<lparr>ac_error_kind := Some why\<rparr>]))"

definition reply_step ::
  "'v Ports \<Rightarrow> Engine \<Rightarrow> ModelReply \<Rightarrow> AiCallRecord \<Rightarrow> bool \<Rightarrow> RunState \<Rightarrow> 'v StepResult \<times> RunState \<times> AiCallRecord list" where
  "reply_step po engine reply rec det st =
     (if mr_tier reply = Tier_Remote \<and> tripwire (mr_tier reply) (fresh_settings po (rn_tick st))
      then (Go_On (Some engine) det, st, [rec\<lparr>ac_error_kind := Some ''privacy_tripwire''\<rparr>])
      else case po_parse po reply of
        Inr v \<Rightarrow> (Stop (Produced v engine (rec\<lparr>ac_ok := True\<rparr>)), st, [])
      | Inl why \<Rightarrow> (Go_On (Some engine) True, st, [rec\<lparr>ac_error_kind := Some why\<rparr>]))"

definition failure_step ::
  "Engine \<Rightarrow> ModelFailure \<Rightarrow> AiCallRecord \<Rightarrow> bool \<Rightarrow> RunState \<Rightarrow> 'v StepResult \<times> RunState \<times> AiCallRecord list" where
  "failure_step engine f rec det st =
     (let log = [rec\<lparr>ac_error_kind := Some (kind_str f)\<rparr>] in
      case failure_action f of
        Act_Abort \<Rightarrow> (Stop Aborted, st\<lparr>rn_aborted := True\<rparr>, log)
      | Act_Defer \<Rightarrow> (Stop Deferred, st\<lparr>rn_models_off := True\<rparr>, log)
      | Act_Degrade \<Rightarrow> (Go_On (Some engine) det,
          (if opens_circuit f then st\<lparr>rn_skip := insert engine (rn_skip st)\<rparr> else st), log))"

definition model_step ::
  "'v Ports \<Rightarrow> Engine \<Rightarrow> AiCallRecord \<Rightarrow> Engine option \<Rightarrow> bool \<Rightarrow> RunState \<Rightarrow> 'v StepResult \<times> RunState \<times> AiCallRecord list" where
  "model_step po engine rec failed_from det st =
     (if \<not> po_model_present po then (Go_On failed_from det, st, [])
      else if engine \<in> rn_skip st then (Go_On (Some engine) det, st, [])
      else if rn_models_off st \<or> rn_calls_left st = 0 \<or> po_past_deadline po (rn_tick st)
      then (Stop Deferred, st\<lparr>rn_models_off := True\<rparr>, [])
      else
        (let st1 = st\<lparr>rn_calls_left := rn_calls_left st - 1\<rparr>;
             rec1 = rec\<lparr>ac_engine := engine, ac_fallback_from := failed_from\<rparr>
         in case po_complete po (rn_tick st) engine of
              Inr reply \<Rightarrow> reply_step po engine reply (with_reply reply rec1) det st1
            | Inl f \<Rightarrow> failure_step engine f rec1 det st1))"

definition ladder_step ::
  "'v Ports \<Rightarrow> Capability \<Rightarrow> Step \<Rightarrow> Engine option \<Rightarrow> bool \<Rightarrow> RunState \<Rightarrow> 'v StepResult \<times> RunState \<times> AiCallRecord list" where
  "ladder_step po cap step failed_from det st =
     (let rec = fresh_record po cap (rn_tick st) in
      case step of
        Step_ReflexDecisive \<Rightarrow> reflex_step (po_reflex_decisive po) ''undecided'' rec failed_from det st
      | Step_ReflexFallback \<Rightarrow>
          reflex_step (po_reflex_fallback po) ''no_match'' (rec\<lparr>ac_fallback_from := failed_from\<rparr>) failed_from det st
      | Step_Model engine \<Rightarrow> model_step po engine rec failed_from det st)"

fun run_steps ::
  "'v Ports \<Rightarrow> Capability \<Rightarrow> Step list \<Rightarrow> Engine option \<Rightarrow> bool \<Rightarrow> RunState \<Rightarrow> 'v Outcome \<times> RunState \<times> AiCallRecord list" where
  "run_steps po cap [] failed_from det st = (Nothing_Produced det, st, [])"
| "run_steps po cap (step # steps) failed_from det st =
     (case ladder_step po cap step failed_from det st of
        (Stop out, st1, log) \<Rightarrow> (out, st1\<lparr>rn_tick := Suc (rn_tick st1)\<rparr>, log)
      | (Go_On failed_from1 det1, st1, log) \<Rightarrow>
          (case run_steps po cap steps failed_from1 det1 (st1\<lparr>rn_tick := Suc (rn_tick st1)\<rparr>) of
             (out, st2, log2) \<Rightarrow> (out, st2, log @ log2)))"

definition run_item ::
  "'v Ports \<Rightarrow> Capability \<Rightarrow> Step list \<Rightarrow> RunState \<Rightarrow> 'v Outcome \<times> RunState \<times> AiCallRecord list" where
  "run_item po cap steps st =
     (if rn_aborted st then (Aborted, st, []) else run_steps po cap steps None False st)"

text \<open>A whole run: the items one after the other, each with its own parser and rules.\<close>

fun run_items ::
  "Capability \<Rightarrow> Step list \<Rightarrow> 'v Ports list \<Rightarrow> RunState \<Rightarrow> 'v Outcome list \<times> RunState \<times> AiCallRecord list" where
  "run_items cap steps [] st = ([], st, [])"
| "run_items cap steps (po # pos) st =
     (case run_item po cap steps st of (out, st1, log) \<Rightarrow>
       (case run_items cap steps pos st1 of (outs, st2, log2) \<Rightarrow> (out # outs, st2, log @ log2)))"

end
