(* ===== verification/Ai_Port.thy ===== *)
theory Ai_Port
  imports Store_Proposal Ladder
begin

text \<open>
  The store's side of the \<open>ai\<close> module, \<open>src/store/ai_port.rs\<close>: what its read-only handle sees and
  the writes of its sink. A sink error keeps the store error it renders to text.
\<close>

datatype SinkError = Sink_Invalid StoreError | Sink_Store StoreError

type_synonym 'a sink = "(Sin90Store, SinkError, 'a) prog"

text \<open>\<open>map_err\<close>.\<close>

definition map_err :: "('e \<Rightarrow> 'f) \<Rightarrow> ('w, 'e, 'a) prog \<Rightarrow> ('w, 'f, 'a) prog" where
  "map_err f m w = (case m w of (Inl e, w') \<Rightarrow> (Inl (f e), w') | (Inr x, w') \<Rightarrow> (Inr x, w'))"

section \<open>Settings\<close>

definition EXECUTIVE_ENABLED_KEY :: string where
  "EXECUTIVE_ENABLED_KEY = ''ai.executive_enabled''"

text \<open>A value that is not a boolean is a read error, which the HTTP side reports as internal.\<close>

definition read_ai_settings :: "AiSettings store" where
  "read_ai_settings =
     mbind (query (\<lambda>db. row_by sg_key EXECUTIVE_ENABLED_KEY (db_settings db))) (\<lambda>r.
     case r of None \<Rightarrow> mret \<lparr>as_executive_enabled = False\<rparr>
     | Some row \<Rightarrow> (case sg_value row of JBool b \<Rightarrow> mret \<lparr>as_executive_enabled = b\<rparr>
         | _ \<Rightarrow> mfail (SE_Internal ''read model'')))"

definition upsert_setting :: "string \<Rightarrow> Json \<Rightarrow> string \<Rightarrow> SettingRow list \<Rightarrow> SettingRow list" where
  "upsert_setting key value now rows =
     (if taken sg_key key rows then upd_by sg_key key (\<lambda>r. r\<lparr>sg_value := value, sg_updated_at := now\<rparr>) rows
      else rows @ [\<lparr>sg_key = key, sg_value = value, sg_updated_at = now\<rparr>])"

definition put_ai_executive_enabled :: "bool \<Rightarrow> AiSettings store" where
  "put_ai_executive_enabled value =
     mbind now_iso8601 (\<lambda>now. with_tx
     (mthen (stmt (\<lambda>db. db\<lparr>db_settings := upsert_setting EXECUTIVE_ENABLED_KEY (JBool value) now (db_settings db)\<rparr>))
     (mthen (append_event ''setting'' EXECUTIVE_ENABLED_KEY ''changed'' None None
        (JObj [(''key'', JStr EXECUTIVE_ENABLED_KEY), (''value'', JBool value)]) now)
     (mret \<lparr>as_executive_enabled = value\<rparr>))))"

section \<open>The read model\<close>

definition eligible_direction :: "Direction \<Rightarrow> bool" where
  "eligible_direction d = (\<not> direction_is_terminal (di_status d) \<and> di_id d \<noteq> TRIAGE_DIRECTION_ID)"

definition max_eligible_direction_created_at :: "Db \<Rightarrow> string option" where
  "max_eligible_direction_created_at db =
     (case map di_created_at (filter eligible_direction (db_directions db)) of
        [] \<Rightarrow> None | t # ts \<Rightarrow> Some (fold max ts t))"

text \<open>\<open>COALESCE(x, '')\<close>; the empty text sorts before every timestamp.\<close>

definition coalesce :: "string option \<Rightarrow> string" where
  "coalesce x = (case x of None \<Rightarrow> [] | Some t \<Rightarrow> t)"

definition evaluated_at :: "Db \<Rightarrow> string \<Rightarrow> string option" where
  "evaluated_at db i = map_option ce_evaluated_at (row_by ce_task_id i (db_classify_evals db))"

definition triage_retry_gate :: "Db \<Rightarrow> TaskRow \<Rightarrow> bool" where
  "triage_retry_gate db t =
     (tk_direction_id t = Some TRIAGE_DIRECTION_ID \<and> tr_triage_via t = Some ''classify''
      \<and> max (coalesce (evaluated_at db (tk_id t))) (coalesce (tr_triage_entered_at t))
          \<le> coalesce (max_eligible_direction_created_at db))"

definition in_ai_inbox :: "Db \<Rightarrow> TaskRow \<Rightarrow> bool" where
  "in_ai_inbox db t =
     ((tk_direction_id t = None \<or> triage_retry_gate db t) \<and> \<not> task_is_terminal (tk_status t))"

definition ai_inbox :: "nat \<Rightarrow> Task list store" where
  "ai_inbox limit = query (\<lambda>db.
     map Task.truncate (take limit (sort_key tk_created_at (filter (in_ai_inbox db) (db_tasks db)))))"

definition inbox_task :: "string \<Rightarrow> Task option store" where
  "inbox_task i = query (\<lambda>db. case row_by tk_id i (db_tasks db) of None \<Rightarrow> None
     | Some t \<Rightarrow> if in_ai_inbox db t then Some (Task.truncate t) else None)"

definition candidate_of :: "Db \<Rightarrow> Direction \<Rightarrow> DirectionCandidate" where
  "candidate_of db d = \<lparr>dc_direction_id = di_id d, dc_title = di_title d, dc_status = di_status d,
     dc_area_title = (case di_area_id d of None \<Rightarrow> None | Some a \<Rightarrow> map_option ar_title (row_by ar_id a (db_areas db)))\<rparr>"

definition direction_candidates :: "nat \<Rightarrow> DirectionCandidate list store" where
  "direction_candidates limit = query (\<lambda>db.
     map (candidate_of db) (take limit (newest_first di_updated_at (filter eligible_direction (db_directions db)))))"

definition direction_lookup :: "string \<Rightarrow> DirectionCandidate option store" where
  "direction_lookup i = query (\<lambda>db. map_option (candidate_of db) (row_by di_id i (db_directions db)))"

definition review_lookup :: "string \<Rightarrow> Review option store" where
  "review_lookup i = query (\<lambda>db. row_by rv_id i (db_reviews db))"

definition week_tasks :: "string \<Rightarrow> Task list store" where
  "week_tasks week_id = query (\<lambda>db. map Task.truncate
     (sort_key tr_sort_key (sort_key tk_created_at (filter (\<lambda>t. tk_week_id t = Some week_id) (db_tasks db)))))"

definition week_lookup :: "string \<Rightarrow> Week option store" where
  "week_lookup i = query (\<lambda>db. row_by wk_id i (db_weeks db))"

definition previous_open_week :: "string \<Rightarrow> Week option store" where
  "previous_open_week iso_week = query (\<lambda>db.
     case rev (sort_key wk_iso_week (filter (\<lambda>k. wk_iso_week k < iso_week) (db_weeks db))) of
       [] \<Rightarrow> None | k # _ \<Rightarrow> if week_is_open (wk_status k) then Some k else None)"

definition rhythm_alloc :: "Alloc list store" where
  "rhythm_alloc = query (\<lambda>db.
     case newest_first rh_created_at (filter (\<lambda>r. rh_status r \<noteq> Rhythm_Retired) (db_rhythms db)) of
       [] \<Rightarrow> [] | r # _ \<Rightarrow> rh_allocations r)"

definition resolve_label :: "(string \<Rightarrow> string option) \<Rightarrow> string \<Rightarrow> string option" where
  "resolve_label title i = (if i = [] then None else Some (case title i of None \<Rightarrow> i | Some t \<Rightarrow> t))"

definition summarize_draft :: "Db \<Rightarrow> WeeklyDraft \<Rightarrow> SummarizeDraft" where
  "summarize_draft db draft =
     \<lparr>su_week = wd_week draft,
      su_by_area = map (\<lambda>a. \<lparr>sb_label = resolve_label (\<lambda>i. map_option ar_title (row_by ar_id i (db_areas db))) (am_area_id a),
         sb_minutes = am_minutes a\<rparr>) (wd_by_area draft),
      su_by_direction = map (\<lambda>d. \<lparr>sb_label = resolve_label (\<lambda>i. map_option di_title (row_by di_id i (db_directions db)))
         (dm_direction_id d), sb_minutes = dm_minutes d\<rparr>) (wd_by_direction draft),
      su_tasks_done = wd_tasks_done draft,
      su_routines = map (\<lambda>r. \<lparr>sr_label = (case resolve_label (\<lambda>i. map_option ro_title (row_by ro_id i (db_routines db)))
         (rd_routine_id r) of None \<Rightarrow> rd_routine_id r | Some l \<Rightarrow> l), sr_fired = rd_fired r, sr_completed = rd_completed r\<rparr>)
         (wd_routines draft),
      su_auto_draft_md = render_weekly_draft_markdown draft\<rparr>"

definition ai_weekly_draft :: "string \<Rightarrow> SummarizeDraft store" where
  "ai_weekly_draft iso_week =
     mbind (weekly_draft_on iso_week) (\<lambda>draft. query (\<lambda>db. summarize_draft db draft))"

definition DONE_TITLES_LIMIT :: nat where
  "DONE_TITLES_LIMIT = 50"

definition done_titles :: "string \<Rightarrow> string list store" where
  "done_titles iso_week =
     mbind (msome (iso_week_bounds iso_week) (SE_Internal ''read model'')) (\<lambda>(start, end).
     query (\<lambda>db. take DONE_TITLES_LIMIT
       [tk_title t. e \<leftarrow> newest_first ev_at (filter (\<lambda>e. task_done_event e \<and> in_window start end e) (db_events db)),
          t \<leftarrow> db_tasks db, tk_id t = ev_entity_id e]))"

section \<open>The sink\<close>

fun op_allowed :: "Capability \<Rightarrow> Sin90Op \<Rightarrow> bool" where
  "op_allowed Cap_Classify (AssignTaskDirection _ _) = True"
| "op_allowed Cap_Summarize (DraftReviewBody _ _ _) = True"
| "op_allowed Cap_Propose (CarryOverTask _ _) = True"
| "op_allowed Cap_Propose (ReorderTasks _ _) = True"
| "op_allowed Cap_Propose (CreateTasks _ _) = True"
| "op_allowed _ _ = False"

definition allowed_ops :: "Capability \<Rightarrow> Sin90Op list \<Rightarrow> SinkError + unit" where
  "allowed_ops cap ops =
     (if ops = [] then Inl (Sink_Invalid (SE_Invalid ''proposal has no ops''))
      else if list_all (op_allowed cap) ops then Inr ()
      else Inl (Sink_Invalid (SE_Invalid
        (''one or more ops are not allowed for capability '' @ capability_wire cap))))"

fun classify_apply_err :: "StoreError \<Rightarrow> SinkError" where
  "classify_apply_err (SE_Sqlx e) = Sink_Store (SE_Sqlx e)"
| "classify_apply_err (SE_Internal m) = Sink_Store (SE_Internal m)"
| "classify_apply_err e = Sink_Invalid e"

text \<open>A savepoint that is always rolled back: the trial run leaves no row behind.\<close>

definition trial :: "'a store \<Rightarrow> 'a store" where
  "trial m w = (case m w of (r, w') \<Rightarrow> (r, w'\<lparr>st_db := st_db w\<rparr>))"

definition dry_run :: "string \<Rightarrow> Sin90Op list \<Rightarrow> string option \<Rightarrow> Capability \<Rightarrow> unit sink" where
  "dry_run i ops rationale cap =
     mthen (map_err Sink_Invalid (validate_in \<lparr>pr_id = i, pr_status = Proposal_Pending, pr_source = Source_Rule,
        pr_ops = ops, pr_rationale = rationale\<rparr> (capability_wire cap)))
     (mthen (map_err classify_apply_err (trial (apply_ops (capability_wire cap) ops))) (mret ()))"

definition submit_rows :: "ProposalDraft \<Rightarrow> AiCallRecord \<Rightarrow> unit store" where
  "submit_rows draft rec =
     (let source = source_for (ac_engine rec) (ac_served_tier rec) in
      mbind now_iso8601 (\<lambda>now.
      mthen (insert_proposal \<lparr>pp_id = pd_id draft, pp_status = Proposal_Pending, pp_source = source,
         pp_ops = pd_ops draft, pp_rationale = pd_rationale draft, pp_result = None, pp_created_at = now,
         pp_decided_at = None\<rparr>)
      (mthen (append_event ''proposal'' (pd_id draft) ''submitted'' None (Some ''pending'')
         (JObj [(''id'', JStr (pd_id draft)), (''source'', JStr (proposal_source_wire source)),
                (''ops_count'', JInt (int (length (pd_ops draft))))]) now)
      (insert_call_row (rec\<lparr>ac_ok := True, ac_error_kind := None, ac_proposal_id := Some (pd_id draft)\<rparr>)))))"

definition sink_tx :: "'a sink \<Rightarrow> 'a sink" where
  "sink_tx m w = (case m w of (Inl e, w') \<Rightarrow> (Inl e, w'\<lparr>st_db := st_db w\<rparr>) | (Inr x, w') \<Rightarrow> (Inr x, w'))"

definition sink_submit :: "Capability \<Rightarrow> ProposalDraft \<Rightarrow> AiCallRecord \<Rightarrow> unit sink" where
  "sink_submit cap draft rec =
     mthen (mlift (allowed_ops cap (pd_ops draft)))
     (mthen (mguard (\<not> (ac_engine rec = Engine_Reflex \<and> ac_served_tier rec \<noteq> None))
        (Sink_Invalid (SE_Invalid ''a reflex call record cannot carry a served_tier'')))
     (mthen (mguard (ac_task_kind rec = cap)
        (Sink_Invalid (SE_Invalid ''call record task_kind does not match capability being submitted'')))
     (sink_tx (mthen (dry_run (pd_id draft) (pd_ops draft) (pd_rationale draft) cap)
        (map_err Sink_Store (submit_rows draft rec))))))"

definition sink_record_call :: "AiCallRecord \<Rightarrow> unit sink" where
  "sink_record_call rec = map_err Sink_Store (insert_call_row rec)"

definition upsert_eval :: "string \<Rightarrow> string \<Rightarrow> ClassifyEval list \<Rightarrow> ClassifyEval list" where
  "upsert_eval task_id at rows =
     (if taken ce_task_id task_id rows then upd_by ce_task_id task_id (\<lambda>r. r\<lparr>ce_evaluated_at := at\<rparr>) rows
      else rows @ [\<lparr>ce_task_id = task_id, ce_evaluated_at = at\<rparr>])"

definition sink_record_classify_eval :: "string \<Rightarrow> string \<Rightarrow> unit sink" where
  "sink_record_classify_eval task_id at = map_err Sink_Store
     (checked_stmt (\<lambda>db. violated True True (taken tk_id task_id (db_tasks db)))
       (\<lambda>db. db\<lparr>db_classify_evals := upsert_eval task_id at (db_classify_evals db)\<rparr>))"

definition precheck_one :: "Capability \<Rightarrow> ProposalDraft \<Rightarrow> bool store" where
  "precheck_one cap d w =
     (case allowed_ops cap (pd_ops d) of
        Inl _ \<Rightarrow> (Inr False, w)
      | Inr _ \<Rightarrow> (case dry_run (pd_id d) (pd_ops d) (pd_rationale d) cap w of
          (Inl _, w') \<Rightarrow> (Inr False, w') | (Inr _, w') \<Rightarrow> (Inr True, w')))"

definition sink_precheck :: "Capability \<Rightarrow> ProposalDraft list \<Rightarrow> bool list store" where
  "sink_precheck cap drafts = trial (mfor (precheck_one cap) drafts)"

section \<open>Reads of the call log\<close>

definition list_ai_calls_for_run :: "string \<Rightarrow> AiCallRecord list store" where
  "list_ai_calls_for_run run_id = query (\<lambda>db. sort_key ac_at (filter (\<lambda>c. ac_run_id c = run_id) (db_ai_calls db)))"

definition list_ai_produced_proposal_ids :: "Capability \<Rightarrow> string set store" where
  "list_ai_produced_proposal_ids task_kind = query (\<lambda>db. set [pp_id p. p \<leftarrow> db_proposals db, c \<leftarrow> db_ai_calls db,
     pp_status p = Proposal_Pending \<and> ac_proposal_id c = Some (pp_id p) \<and> ac_task_kind c = task_kind \<and> ac_ok c])"

end
