(* ===== verification/Api.thy ===== *)
theory Api
  imports Ai_Port
begin

text \<open>
  The store as its callers drive it: every public write of \<open>Sin90Store\<close> (the HTTP routes, the
  reconciler and the AI sink are its only callers) as a call, and the world after a sequence of
  calls. A read changes nothing but the clock's tick, so \<open>today_view\<close> stands for all of them.
  The result of a call is dropped here; the properties of a single call speak of the operation.
\<close>

datatype Call =
    Call_create_area string
  | Call_transition_area string AreaStatus
  | Call_create_direction string string "string option"
  | Call_create_rhythm "Alloc list"
  | Call_create_week string
  | Call_transition_week string WeekStatus
  | Call_create_block "string option" "string option" u32
  | Call_transition_block string ScheduleBlockStatus
  | Call_create_task string "string option" "string option" TaskKind Energy "u32 option"
  | Call_transition_task string TaskStatus
  | Call_create_routine NewRoutine
  | Call_update_routine string RoutinePatch
  | Call_transition_routine string RoutineStatus
  | Call_record_routine_fire string string string FireTrigger
  | Call_sync_kernel_suspended_routines "string list"
  | Call_outbox_enqueue_upsert string
  | Call_outbox_enqueue_delete string string
  | Call_outbox_mark_done string nat "string option"
  | Call_outbox_mark_retry string nat string string bool
  | Call_outbox_mark_failed string nat string string
  | Call_create_review NewReview
  | Call_update_review_body string string
  | Call_finalize_review string
  | Call_submit_proposal Sin90Proposal
  | Call_apply_proposal string
  | Call_reject_proposal string "string option"
  | Call_attention_apply
  | Call_attention_rebuild
  | Call_install_seed_pack "SeedArea list"
  | Call_put_ai_executive_enabled bool
  | Call_sink_submit Capability ProposalDraft AiCallRecord
  | Call_sink_record_call AiCallRecord
  | Call_sink_record_classify_eval string string
  | Call_sink_precheck Capability "ProposalDraft list"
  | Call_today_view

fun exec :: "Call \<Rightarrow> Sin90Store \<Rightarrow> Sin90Store" where
  "exec (Call_create_area title) w = snd (create_area title w)"
| "exec (Call_transition_area i to) w = snd (transition_area i to w)"
| "exec (Call_create_direction title win area) w = snd (create_direction title win area w)"
| "exec (Call_create_rhythm as) w = snd (create_rhythm as w)"
| "exec (Call_create_week label) w = snd (create_week label w)"
| "exec (Call_transition_week i to) w = snd (transition_week i to w)"
| "exec (Call_create_block d t n) w = snd (create_block d t n w)"
| "exec (Call_transition_block i to) w = snd (transition_block i to w)"
| "exec (Call_create_task title d p kind energy est) w = snd (create_task title d p kind energy est w)"
| "exec (Call_transition_task i to) w = snd (transition_task i to w)"
| "exec (Call_create_routine new) w = snd (create_routine new w)"
| "exec (Call_update_routine i patch) w = snd (update_routine i patch w)"
| "exec (Call_transition_routine i to) w = snd (transition_routine i to w)"
| "exec (Call_record_routine_fire fire key at trigger) w = snd (record_routine_fire fire key at trigger w)"
| "exec (Call_sync_kernel_suspended_routines ids) w = snd (sync_kernel_suspended_routines ids w)"
| "exec (Call_outbox_enqueue_upsert i) w = snd (outbox_enqueue_upsert_for_routine i w)"
| "exec (Call_outbox_enqueue_delete i key) w = snd (outbox_enqueue_delete_for_orphan i key w)"
| "exec (Call_outbox_mark_done i v res) w = snd (outbox_mark_done i v res w)"
| "exec (Call_outbox_mark_retry i v err at b) w = snd (outbox_mark_retry i v err at b w)"
| "exec (Call_outbox_mark_failed i v kind err) w = snd (outbox_mark_failed i v kind err w)"
| "exec (Call_create_review new) w = snd (create_review new w)"
| "exec (Call_update_review_body i body) w = snd (update_review_body i body w)"
| "exec (Call_finalize_review i) w = snd (finalize_review i w)"
| "exec (Call_submit_proposal p) w = snd (submit_proposal p w)"
| "exec (Call_apply_proposal i) w = snd (apply_proposal i w)"
| "exec (Call_reject_proposal i reason) w = snd (reject_proposal i reason w)"
| "exec Call_attention_apply w = snd (attention_apply_new_events w)"
| "exec Call_attention_rebuild w = snd (attention_rebuild w)"
| "exec (Call_install_seed_pack pack) w = snd (install_seed_pack pack w)"
| "exec (Call_put_ai_executive_enabled b) w = snd (put_ai_executive_enabled b w)"
| "exec (Call_sink_submit cap draft rec) w = snd (sink_submit cap draft rec w)"
| "exec (Call_sink_record_call rec) w = snd (sink_record_call rec w)"
| "exec (Call_sink_record_classify_eval i at) w = snd (sink_record_classify_eval i at w)"
| "exec (Call_sink_precheck cap drafts) w = snd (sink_precheck cap drafts w)"
| "exec Call_today_view w = snd (today_view w)"

definition run :: "Env \<Rightarrow> Call list \<Rightarrow> Sin90Store" where
  "run env calls = fold exec calls (opened env)"

text \<open>The committed database after the calls.\<close>

definition db_after :: "Env \<Rightarrow> Call list \<Rightarrow> Db" where
  "db_after env calls = st_db (run env calls)"

lemma run_snoc: "run env (calls @ [c]) = exec c (run env calls)"
  by (simp add: run_def)

end
