(* ===== verification/Payloads.thy ===== *)
theory Payloads
  imports Outbox
begin

text \<open>
  The reader's side of the column \<open>desired\<close>: the structs of \<open>src/adapter_agent24/reconciler.rs\<close> as
  serde reads them, and when a payload is one the reconciler understands.
\<close>

text \<open>A struct of serde from a JSON value: the fields by name, or all of them in order.\<close>

definition struct_fields :: "string list \<Rightarrow> Json \<Rightarrow> Json list option" where
  "struct_fields names v =
     (case v of
        JObj kvs \<Rightarrow> those (map (map_of kvs) names)
      | JArr vs \<Rightarrow> (if length vs = length names then Some vs else None)
      | _ \<Rightarrow> None)"

record UpsertDesired =
  ud_key :: string
  ud_cron :: string
  ud_tz :: string
  ud_enabled :: bool

definition parse_upsert_desired :: "Json \<Rightarrow> UpsertDesired option" where
  "parse_upsert_desired v =
     (case struct_fields [''key'', ''spec'', ''enabled''] v of
        Some [JStr key, spec, JBool enabled] \<Rightarrow>
          (case struct_fields [''cron'', ''tz''] spec of
             Some [JStr cron, JStr tz] \<Rightarrow> Some \<lparr>ud_key = key, ud_cron = cron, ud_tz = tz, ud_enabled = enabled\<rparr>
           | _ \<Rightarrow> None)
      | _ \<Rightarrow> None)"

definition parse_delete_desired :: "Json \<Rightarrow> string option" where
  "parse_delete_desired v = (case struct_fields [''key''] v of Some [JStr key] \<Rightarrow> Some key | _ \<Rightarrow> None)"

record RememberDesired =
  rm_dedup_key :: string
  rm_review_id :: string
  rm_review_kind :: string
  rm_period :: string
  rm_summary :: string
  rm_finalized_at :: string

definition parse_remember_desired :: "Json \<Rightarrow> RememberDesired option" where
  "parse_remember_desired v =
     (case struct_fields [''dedup_key'', ''review_id'', ''review_kind'', ''period'', ''summary'', ''finalized_at''] v of
        Some [JStr d, JStr i, JStr k, JStr p, JStr s, JStr f] \<Rightarrow>
          Some \<lparr>rm_dedup_key = d, rm_review_id = i, rm_review_kind = k, rm_period = p, rm_summary = s, rm_finalized_at = f\<rparr>
      | _ \<Rightarrow> None)"

definition payload_ok :: "string \<Rightarrow> string \<Rightarrow> Json \<Rightarrow> bool" where
  "payload_ok kind dedup_key v =
     ((kind = ''scheduler.upsert'' \<and> (\<exists>i d. dedup_key = routine_dedup_key i \<and> parse_upsert_desired v = Some d
         \<and> ud_key d = routine_kernel_key i))
      \<or> (kind = ''scheduler.delete'' \<and> (\<exists>key. parse_delete_desired v = Some key))
      \<or> (kind = ''memory.remember'' \<and> (\<exists>d. parse_remember_desired v = Some d \<and> rm_dedup_key d = dedup_key)))"

lemmas parse_defs = parse_upsert_desired_def parse_delete_desired_def parse_remember_desired_def struct_fields_def

lemma payload_upsert [simp]: "payload_ok ''scheduler.upsert'' (routine_dedup_key i) (routine_outbox_upsert_desired i cron tz enabled)"
  by (auto simp: payload_ok_def parse_defs routine_outbox_upsert_desired_def)

lemma payload_delete [simp]: "payload_ok ''scheduler.delete'' k (routine_outbox_delete_desired i)"
  "payload_ok ''scheduler.delete'' k (JObj [(''key'', JStr key)])"
  by (auto simp: payload_ok_def parse_defs routine_outbox_delete_desired_def)

end
