(* ===== verification/Statements.thy ===== *)
theory Statements
  imports Api Payloads
begin

text \<open>
  What one statement of a transaction does to the world when it succeeds: the rules that turn an
  operation of the store into the list of its reads, checks and writes, the collection
  \<open>store_iff\<close>. The tables with a primary key are interpreted as \<open>keyed_table\<close>s.
\<close>

named_theorems store_iff \<open>success of the store's statements\<close>

section \<open>Statements\<close>

lemma now_iff [store_iff]: "(now_iso8601 w = (Inr t, w')) =
    (t = iso8601_at (en_clock (st_env w) (st_ticks w)) \<and> w' = w\<lparr>st_ticks := Suc (st_ticks w)\<rparr>)"
  "now_iso8601 w \<noteq> (Inl e, w')"
  by (auto simp: now_iso8601_def monad_iff)

lemma ulid_iff [store_iff]: "(ulid w = (Inr i, w')) =
    (i = ulid_of (en_ulid_ms (st_env w) (st_draws w)) (en_ulid_rnd (st_env w) (st_draws w))
     \<and> w' = w\<lparr>st_draws := Suc (st_draws w)\<rparr>)"
  "ulid w \<noteq> (Inl e, w')"
  by (auto simp: ulid_def monad_iff)

lemma query_iff [store_iff]: "(query f w = (Inr x, w')) = (x = f (st_db w) \<and> w' = w)"
  "query f w \<noteq> (Inl e, w')"
  by (auto simp: query_def monad_iff)

lemma stmt_iff [store_iff]: "(stmt f w = (Inr x, w')) = (w' = w\<lparr>st_db := f (st_db w)\<rparr>)"
  "stmt f w \<noteq> (Inl e, w')"
  by (auto simp: stmt_def monad_iff)

lemma checked_iff [store_iff]:
  "(checked_stmt c f w = (Inr x, w')) = (c (st_db w) = None \<and> w' = w\<lparr>st_db := f (st_db w)\<rparr>)"
  "(checked_stmt c f w = (Inl e, w')) = (\<exists>v. c (st_db w) = Some v \<and> e = SE_Sqlx v \<and> w' = w)"
  by (auto simp: checked_stmt_def monad_iff store_iff split: option.splits)

lemma with_tx_iff [store_iff]:
  "(with_tx m w = (Inr x, w')) = (m w = (Inr x, w'))"
  "(with_tx m w = (Inl e, w')) = (\<exists>w1. m w = (Inl e, w1) \<and> w' = w1\<lparr>st_db := st_db w\<rparr>)"
  by (auto simp: with_tx_def split: prod.splits sum.splits)

lemma notify_iff [store_iff]: "(notify_one w = (Inr x, w')) = (w' = w\<lparr>st_notify := True\<rparr>)"
  "notify_one w \<noteq> (Inl e, w')"
  by (auto simp: notify_one_def monad_iff)

lemmas insert_defs = insert_area_def insert_direction_def insert_week_def insert_rhythm_def insert_task_def
  insert_block_def insert_review_def insert_routine_def insert_fire_def insert_event_def insert_proposal_def
  insert_rejection_def insert_outbox_def insert_call_row_def insert_eval_def

declare insert_defs [store_iff]

lemma transition_err_iff [store_iff]:
  "(transition_err r = Inr x) = (r = Inr x)" "(transition_err r = Inl e) = (\<exists>t. r = Inl t \<and> e = SE_Transition t)"
  by (auto simp: transition_err_def split: sum.splits)

lemma proposal_err_iff [store_iff]:
  "(proposal_err r = Inr x) = (r = Inr x)" "(proposal_err r = Inl e) = (\<exists>t. r = Inl t \<and> e = SE_Proposal t)"
  by (auto simp: proposal_err_def split: sum.splits)

text \<open>The event a call of \<open>append_event\<close> writes in the world \<open>w\<close>.\<close>

definition new_event ::
  "string \<Rightarrow> string \<Rightarrow> string \<Rightarrow> string option \<Rightarrow> string option \<Rightarrow> Json \<Rightarrow> string \<Rightarrow> Sin90Store \<Rightarrow> Event" where
  "new_event entity entity_id kind from_state to_state payload at w =
     \<lparr>ev_seq = next_seq (db_events (st_db w)),
      ev_id = ulid_of (en_ulid_ms (st_env w) (st_draws w)) (en_ulid_rnd (st_env w) (st_draws w)),
      ev_entity = entity, ev_entity_id = entity_id, ev_kind = kind, ev_from = from_state, ev_to = to_state,
      ev_payload = payload, ev_at = at\<rparr>"

lemma new_event_sel [simp]:
  "ev_seq (new_event ent i k f t p at w) = next_seq (db_events (st_db w))"
  "ev_entity (new_event ent i k f t p at w) = ent" "ev_entity_id (new_event ent i k f t p at w) = i"
  "ev_kind (new_event ent i k f t p at w) = k" "ev_from (new_event ent i k f t p at w) = f"
  "ev_to (new_event ent i k f t p at w) = t" "ev_payload (new_event ent i k f t p at w) = p"
  "ev_at (new_event ent i k f t p at w) = at"
  by (simp_all add: new_event_def)

definition add_event :: "Event \<Rightarrow> Db \<Rightarrow> Db" where
  "add_event e db = db\<lparr>db_events := db_events db @ [e]\<rparr>"

lemma add_event_sel:
  "db_areas (add_event e db) = db_areas db" "db_directions (add_event e db) = db_directions db"
  "db_weeks (add_event e db) = db_weeks db" "db_rhythms (add_event e db) = db_rhythms db"
  "db_tasks (add_event e db) = db_tasks db" "db_blocks (add_event e db) = db_blocks db"
  "db_reviews (add_event e db) = db_reviews db" "db_routines (add_event e db) = db_routines db"
  "db_fires (add_event e db) = db_fires db" "db_events (add_event e db) = db_events db @ [e]"
  "db_proposals (add_event e db) = db_proposals db" "db_rejections (add_event e db) = db_rejections db"
  "db_outbox (add_event e db) = db_outbox db" "db_ai_calls (add_event e db) = db_ai_calls db"
  "db_attention (add_event e db) = db_attention db" "db_watermark (add_event e db) = db_watermark db"
  "db_classify_evals (add_event e db) = db_classify_evals db" "db_settings (add_event e db) = db_settings db"
  by (simp_all add: add_event_def)

definition log_ok :: "Event \<Rightarrow> Event list \<Rightarrow> bool" where
  "log_ok e es = (ev_seq e = next_seq es \<and> \<not> taken ev_seq (ev_seq e) es \<and> \<not> taken ev_id (ev_id e) es)"

lemma append_event_iff [store_iff]:
  "(append_event ent i k f t p at w = (Inr x, w')) =
     (log_ok (new_event ent i k f t p at w) (db_events (st_db w)) \<and> x = ev_id (new_event ent i k f t p at w)
      \<and> w' = w\<lparr>st_draws := Suc (st_draws w), st_db := add_event (new_event ent i k f t p at w) (st_db w)\<rparr>)"
  by (auto simp: append_event_def monad_iff store_iff new_event_def add_event_def log_ok_def event_violation_def violated_None)

section \<open>The tables\<close>

interpretation area_t: keyed_table "\<lambda>i db. row_by ar_id i (db_areas db)" "\<lambda>r db. db\<lparr>db_areas := db_areas db @ [r]\<rparr>"
  "\<lambda>i f db. db\<lparr>db_areas := upd_by ar_id i f (db_areas db)\<rparr>" ar_id
  by unfold_locales (auto simp: row_by_insert row_by_update dest: row_by_mem)

interpretation week_t: keyed_table "\<lambda>i db. row_by wk_id i (db_weeks db)" "\<lambda>r db. db\<lparr>db_weeks := db_weeks db @ [r]\<rparr>"
  "\<lambda>i f db. db\<lparr>db_weeks := upd_by wk_id i f (db_weeks db)\<rparr>" wk_id
  by unfold_locales (auto simp: row_by_insert row_by_update dest: row_by_mem)

interpretation rhythm_t: keyed_table "\<lambda>i db. row_by rh_id i (db_rhythms db)"
  "\<lambda>r db. db\<lparr>db_rhythms := db_rhythms db @ [r]\<rparr>"
  "\<lambda>i f db. db\<lparr>db_rhythms := upd_by rh_id i f (db_rhythms db)\<rparr>" rh_id
  by unfold_locales (auto simp: row_by_insert row_by_update dest: row_by_mem)

interpretation task_t: keyed_table "\<lambda>i db. row_by tk_id i (db_tasks db)" "\<lambda>r db. db\<lparr>db_tasks := db_tasks db @ [r]\<rparr>"
  "\<lambda>i f db. db\<lparr>db_tasks := upd_by tk_id i f (db_tasks db)\<rparr>" tk_id
  by unfold_locales (auto simp: row_by_insert row_by_update dest: row_by_mem)

interpretation block_t: keyed_table "\<lambda>i db. row_by bl_id i (db_blocks db)" "\<lambda>r db. db\<lparr>db_blocks := db_blocks db @ [r]\<rparr>"
  "\<lambda>i f db. db\<lparr>db_blocks := upd_by bl_id i f (db_blocks db)\<rparr>" bl_id
  by unfold_locales (auto simp: row_by_insert row_by_update dest: row_by_mem)

interpretation review_t: keyed_table "\<lambda>i db. row_by rv_id i (db_reviews db)"
  "\<lambda>r db. db\<lparr>db_reviews := db_reviews db @ [r]\<rparr>"
  "\<lambda>i f db. db\<lparr>db_reviews := upd_by rv_id i f (db_reviews db)\<rparr>" rv_id
  by unfold_locales (auto simp: row_by_insert row_by_update dest: row_by_mem)

interpretation routine_t: keyed_table "\<lambda>i db. row_by ro_id i (db_routines db)"
  "\<lambda>r db. db\<lparr>db_routines := db_routines db @ [r]\<rparr>"
  "\<lambda>i f db. db\<lparr>db_routines := upd_by ro_id i f (db_routines db)\<rparr>" ro_id
  by unfold_locales (auto simp: row_by_insert row_by_update dest: row_by_mem)

interpretation proposal_t: keyed_table "\<lambda>i db. row_by pp_id i (db_proposals db)"
  "\<lambda>r db. db\<lparr>db_proposals := db_proposals db @ [r]\<rparr>"
  "\<lambda>i f db. db\<lparr>db_proposals := upd_by pp_id i f (db_proposals db)\<rparr>" pp_id
  by unfold_locales (auto simp: row_by_insert row_by_update dest: row_by_mem)

section \<open>What a call does to the database\<close>

text \<open>
  \<open>keeps S m\<close>: whatever the call \<open>m\<close> returns, the database it leaves is related by \<open>S\<close> to the
  one it found. \<open>S\<close> is equality for a read and the reachability of a step relation for a write.
\<close>

definition keeps :: "(Db \<Rightarrow> Db \<Rightarrow> bool) \<Rightarrow> (Sin90Store, 'e, 'a) prog \<Rightarrow> bool" where
  "keeps S m = (\<forall>w. S (st_db w) (st_db (snd (m w))))"

lemma keepsD: "keeps S m \<Longrightarrow> m w = (r, w') \<Longrightarrow> S (st_db w) (st_db w')"
  by (metis keeps_def snd_conv)

lemma keepsI: "(\<And>w r w'. m w = (r, w') \<Longrightarrow> S (st_db w) (st_db w')) \<Longrightarrow> keeps S m"
  unfolding keeps_def by (metis surjective_pairing)

text \<open>The calls that touch nothing but the clock, the id source, the files or the flag.\<close>

lemma quiet [simp]:
  "st_db (snd (mret x w)) = st_db w" "st_db (snd (mfail e w)) = st_db w" "st_db (snd (mget f w)) = st_db w"
  "st_db (snd (mguard b e w)) = st_db w" "st_db (snd (mlift r w)) = st_db w" "st_db (snd (msome q e w)) = st_db w"
  "st_db (snd (query g w)) = st_db w" "st_db (snd (now_iso8601 w)) = st_db w" "st_db (snd (ulid w)) = st_db w"
  "st_db (snd (notify_one w)) = st_db w"
  by (auto simp: mret_def mfail_def mget_def mguard_def mlift_def msome_def query_def now_iso8601_def ulid_def
      notify_one_def mbind_def mthen_def mmod_def split: sum.split option.split)

text \<open>What a reflexive step allows a call to do, and what a transitive one allows a sequence of calls.\<close>

locale step_refl =
  fixes S :: "Db \<Rightarrow> Db \<Rightarrow> bool"
  assumes S_refl: "S db db"
begin

text \<open>A check in front of a call may be used to show that the call keeps \<open>S\<close>.\<close>

lemma keeps_lift: "(\<And>x. r = Inr x \<Longrightarrow> keeps S (k x)) \<Longrightarrow> keeps S (mbind (mlift r) k)"
  by (cases r) (auto simp: keeps_def mbind_def mlift_def mfail_def mret_def S_refl)

lemma keeps_some: "(\<And>x. r = Some x \<Longrightarrow> keeps S (k x)) \<Longrightarrow> keeps S (mbind (msome r e) k)"
  by (cases r) (auto simp: keeps_def mbind_def msome_def mfail_def mret_def S_refl)

lemma keeps_guard: "(b \<Longrightarrow> keeps S k) \<Longrightarrow> keeps S (mthen (mguard b e) k)"
  by (cases b) (auto simp: keeps_def mthen_def mbind_def mguard_def mfail_def mret_def S_refl)

lemma keeps_lift_then: "(\<And>x. r = Inr x \<Longrightarrow> keeps S k) \<Longrightarrow> keeps S (mthen (mlift r) k)"
  unfolding mthen_def by (rule keeps_lift)

lemma keeps_quiet: "(\<And>w. st_db (snd (m w)) = st_db w) \<Longrightarrow> keeps S m"
  by (simp add: keeps_def S_refl)

lemma keeps_tx: "(\<And>w x w'. m w = (Inr x, w') \<Longrightarrow> S (st_db w) (st_db w')) \<Longrightarrow> keeps S (with_tx m)"
  by (rule keepsI) (auto simp: with_tx_def S_refl split: prod.splits sum.splits)

lemma keeps_sink_tx: "(\<And>w x w'. m w = (Inr x, w') \<Longrightarrow> S (st_db w) (st_db w')) \<Longrightarrow> keeps S (sink_tx m)"
  by (rule keepsI) (auto simp: sink_tx_def S_refl split: prod.splits sum.splits)

lemma keeps_map_err: "keeps S m \<Longrightarrow> keeps S (map_err f m)"
  by (rule keepsI) (auto simp: map_err_def split: prod.splits sum.splits dest: keepsD)

lemma keeps_trial: "keeps S (trial m)"
  by (rule keepsI) (auto simp: trial_def S_refl split: prod.splits)

lemma keeps_checked: "(\<And>db. c db = None \<Longrightarrow> S db (f db)) \<Longrightarrow> keeps S (checked_stmt c f)"
  by (rule keepsI) (auto simp: checked_stmt_def query_def mget_def mbind_def stmt_def mmod_def mfail_def S_refl
    split: option.splits)

lemma keeps_stmt: "(\<And>db. S db (f db)) \<Longrightarrow> keeps S (stmt f)"
  by (rule keepsI) (auto simp: stmt_def mmod_def)

lemma keeps_if: "(b \<Longrightarrow> keeps S m) \<Longrightarrow> (\<not> b \<Longrightarrow> keeps S k) \<Longrightarrow> keeps S (if b then m else k)"
  by simp

lemma keeps_option: "(r = None \<Longrightarrow> keeps S m) \<Longrightarrow> (\<And>x. r = Some x \<Longrightarrow> keeps S (k x)) \<Longrightarrow>
    keeps S (case r of None \<Rightarrow> m | Some x \<Rightarrow> k x)"
  by (cases r) auto

text \<open>A read in front of a call.\<close>

lemma keeps_after: "(\<And>w. st_db (snd (m w)) = st_db w) \<Longrightarrow> (\<And>x. keeps S (k x)) \<Longrightarrow> keeps S (mbind m k)"
  unfolding keeps_def
proof (rule allI)
  fix w
  assume q: "\<And>w. st_db (snd (m w)) = st_db w" and k: "\<And>x. \<forall>w. S (st_db w) (st_db (snd (k x w)))"
  obtain r w' where m: "m w = (r, w')" by (cases "m w")
  have "st_db w' = st_db w" using q[of w] m by simp
  moreover have "S (st_db w') (st_db (snd (k x w')))" for x using k by blast
  ultimately show "S (st_db w) (st_db (snd (mbind m k w)))"
    using m by (cases r) (auto simp: mbind_def S_refl)
qed

end

locale step_order = step_refl +
  assumes S_trans: "S a b \<Longrightarrow> S b c \<Longrightarrow> S a c"
begin

lemma keeps_bind: "keeps S m \<Longrightarrow> (\<And>x. keeps S (k x)) \<Longrightarrow> keeps S (mbind m k)"
  by (rule keepsI) (auto simp: mbind_def split: prod.splits sum.splits dest: keepsD intro: S_trans)

lemma keeps_then: "keeps S m \<Longrightarrow> keeps S k \<Longrightarrow> keeps S (mthen m k)"
  by (simp add: mthen_def keeps_bind)

lemma keeps_for: "(\<And>x. x \<in> set xs \<Longrightarrow> keeps S (f x)) \<Longrightarrow> keeps S (mfor f xs)"
proof (induction xs)
  case (Cons x xs)
  then have "keeps S (f x)" "keeps S (mfor f xs)" by auto
  then show ?case by (auto intro!: keeps_bind intro: keeps_quiet)
qed (auto intro: keeps_quiet)

lemmas keeps_control = keeps_lift keeps_lift_then keeps_some keeps_guard keeps_bind keeps_then keeps_if keeps_option keeps_map_err keeps_trial

text \<open>A committed loop whose body needs \<open>Q\<close>, when \<open>Q\<close> survives the steps.\<close>

lemma loop:
  assumes body: "\<And>x w y w'. x \<in> set xs \<Longrightarrow> Q x (st_db w) \<Longrightarrow> f x w = (Inr y, w') \<Longrightarrow> S (st_db w) (st_db w')"
    and stable: "\<And>x db db'. Q x db \<Longrightarrow> S db db' \<Longrightarrow> Q x db'"
  shows "\<forall>x \<in> set xs. Q x (st_db w) \<Longrightarrow> mfor f xs w = (Inr ys, w') \<Longrightarrow> S (st_db w) (st_db w')"
  using body
proof (induction xs arbitrary: w ys)
  case Nil
  then show ?case by (simp add: monad_iff S_refl)
next
  case (Cons x xs)
  from Cons.prems(2) obtain y w1 zs where 1: "f x w = (Inr y, w1)" and 2: "mfor f xs w1 = (Inr zs, w')"
    by (auto simp: monad_iff)
  have s: "S (st_db w) (st_db w1)" using Cons.prems(1,3) 1 by auto
  have "S (st_db w1) (st_db w')"
  proof (rule Cons.IH[OF _ 2])
    show "\<forall>x \<in> set xs. Q x (st_db w1)" using Cons.prems(1) s stable by auto
  qed (use Cons.prems(3) in auto)
  then show ?case using s S_trans by blast
qed

end

interpretation same: step_order "(=)"
  by unfold_locales auto

end
