(* ===== verification/Steps.thy ===== *)
theory Steps
  imports Statements
begin

text \<open>
  The abstract database: a step relation on \<open>Db\<close> that says which changes any write of the store
  may commit, each with the condition the code establishes before it. There are three layers: what
  an operation of a proposal may do (\<open>bstep\<close>), what a direct write may do (\<open>ostep\<close>), and the
  proposals themselves (\<open>dstep\<close>). The theory \<open>Refinement\<close> shows that every operation of the
  store is a sequence of such steps, and the invariants are proved over the steps.
\<close>

section \<open>Conditions\<close>

definition status_event :: "Event \<Rightarrow> string \<Rightarrow> string \<Rightarrow> string option \<Rightarrow> string \<Rightarrow> bool" where
  "status_event e entity i from_state to_state =
     (ev_entity e = entity \<and> ev_entity_id e = i \<and> ev_from e = from_state \<and> ev_to e = Some to_state)"

definition week_open :: "string \<Rightarrow> Db \<Rightarrow> bool" where
  "week_open i db = (case row_by wk_id i (db_weeks db) of None \<Rightarrow> False | Some k \<Rightarrow> week_is_open (wk_status k))"

definition task_week_open :: "string \<Rightarrow> Db \<Rightarrow> bool" where
  "task_week_open i db = (case week_of_task i db of None \<Rightarrow> True | Some k \<Rightarrow> week_is_open (wk_status k))"

definition parent_ok :: "TaskId option \<Rightarrow> Db \<Rightarrow> bool" where
  "parent_ok p db = (case p of None \<Rightarrow> True
     | Some i \<Rightarrow> map_option tk_parent_task_id (row_by tk_id i (db_tasks db)) = Some None)"

definition dirs_exist :: "Alloc list \<Rightarrow> Db \<Rightarrow> bool" where
  "dirs_exist as db = list_all (\<lambda>a. taken di_id (al_direction_id a) (db_directions db)) as"

text \<open>The triage columns are set exactly for the tasks filed under the triage direction.\<close>

definition triage_ok :: "string option \<Rightarrow> string option \<Rightarrow> string option \<Rightarrow> bool" where
  "triage_ok direction_id via entered_at =
     (if direction_id = Some TRIAGE_DIRECTION_ID
      then (via = Some ''classify'' \<or> via = Some ''direct'') \<and> entered_at \<noteq> None
      else via = None \<and> entered_at = None)"

definition row_triage_ok :: "TaskRow \<Rightarrow> bool" where
  "row_triage_ok t = triage_ok (tk_direction_id t) (tr_triage_via t) (tr_triage_entered_at t)"

text \<open>What one completed block adds to the daily view, when its payload decodes.\<close>

definition occurred_at :: "Event \<Rightarrow> string" where
  "occurred_at e = (case jget ''occurred_at'' (ev_payload e) of Some (JStr t) \<Rightarrow> t | _ \<Rightarrow> [])"

definition fold_row :: "Event \<Rightarrow> AttentionDailyRow list \<Rightarrow> AttentionDailyRow list" where
  "fold_row e rows = bump (day_of (occurred_at e)) (payload_direction e) (payload_minutes e) rows"

section \<open>The steps of a batch\<close>

inductive bstep :: "Db \<Rightarrow> Db \<Rightarrow> bool" where
  log: "log_ok e (db_events db) \<Longrightarrow> ev_to e = None \<or> ev_entity e = ''proposal'' \<Longrightarrow> bstep db (add_event e db)"
| new_area: "area_violation r db = None \<Longrightarrow> ar_status r = Area_Active \<Longrightarrow>
    status_event e ''area'' (ar_id r) None ''active'' \<Longrightarrow> log_ok e (db_events db) \<Longrightarrow>
    bstep db (add_event e (db\<lparr>db_areas := db_areas db @ [r]\<rparr>))"
| new_direction: "direction_violation r db = None \<Longrightarrow> di_status r = Direction_Draft \<Longrightarrow>
    status_event e ''direction'' (di_id r) None ''draft'' \<Longrightarrow> log_ok e (db_events db) \<Longrightarrow>
    bstep db (add_event e (db\<lparr>db_directions := db_directions db @ [r]\<rparr>))"
| adjust_rhythm: "row_by rh_id i (db_rhythms db) = Some r \<Longrightarrow> rhythm_transition_allowed (rh_status r) Rhythm_Adjusted \<Longrightarrow>
    check_alloc as = Inr () \<Longrightarrow> dirs_exist as db \<Longrightarrow>
    status_event e ''rhythm'' i (Some (rhythm_status_wire (rh_status r))) ''adjusted'' \<Longrightarrow> log_ok e (db_events db) \<Longrightarrow>
    bstep db (add_event e (db\<lparr>db_rhythms := upd_by rh_id i
      (\<lambda>r. r\<lparr>rh_status := Rhythm_Adjusted, rh_allocations := as, rh_updated_at := now\<rparr>) (db_rhythms db)\<rparr>))"
| new_task: "task_violation r db = None \<Longrightarrow> tk_status r = Task_Backlog \<or> tk_status r = Task_Planned \<Longrightarrow>
    row_triage_ok r \<Longrightarrow> parent_ok (tk_parent_task_id r) db \<Longrightarrow>
    (case tk_week_id r of None \<Rightarrow> True | Some k \<Rightarrow> week_open k db) \<Longrightarrow> tk_carried_from r = None \<Longrightarrow>
    status_event e ''task'' (tk_id r) None (task_status_wire (tk_status r)) \<Longrightarrow> log_ok e (db_events db) \<Longrightarrow>
    bstep db (add_event e (db\<lparr>db_tasks := db_tasks db @ [r]\<rparr>))"
| carry_task: "row_by tk_id i (db_tasks db) = Some src \<Longrightarrow> tk_status src = Task_CarriedOver \<Longrightarrow>
    tk_week_id src \<noteq> Some to_week \<Longrightarrow> week_open to_week db \<Longrightarrow>
    task_violation (carried_row now new_id to_week src) db = None \<Longrightarrow>
    status_event e ''task'' new_id None ''planned'' \<Longrightarrow> log_ok e (db_events db) \<Longrightarrow>
    bstep db (add_event e (db\<lparr>db_tasks := db_tasks db @ [carried_row now new_id to_week src]\<rparr>))"
| move_task: "row_by tk_id i (db_tasks db) = Some r \<Longrightarrow> task_transition_allowed (tk_status r) to \<Longrightarrow>
    task_week_open i db \<Longrightarrow>
    status_event e ''task'' i (Some (task_status_wire (tk_status r))) (task_status_wire to) \<Longrightarrow> log_ok e (db_events db) \<Longrightarrow>
    bstep db (add_event e (db\<lparr>db_tasks := upd_by tk_id i (\<lambda>t. t\<lparr>tk_status := to, tk_updated_at := now\<rparr>) (db_tasks db)\<rparr>))"
| assign_task: "task_week_open i db \<Longrightarrow> taken di_id d (db_directions db) \<Longrightarrow> triage_ok (Some d) via entered_at \<Longrightarrow>
    bstep db (db\<lparr>db_tasks := upd_where (in_inbox i) (\<lambda>t. t\<lparr>tk_direction_id := Some d, tk_updated_at := now,
      tr_triage_via := via, tr_triage_entered_at := entered_at\<rparr>) (db_tasks db)\<rparr>)"
| touch_task: "week_open k db \<Longrightarrow>
    bstep db (db\<lparr>db_tasks := upd_where (\<lambda>t. tk_id t = i \<and> tk_week_id t = Some k)
      (\<lambda>t. t\<lparr>tk_updated_at := now, tr_sort_key := n\<rparr>) (db_tasks db)\<rparr>)"
| edit_draft: "bstep db (db\<lparr>db_reviews := upd_where (\<lambda>r. rv_id r = i \<and> rv_status r = Review_Draft)
      (\<lambda>r. r\<lparr>rv_body := body, rv_updated_at := now\<rparr>) (db_reviews db)\<rparr>)"
| new_eval: "eval_violation r db = None \<Longrightarrow> bstep db (db\<lparr>db_classify_evals := db_classify_evals db @ [r]\<rparr>)"

section \<open>The steps of a direct write\<close>

inductive ostep :: "Db \<Rightarrow> Db \<Rightarrow> bool" where
  batch: "bstep db db' \<Longrightarrow> ostep db db'"
| move_area: "row_by ar_id i (db_areas db) = Some r \<Longrightarrow> area_transition_allowed (ar_status r) to \<Longrightarrow>
    status_event e ''area'' i (Some (area_status_wire (ar_status r))) (area_status_wire to) \<Longrightarrow> log_ok e (db_events db) \<Longrightarrow>
    ostep db (add_event e (db\<lparr>db_areas := upd_by ar_id i (\<lambda>a. a\<lparr>ar_status := to, ar_updated_at := now\<rparr>) (db_areas db)\<rparr>))"
| new_rhythm: "rhythm_violation r db = None \<Longrightarrow> rh_status r = Rhythm_Active \<Longrightarrow>
    check_alloc (rh_allocations r) = Inr () \<Longrightarrow> dirs_exist (rh_allocations r) db \<Longrightarrow>
    status_event e ''rhythm'' (rh_id r) None ''active'' \<Longrightarrow> log_ok e (db_events db) \<Longrightarrow>
    ostep db (add_event e (db\<lparr>db_rhythms := db_rhythms db @ [r]\<rparr>))"
| new_week: "week_violation r db = None \<Longrightarrow> wk_status r = Week_Planning \<Longrightarrow>
    canonical_iso_week (wk_iso_week r) = Some (wk_iso_week r) \<Longrightarrow>
    status_event e ''week'' (wk_id r) None ''planning'' \<Longrightarrow> log_ok e (db_events db) \<Longrightarrow>
    ostep db (add_event e (db\<lparr>db_weeks := db_weeks db @ [r]\<rparr>))"
| move_week: "row_by wk_id i (db_weeks db) = Some r \<Longrightarrow> week_transition_allowed (wk_status r) to \<Longrightarrow>
    status_event e ''week'' i (Some (week_status_wire (wk_status r))) (week_status_wire to) \<Longrightarrow> log_ok e (db_events db) \<Longrightarrow>
    ostep db (add_event e (db\<lparr>db_weeks := upd_by wk_id i (\<lambda>k. k\<lparr>wk_status := to, wk_updated_at := now\<rparr>) (db_weeks db)\<rparr>))"
| new_block: "block_violation r db = None \<Longrightarrow> bl_status r = Block_Planned \<Longrightarrow>
    status_event e ''block'' (bl_id r) None ''planned'' \<Longrightarrow> log_ok e (db_events db) \<Longrightarrow>
    ostep db (add_event e (db\<lparr>db_blocks := db_blocks db @ [r]\<rparr>))"
| move_block: "row_by bl_id i (db_blocks db) = Some r \<Longrightarrow> schedule_block_transition_allowed (bl_status r) to \<Longrightarrow>
    status_event e ''block'' i (Some (schedule_block_status_wire (bl_status r))) (schedule_block_status_wire to) \<Longrightarrow>
    ev_kind e = ''transitioned'' \<Longrightarrow> jget ''minutes'' (ev_payload e) = Some (JInt (uint (bl_planned_minutes r))) \<Longrightarrow>
    jget ''occurred_at'' (ev_payload e) = Some (JStr (ev_at e)) \<Longrightarrow>
    jget ''direction_id'' (ev_payload e) = Some (jopt JStr (bl_direction_id r)) \<Longrightarrow>
    jget ''week_id'' (ev_payload e) = Some (jopt JStr (week_id_of_task (bl_task_id r) db)) \<Longrightarrow> log_ok e (db_events db) \<Longrightarrow>
    ostep db (add_event e (db\<lparr>db_blocks := upd_by bl_id i (\<lambda>b. b\<lparr>bl_status := to, bl_updated_at := now\<rparr>) (db_blocks db)\<rparr>))"
| new_review: "review_violation r db = None \<Longrightarrow> rv_status r = Review_Draft \<Longrightarrow>
    status_event e ''review'' (rv_id r) None ''draft'' \<Longrightarrow> log_ok e (db_events db) \<Longrightarrow>
    ostep db (add_event e (db\<lparr>db_reviews := db_reviews db @ [r]\<rparr>))"
| edit_review: "row_by rv_id i (db_reviews db) = Some r \<Longrightarrow> rv_status r = Review_Draft \<Longrightarrow>
    ostep db (db\<lparr>db_reviews := upd_by rv_id i (\<lambda>q. q\<lparr>rv_body := body, rv_updated_at := now\<rparr>) (db_reviews db)\<rparr>)"
| finalize: "row_by rv_id i (db_reviews db) = Some r \<Longrightarrow> rv_status r = Review_Draft \<Longrightarrow>
    status_event e ''review'' i (Some ''draft'') ''finalized'' \<Longrightarrow> log_ok e (db_events db) \<Longrightarrow>
    ostep db (add_event e (db\<lparr>db_reviews := upd_by rv_id i
      (\<lambda>q. q\<lparr>rv_status := Review_Finalized, rv_body_ref := ref, rv_updated_at := now\<rparr>) (db_reviews db)\<rparr>))"
| new_routine: "routine_violation r db = None \<Longrightarrow> ro_status r = Routine_Active \<Longrightarrow>
    status_event e ''routine'' (ro_id r) None ''active'' \<Longrightarrow> log_ok e (db_events db) \<Longrightarrow>
    ostep db (add_event e (db\<lparr>db_routines := db_routines db @ [r]\<rparr>))"
| patch_routine: "row_by ro_id i (db_routines db) = Some r \<Longrightarrow> \<not> routine_is_terminal (ro_status r) \<Longrightarrow>
    target_ok (ro_target_count (new :: Routine)) \<Longrightarrow> target_ok (ro_target_minutes new) \<Longrightarrow>
    ostep db (db\<lparr>db_routines := upd_by ro_id i (\<lambda>r. r\<lparr>ro_title := ro_title new, ro_cron := ro_cron new,
      ro_tz := ro_tz new, ro_target_count := ro_target_count new, ro_target_minutes := ro_target_minutes new,
      ro_updated_at := now\<rparr>) (db_routines db)\<rparr>)"
| move_routine: "row_by ro_id i (db_routines db) = Some r \<Longrightarrow> routine_transition_allowed (ro_status r) to \<Longrightarrow>
    status_event e ''routine'' i (Some (routine_status_wire (ro_status r))) (routine_status_wire to) \<Longrightarrow> log_ok e (db_events db) \<Longrightarrow>
    ostep db (add_event e (db\<lparr>db_routines := upd_by ro_id i (\<lambda>q. q\<lparr>ro_status := to, ro_updated_at := now\<rparr>) (db_routines db)\<rparr>))"
| suspend: "ostep db (db\<lparr>db_routines := map (\<lambda>r. r\<lparr>rr_kernel_suspended_at := g r\<rparr>) (db_routines db)\<rparr>)"
| new_fire: "fire_violation r db = None \<Longrightarrow> ostep db (db\<lparr>db_fires := db_fires db @ [r]\<rparr>)"
| outbox_insert: "outbox_violation r db = None \<Longrightarrow> ob_status r = ''pending'' \<Longrightarrow>
    live_row (ob_dedup_key r) (db_outbox db) = None \<Longrightarrow> payload_ok (ob_kind r) (ob_dedup_key r) (ob_desired r) \<Longrightarrow>
    ostep db (db\<lparr>db_outbox := db_outbox db @ [r]\<rparr>)"
| outbox_overwrite: "live_row (ob_dedup_key r) (db_outbox db) = Some r \<Longrightarrow> payload_ok kind (ob_dedup_key r) desired \<Longrightarrow>
    ostep db (db\<lparr>db_outbox := upd_by ob_id (ob_id r) (overwrite_row kind desired) (db_outbox db)\<rparr>)"
| outbox_mark: "(\<And>r. ob_id (f r) = ob_id r) \<Longrightarrow> (\<And>r. ob_dedup_key (f r) = ob_dedup_key r) \<Longrightarrow>
    (\<And>r. ob_status r = ''pending'' \<Longrightarrow> ob_status (f r) \<in> {''pending'', ''failed''}) \<Longrightarrow>
    (\<And>r. ob_kind (f r) = ob_kind r) \<Longrightarrow> (\<And>r. ob_desired (f r) = ob_desired r) \<Longrightarrow> (\<And>r. ob_version (f r) = ob_version r) \<Longrightarrow>
    ostep db (db\<lparr>db_outbox := upd_where (pending_at i v) f (db_outbox db)\<rparr>)"
| advance: "db_watermark db < max_seq (db_events db) \<Longrightarrow>
    fold fold_row (sort_key ev_seq (filter (\<lambda>e. db_watermark db < ev_seq e \<and> ev_seq e \<le> max_seq (db_events db)
      \<and> block_completed e) (db_events db))) (db_attention db) = rows \<Longrightarrow>
    ostep db (db\<lparr>db_attention := rows, db_watermark := max_seq (db_events db)\<rparr>)"
| reset: "ostep db (db\<lparr>db_attention := [], db_watermark := 0\<rparr>)"
| set_settings: "ostep db (db\<lparr>db_settings := rows\<rparr>)"
| new_call: "call_violation r db = None \<Longrightarrow> ostep db (db\<lparr>db_ai_calls := db_ai_calls db @ [r]\<rparr>)"
| re_eval: "taken tk_id i (db_tasks db) \<Longrightarrow>
    ostep db (db\<lparr>db_classify_evals := upsert_eval i at (db_classify_evals db)\<rparr>)"

section \<open>The steps of the proposals and the receipt of a delivery\<close>

inductive dstep :: "Db \<Rightarrow> Db \<Rightarrow> bool" where
  other: "ostep db db' \<Longrightarrow> dstep db db'"
| delivered: "dstep db (db\<lparr>db_outbox := upd_where (pending_at i v)
    (\<lambda>r. r\<lparr>ob_status := ''done'', ob_done_at := Some now, ob_result_ref := res\<rparr>) (db_outbox db)\<rparr>)"
| submit: "proposal_violation r db = None \<Longrightarrow> pp_status r = Proposal_Pending \<Longrightarrow> pp_result r = None \<Longrightarrow>
    pp_decided_at r = None \<Longrightarrow> dstep db (db\<lparr>db_proposals := db_proposals db @ [r]\<rparr>)"
| claim: "pending_proposal i db = Some r \<Longrightarrow>
    dstep db (db\<lparr>db_proposals := upd_by pp_id i (\<lambda>r. r\<lparr>pp_status := Proposal_Applying\<rparr>) (db_proposals db)\<rparr>)"
| applied: "row_by pp_id i (db_proposals db) = Some r \<Longrightarrow> pp_status r = Proposal_Applying \<Longrightarrow>
    dstep db (db\<lparr>db_proposals := upd_by pp_id i (\<lambda>r. r\<lparr>pp_status := Proposal_Applied, pp_result := Some receipt,
      pp_decided_at := Some now\<rparr>) (db_proposals db)\<rparr>)"
| reject: "pending_proposal i db = Some r \<Longrightarrow> rejection_violation q db = None \<Longrightarrow> rj_proposal_id q = i \<Longrightarrow>
    rj_ops_summary q = summarize_ops (pp_ops r) \<Longrightarrow>
    dstep db (db\<lparr>db_proposals := upd_by pp_id i (\<lambda>r. r\<lparr>pp_status := Proposal_Rejected, pp_decided_at := Some now\<rparr>)
      (db_proposals db), db_rejections := db_rejections db @ [q]\<rparr>)"

abbreviation "bsteps \<equiv> bstep\<^sup>*\<^sup>*"
abbreviation "osteps \<equiv> ostep\<^sup>*\<^sup>*"
abbreviation "dsteps \<equiv> dstep\<^sup>*\<^sup>*"

lemma bsteps_osteps: "bsteps db db' \<Longrightarrow> osteps db db'"
  by (induction rule: rtranclp_induct) (auto intro: ostep.batch rtranclp.rtrancl_into_rtrancl)

lemma osteps_dsteps: "osteps db db' \<Longrightarrow> dsteps db db'"
  by (induction rule: rtranclp_induct) (auto intro: dstep.other rtranclp.rtrancl_into_rtrancl)

text \<open>What a step leaves alone.\<close>

lemma bstep_frame: "bstep db db' \<Longrightarrow> db_weeks db' = db_weeks db \<and> db_blocks db' = db_blocks db
    \<and> db_routines db' = db_routines db \<and> db_outbox db' = db_outbox db \<and> db_proposals db' = db_proposals db
    \<and> db_attention db' = db_attention db \<and> db_watermark db' = db_watermark db"
  by (induction rule: bstep.induct) (auto simp: add_event_def)

lemma bsteps_frame: "bsteps db db' \<Longrightarrow> db_weeks db' = db_weeks db \<and> db_proposals db' = db_proposals db"
  by (induction rule: rtranclp_induct) (auto dest: bstep_frame)

lemma ostep_proposals: "ostep db db' \<Longrightarrow> db_proposals db' = db_proposals db"
  by (induction rule: ostep.induct) (auto simp: add_event_def dest: bstep_frame)

lemma osteps_proposals: "osteps db db' \<Longrightarrow> db_proposals db' = db_proposals db"
  by (induction rule: rtranclp_induct) (auto dest: ostep_proposals)

end
