(* ===== verification/Refinement.thy ===== *)
theory Refinement
  imports Steps
begin

text \<open>
  Every operation of the store is a sequence of steps: when it commits, the database moves along
  \<open>osteps\<close> (along \<open>dsteps\<close> where proposals change); when it fails, the database is the one it
  started from. For the operations of a proposal the validator has to have accepted the batch;
  what its verdict says of the database is \<open>sound_op\<close>.
\<close>

lemma step1: "bstep a b \<Longrightarrow> bsteps a b"
  by (rule r_into_rtranclp)

lemma step2: "bstep a b \<Longrightarrow> bstep b c \<Longrightarrow> bsteps a c"
  by (meson r_into_rtranclp rtranclp.rtrancl_into_rtrancl)

lemma ostep1: "ostep a b \<Longrightarrow> osteps a b"
  by (rule r_into_rtranclp)

lemma ostep2: "ostep a b \<Longrightarrow> ostep b c \<Longrightarrow> osteps a c"
  by (meson r_into_rtranclp rtranclp.rtrancl_into_rtrancl)

lemma st_db_upd [simp]: "st_db (w\<lparr>st_ticks := t\<rparr>) = st_db w" "st_db (w\<lparr>st_draws := t\<rparr>) = st_db w"
  by simp_all

interpretation bs: step_order bsteps
  by unfold_locales auto

interpretation os: step_order osteps
  by unfold_locales auto

interpretation ds: step_order dsteps
  by unfold_locales auto

section \<open>Reads and checks\<close>

lemma week_check_iff [store_iff]: "(require_task_week_open i w = (Inr x, w')) = (task_week_open i (st_db w) \<and> w' = w)"
  by (auto simp: require_task_week_open_def monad_iff store_iff task_week_open_def split: option.splits)

lemma read_task_iff [store_iff]: "(read_task_status i w = (Inr s, w')) =
    (map_option tk_status (row_by tk_id i (db_tasks (st_db w))) = Some s \<and> w' = w)"
  by (auto simp: read_task_status_def monad_iff store_iff)

lemma read_rhythm_iff [store_iff]: "(read_rhythm_status i w = (Inr s, w')) =
    (map_option rh_status (row_by rh_id i (db_rhythms (st_db w))) = Some s \<and> w' = w)"
  by (auto simp: read_rhythm_status_def monad_iff store_iff)

lemma directions_check_iff [store_iff]: "(require_directions_exist as w = (Inr x, w')) = (dirs_exist as (st_db w) \<and> w' = w)"
  by (induction as) (auto simp: monad_iff store_iff dirs_exist_def)

lemma parent_check_iff [store_iff]: "(check_parent p w = (Inr x, w')) = (parent_ok p (st_db w) \<and> w' = w)"
  by (auto simp: check_parent_def monad_iff store_iff parent_ok_def split: option.splits)

lemma set_task_status_iff [store_iff]: "(set_task_status now i to w = (Inr x, w')) =
    (w' = w\<lparr>st_db := (st_db w)\<lparr>db_tasks := upd_by tk_id i (\<lambda>t. t\<lparr>tk_status := to, tk_updated_at := now\<rparr>) (db_tasks (st_db w))\<rparr>\<rparr>)"
  by (auto simp: set_task_status_def monad_iff store_iff)

lemma triage_columns_ok: "triage_ok d (fst (triage_columns d now)) (snd (triage_columns d now))"
  by (simp add: triage_ok_def triage_columns_def)

lemmas op_iff = monad_iff store_iff check_ok_iffs Let_def

section \<open>The operations of a proposal\<close>

lemma apply_create_area_steps: "apply_create_area now title w = (Inr x, w') \<Longrightarrow> bsteps (st_db w) (st_db w')"
  by (auto simp: apply_create_area_def op_iff allocate_area_slug_def status_event_def intro!: step1 bstep.new_area)

lemma apply_create_direction_steps:
  "apply_create_direction now title win w = (Inr x, w') \<Longrightarrow> bsteps (st_db w) (st_db w')"
  by (auto simp: apply_create_direction_def op_iff status_event_def intro!: step1 bstep.new_direction)

lemma apply_create_task_steps:
  "apply_create_task now title d p kind energy est w = (Inr x, w') \<Longrightarrow> parent_ok p (st_db w) \<Longrightarrow> bsteps (st_db w) (st_db w')"
  by (auto simp: apply_create_task_def op_iff status_event_def row_triage_ok_def triage_columns_ok
      intro!: step1 bstep.new_task)

lemma apply_transition_task_steps:
  "apply_transition_task now i to w = (Inr x, w') \<Longrightarrow> bsteps (st_db w) (st_db w')"
  by (auto simp: apply_transition_task_def op_iff status_event_def intro!: step1 bstep.move_task)

lemma apply_new_task_steps:
  "apply_new_task now k nt w = (Inr x, w') \<Longrightarrow> week_open k (st_db w) \<Longrightarrow> bsteps (st_db w) (st_db w')"
  by (cases nt) (auto simp: apply_new_task_def op_iff status_event_def row_triage_ok_def triage_columns_ok parent_ok_def
      intro!: step1 bstep.new_task)

lemma week_open_stable: "week_open k db \<Longrightarrow> bsteps db db' \<Longrightarrow> week_open k db'"
  using bsteps_frame[of db db'] by (simp add: week_open_def)

lemma apply_create_tasks_steps:
  "apply_create_tasks now k nts w = (Inr x, w') \<Longrightarrow> week_open k (st_db w) \<Longrightarrow> bsteps (st_db w) (st_db w')"
  unfolding apply_create_tasks_def
  by (rule bs.loop[where Q = "\<lambda>_. week_open k"])
    (auto intro: week_open_stable apply_new_task_steps)

lemma reorder_one_steps:
  "reorder_one now k nt w = (Inr x, w') \<Longrightarrow> week_open k (st_db w) \<Longrightarrow> bsteps (st_db w) (st_db w')"
  by (cases nt) (auto simp: reorder_one_def op_iff intro!: step1 bstep.touch_task)

lemma reorder_all_steps:
  "mfor (reorder_one now k) nts w = (Inr x, w') \<Longrightarrow> week_open k (st_db w) \<Longrightarrow> bsteps (st_db w) (st_db w')"
  by (rule bs.loop[where Q = "\<lambda>_. week_open k"])
    (auto intro: week_open_stable reorder_one_steps)

lemma log_step: "log_ok e (db_events db) \<Longrightarrow> ev_to e = None \<Longrightarrow> bsteps db' db \<Longrightarrow> bsteps db' (add_event e db)"
  by (meson bstep.log rtranclp.rtrancl_into_rtrancl)

lemma log_step1: "log_ok e (db_events db) \<Longrightarrow> ev_to e = None \<Longrightarrow> bstep db' db \<Longrightarrow> bsteps db' (add_event e db)"
  by (rule log_step) (auto intro: step1)

lemma apply_reorder_steps:
  "apply_reorder_tasks now k order w = (Inr x, w') \<Longrightarrow> week_open k (st_db w) \<Longrightarrow> bsteps (st_db w) (st_db w')"
  by (auto simp: apply_reorder_tasks_def op_iff intro!: log_step dest: reorder_all_steps)

lemma apply_adjust_rhythm_steps:
  "apply_adjust_rhythm now i as w = (Inr x, w') \<Longrightarrow> check_alloc as = Inr () \<Longrightarrow> bsteps (st_db w) (st_db w')"
  by (auto simp: apply_adjust_rhythm_def op_iff status_event_def intro!: step1 bstep.adjust_rhythm)

lemma apply_draft_body_steps:
  "apply_draft_body now i body w = (Inr x, w') \<Longrightarrow> bsteps (st_db w) (st_db w')"
  by (auto simp: apply_draft_body_def op_iff intro!: log_step1 bstep.edit_draft)

lemma assign_violation_None:
  "assign_violation i d via db = None \<Longrightarrow> count_where (in_inbox i) (db_tasks db) = 1 \<Longrightarrow>
     triage_via_ok via \<and> taken di_id d (db_directions db)"
  by (simp add: assign_violation_def violated_None)

lemma apply_assign_direction_steps:
  "apply_assign_direction now cs i d w = (Inr x, w') \<Longrightarrow> bsteps (st_db w) (st_db w')"
  by (auto simp: apply_assign_direction_def op_iff triage_ok_def triage_via_ok_def split: if_splits
      dest!: assign_violation_None intro!: log_step1 bstep.assign_task)

lemma copy_eval_steps: "copy_eval i j w = (Inr x, w') \<Longrightarrow> bsteps (st_db w) (st_db w')"
  by (auto simp: copy_eval_def op_iff split: option.splits intro!: step1 bstep.new_eval)

text \<open>Closing the source of a carry-over, then its new row with the copied evaluation and its event.\<close>

lemma carried_row_again [simp]:
  "carried_row now j k (src\<lparr>tk_status := to, tk_updated_at := t\<rparr>) = carried_row now j k src"
  by (simp add: carried_row_def)

lemma carry_tail_steps:
  assumes row: "row_by tk_id i ts = Some src" "tk_week_id src \<noteq> Some k" "week_open k db"
    and ts: "db_tasks db = upd_by tk_id i (\<lambda>t. t\<lparr>tk_status := Task_CarriedOver, tk_updated_at := now\<rparr>) ts"
    and c: "c = carried_row now j k src" "task_violation c db = None"
    and eval: "copy_eval i j (w\<lparr>st_db := db\<lparr>db_tasks := db_tasks db @ [c]\<rparr>\<rparr>) = (Inr u, w1)"
    and e: "log_ok e (db_events (st_db w1))" "status_event e ''task'' j None ''planned''"
  shows "bsteps db (add_event e (st_db w1))"
proof -
  let ?src = "src\<lparr>tk_status := Task_CarriedOver, tk_updated_at := now\<rparr>"
  let ?db1 = "add_event e (db\<lparr>db_tasks := db_tasks db @ [c]\<rparr>)"
  have src: "row_by tk_id i (db_tasks db) = Some ?src" using row(1) by (simp add: ts row_by_update)
  have "db_events (st_db w1) = db_events db"
    using eval by (auto simp: copy_eval_def op_iff split: option.splits)
  then have carry: "bstep db ?db1"
    using bstep.carry_task[OF src, of k now j e] row c e by simp
  show ?thesis
  proof (cases "row_by ce_task_id i (db_classify_evals db)")
    case None
    then have "add_event e (st_db w1) = ?db1" using eval by (simp add: copy_eval_def op_iff)
    then show ?thesis using carry step1 by simp
  next
    case (Some r)
    let ?q = "\<lparr>ce_task_id = j, ce_evaluated_at = ce_evaluated_at r\<rparr>"
    have "eval_violation ?q ?db1 = None"
      and w1: "add_event e (st_db w1) = ?db1\<lparr>db_classify_evals := db_classify_evals ?db1 @ [?q]\<rparr>"
      using eval Some by (auto simp: copy_eval_def op_iff eval_violation_def add_event_def)
    then have "bstep ?db1 (add_event e (st_db w1))" by (simp add: bstep.new_eval)
    with carry show ?thesis by (rule step2)
  qed
qed

lemma apply_carry_over_steps:
  "apply_carry_over now i k w = (Inr x, w') \<Longrightarrow> week_open k (st_db w) \<Longrightarrow> bsteps (st_db w) (st_db w')"
  apply (auto simp: apply_carry_over_def op_iff)
  apply (rule rtranclp_trans)
   apply (rule step1, rule bstep.move_task[where i = i and to = Task_CarriedOver and now = now])
       apply (simp_all add: status_event_def)
  apply (rule carry_tail_steps)
          apply (auto simp: status_event_def add_event_def week_open_def)
  done

text \<open>What the validator's verdict says of the database for the operations that rely on it.\<close>

fun sound_op :: "Sin90Op \<Rightarrow> Db \<Rightarrow> bool" where
  "sound_op (CreateTask title d p kind energy est) db = parent_ok p db"
| "sound_op (CreateTasks k tasks) db = week_open k db"
| "sound_op (ReorderTasks k order) db = week_open k db"
| "sound_op (AdjustRhythm i as) db = (check_alloc as = Inr ())"
| "sound_op (CarryOverTask i k) db = week_open k db"
| "sound_op _ db = True"

lemma observe_upd_where: "(\<And>r. k (f r) = k r) \<Longrightarrow> (\<And>r. g (f r) = g r) \<Longrightarrow>
    map_option g (row_by k i (upd_where c f rows)) = map_option g (row_by k i rows)"
  by (cases "row_by k i rows") (auto simp: row_by_upd_where)

lemma observe_upd_by: "(\<And>r. k (f r) = k r) \<Longrightarrow> (\<And>r. g (f r) = g r) \<Longrightarrow>
    map_option g (row_by k i (upd_by k j f rows)) = map_option g (row_by k i rows)"
  by (simp add: upd_by_def observe_upd_where)

lemma observe_append: "map_option g (row_by k i rows) = Some x \<Longrightarrow> map_option g (row_by k i (rows @ rows')) = Some x"
  by (auto simp: row_by_append)

lemma parent_stable1: "bstep db db' \<Longrightarrow> parent_ok p db \<Longrightarrow> parent_ok p db'"
  by (induction rule: bstep.induct)
    (simp_all add: parent_ok_def add_event_def observe_upd_where observe_upd_by observe_append split: option.split_asm option.split
      del: map_option_eq_Some)

lemma parent_stable: "bsteps db db' \<Longrightarrow> parent_ok p db \<Longrightarrow> parent_ok p db'"
  by (induction rule: rtranclp_induct) (auto dest: parent_stable1)

lemma sound_op_stable: "sound_op op db \<Longrightarrow> bsteps db db' \<Longrightarrow> sound_op op db'"
  by (cases op) (auto intro: parent_stable week_open_stable)

lemma apply_arm_steps:
  "sound_op op (st_db w) \<Longrightarrow> apply_arm now cs op w = (Inr x, w') \<Longrightarrow> bsteps (st_db w) (st_db w')"
  by (cases op) (auto dest: apply_create_area_steps apply_create_task_steps apply_create_direction_steps
    apply_transition_task_steps apply_create_tasks_steps apply_reorder_steps apply_adjust_rhythm_steps
    apply_carry_over_steps apply_assign_direction_steps apply_draft_body_steps)

lemma apply_op_steps: "sound_op op (st_db w) \<Longrightarrow> apply_op cs op w = (Inr x, w') \<Longrightarrow> bsteps (st_db w) (st_db w')"
  by (auto simp: apply_op_def op_iff dest!: apply_arm_steps[rotated])

lemma apply_ops_steps:
  assumes "\<forall>op \<in> set ops. sound_op op (st_db w)" and "apply_ops cs ops w = (Inr x, w')"
  shows "bsteps (st_db w) (st_db w')"
proof -
  obtain evs where loop: "mfor (apply_op cs) ops w = (Inr evs, w')"
    using assms(2) by (auto simp: apply_ops_def op_iff)
  show ?thesis
  proof (rule bs.loop[of ops sound_op "apply_op cs" w evs w'])
    show "bsteps (st_db v) (st_db v')" if "op \<in> set ops" "sound_op op (st_db v)" "apply_op cs op v = (Inr y, v')"
      for op v y v' using that apply_op_steps by blast
    show "sound_op op db'" if "sound_op op db" "bsteps db db'" for op db db' using that sound_op_stable by blast
  qed (use assms loop in auto)
qed

end
