(* ===== verification/Writes.thy ===== *)
theory Writes
  imports Refinement Calendar_Laws
begin

text \<open>
  Every public write of the store moves the committed database along the steps of \<open>Steps\<close>, and
  every failing call leaves it as it was: one lemma \<open>.._keeps\<close> per method.
\<close>

lemmas quiet_calls = os.keeps_quiet[OF quiet(1)] os.keeps_quiet[OF quiet(2)] os.keeps_quiet[OF quiet(3)]
  os.keeps_quiet[OF quiet(4)] os.keeps_quiet[OF quiet(5)] os.keeps_quiet[OF quiet(6)] os.keeps_quiet[OF quiet(7)]
  os.keeps_quiet[OF quiet(8)] os.keeps_quiet[OF quiet(9)] os.keeps_quiet[OF quiet(10)]

lemmas ctl = os.keeps_control quiet_calls os.keeps_tx

section \<open>Planning, blocks and tasks\<close>

lemma week_id_frame [simp]: "week_id_of_task t (db\<lparr>db_blocks := x\<rparr>) = week_id_of_task t db"
  "title_of_direction d (db\<lparr>db_blocks := x\<rparr>) = title_of_direction d db"
  by (auto simp: week_id_of_task_def title_of_direction_def split: option.split)

lemma create_area_keeps: "keeps osteps (create_area title)"
  unfolding create_area_def
  by (intro ctl) (auto simp: op_iff allocate_area_slug_def status_event_def intro!: ostep1 ostep.batch bstep.new_area)

lemma transition_area_keeps: "keeps osteps (transition_area i to)"
  unfolding transition_area_def
  by (intro ctl) (auto simp: op_iff status_event_def intro!: ostep1 ostep.move_area)

lemma create_direction_keeps: "keeps osteps (create_direction title win area)"
  unfolding create_direction_def
  by (intro ctl) (auto simp: op_iff status_event_def intro!: ostep1 ostep.batch bstep.new_direction)

lemma create_rhythm_keeps: "keeps osteps (create_rhythm as)"
  unfolding create_rhythm_def
  by (intro ctl) (auto simp: op_iff status_event_def split: sum.splits intro!: ostep1 ostep.new_rhythm)

lemma create_week_keeps: "keeps osteps (create_week label)"
  unfolding create_week_def
  by (intro ctl) (auto simp: op_iff status_event_def dest: canonical_iso_week_idem intro!: ostep1 ostep.new_week)

lemma transition_week_keeps: "keeps osteps (transition_week i to)"
  unfolding transition_week_def
  by (intro ctl) (auto simp: op_iff status_event_def intro!: ostep1 ostep.move_week)

lemma create_block_keeps: "keeps osteps (create_block d t n)"
  unfolding create_block_def
  by (intro ctl) (auto simp: op_iff status_event_def intro!: ostep1 ostep.new_block)

lemma transition_block_keeps: "keeps osteps (transition_block i to)"
  unfolding transition_block_def
  by (intro ctl) (auto simp: op_iff status_event_def ju32_def intro!: ostep1 ostep.move_block)

lemma create_task_keeps: "keeps osteps (create_task title d p kind energy est)"
  unfolding create_task_def
  by (intro ctl) (auto simp: op_iff status_event_def row_triage_ok_def triage_columns_ok intro!: ostep1 ostep.batch bstep.new_task)

lemma transition_task_keeps: "keeps osteps (transition_task i to)"
  unfolding transition_task_def
  by (intro ctl) (auto simp: op_iff status_event_def intro!: ostep1 ostep.batch bstep.move_task)

section \<open>The outbox\<close>

lemma live_row_mem: "live_row k rows = Some r \<Longrightarrow> r \<in> set rows \<and> ob_dedup_key r = k \<and> ob_live r"
proof -
  assume r: "live_row k rows = Some r"
  let ?ys = "rev (sort_key ob_created_at (filter (\<lambda>r. ob_dedup_key r = k \<and> ob_live r) rows))"
  from r have "r \<in> set ?ys" by (cases ?ys) (auto simp: live_row_def simp del: rev_eq_Cons_iff set_rev)
  then show ?thesis by auto
qed

lemma upsert_outbox_keeps: "payload_ok kind k desired \<Longrightarrow> keeps osteps (upsert_outbox kind k desired)"
proof (rule keepsI)
  fix w r w'
  assume p: "payload_ok kind k desired"
  assume u: "upsert_outbox kind k desired w = (r, w')"
  show "osteps (st_db w) (st_db w')"
  proof (cases "live_row k (db_outbox (st_db w))")
    case None
    with u p show ?thesis
      by (cases r) (auto simp: upsert_outbox_def op_iff intro: ostep1 intro!: ostep.outbox_insert)
  next
    case (Some q)
    with u have "st_db w' = (st_db w)\<lparr>db_outbox := upd_by ob_id (ob_id q) (overwrite_row kind desired) (db_outbox (st_db w))\<rparr>"
      by (auto simp: upsert_outbox_def query_def mget_def mbind_def stmt_def mmod_def)
    then show ?thesis using p Some live_row_mem[OF Some] by (auto intro!: ostep1 ostep.outbox_overwrite)
  qed
qed

lemmas upsert_steps = keepsD[OF upsert_outbox_keeps, rotated]

lemma after_keeps: "m w = (r, w') \<Longrightarrow> keeps osteps m \<Longrightarrow> osteps db (st_db w) \<Longrightarrow> osteps db (st_db w')"
  by (auto dest: keepsD)

lemmas after_upsert = after_keeps[OF _ upsert_outbox_keeps]

lemma payload_remember [simp]: "payload_ok ''memory.remember'' (review_remember_dedup_key (rv_id r)) (review_remember_desired r now)"
  by (auto simp: payload_ok_def parse_defs review_remember_desired_def)

lemma mark_retry_keeps: "keeps osteps (outbox_mark_retry i v err at b)"
  unfolding outbox_mark_retry_def by (intro ctl os.keeps_stmt ostep1 ostep.outbox_mark) auto

lemma mark_failed_keeps: "keeps osteps (outbox_mark_failed i v kind err)"
  unfolding outbox_mark_failed_def by (intro ctl os.keeps_stmt ostep1 ostep.outbox_mark) auto

lemma enqueue_upsert_keeps: "keeps osteps (outbox_enqueue_upsert_for_routine i)"
  unfolding outbox_enqueue_upsert_for_routine_def
  by (intro ctl) (auto simp: op_iff split: option.splits if_splits dest: upsert_steps)

lemma enqueue_delete_keeps: "keeps osteps (outbox_enqueue_delete_for_orphan i key)"
  unfolding outbox_enqueue_delete_for_orphan_def
  by (intro ctl) (auto simp: op_iff split: option.splits if_splits dest: upsert_steps)

section \<open>Routines\<close>

lemma opt_check_keeps: "(\<And>x. keeps osteps (f x)) \<Longrightarrow> keeps osteps (opt_check f r)"
  by (cases r) (auto simp: opt_check_def intro: quiet_calls)

lemma tz_cron_keeps: "keeps osteps (cron_check c)" "keeps osteps (tz_check z)"
  unfolding cron_check_def tz_check_def by (intro ctl)+

lemma opt_iff [store_iff]:
  "(opt_check require_area_exists a w = (Inr x, w')) = (fk ar_id (db_areas (st_db w)) a \<and> w' = w)"
  "(opt_check require_direction_exists d w = (Inr x, w')) = (fk di_id (db_directions (st_db w)) d \<and> w' = w)"
  by (auto simp: opt_check_def require_area_exists_def require_direction_exists_def op_iff fk_def split: option.split)

lemma insert_new_routine_steps:
  "insert_new_routine new title tz w = (Inr x, w') \<Longrightarrow> osteps (st_db w) (st_db w')"
  by (clarsimp simp: insert_new_routine_def op_iff opt_iff, erule after_upsert)
    (auto simp: status_event_def intro!: ostep1 ostep.new_routine)

lemma create_routine_keeps: "keeps osteps (create_routine new)"
  unfolding create_routine_def Let_def
  by (intro ctl tz_cron_keeps) (auto intro: insert_new_routine_steps)

lemma ologs: "log_ok e (db_events db) \<Longrightarrow> ev_to e = None \<Longrightarrow> ostep db' db \<Longrightarrow> osteps db' (add_event e db)"
  by (rule ostep2) (auto intro: ostep.batch bstep.log)

lemma write_patch_steps:
  assumes "write_patch i current new changed w = (Inr x, w')"
    and "row_by ro_id i (db_routines (st_db w)) = Some r" "\<not> routine_is_terminal (ro_status r)"
  shows "osteps (st_db w) (st_db w')"
  using assms
  by (clarsimp simp: write_patch_def op_iff violated_None split: if_splits)
    (auto elim!: after_upsert intro!: ologs ostep.patch_routine)

lemma truncate_status [simp]: "ro_status (Routine.truncate r) = ro_status r"
  by (simp add: Routine.truncate_def)

lemma update_routine_keeps: "keeps osteps (update_routine i patch)"
  unfolding update_routine_def patch_checks_def Let_def
  apply (intro ctl opt_check_keeps tz_cron_keeps)
  apply (clarsimp simp: monad_iff store_iff split: if_splits)
  subgoal for w x w' r
    by (cases "changed_fields (patched patch (Routine.truncate r)) (Routine.truncate r) = []")
      (auto elim: write_patch_steps)
  done

lemma mirror_keeps: "keeps osteps (mirror_status i current to)"
  by (cases to) (auto simp: mirror_status_def upsert_outbox_keeps)

lemma transition_routine_keeps: "keeps osteps (transition_routine i to)"
  unfolding transition_routine_def
  by (intro ctl; clarsimp simp: op_iff; erule after_keeps[OF _ mirror_keeps])
    (auto simp: status_event_def intro!: ostep1 ostep.move_routine)

lemma suspend_one: "ostep db (db\<lparr>db_routines := upd_by ro_id i (\<lambda>r. r\<lparr>rr_kernel_suspended_at := v\<rparr>) (db_routines db)\<rparr>)"
proof -
  have "upd_by ro_id i (\<lambda>r. r\<lparr>rr_kernel_suspended_at := v\<rparr>) (db_routines db) =
      map (\<lambda>r. r\<lparr>rr_kernel_suspended_at := if ro_id r = i then v else rr_kernel_suspended_at r\<rparr>) (db_routines db)"
    by (auto simp: upd_by_def upd_where_def)
  then show ?thesis using ostep.suspend[of db "\<lambda>r. if ro_id r = i then v else rr_kernel_suspended_at r"] by simp
qed

lemma sync_keeps: "keeps osteps (sync_kernel_suspended_routines ids)"
  unfolding sync_kernel_suspended_routines_def
  apply (rule os.keeps_tx, erule keepsD[rotated, where S = osteps])
  apply (rule os.keeps_then)
   apply (rule os.keeps_stmt, rule ostep1, rule ostep.suspend)
  apply (intro os.keeps_if os.keeps_bind os.keeps_then os.keeps_for quiet_calls os.keeps_stmt)
  apply (rule ostep1, rule suspend_one)
  done

section \<open>Fires\<close>

lemma weekly_draft_Inr: "weekly_draft_on week w = (Inr d, w') \<Longrightarrow> w' = w"
  by (auto simp: weekly_draft_on_def monad_iff store_iff split: prod.splits)

lemma insert_review_draft_steps:
  "insert_weekly_review_draft_if_absent week body now w = (Inr x, w') \<Longrightarrow> osteps (st_db w) (st_db w')"
  by (clarsimp simp: insert_weekly_review_draft_if_absent_def op_iff split: if_splits)
    (auto simp: status_event_def intro!: ostep1 ostep.new_review)

lemma auto_review_steps: "auto_review kind at now w = (Inr x, w') \<Longrightarrow> osteps (st_db w) (st_db w')"
  by (clarsimp simp: auto_review_def monad_iff split: if_splits option.splits)
    (auto dest!: insert_review_draft_steps weekly_draft_Inr)

lemma after_auto_review: "auto_review kind at now w = (Inr x, w') \<Longrightarrow> osteps db (st_db w) \<Longrightarrow> osteps db (st_db w')"
  by (meson auto_review_steps rtranclp_trans)

lemma record_new_fire_steps:
  "record_new_fire i row fire at trigger w = (Inr x, w') \<Longrightarrow> osteps (st_db w) (st_db w')"
  by (clarsimp simp: record_new_fire_def op_iff split: if_splits)
    (auto elim!: after_auto_review intro!: ologs ostep.new_fire)

lemma record_routine_fire_keeps: "keeps osteps (record_routine_fire fire key at trigger)"
  unfolding record_routine_fire_def
  by (intro ctl) (auto simp: op_iff split: option.splits if_splits intro: record_new_fire_steps)

section \<open>Reviews\<close>

lemma create_review_keeps: "keeps osteps (create_review new)"
  unfolding create_review_def
  by (intro ctl) (auto simp: op_iff status_event_def split: if_splits intro!: ostep1 ostep.new_review)

lemma update_review_body_keeps: "keeps osteps (update_review_body i body)"
  unfolding update_review_body_def
  by (intro ctl) (auto simp: op_iff review_is_terminal_def split: if_splits
      intro!: ologs ostep.edit_review intro: ReviewStatus.exhaust)

lemma export_iff: "export_markdown r w = (Inr x, w') \<Longrightarrow> st_db w' = st_db w"
  by (auto simp: export_markdown_def write_markdown_atomic_def op_iff split: option.splits)

lemma finalize_review_keeps: "keeps osteps (finalize_review i)"
  unfolding finalize_review_def
  apply (intro ctl)
  apply (clarsimp simp: op_iff split del: if_split)
  apply (erule after_keeps)
   apply (intro os.keeps_if upsert_outbox_keeps quiet_calls)
   apply (drule row_by_mem, elim conjE, hypsubst, rule payload_remember)
  apply (frule export_iff)
  apply (auto simp: status_event_def elim!: review_allowed_cases intro!: ostep1 ostep.finalize)
  done

section \<open>Attention\<close>

lemma fold_event_Inr: "fold_event e w = (Inr x, w') \<Longrightarrow>
    w' = w\<lparr>st_db := (st_db w)\<lparr>db_attention := fold_row e (db_attention (st_db w))\<rparr>\<rparr>"
  by (auto simp: fold_event_def fold_row_def occurred_at_def payload_minutes_def op_iff
      split: option.splits Json.splits)

lemma fold_events_Inr: "mfor fold_event es w = (Inr x, w') \<Longrightarrow>
    w' = w\<lparr>st_db := (st_db w)\<lparr>db_attention := fold fold_row es (db_attention (st_db w))\<rparr>\<rparr>"
proof (induction es arbitrary: w x)
  case (Cons e es)
  then obtain y w1 ys where 1: "fold_event e w = (Inr y, w1)" and 2: "mfor fold_event es w1 = (Inr ys, w')"
    by (auto simp: op_iff)
  show ?case using Cons.IH[OF 2] fold_event_Inr[OF 1] by simp
qed (simp add: op_iff)

lemma attention_apply_keeps: "keeps osteps attention_apply_new_events"
  unfolding attention_apply_new_events_def
  by (intro ctl) (auto simp: op_iff split: if_splits dest!: fold_events_Inr intro!: ostep1 ostep.advance)

lemma attention_rebuild_keeps: "keeps osteps attention_rebuild"
  unfolding attention_rebuild_def
  by (intro os.keeps_then attention_apply_keeps os.keeps_tx)
    (auto simp: op_iff intro: ostep1[OF ostep.reset])

section \<open>Packs, settings and the call log\<close>

lemma install_seed_pack_keeps: "keeps osteps (install_seed_pack pack)"
  unfolding install_seed_pack_def
  by (intro os.keeps_for os.keeps_bind os.keeps_then create_area_keeps create_direction_keeps quiet_calls)

lemma put_ai_executive_enabled_keeps: "keeps osteps (put_ai_executive_enabled b)"
  unfolding put_ai_executive_enabled_def
  by (intro ctl) (auto simp: op_iff intro!: ologs ostep.set_settings)

lemma sink_record_call_keeps: "keeps osteps (sink_record_call rec)"
  unfolding sink_record_call_def insert_call_row_def
  by (intro os.keeps_map_err os.keeps_checked ostep1 ostep.new_call)

lemma sink_record_classify_eval_keeps: "keeps osteps (sink_record_classify_eval i at)"
  unfolding sink_record_classify_eval_def
  by (intro os.keeps_map_err os.keeps_checked ostep1 ostep.re_eval) (simp add: violated_None)

lemma sink_precheck_keeps: "keeps osteps (sink_precheck cap drafts)"
  unfolding sink_precheck_def by (rule os.keeps_trial)

lemma today_view_keeps: "keeps osteps today_view"
  by (rule os.keeps_quiet) (simp add: today_view_def local_day_start_utc_def query_def mbind_def mthen_def mget_def
      mmod_def mret_def)

end
