(* ===== verification/Gate.thy ===== *)
theory Gate
  imports Writes Proposal_Laws
begin

text \<open>
  The proposal gate: what the validator's snapshot says of the database, why an accepted batch is
  \<open>sound_op\<close> for every one of its operations, and the steps of submission, acceptance, rejection
  and of the AI sink. The last section lifts all methods to runs of the whole store.
\<close>

section \<open>The snapshot tells the truth\<close>

definition task_status_in :: "Db \<Rightarrow> string \<Rightarrow> TaskStatus option" where
  "task_status_in db i = map_option tk_status (row_by tk_id i (db_tasks db))"

definition task_parent_in :: "Db \<Rightarrow> string \<Rightarrow> TaskId option option" where
  "task_parent_in db i = map_option tk_parent_task_id (row_by tk_id i (db_tasks db))"

definition task_direction_in :: "Db \<Rightarrow> string \<Rightarrow> DirectionId option option" where
  "task_direction_in db i = map_option tk_direction_id (row_by tk_id i (db_tasks db))"

definition week_status_in :: "Db \<Rightarrow> string \<Rightarrow> WeekStatus option" where
  "week_status_in db i = map_option wk_status (row_by wk_id i (db_weeks db))"

definition rhythm_retired_in :: "Db \<Rightarrow> string \<Rightarrow> bool option" where
  "rhythm_retired_in db i = map_option (\<lambda>r. rh_status r = Rhythm_Retired) (row_by rh_id i (db_rhythms db))"

definition direction_status_in :: "Db \<Rightarrow> string \<Rightarrow> DirectionStatus option" where
  "direction_status_in db i = map_option di_status (row_by di_id i (db_directions db))"

definition review_snap_in :: "(string \<Rightarrow> string) \<Rightarrow> Db \<Rightarrow> string \<Rightarrow> ReviewSnap option" where
  "review_snap_in sha db i = map_option (\<lambda>r. \<lparr>rs_status = rv_status r, rs_body_sha256 = sha (rv_body r)\<rparr>)
     (row_by rv_id i (db_reviews db))"

definition snapshot_sound :: "(string \<Rightarrow> string) \<Rightarrow> Db \<Rightarrow> DbSnapshot \<Rightarrow> bool" where
  "snapshot_sound sha db s = (sn_tasks s \<subseteq>\<^sub>m task_status_in db \<and> sn_task_parents s \<subseteq>\<^sub>m task_parent_in db
     \<and> sn_weeks s \<subseteq>\<^sub>m week_status_in db \<and> sn_rhythms_retired s \<subseteq>\<^sub>m rhythm_retired_in db
     \<and> sn_direction_statuses s \<subseteq>\<^sub>m direction_status_in db \<and> sn_task_directions s \<subseteq>\<^sub>m task_direction_in db
     \<and> sn_reviews s \<subseteq>\<^sub>m review_snap_in sha db)"

lemma put_le: "m \<subseteq>\<^sub>m f \<Longrightarrow> put i (f i) m \<subseteq>\<^sub>m f"
  by (auto simp: put_def map_le_def split: option.split)

lemmas in_defs = task_status_in_def task_parent_in_def task_direction_in_def week_status_in_def
  rhythm_retired_in_def direction_status_in_def review_snap_in_def

lemmas load_defs = load_task_def load_task_parent_def load_week_def load_task_direction_def
  load_task_triage_via_classify_def load_direction_status_def load_review_snap_def load_rhythm_def load_assign_def

lemma load_sound:
  "snapshot_sound sha db s \<Longrightarrow> snapshot_sound sha db (load_task db i s)"
  "snapshot_sound sha db s \<Longrightarrow> snapshot_sound sha db (load_task_parent db i s)"
  "snapshot_sound sha db s \<Longrightarrow> snapshot_sound sha db (load_week db i s)"
  "snapshot_sound sha db s \<Longrightarrow> snapshot_sound sha db (load_task_direction db i s)"
  "snapshot_sound sha db s \<Longrightarrow> snapshot_sound sha db (load_task_triage_via_classify db i s)"
  "snapshot_sound sha db s \<Longrightarrow> snapshot_sound sha db (load_direction_status db i s)"
  "snapshot_sound sha db s \<Longrightarrow> snapshot_sound sha db (load_review_snap sha db i s)"
  "snapshot_sound sha db s \<Longrightarrow> snapshot_sound sha db (load_rhythm db i s)"
  unfolding snapshot_sound_def
  using put_le[of "sn_tasks s" "task_status_in db" i] put_le[of "sn_task_parents s" "task_parent_in db" i]
    put_le[of "sn_weeks s" "week_status_in db" i] put_le[of "sn_task_directions s" "task_direction_in db" i]
    put_le[of "sn_direction_statuses s" "direction_status_in db" i]
    put_le[of "sn_reviews s" "review_snap_in sha db" i] put_le[of "sn_rhythms_retired s" "rhythm_retired_in db" i]
  by (simp_all add: load_defs in_defs)

lemma snapshot_op_sound: "snapshot_sound sha db s \<Longrightarrow> snapshot_sound sha db (snapshot_op sha db op s)"
  by (cases op) (auto simp: load_assign_def Let_def intro: load_sound split: option.split)

lemma snapshot_of_sound: "snapshot_sound sha db (snapshot_of sha ops db)"
proof -
  have "snapshot_sound sha db DbSnapshot_default"
    by (simp add: snapshot_sound_def DbSnapshot_default_def)
  then show ?thesis
    unfolding snapshot_of_def by (induction ops rule: rev_induct) (auto intro: snapshot_op_sound)
qed

section \<open>An accepted batch is sound\<close>

lemma validate_each:
  "mfor (validate_op sha cs) ops w = (Inr xs, w') \<Longrightarrow> op \<in> set ops \<Longrightarrow>
     \<exists>v v'. w_ctx v = w_ctx w \<and> validate_op sha cs op v = (Inr (), v')"
proof (induction ops arbitrary: w xs)
  case (Cons o1 ops)
  then obtain w1 ys where 1: "validate_op sha cs o1 w = (Inr (), w1)" and 2: "mfor (validate_op sha cs) ops w1 = (Inr ys, w')"
    by (auto simp: monad_iff)
  show ?case
  proof (cases "op = o1")
    case False
    then have "op \<in> set ops" using Cons.prems(2) by simp
    from Cons.IH[OF 2 this] show ?thesis using validate_op_ctx[OF 1] by simp
  qed (use 1 in auto)
qed simp

lemma validated_op_sound:
  assumes v: "validate_op sha cs op v = (Inr (), v')" and c: "w_ctx v = snapshot_ctx s" and s: "snapshot_sound sha db s"
  shows "sound_op op db"
proof -
  have weeks: "week_open k db" if "sn_weeks s k = Some q" "week_is_open q" for k q
  proof -
    have "sn_weeks s \<subseteq>\<^sub>m week_status_in db" using s by (simp add: snapshot_sound_def)
    with that(1) have "week_status_in db k = Some q" by (metis domI map_le_def)
    with that(2) show ?thesis by (auto simp: week_status_in_def week_open_def)
  qed
  have parents: "map_option tk_parent_task_id (row_by tk_id k (db_tasks db)) = Some q" if "sn_task_parents s k = Some q" for k q
  proof -
    have "sn_task_parents s \<subseteq>\<^sub>m task_parent_in db" using s by (simp add: snapshot_sound_def)
    with that have "task_parent_in db k = Some q" by (metis domI map_le_def)
    then show ?thesis by (simp add: task_parent_in_def)
  qed
  have open_week: "week_open k db" if "require_open_week k u = (Inr x, u')" "w_ctx u = snapshot_ctx s" for k u x u'
    using that weeks by (auto simp: require_open_week_def monad_iff snapshot_ctx_def)
  show ?thesis
  proof (cases op)
    case (CreateTask title d p kind energy est)
    then show ?thesis
      using v c by (auto simp: validate_create_task_def monad_iff snapshot_ctx_def parent_ok_def dest!: parents split: option.splits)
  next
    case (CreateTasks k tasks)
    then show ?thesis using v c by (auto simp: monad_iff dest: open_week)
  next
    case (ReorderTasks k order)
    then show ?thesis using v c by (auto simp: monad_iff dest: open_week)
  next
    case (CarryOverTask i k)
    then show ?thesis using v c by (auto simp: validate_carry_over snapshot_ctx_def simp del: validate_op.simps intro: weeks)
  next
    case (AdjustRhythm i as)
    then show ?thesis using v by (auto simp: monad_iff)
  qed simp_all
qed

lemma validate_in_Inr:
  assumes "validate_in p cs w = (Inr x, w')"
  shows "w' = w \<and> (\<forall>op \<in> set (pr_ops p). sound_op op (st_db w))"
proof -
  let ?s = "snapshot_of (en_sha256 (st_env w)) (pr_ops p) (st_db w)"
  from assms have w: "w' = w" and "validate (en_sha256 (st_env w)) p (snapshot_ctx ?s) cs = Inr x"
    by (auto simp: validate_in_def build_snapshot_def monad_iff proposal_err_iff)
  then obtain xs v' where m: "mfor (validate_op (en_sha256 (st_env w)) cs) (pr_ops p) (Working_new (snapshot_ctx ?s)) = (Inr xs, v')"
    by (auto simp: validate_ok)
  show ?thesis
  proof (intro conjI ballI w)
    fix op
    assume "op \<in> set (pr_ops p)"
    from validate_each[OF m this] show "sound_op op (st_db w)"
      by (auto simp: Working_new_def intro: validated_op_sound snapshot_of_sound)
  qed
qed

section \<open>Submission, acceptance and rejection\<close>

lemmas ds_quiet = ds.keeps_quiet[OF quiet(1)] ds.keeps_quiet[OF quiet(2)] ds.keeps_quiet[OF quiet(3)]
  ds.keeps_quiet[OF quiet(4)] ds.keeps_quiet[OF quiet(5)] ds.keeps_quiet[OF quiet(6)] ds.keeps_quiet[OF quiet(7)]
  ds.keeps_quiet[OF quiet(8)] ds.keeps_quiet[OF quiet(9)] ds.keeps_quiet[OF quiet(10)]

lemma dstep2: "dstep a b \<Longrightarrow> dstep b c \<Longrightarrow> dsteps a c"
  by (meson r_into_rtranclp rtranclp.rtrancl_into_rtrancl)

lemma dlog: "log_ok e (db_events db) \<Longrightarrow> ev_entity e = ''proposal'' \<Longrightarrow> dstep db' db \<Longrightarrow> dsteps db' (add_event e db)"
  by (rule dstep2) (auto intro: dstep.other ostep.batch bstep.log)

lemma submit_proposal_keeps: "keeps dsteps (submit_proposal p)"
  unfolding submit_proposal_def
  by (intro ds.keeps_control ds_quiet ds.keeps_tx)
    (auto simp: op_iff split: option.splits dest!: validate_in_Inr intro!: dlog dstep.submit)

lemma apply_claimed_steps:
  assumes run: "apply_claimed i r w = (Inr x, w')"
    and row: "row_by pp_id i (db_proposals (st_db w)) = Some q" "pp_status q = Proposal_Applying"
  shows "dsteps (st_db w) (st_db w')"
proof -
  obtain evs w1 receipt now where ops: "apply_ops (capability_of i (st_db w)) (pp_ops r) w = (Inr evs, w1)"
    and sound: "\<forall>op \<in> set (pp_ops r). sound_op op (st_db w)"
    and db': "st_db w' = (st_db w1)\<lparr>db_proposals := upd_by pp_id i (\<lambda>r. r\<lparr>pp_status := Proposal_Applied,
      pp_result := Some receipt, pp_decided_at := Some now\<rparr>) (db_proposals (st_db w1))\<rparr>"
    using run by (auto simp: apply_claimed_def op_iff dest!: validate_in_Inr)
  have b: "bsteps (st_db w) (st_db w1)" by (rule apply_ops_steps[OF sound ops])
  have "dstep (st_db w1) (st_db w')"
    unfolding db' by (rule dstep.applied[OF _ row(2)]) (use row(1) bsteps_frame[OF b] in simp)
  then show ?thesis
    using osteps_dsteps[OF bsteps_osteps[OF b]] by (rule rtranclp.rtrancl_into_rtrancl[rotated])
qed

lemma pending_row: "pending_proposal i db = Some r \<Longrightarrow> row_by pp_id i (db_proposals db) = Some r \<and> pp_status r = Proposal_Pending"
  by (auto simp: pending_proposal_def split: option.splits if_splits)

lemma pending_taken: "pending_proposal i db = Some r \<Longrightarrow> taken pp_id i (db_proposals db)"
  by (auto simp: taken_def dest!: pending_row row_by_mem)

lemma replay_quiet: "replay_applied i w = (Inr x, w') \<Longrightarrow> w' = w"
  by (auto simp: replay_applied_def op_iff split: option.splits ProposalStatus.splits)

lemma apply_proposal_keeps: "keeps dsteps (apply_proposal i)"
  unfolding apply_proposal_def
proof (intro ds.keeps_tx)
  fix w x w'
  assume "mbind (query (pending_proposal i)) (\<lambda>claimed. case claimed of None \<Rightarrow> replay_applied i
      | Some row \<Rightarrow> mthen (set_proposal i (\<lambda>r. r\<lparr>pp_status := Proposal_Applying\<rparr>)) (apply_claimed i row)) w = (Inr x, w')"
  then consider "replay_applied i w = (Inr x, w')"
    | r w1 where "pending_proposal i (st_db w) = Some r" "apply_claimed i r w1 = (Inr x, w')"
      "st_db w1 = (st_db w)\<lparr>db_proposals := upd_by pp_id i (\<lambda>r. r\<lparr>pp_status := Proposal_Applying\<rparr>) (db_proposals (st_db w))\<rparr>"
    by (auto simp: op_iff set_proposal_def split: option.splits)
  then show "dsteps (st_db w) (st_db w')"
  proof cases
    case 1
    then show ?thesis using replay_quiet[OF 1] by simp
  next
    case 2
    from 2(1,3) have "dsteps (st_db w1) (st_db w')"
      by (intro apply_claimed_steps[OF 2(2)]) (auto dest!: pending_row simp: row_by_update)
    moreover have "dstep (st_db w) (st_db w1)" unfolding 2(3) by (rule dstep.claim[OF 2(1)])
    ultimately show ?thesis by (rule converse_rtranclp_into_rtranclp[rotated])
  qed
qed

lemma reject_proposal_keeps: "keeps dsteps (reject_proposal i reason)"
  unfolding reject_proposal_def
  by (intro ds.keeps_control ds_quiet ds.keeps_tx)
    (auto simp: op_iff set_proposal_def rejection_violation_def violated_None split: option.splits
      intro!: dlog dstep.reject pending_taken)

section \<open>The AI sink\<close>

lemma map_err_iff [store_iff]: "(map_err f m w = (Inr x, w')) = (m w = (Inr x, w'))"
  "(map_err f m w = (Inl e, w')) = (\<exists>d. m w = (Inl d, w') \<and> e = f d)"
  by (auto simp: map_err_def split: prod.splits sum.splits)

lemma trial_iff [store_iff]: "(trial m w = (r, w')) = (\<exists>w1. m w = (r, w1) \<and> w' = w1\<lparr>st_db := st_db w\<rparr>)"
  by (auto simp: trial_def split: prod.splits)

lemma dry_run_Inr: "dry_run i ops rationale cap w = (Inr x, w') \<Longrightarrow> st_db w' = st_db w"
  by (auto simp: dry_run_def monad_iff store_iff dest!: validate_in_Inr)

lemma submit_rows_steps: "submit_rows draft rec w = (Inr x, w') \<Longrightarrow> dsteps (st_db w) (st_db w')"
  apply (clarsimp simp: submit_rows_def op_iff)
  apply (rule rtranclp.rtrancl_into_rtrancl[OF dlog[OF _ _ dstep.submit] dstep.other[OF ostep.new_call]])
       apply simp_all
  done

lemma sink_submit_keeps: "keeps dsteps (sink_submit cap draft rec)"
  unfolding sink_submit_def
proof (intro ds.keeps_lift_then ds.keeps_guard ds.keeps_sink_tx)
  fix w x w'
  assume "mthen (dry_run (pd_id draft) (pd_ops draft) (pd_rationale draft) cap)
      (map_err Sink_Store (submit_rows draft rec)) w = (Inr x, w')"
  then obtain u w1 where "dry_run (pd_id draft) (pd_ops draft) (pd_rationale draft) cap w = (Inr u, w1)"
      "submit_rows draft rec w1 = (Inr x, w')"
    by (auto simp: monad_iff store_iff)
  then show "dsteps (st_db w) (st_db w')"
    using submit_rows_steps dry_run_Inr by metis
qed

section \<open>Runs\<close>

lemma keeps_osteps_dsteps: "keeps osteps m \<Longrightarrow> keeps dsteps m"
  by (simp add: keeps_def osteps_dsteps)

lemmas write_keeps = create_area_keeps transition_area_keeps create_direction_keeps create_rhythm_keeps
  create_week_keeps transition_week_keeps create_block_keeps transition_block_keeps create_task_keeps
  transition_task_keeps create_routine_keeps update_routine_keeps transition_routine_keeps
  record_routine_fire_keeps sync_keeps enqueue_upsert_keeps enqueue_delete_keeps mark_retry_keeps
  mark_failed_keeps create_review_keeps update_review_body_keeps finalize_review_keeps attention_apply_keeps
  attention_rebuild_keeps install_seed_pack_keeps put_ai_executive_enabled_keeps sink_record_call_keeps
  sink_record_classify_eval_keeps sink_precheck_keeps today_view_keeps

lemma mark_done_keeps: "keeps dsteps (outbox_mark_done i v res)"
  unfolding outbox_mark_done_def
  by (intro ds.keeps_bind ds_quiet ds.keeps_stmt r_into_rtranclp dstep.delivered)

lemmas proposal_keeps = submit_proposal_keeps apply_proposal_keeps reject_proposal_keeps sink_submit_keeps mark_done_keeps

lemma exec_steps: "dsteps (st_db w) (st_db (exec c w))"
  using write_keeps[THEN keeps_osteps_dsteps] proposal_keeps unfolding keeps_def
  by (cases c) simp_all

text \<open>Which calls touch the proposals, and which one settles an outbox row.\<close>

fun proposal_call :: "Call \<Rightarrow> bool" where
  "proposal_call (Call_submit_proposal p) = True"
| "proposal_call (Call_apply_proposal i) = True"
| "proposal_call (Call_reject_proposal i reason) = True"
| "proposal_call (Call_sink_submit cap draft rec) = True"
| "proposal_call _ = False"

fun done_call :: "Call \<Rightarrow> bool" where
  "done_call (Call_outbox_mark_done i v res) = True"
| "done_call _ = False"

lemma exec_osteps: "\<not> proposal_call c \<Longrightarrow> \<not> done_call c \<Longrightarrow> osteps (st_db w) (st_db (exec c w))"
  using write_keeps unfolding keeps_def by (cases c) simp_all

lemma runs_step: "dsteps (db_after env calls) (db_after env (calls @ later))"
proof (induction later rule: rev_induct)
  case (snoc c later)
  have "dsteps (db_after env (calls @ later)) (db_after env (calls @ later @ [c]))"
    using exec_steps[of "run env (calls @ later)" c] run_snoc[of env "calls @ later" c] by (simp add: db_after_def)
  with snoc.IH show ?case by (simp add: rtranclp_trans)
qed simp

lemma run_reaches: "dsteps migrated_db (db_after env calls)"
  using runs_step[of env "[]" calls] by (simp add: db_after_def run_def opened_def)

text \<open>An invariant of the steps holds after every sequence of calls.\<close>

lemma run_invariant:
  assumes "I migrated_db" and "\<And>db db'. I db \<Longrightarrow> dstep db db' \<Longrightarrow> I db'"
  shows "I (db_after env calls)"
  using run_reaches[of env calls] assms(1)
  by (induction rule: rtranclp_induct) (auto intro: assms(2))

end
