(* ===== verification/Invariants.thy ===== *)
theory Invariants
  imports Gate
begin

text \<open>
  The invariants of the database, proved over the steps and carried to every sequence of calls by
  the interface \<open>store_invariant\<close>: keys and references, the event log as the source of every
  status, one level of nesting, the triage columns, one live outbox row per entity.
\<close>

section \<open>The interface\<close>

text \<open>
  An invariant is a predicate on databases that the migrations establish and that each layer of
  the step relation keeps.
\<close>

locale store_invariant =
  fixes I :: "Db \<Rightarrow> bool"
  assumes migrated: "I migrated_db"
    and batch_step: "bstep db db' \<Longrightarrow> I db \<Longrightarrow> I db'"
    and direct_step: "ostep db db' \<Longrightarrow> \<not> bstep db db' \<Longrightarrow> I db \<Longrightarrow> I db'"
    and proposal_step: "dstep db db' \<Longrightarrow> \<not> ostep db db' \<Longrightarrow> I db \<Longrightarrow> I db'"
begin

lemma step: "dstep db db' \<Longrightarrow> I db \<Longrightarrow> I db'"
  using batch_step direct_step proposal_step by blast

lemma steps: "dsteps db db' \<Longrightarrow> I db \<Longrightarrow> I db'"
  by (induction rule: rtranclp_induct) (auto intro: step)

lemma holds: "I (db_after env calls)"
  using steps[OF run_reaches] migrated by blast

end

declare add_event_sel [simp]

section \<open>Keys\<close>

definition seqs_ok :: "Event list \<Rightarrow> bool" where
  "seqs_ok es = (distinct (map ev_id es) \<and> map ev_seq es = [1..<Suc (length es)])"

definition keys_ok :: "Db \<Rightarrow> bool" where
  "keys_ok db = (distinct (map ar_id (db_areas db)) \<and> distinct (map ar_slug (db_areas db))
     \<and> distinct (map di_id (db_directions db))
     \<and> distinct (map wk_id (db_weeks db)) \<and> distinct (map wk_iso_week (db_weeks db))
     \<and> distinct (map rh_id (db_rhythms db)) \<and> distinct (map tk_id (db_tasks db))
     \<and> distinct (List.map_filter tk_carried_from (db_tasks db))
     \<and> distinct (map bl_id (db_blocks db)) \<and> distinct (map rv_id (db_reviews db))
     \<and> distinct (map (\<lambda>r. (rv_kind r, rv_period r)) (db_reviews db))
     \<and> distinct (map ro_id (db_routines db)) \<and> distinct (map rf_fire_id (db_fires db))
     \<and> distinct (map pp_id (db_proposals db)) \<and> distinct (map rj_id (db_rejections db))
     \<and> distinct (map ob_id (db_outbox db)) \<and> distinct (map ac_id (db_ai_calls db))
     \<and> distinct (map ce_task_id (db_classify_evals db))
     \<and> seqs_ok (db_events db))"

lemma map_filter_snoc: "List.map_filter f (xs @ [x]) = List.map_filter f xs @ (case f x of None \<Rightarrow> [] | Some y \<Rightarrow> [y])"
  by (simp add: List.map_filter_def split: option.split)

lemma map_filter_upd: "(\<And>r. f (g r) = f r) \<Longrightarrow> List.map_filter f (upd_where c g rows) = List.map_filter f rows"
  by (induction rows) (auto simp: upd_where_def List.map_filter_def)

lemma map_filter_upd_by: "(\<And>r. f (g r) = f r) \<Longrightarrow> List.map_filter f (upd_by k i g rows) = List.map_filter f rows"
  by (simp add: upd_by_def map_filter_upd)

lemma map_filter_taken: "(y \<in> set (List.map_filter f rows)) = taken f (Some y) rows"
  by (induction rows) (auto simp: List.map_filter_def taken_def split: option.splits)

lemma map_upd: "(\<And>r. f (g r) = f r) \<Longrightarrow> map f (upd_where c g rows) = map f rows"
  by (rule map_upd_where)

lemma map_upd_by: "(\<And>r. f (g r) = f r) \<Longrightarrow> map f (upd_by k i g rows) = map f rows"
  by (simp add: upd_by_def map_upd_where)

lemma next_seq_keys: "seqs_ok es \<Longrightarrow> next_seq es = Suc (length es)"
proof -
  assume es: "seqs_ok es"
  have "fold max [1..<Suc n] 0 = n" for n :: nat
    by (induction n) (auto simp: max_def)
  then show ?thesis using es by (simp only: next_seq_def seqs_ok_def)
qed

lemma seqs_snoc [simp]: "seqs_ok es \<Longrightarrow> log_ok e es \<Longrightarrow> seqs_ok (es @ [e])"
  using next_seq_keys[of es] by (auto simp: seqs_ok_def log_ok_def taken_def)

lemmas violation_defs = area_violation_def direction_violation_def week_violation_def rhythm_violation_def
  task_violation_def block_violation_def review_violation_def routine_violation_def fire_violation_def
  proposal_violation_def rejection_violation_def outbox_violation_def eval_violation_def call_violation_def
  violated_None

lemmas key_simps = keys_ok_def map_upd map_upd_by map_filter_upd map_filter_upd_by map_filter_snoc map_filter_taken
  violation_defs taken_def

lemma keys_bstep: "bstep db db' \<Longrightarrow> keys_ok db \<Longrightarrow> keys_ok db'"
  by (induction rule: bstep.induct) (auto simp: key_simps carried_row_def)

lemma keys_ostep: "ostep db db' \<Longrightarrow> keys_ok db \<Longrightarrow> keys_ok db'"
proof (induction rule: ostep.induct)
  case (batch db db')
  then show ?case by (rule keys_bstep)
next
  case (re_eval i db at)
  then show ?case by (auto simp: key_simps upsert_eval_def)
qed (auto simp: key_simps comp_def overwrite_row_def)

lemma keys_dstep: "dstep db db' \<Longrightarrow> keys_ok db \<Longrightarrow> keys_ok db'"
proof (induction rule: dstep.induct)
  case (other db db')
  then show ?case by (rule keys_ostep)
qed (auto simp: key_simps)

interpretation keys: store_invariant keys_ok
  by unfold_locales (erule (1) keys_bstep keys_ostep keys_dstep
    | simp add: keys_ok_def migrated_db_def List.map_filter_def seqs_ok_def)+

section \<open>The event log only grows\<close>

definition log_grows :: "Db \<Rightarrow> Db \<Rightarrow> bool" where
  "log_grows db db' = prefix (db_events db) (db_events db')"

interpretation grow: step_order log_grows
  by unfold_locales (auto simp: log_grows_def intro: prefix_order.trans)

lemma bstep_grows: "bstep db db' \<Longrightarrow> log_grows db db'"
  by (induction rule: bstep.induct) (auto simp: log_grows_def)

lemma ostep_grows: "ostep db db' \<Longrightarrow> log_grows db db'"
  by (induction rule: ostep.induct) (auto simp: log_grows_def intro: bstep_grows[unfolded log_grows_def])

lemma dstep_grows: "dstep db db' \<Longrightarrow> log_grows db db'"
  by (induction rule: dstep.induct) (auto simp: log_grows_def intro: ostep_grows[unfolded log_grows_def])

lemma dsteps_grow: "dsteps db db' \<Longrightarrow> log_grows db db'"
  by (induction rule: rtranclp_induct) (auto intro: grow.S_refl grow.S_trans dstep_grows)

section \<open>Nesting and triage\<close>

definition nesting_ok :: "Db \<Rightarrow> bool" where
  "nesting_ok db = list_all (\<lambda>t. parent_ok (tk_parent_task_id t) db) (db_tasks db)"

definition rows_triage_ok :: "Db \<Rightarrow> bool" where
  "rows_triage_ok db = list_all row_triage_ok (db_tasks db)"

lemma list_all_append: "list_all p (xs @ ys) = (list_all p xs \<and> list_all p ys)"
  by simp

lemma list_all_upd: "list_all p rows \<Longrightarrow> (\<And>r. r \<in> set rows \<Longrightarrow> p r \<Longrightarrow> c r \<Longrightarrow> p (f r)) \<Longrightarrow> list_all p (upd_where c f rows)"
  by (auto simp: list_all_iff in_upd_where)

lemma list_all_upd_by: "list_all p rows \<Longrightarrow> (\<And>r. r \<in> set rows \<Longrightarrow> p r \<Longrightarrow> k r = i \<Longrightarrow> p (f r)) \<Longrightarrow> list_all p (upd_by k i f rows)"
  by (simp add: upd_by_def list_all_upd)

lemma row_triage_keep: "row_triage_ok r \<Longrightarrow> row_triage_ok (r\<lparr>tk_status := s, tk_updated_at := now\<rparr>)"
  "row_triage_ok r \<Longrightarrow> row_triage_ok (r\<lparr>tk_updated_at := now, tr_sort_key := n\<rparr>)"
  "row_triage_ok r \<Longrightarrow> row_triage_ok (carried_row now j k r)"
  by (simp_all add: row_triage_ok_def carried_row_def)

lemma triage_bstep: "bstep db db' \<Longrightarrow> rows_triage_ok db \<Longrightarrow> rows_triage_ok db'"
proof (induction rule: bstep.induct)
  case (carry_task i db src to_week now new_id e)
  from carry_task(1,8) have "row_triage_ok src"
    by (auto simp: rows_triage_ok_def list_all_iff dest!: row_by_mem)
  with carry_task show ?case by (simp add: rows_triage_ok_def row_triage_keep)
qed (auto simp: rows_triage_ok_def row_triage_keep row_triage_ok_def[of "_\<lparr>tk_direction_id := _\<rparr>"] row_triage_ok_def
    intro!: list_all_upd list_all_upd_by)

lemma bstep_tasks: "ostep db db' \<Longrightarrow> \<not> bstep db db' \<Longrightarrow> db_tasks db' = db_tasks db"
  by (induction rule: ostep.induct) auto

lemma dstep_tasks: "dstep db db' \<Longrightarrow> \<not> ostep db db' \<Longrightarrow> db_tasks db' = db_tasks db"
  by (induction rule: dstep.induct) auto

interpretation triage: store_invariant rows_triage_ok
  by unfold_locales (erule (1) triage_bstep | simp add: rows_triage_ok_def bstep_tasks dstep_tasks migrated_db_def)+

lemma nesting_bstep: "bstep db db' \<Longrightarrow> nesting_ok db \<Longrightarrow> nesting_ok db'"
proof -
  assume s: "bstep db db'" and n: "nesting_ok db"
  have keep: "parent_ok p db \<Longrightarrow> parent_ok p db'" for p by (rule parent_stable1[OF s])
  have "\<forall>t \<in> set (db_tasks db'). \<exists>q. parent_ok q db \<and> tk_parent_task_id t = q"
    using s n
  proof (induction rule: bstep.induct)
    case (carry_task i db src to_week now new_id e)
    then show ?case by (auto simp: nesting_ok_def list_all_iff carried_row_def dest!: row_by_mem)
  qed (auto simp: nesting_ok_def list_all_iff upd_by_def in_upd_where)
  then show ?thesis using keep by (auto simp: nesting_ok_def list_all_iff)
qed

lemma nesting_same: "db_tasks db' = db_tasks db \<Longrightarrow> nesting_ok db' = nesting_ok db"
proof -
  assume "db_tasks db' = db_tasks db"
  then have "parent_ok p db' = parent_ok p db" for p by (cases p) (simp_all add: parent_ok_def)
  with \<open>db_tasks db' = db_tasks db\<close> show ?thesis by (simp add: nesting_ok_def)
qed

interpretation nesting: store_invariant nesting_ok
  by unfold_locales (erule (1) nesting_bstep
    | simp add: nesting_same[OF bstep_tasks] nesting_same[OF dstep_tasks]
    | simp add: nesting_ok_def migrated_db_def)+

end
