(* ===== verification/Event_Log.thy ===== *)
theory Event_Log
  imports Invariants
begin

text \<open>
  The event log as the source of truth (the header of \<open>src/store/repo.rs\<close>: every status change
  appends an event in the transaction of the write). \<open>replay\<close> reads the status of one entity off
  the log, refusing any illegal move; for seven kinds of entity it returns the status column of
  the row after every sequence of calls. The interface \<open>event_sourced\<close> extends
  \<open>status_machine\<close>, so a terminal status is final for the row too.
\<close>

section \<open>Replay\<close>

definition status_log :: "string \<Rightarrow> string \<Rightarrow> Event list \<Rightarrow> Event list" where
  "status_log entity i es = filter (\<lambda>e. ev_entity e = entity \<and> ev_entity_id e = i \<and> ev_to e \<noteq> None) es"

text \<open>\<open>None\<close>: the log is corrupt. \<open>Some None\<close>: there is no such entity.\<close>

fun replay ::
  "(string \<Rightarrow> 's option) \<Rightarrow> ('s \<Rightarrow> bool) \<Rightarrow> ('s \<Rightarrow> 's \<Rightarrow> bool) \<Rightarrow> 's option \<Rightarrow> Event list \<Rightarrow> 's option option" where
  "replay rd initial allowed cur [] = Some cur"
| "replay rd initial allowed cur (e # es) =
     (case Option.bind (ev_to e) rd of
        None \<Rightarrow> None
      | Some t \<Rightarrow> (case cur of
          None \<Rightarrow> if ev_from e = None \<and> initial t then replay rd initial allowed (Some t) es else None
        | Some s \<Rightarrow> if Option.bind (ev_from e) rd = Some s \<and> allowed s t
            then replay rd initial allowed (Some t) es else None))"

lemma replay_append: "replay rd initial allowed cur (es @ es') =
    Option.bind (replay rd initial allowed cur es) (\<lambda>c. replay rd initial allowed c es')"
  by (induction es arbitrary: cur) (auto split: option.split)

lemma status_log_snoc: "status_log entity i (es @ [e]) = status_log entity i es @
    (if ev_entity e = entity \<and> ev_entity_id e = i \<and> ev_to e \<noteq> None then [e] else [])"
  by (simp add: status_log_def)

text \<open>
  A step either leaves the statuses of the entity and its log alone, or changes one status and
  appends the event that says so.
\<close>

definition logged_change ::
  "string \<Rightarrow> ('s \<Rightarrow> string) \<Rightarrow> ('s \<Rightarrow> bool) \<Rightarrow> ('s \<Rightarrow> 's \<Rightarrow> bool) \<Rightarrow> (string \<rightharpoonup> 's) \<Rightarrow> (string \<rightharpoonup> 's) \<Rightarrow> Event \<Rightarrow> bool" where
  "logged_change entity wire initial allowed v v' e =
     (\<exists>t. v' = v(ev_entity_id e \<mapsto> t) \<and> ev_entity e = entity \<and> ev_to e = Some (wire t)
        \<and> (case v (ev_entity_id e) of None \<Rightarrow> ev_from e = None \<and> initial t
           | Some s \<Rightarrow> ev_from e = Some (wire s) \<and> allowed s t))"

definition sourced ::
  "string \<Rightarrow> ('s \<Rightarrow> string) \<Rightarrow> ('s \<Rightarrow> bool) \<Rightarrow> ('s \<Rightarrow> 's \<Rightarrow> bool) \<Rightarrow> (Db \<Rightarrow> string \<rightharpoonup> 's) \<Rightarrow> Db \<Rightarrow> Db \<Rightarrow> bool" where
  "sourced entity wire initial allowed view db db' =
     ((view db' = view db \<and> (\<forall>i. status_log entity i (db_events db') = status_log entity i (db_events db)))
      \<or> (\<exists>e. db_events db' = db_events db @ [e] \<and> logged_change entity wire initial allowed (view db) (view db') e))"

locale event_sourced = status_machine allowed terminal check err
  for allowed :: "'s \<Rightarrow> 's \<Rightarrow> bool" and terminal check err +
  fixes entity :: string
    and rd :: "string \<Rightarrow> 's option" and wire :: "'s \<Rightarrow> string"
    and initial :: "'s \<Rightarrow> bool"
    and view :: "Db \<Rightarrow> string \<rightharpoonup> 's"
  assumes codec: "rd (wire s) = Some s"
    and fresh: "view migrated_db = Map.empty"
    and logged: "dstep db db' \<Longrightarrow> sourced entity wire initial allowed view db db'"
begin

lemma replay_step:
  assumes "dstep db db'" and IH: "\<And>i. replay rd initial allowed None (status_log entity i (db_events db)) = Some (view db i)"
  shows "replay rd initial allowed None (status_log entity i (db_events db')) = Some (view db' i)"
  using logged[OF assms(1)] unfolding sourced_def
proof (elim disjE exE conjE)
  fix e
  assume ev: "db_events db' = db_events db @ [e]"
    and c: "logged_change entity wire initial allowed (view db) (view db') e"
  then show ?thesis
    by (cases "view db (ev_entity_id e)")
      (auto simp: logged_change_def status_log_snoc replay_append IH codec)
qed (simp add: IH)

lemma replayed: "replay rd initial allowed None (status_log entity i (db_events (db_after env calls))) =
    Some (view (db_after env calls) i)"
proof -
  let ?I = "\<lambda>db. \<forall>i. replay rd initial allowed None (status_log entity i (db_events db)) = Some (view db i)"
  have "db_events migrated_db = []" by (simp add: migrated_db_def)
  then have "?I migrated_db" by (simp add: fresh status_log_def)
  then have "?I (db_after env calls)"
    by (rule run_invariant[where I = ?I]) (use replay_step in blast)
  then show ?thesis by simp
qed

lemma view_step:
  assumes "dstep db db'" and v: "view db i = Some s"
  shows "view db' i = Some s \<or> (\<exists>t. allowed s t \<and> view db' i = Some t)"
  using logged[OF assms(1)] unfolding sourced_def
proof (elim disjE exE conjE)
  fix e
  assume "logged_change entity wire initial allowed (view db) (view db') e"
  then show ?thesis using v by (cases "ev_entity_id e = i") (auto simp: logged_change_def)
qed (simp add: v)

lemma legal_history: "dsteps db db' \<Longrightarrow> view db i = Some s \<Longrightarrow>
    \<exists>ts. legal_run allowed s ts \<and> view db' i = Some (last (s # ts))"
proof (induction rule: rtranclp_induct)
  case base
  then have "legal_run allowed s [] \<and> view db i = Some (last [s])" by simp
  then show ?case by blast
next
  case (step db1 db2)
  then obtain ts where ts: "legal_run allowed s ts" "view db1 i = Some (last (s # ts))" by blast
  have ext: "legal_run allowed s (ts @ [t])" if "allowed (last (s # ts)) t" for t
    using ts(1) that by (induction ts arbitrary: s) auto
  show ?case
    using view_step[OF step.hyps(2) ts(2)]
  proof (elim disjE exE conjE)
    fix t
    assume "allowed (last (s # ts)) t" "view db2 i = Some t"
    then have "legal_run allowed s (ts @ [t]) \<and> view db2 i = Some (last (s # ts @ [t]))" using ext by simp
    then show ?thesis by blast
  qed (use ts in blast)
qed

lemma final: "dsteps db db' \<Longrightarrow> view db i = Some s \<Longrightarrow> terminal s \<Longrightarrow> view db' i = Some s"
  using legal_history[of db db' i s] terminal_run[of s] by fastforce

end

section \<open>The seven kinds of entity\<close>

definition area_view :: "Db \<Rightarrow> string \<rightharpoonup> AreaStatus" where
  "area_view db i = map_option ar_status (row_by ar_id i (db_areas db))"

definition week_view :: "Db \<Rightarrow> string \<rightharpoonup> WeekStatus" where
  "week_view db i = map_option wk_status (row_by wk_id i (db_weeks db))"

definition rhythm_view :: "Db \<Rightarrow> string \<rightharpoonup> RhythmStatus" where
  "rhythm_view db i = map_option rh_status (row_by rh_id i (db_rhythms db))"

definition task_view :: "Db \<Rightarrow> string \<rightharpoonup> TaskStatus" where
  "task_view db i = map_option tk_status (row_by tk_id i (db_tasks db))"

definition block_view :: "Db \<Rightarrow> string \<rightharpoonup> ScheduleBlockStatus" where
  "block_view db i = map_option bl_status (row_by bl_id i (db_blocks db))"

definition review_view :: "Db \<Rightarrow> string \<rightharpoonup> ReviewStatus" where
  "review_view db i = map_option rv_status (row_by rv_id i (db_reviews db))"

definition routine_view :: "Db \<Rightarrow> string \<rightharpoonup> RoutineStatus" where
  "routine_view db i = map_option ro_status (row_by ro_id i (db_routines db))"

lemmas view_defs = area_view_def week_view_def rhythm_view_def task_view_def block_view_def review_view_def
  routine_view_def

lemma sourced_same: "view db' = view db \<Longrightarrow> db_events db' = db_events db @ es \<Longrightarrow>
    (\<forall>e \<in> set es. ev_entity e \<noteq> entity \<or> ev_to e = None) \<Longrightarrow> sourced entity wire initial allowed view db db'"
  by (auto simp: sourced_def status_log_def)

lemma sourced_other: "view db' = view db \<Longrightarrow> ev_entity e \<noteq> entity \<or> ev_to e = None \<Longrightarrow>
    db_events db' = db_events db @ [e] \<Longrightarrow> sourced entity wire initial allowed view db db'"
  by (rule sourced_same[where es = "[e]"]) auto

lemma sourced_quiet: "view db' = view db \<Longrightarrow> db_events db' = db_events db \<Longrightarrow> sourced entity wire initial allowed view db db'"
  by (rule sourced_same[where es = "[]"]) auto

lemma sourced_new: "view db i = None \<Longrightarrow> view db' = (view db)(i \<mapsto> t) \<Longrightarrow> db_events db' = db_events db @ [e] \<Longrightarrow>
    status_event e entity i None (wire t) \<Longrightarrow> initial t \<Longrightarrow> sourced entity wire initial allowed view db db'"
  by (auto simp: sourced_def logged_change_def status_event_def)

lemma sourced_move: "view db i = Some s \<Longrightarrow> view db' = (view db)(i \<mapsto> t) \<Longrightarrow> db_events db' = db_events db @ [e] \<Longrightarrow>
    status_event e entity i (Some (wire s)) (wire t) \<Longrightarrow> allowed s t \<Longrightarrow> sourced entity wire initial allowed view db db'"
  by (auto simp: sourced_def logged_change_def status_event_def)

lemma view_insert: "\<not> taken k (k r) rows \<Longrightarrow> (\<lambda>i. map_option g (row_by k i (rows @ [r]))) =
    (\<lambda>i. map_option g (row_by k i rows))(k r \<mapsto> g r)"
proof (rule ext)
  fix i
  assume "\<not> taken k (k r) rows"
  then have "row_by k (k r) rows = None" by (simp add: row_by_None taken_def)
  then show "map_option g (row_by k i (rows @ [r])) = ((\<lambda>i. map_option g (row_by k i rows))(k r \<mapsto> g r)) i"
    by (simp add: row_by_insert)
qed

lemma view_update: "row_by k i rows = Some r \<Longrightarrow> (\<And>r. k (f r) = k r) \<Longrightarrow> (\<And>r. g (f r) = t) \<Longrightarrow>
    (\<lambda>j. map_option g (row_by k j (upd_by k i f rows))) = (\<lambda>j. map_option g (row_by k j rows))(i \<mapsto> t)"
  by (rule ext) (auto simp: row_by_update)

lemma not_taken_row: "\<not> taken k i rows \<Longrightarrow> row_by k i rows = None"
  by (simp add: row_by_None taken_def)

lemmas view_frame = observe_upd_where observe_upd_by row_by_map option.map_comp comp_def

abbreviation "area_sourced \<equiv> sourced ''area'' area_status_wire (\<lambda>s. s = Area_Active) area_transition_allowed area_view"

lemma area_bstep: "bstep db db' \<Longrightarrow> area_sourced db db'"
proof (induction rule: bstep.induct)
  case (new_area r db e)
  then show ?case
    by (intro sourced_new[where i = "ar_id r" and e = e])
      (auto simp: area_view_def[abs_def] violation_defs view_insert not_taken_row)
qed (rule sourced_other sourced_quiet; auto simp: area_view_def[abs_def] status_event_def view_frame)+

lemma area_ostep: "ostep db db' \<Longrightarrow> area_sourced db db'"
proof (induction rule: ostep.induct)
  case (batch db db')
  then show ?case by (rule area_bstep)
next
  case (move_area i db r to e now)
  then show ?case
    by (intro sourced_move[where i = i and e = e])
      (auto simp: area_view_def[abs_def] view_update)
qed (rule sourced_other sourced_quiet; auto simp: area_view_def[abs_def] status_event_def view_frame)+

lemma area_dstep: "dstep db db' \<Longrightarrow> area_sourced db db'"
proof (induction rule: dstep.induct)
  case (other db db')
  then show ?case by (rule area_ostep)
qed (rule sourced_other sourced_quiet; auto simp: area_view_def[abs_def] status_event_def view_frame)+

abbreviation "week_sourced \<equiv> sourced ''week'' week_status_wire (\<lambda>s. s = Week_Planning) week_transition_allowed week_view"

lemma week_bstep: "bstep db db' \<Longrightarrow> week_sourced db db'"
proof (induction rule: bstep.induct)
qed (rule sourced_other sourced_quiet; auto simp: week_view_def[abs_def] status_event_def view_frame)+

lemma week_ostep: "ostep db db' \<Longrightarrow> week_sourced db db'"
proof (induction rule: ostep.induct)
  case (batch db db')
  then show ?case by (rule week_bstep)
next
  case (new_week r db e)
  then show ?case
    by (intro sourced_new[where i = "wk_id r" and e = e])
      (auto simp: week_view_def[abs_def] violation_defs view_insert not_taken_row)
next
  case (move_week i db r to e now)
  then show ?case
    by (intro sourced_move[where i = i and e = e])
      (auto simp: week_view_def[abs_def] view_update)
qed (rule sourced_other sourced_quiet; auto simp: week_view_def[abs_def] status_event_def view_frame)+

lemma week_dstep: "dstep db db' \<Longrightarrow> week_sourced db db'"
proof (induction rule: dstep.induct)
  case (other db db')
  then show ?case by (rule week_ostep)
qed (rule sourced_other sourced_quiet; auto simp: week_view_def[abs_def] status_event_def view_frame)+

abbreviation "block_sourced \<equiv> sourced ''block'' schedule_block_status_wire (\<lambda>s. s = Block_Planned) schedule_block_transition_allowed block_view"

lemma block_bstep: "bstep db db' \<Longrightarrow> block_sourced db db'"
proof (induction rule: bstep.induct)
qed (rule sourced_other sourced_quiet; auto simp: block_view_def[abs_def] status_event_def view_frame)+

lemma block_ostep: "ostep db db' \<Longrightarrow> block_sourced db db'"
proof (induction rule: ostep.induct)
  case (batch db db')
  then show ?case by (rule block_bstep)
next
  case (new_block r db e)
  then show ?case
    by (intro sourced_new[where i = "bl_id r" and e = e])
      (auto simp: block_view_def[abs_def] violation_defs view_insert not_taken_row)
next
  case (move_block i db r to e now)
  then show ?case
    by (intro sourced_move[where i = i and e = e])
      (auto simp: block_view_def[abs_def] view_update)
qed (rule sourced_other sourced_quiet; auto simp: block_view_def[abs_def] status_event_def view_frame)+

lemma block_dstep: "dstep db db' \<Longrightarrow> block_sourced db db'"
proof (induction rule: dstep.induct)
  case (other db db')
  then show ?case by (rule block_ostep)
qed (rule sourced_other sourced_quiet; auto simp: block_view_def[abs_def] status_event_def view_frame)+

abbreviation "review_sourced \<equiv> sourced ''review'' review_status_wire (\<lambda>s. s = Review_Draft) review_transition_allowed review_view"

lemma review_bstep: "bstep db db' \<Longrightarrow> review_sourced db db'"
proof (induction rule: bstep.induct)
qed (rule sourced_other sourced_quiet; auto simp: review_view_def[abs_def] status_event_def view_frame)+

lemma review_ostep: "ostep db db' \<Longrightarrow> review_sourced db db'"
proof (induction rule: ostep.induct)
  case (batch db db')
  then show ?case by (rule review_bstep)
next
  case (new_review r db e)
  then show ?case
    by (intro sourced_new[where i = "rv_id r" and e = e])
      (auto simp: review_view_def[abs_def] violation_defs view_insert not_taken_row)
next
  case (finalize i db r e ref now)
  then show ?case
    by (intro sourced_move[where i = i and e = e])
      (auto simp: review_view_def[abs_def] view_update)
qed (rule sourced_other sourced_quiet; auto simp: review_view_def[abs_def] status_event_def view_frame)+

lemma review_dstep: "dstep db db' \<Longrightarrow> review_sourced db db'"
proof (induction rule: dstep.induct)
  case (other db db')
  then show ?case by (rule review_ostep)
qed (rule sourced_other sourced_quiet; auto simp: review_view_def[abs_def] status_event_def view_frame)+

abbreviation "routine_sourced \<equiv> sourced ''routine'' routine_status_wire (\<lambda>s. s = Routine_Active) routine_transition_allowed routine_view"

lemma routine_bstep: "bstep db db' \<Longrightarrow> routine_sourced db db'"
proof (induction rule: bstep.induct)
qed (rule sourced_other sourced_quiet; auto simp: routine_view_def[abs_def] status_event_def view_frame)+

lemma routine_ostep: "ostep db db' \<Longrightarrow> routine_sourced db db'"
proof (induction rule: ostep.induct)
  case (batch db db')
  then show ?case by (rule routine_bstep)
next
  case (new_routine r db e)
  then show ?case
    by (intro sourced_new[where i = "ro_id r" and e = e])
      (auto simp: routine_view_def[abs_def] violation_defs view_insert not_taken_row)
next
  case (move_routine i db r to e now)
  then show ?case
    by (intro sourced_move[where i = i and e = e])
      (auto simp: routine_view_def[abs_def] view_update)
qed (rule sourced_other sourced_quiet; auto simp: routine_view_def[abs_def] status_event_def view_frame)+

lemma routine_dstep: "dstep db db' \<Longrightarrow> routine_sourced db db'"
proof (induction rule: dstep.induct)
  case (other db db')
  then show ?case by (rule routine_ostep)
qed (rule sourced_other sourced_quiet; auto simp: routine_view_def[abs_def] status_event_def view_frame)+

abbreviation "rhythm_sourced \<equiv> sourced ''rhythm'' rhythm_status_wire (\<lambda>s. s = Rhythm_Active) rhythm_transition_allowed rhythm_view"

lemma rhythm_bstep: "bstep db db' \<Longrightarrow> rhythm_sourced db db'"
proof (induction rule: bstep.induct)
  case (adjust_rhythm i db r as e now)
  then show ?case
    by (intro sourced_move[where i = i and e = e])
      (auto simp: rhythm_view_def[abs_def] view_update)
qed (rule sourced_other sourced_quiet; auto simp: rhythm_view_def[abs_def] status_event_def view_frame)+

lemma rhythm_ostep: "ostep db db' \<Longrightarrow> rhythm_sourced db db'"
proof (induction rule: ostep.induct)
  case (batch db db')
  then show ?case by (rule rhythm_bstep)
next
  case (new_rhythm r db e)
  then show ?case
    by (intro sourced_new[where i = "rh_id r" and e = e])
      (auto simp: rhythm_view_def[abs_def] violation_defs view_insert not_taken_row)
qed (rule sourced_other sourced_quiet; auto simp: rhythm_view_def[abs_def] status_event_def view_frame)+

lemma rhythm_dstep: "dstep db db' \<Longrightarrow> rhythm_sourced db db'"
proof (induction rule: dstep.induct)
  case (other db db')
  then show ?case by (rule rhythm_ostep)
qed (rule sourced_other sourced_quiet; auto simp: rhythm_view_def[abs_def] status_event_def view_frame)+

abbreviation "task_sourced \<equiv> sourced ''task'' task_status_wire (\<lambda>s. s = Task_Backlog \<or> s = Task_Planned) task_transition_allowed task_view"

lemma task_bstep: "bstep db db' \<Longrightarrow> task_sourced db db'"
proof (induction rule: bstep.induct)
  case (new_task r db e)
  then show ?case
    by (intro sourced_new[where i = "tk_id r" and e = e])
      (auto simp: task_view_def[abs_def] violation_defs view_insert not_taken_row)
next
  case (carry_task i db src to_week now new_id e)
  then show ?case
    using view_insert[of tk_id "carried_row now new_id to_week src" "db_tasks db" tk_status]
    by (intro sourced_new[where i = new_id and t = Task_Planned and e = e])
      (auto simp: task_view_def[abs_def] violation_defs not_taken_row carried_row_def)
next
  case (move_task i db r to e now)
  then show ?case
    by (intro sourced_move[where i = i and e = e])
      (auto simp: task_view_def[abs_def] view_update)
qed (rule sourced_other sourced_quiet; auto simp: task_view_def[abs_def] status_event_def view_frame)+

lemma task_ostep: "ostep db db' \<Longrightarrow> task_sourced db db'"
proof (induction rule: ostep.induct)
  case (batch db db')
  then show ?case by (rule task_bstep)
qed (rule sourced_other sourced_quiet; auto simp: task_view_def[abs_def] status_event_def view_frame)+

lemma task_dstep: "dstep db db' \<Longrightarrow> task_sourced db db'"
proof (induction rule: dstep.induct)
  case (other db db')
  then show ?case by (rule task_ostep)
qed (rule sourced_other sourced_quiet; auto simp: task_view_def[abs_def] status_event_def view_frame)+

interpretation area_log: event_sourced area_transition_allowed "\<lambda>_. False" check_area_transition TE_Area
  "''area''" area_status_of area_status_wire "\<lambda>s. s = Area_Active" area_view
  by unfold_locales (simp add: area_status.read_write | rule ext, simp add: area_view_def migrated_db_def | erule area_dstep)+

interpretation week_log: event_sourced week_transition_allowed week_is_terminal check_week_transition TE_Week
  "''week''" week_status_of week_status_wire "\<lambda>s. s = Week_Planning" week_view
  by unfold_locales (simp add: week_status.read_write | rule ext, simp add: week_view_def migrated_db_def | erule week_dstep)+

interpretation block_log: event_sourced schedule_block_transition_allowed schedule_block_is_terminal check_schedule_block_transition TE_ScheduleBlock
  "''block''" schedule_block_status_of schedule_block_status_wire "\<lambda>s. s = Block_Planned" block_view
  by unfold_locales (simp add: schedule_block_status.read_write | rule ext, simp add: block_view_def migrated_db_def | erule block_dstep)+

interpretation review_log: event_sourced review_transition_allowed review_is_terminal check_review_transition TE_Review
  "''review''" review_status_of review_status_wire "\<lambda>s. s = Review_Draft" review_view
  by unfold_locales (simp add: review_status.read_write | rule ext, simp add: review_view_def migrated_db_def | erule review_dstep)+

interpretation routine_log: event_sourced routine_transition_allowed routine_is_terminal check_routine_transition TE_Routine
  "''routine''" routine_status_of routine_status_wire "\<lambda>s. s = Routine_Active" routine_view
  by unfold_locales (simp add: routine_status.read_write | rule ext, simp add: routine_view_def migrated_db_def | erule routine_dstep)+

interpretation rhythm_log: event_sourced rhythm_transition_allowed rhythm_is_terminal check_rhythm_transition TE_Rhythm
  "''rhythm''" rhythm_status_of rhythm_status_wire "\<lambda>s. s = Rhythm_Active" rhythm_view
  by unfold_locales (simp add: rhythm_status.read_write | rule ext, simp add: rhythm_view_def migrated_db_def | erule rhythm_dstep)+

interpretation task_log: event_sourced task_transition_allowed task_is_terminal check_task_transition TE_Task
  "''task''" task_status_of task_status_wire "\<lambda>s. s = Task_Backlog \<or> s = Task_Planned" task_view
  by unfold_locales (simp add: task_status.read_write | rule ext, simp add: task_view_def migrated_db_def | erule task_dstep)+

end
