(* ===== verification/Store_Laws.thy ===== *)
theory Store_Laws
  imports Event_Log
begin

text \<open>
  Invariants of the tables: every reference points to a row, every rhythm divides at most its
  hundred percent among existing directions, one live outbox row per entity, and the tasks of a
  week that is no longer open stay as they are.
\<close>

section \<open>References\<close>

lemma taken_append [simp]: "taken k i (rows @ rows') = (taken k i rows \<or> taken k i rows')"
  by (auto simp: taken_def)

lemma taken_upd_where: "(\<And>r. k (f r) = k r) \<Longrightarrow> taken k i (upd_where c f rows) = taken k i rows"
  by (simp add: taken_def map_upd_where flip: set_map)

lemma taken_upd_by: "(\<And>r. k (f r) = k r) \<Longrightarrow> taken k i (upd_by k' j f rows) = taken k i rows"
  by (simp add: upd_by_def taken_upd_where)

lemma taken_map: "(\<And>r. k (f r) = k r) \<Longrightarrow> taken k i (map f rows) = taken k i rows"
  by (simp add: taken_def image_image)

lemma fk_append: "fk k rows i \<Longrightarrow> fk k (rows @ rows') i"
  by (auto simp: fk_def split: option.splits)

lemma fk_upd_where: "(\<And>r. k (f r) = k r) \<Longrightarrow> fk k (upd_where c f rows) i = fk k rows i"
  by (auto simp: fk_def taken_upd_where split: option.split)

lemma fk_upd_by: "(\<And>r. k (f r) = k r) \<Longrightarrow> fk k (upd_by k' j f rows) i = fk k rows i"
  by (simp add: upd_by_def fk_upd_where)

lemma fk_map: "(\<And>r. k (f r) = k r) \<Longrightarrow> fk k (map f rows) i = fk k rows i"
  by (auto simp: fk_def taken_map split: option.split)

lemma fk_snoc_self: "fk k (rows @ [r]) (Some i) = (fk k rows (Some i) \<or> i = k r)"
  by (auto simp: fk_def taken_def)

definition refs_ok :: "Db \<Rightarrow> bool" where
  "refs_ok db = (list_all (\<lambda>d. fk ar_id (db_areas db) (di_area_id d)) (db_directions db)
     \<and> list_all (\<lambda>t. fk di_id (db_directions db) (tk_direction_id t) \<and> fk wk_id (db_weeks db) (tk_week_id t)
          \<and> fk tk_id (db_tasks db) (tk_carried_from t) \<and> fk tk_id (db_tasks db) (tk_parent_task_id t)) (db_tasks db)
     \<and> list_all (\<lambda>b. fk di_id (db_directions db) (bl_direction_id b) \<and> fk tk_id (db_tasks db) (bl_task_id b)) (db_blocks db)
     \<and> list_all (\<lambda>r. fk wk_id (db_weeks db) (rv_week_id r)) (db_reviews db)
     \<and> list_all (\<lambda>r. fk ar_id (db_areas db) (ro_area_id r) \<and> fk di_id (db_directions db) (ro_direction_id r)) (db_routines db)
     \<and> list_all (\<lambda>f. taken ro_id (rf_routine_id f) (db_routines db)) (db_fires db)
     \<and> list_all (\<lambda>q. taken pp_id (rj_proposal_id q) (db_proposals db)) (db_rejections db)
     \<and> list_all (\<lambda>e. taken tk_id (ce_task_id e) (db_tasks db)) (db_classify_evals db))"

lemmas ref_simps = refs_ok_def violation_defs fk_upd_where fk_upd_by fk_map taken_upd_where taken_upd_by taken_map

lemma list_all_mono: "list_all p rows \<Longrightarrow> (\<And>r. p r \<Longrightarrow> q r) \<Longrightarrow> list_all q rows"
  by (auto simp: list_all_iff)

lemma refs_bstep: "bstep db db' \<Longrightarrow> refs_ok db \<Longrightarrow> refs_ok db'"
proof (induction rule: bstep.induct)
  case (carry_task i db src to_week now new_id e)
  then show ?case by (auto simp: ref_simps carried_row_def elim!: list_all_mono intro: fk_append)
next
  case (assign_task i db d via entered_at now)
  then show ?case
    by (auto simp: ref_simps intro!: list_all_upd) (auto simp: list_all_iff fk_def)
qed (auto simp: ref_simps elim!: list_all_mono intro: fk_append intro!: list_all_upd list_all_upd_by)

lemma refs_ostep: "ostep db db' \<Longrightarrow> refs_ok db \<Longrightarrow> refs_ok db'"
proof (induction rule: ostep.induct)
  case (batch db db')
  then show ?case by (rule refs_bstep)
next
  case (re_eval i db at)
  then show ?case
    by (auto simp: ref_simps upsert_eval_def intro!: list_all_upd_by)
qed (auto simp: ref_simps list.pred_map comp_def elim!: list_all_mono intro: fk_append intro!: list_all_upd list_all_upd_by)

lemma refs_dstep: "dstep db db' \<Longrightarrow> refs_ok db \<Longrightarrow> refs_ok db'"
proof (induction rule: dstep.induct)
  case (other db db')
  then show ?case by (rule refs_ostep)
qed (auto simp: ref_simps elim!: list_all_mono)

interpretation refs: store_invariant refs_ok
  by unfold_locales (erule (1) refs_bstep refs_ostep refs_dstep
    | simp add: refs_ok_def migrated_db_def triage_direction_def fk_def)+

section \<open>Rhythms\<close>

definition rhythms_ok :: "Db \<Rightarrow> bool" where
  "rhythms_ok db = list_all (\<lambda>r. check_alloc (rh_allocations r) = Inr () \<and> dirs_exist (rh_allocations r) db) (db_rhythms db)"

lemma dirs_exist_cong: "(\<And>i. taken di_id i (db_directions db) \<Longrightarrow> taken di_id i (db_directions db')) \<Longrightarrow>
    dirs_exist as db \<Longrightarrow> dirs_exist as db'"
  by (auto simp: dirs_exist_def list_all_iff)

lemma directions_grow: "bstep db db' \<Longrightarrow> taken di_id i (db_directions db) \<Longrightarrow> taken di_id i (db_directions db')"
  by (induction rule: bstep.induct) auto

lemma directions_same: "ostep db db' \<Longrightarrow> \<not> bstep db db' \<Longrightarrow> db_directions db' = db_directions db"
  by (induction rule: ostep.induct) auto

lemma rhythms_bstep: "bstep db db' \<Longrightarrow> rhythms_ok db \<Longrightarrow> rhythms_ok db'"
proof -
  assume s: "bstep db db'" and r: "rhythms_ok db"
  have "list_all (\<lambda>r. check_alloc (rh_allocations r) = Inr () \<and> dirs_exist (rh_allocations r) db) (db_rhythms db')"
    using s r by (induction rule: bstep.induct) (auto simp: rhythms_ok_def intro!: list_all_upd_by)
  then show ?thesis
    using dirs_exist_cong[OF directions_grow[OF s]] by (auto simp: rhythms_ok_def list_all_iff)
qed

lemma rhythms_ostep: "ostep db db' \<Longrightarrow> \<not> bstep db db' \<Longrightarrow> rhythms_ok db \<Longrightarrow> rhythms_ok db'"
proof -
  assume s: "ostep db db'" "\<not> bstep db db'" and r: "rhythms_ok db"
  have "list_all (\<lambda>r. check_alloc (rh_allocations r) = Inr () \<and> dirs_exist (rh_allocations r) db) (db_rhythms db')"
    using s r by (induction rule: ostep.induct) (auto simp: rhythms_ok_def)
  then show ?thesis using directions_same[OF s] by (simp add: rhythms_ok_def dirs_exist_def)
qed

lemma dstep_rhythms: "dstep db db' \<Longrightarrow> \<not> ostep db db' \<Longrightarrow> db_rhythms db' = db_rhythms db \<and> db_directions db' = db_directions db"
  by (induction rule: dstep.induct) auto

interpretation rhythms: store_invariant rhythms_ok
  by unfold_locales (erule (1) rhythms_bstep | erule (2) rhythms_ostep
    | simp add: rhythms_ok_def migrated_db_def dstep_rhythms dirs_exist_def)+

section \<open>The outbox\<close>

definition live_keys :: "OutboxRow list \<Rightarrow> string list" where
  "live_keys rows = map ob_dedup_key (filter ob_live rows)"

definition outbox_ok :: "Db \<Rightarrow> bool" where
  "outbox_ok db = (keys_ok db \<and> distinct (live_keys (db_outbox db)))"

lemma rev_case_None: "(case rev xs of [] \<Rightarrow> None | y # ys \<Rightarrow> Some y) = None \<Longrightarrow> xs = []"
  by (cases xs rule: rev_cases) auto

lemma live_row_None: "live_row k rows = None \<Longrightarrow> k \<notin> set (live_keys rows)"
proof -
  assume "live_row k rows = None"
  from rev_case_None[OF this[unfolded live_row_def]]
  have "set (sort_key ob_created_at (filter (\<lambda>r. ob_dedup_key r = k \<and> ob_live r) rows)) = {}" by simp
  then show ?thesis by (auto simp: live_keys_def)
qed

lemma live_keys_overwrite:
  assumes "distinct (map ob_id rows)" and "r \<in> set rows" and "ob_live r"
  shows "live_keys (upd_by ob_id (ob_id r) (overwrite_row kind desired) rows) = live_keys rows"
proof -
  have "(if ob_id q = ob_id r then overwrite_row kind desired q else q) = q \<or>
      (q = r \<and> (if ob_id q = ob_id r then overwrite_row kind desired q else q) = overwrite_row kind desired r)"
    if "q \<in> set rows" for q
    using that assms by (auto simp: distinct_map inj_on_def)
  moreover have "ob_live (overwrite_row kind desired r)" "ob_dedup_key (overwrite_row kind desired r) = ob_dedup_key r"
    by (simp_all add: overwrite_row_def ob_live_def)
  ultimately have "\<forall>q \<in> set rows. ob_live (if ob_id q = ob_id r then overwrite_row kind desired q else q) = ob_live q
      \<and> ob_dedup_key (if ob_id q = ob_id r then overwrite_row kind desired q else q) = ob_dedup_key q"
    using assms(3) by (metis (full_types))
  then show ?thesis
    by (induction rows) (auto simp: live_keys_def upd_by_def upd_where_def)
qed

lemma live_keys_mark:
  assumes "\<And>r. ob_dedup_key (f r) = ob_dedup_key r"
  shows "\<exists>p. live_keys (upd_where (pending_at i v) f rows) = map ob_dedup_key (filter p (filter ob_live rows))"
proof (intro exI)
  have "ob_live r" if "pending_at i v r" for r using that by (simp add: pending_at_def ob_live_def)
  then show "live_keys (upd_where (pending_at i v) f rows) =
      map ob_dedup_key (filter (\<lambda>r. ob_live (if pending_at i v r then f r else r)) (filter ob_live rows))"
    by (induction rows) (auto simp: live_keys_def upd_where_def assms)
qed

lemma outbox_ostep: "ostep db db' \<Longrightarrow> outbox_ok db \<Longrightarrow> distinct (live_keys (db_outbox db'))"
proof (induction rule: ostep.induct)
  case (batch db db')
  then show ?case using bstep_frame by (simp add: outbox_ok_def)
next
  case (outbox_insert r db)
  then show ?case using live_row_None[OF outbox_insert(3)] by (auto simp: outbox_ok_def live_keys_def ob_live_def)
next
  case (outbox_overwrite r db kind desired)
  then show ?case
    using live_keys_overwrite[of "db_outbox db" r] live_row_mem[OF outbox_overwrite(1)] by (simp add: outbox_ok_def keys_ok_def)
next
  case (outbox_mark f db i v)
  obtain p where "live_keys (upd_where (pending_at i v) f (db_outbox db)) = map ob_dedup_key (filter p (filter ob_live (db_outbox db)))"
    using live_keys_mark[of f, OF outbox_mark(2)] by blast
  then show ?case
    using outbox_mark(7) by (simp add: outbox_ok_def live_keys_def distinct_map_filter del: filter_filter)
qed (auto simp: outbox_ok_def)

lemma outbox_dstep: "dstep db db' \<Longrightarrow> outbox_ok db \<Longrightarrow> distinct (live_keys (db_outbox db'))"
proof (induction rule: dstep.induct)
  case (other db db')
  then show ?case by (rule outbox_ostep)
next
  case (delivered db i v res now)
  obtain p where "live_keys (upd_where (pending_at i v) (\<lambda>r. r\<lparr>ob_status := ''done'', ob_done_at := Some now, ob_result_ref := res\<rparr>)
      (db_outbox db)) = map ob_dedup_key (filter p (filter ob_live (db_outbox db)))"
    using live_keys_mark[of "\<lambda>r. r\<lparr>ob_status := ''done'', ob_done_at := Some now, ob_result_ref := res\<rparr>" i v] by auto
  with delivered show ?case
    by (simp add: outbox_ok_def live_keys_def distinct_map_filter del: filter_filter)
qed (auto simp: outbox_ok_def)

lemma outbox_step: "dstep db db' \<Longrightarrow> outbox_ok db \<Longrightarrow> outbox_ok db'"
  using keys.step outbox_dstep by (metis outbox_ok_def)

interpretation outbox: store_invariant outbox_ok
  by unfold_locales (erule (1) outbox_step[OF dstep.other, OF ostep.batch] outbox_step[OF dstep.other] outbox_step
    | simp add: outbox_ok_def live_keys_def keys.migrated | simp add: migrated_db_def)+

section \<open>Closed weeks\<close>

definition closed_week :: "string \<Rightarrow> Db \<Rightarrow> bool" where
  "closed_week k db = (\<exists>r. row_by wk_id k (db_weeks db) = Some r \<and> \<not> week_is_open (wk_status r))"

definition tasks_of_week :: "string \<Rightarrow> Db \<Rightarrow> TaskRow list" where
  "tasks_of_week k db = filter (\<lambda>t. tk_week_id t = Some k) (db_tasks db)"

lemma filter_upd_where: "(\<And>r. r \<in> set rows \<Longrightarrow> c r \<Longrightarrow> \<not> p r \<and> \<not> p (f r)) \<Longrightarrow> filter p (upd_where c f rows) = filter p rows"
  by (induction rows) (auto simp: upd_where_def)

lemma open_not_closed: "week_open k db \<Longrightarrow> \<not> closed_week k db"
  by (auto simp: week_open_def closed_week_def split: option.splits)

lemma task_open_not_closed:
  assumes "task_week_open i db" and "keys_ok db" and "t \<in> set (db_tasks db)" and "tk_id t = i"
  shows "tk_week_id t \<noteq> Some k \<or> \<not> closed_week k db"
proof -
  have "row_by tk_id i (db_tasks db) = Some t" using assms by (simp add: row_by_iff keys_ok_def)
  with assms(1) show ?thesis
    by (auto simp: task_week_open_def week_of_task_def closed_week_def split: option.splits)
qed

lemma closed_bstep: "bstep db db' \<Longrightarrow> keys_ok db \<Longrightarrow> closed_week k db \<Longrightarrow> tasks_of_week k db' = tasks_of_week k db"
proof (induction rule: bstep.induct)
  case (new_task r db e)
  then show ?case using open_not_closed by (auto simp: tasks_of_week_def split: option.splits)
next
  case (carry_task i db src to_week now new_id e)
  then show ?case using open_not_closed by (auto simp: tasks_of_week_def carried_row_def)
next
  case (move_task i db r to e now)
  then show ?case
    using task_open_not_closed by (auto simp: tasks_of_week_def upd_by_def intro!: filter_upd_where)
next
  case (assign_task i db d via entered_at now)
  then show ?case
    using task_open_not_closed by (auto simp: tasks_of_week_def in_inbox_def intro!: filter_upd_where)
next
  case (touch_task j db i now n)
  then show ?case using open_not_closed by (auto simp: tasks_of_week_def intro!: filter_upd_where)
qed (auto simp: tasks_of_week_def)

lemma closed_same: "db_tasks db' = db_tasks db \<Longrightarrow> tasks_of_week k db' = tasks_of_week k db"
  by (simp add: tasks_of_week_def)

lemma closed_dstep: "dstep db db' \<Longrightarrow> keys_ok db \<Longrightarrow> closed_week k db \<Longrightarrow> tasks_of_week k db' = tasks_of_week k db"
  using closed_bstep closed_same bstep_tasks dstep_tasks by metis

lemma closed_stays: "dstep db db' \<Longrightarrow> closed_week k db \<Longrightarrow> closed_week k db'"
proof -
  assume s: "dstep db db'" and c: "closed_week k db"
  then obtain q where q: "week_view db k = Some q" "\<not> week_is_open q" by (auto simp: closed_week_def week_view_def)
  have "\<exists>q'. week_view db' k = Some q' \<and> \<not> week_is_open q'"
    using week_log.view_step[OF s q(1)] q by (auto elim: week_allowed_cases)
  then show ?thesis by (auto simp: closed_week_def week_view_def)
qed

lemma closed_dsteps: "dsteps db db' \<Longrightarrow> keys_ok db \<Longrightarrow> closed_week k db \<Longrightarrow> tasks_of_week k db' = tasks_of_week k db"
proof (induction rule: rtranclp_induct)
  case (step db1 db2)
  have "closed_week k db1" using step.hyps(1) step.prems(2) by (induction rule: rtranclp_induct) (auto intro: closed_stays)
  with step show ?case using closed_dstep keys.steps by metis
qed simp

end
