(* ===== verification/Id_Laws.thy ===== *)
theory Id_Laws
  imports Store_Review
begin

text \<open>
  The laws of ids, keys and names: ULIDs sort by their time, the kernel's key of a routine leads
  back to the routine, an area's slug is free and made of safe characters, a review's Markdown
  path stays inside of its directory and no two reviews share one.
\<close>

section \<open>ULIDs\<close>

lemma lex_prefix: "length xs = length ys \<Longrightarrow> xs < ys \<Longrightarrow> xs @ us < (ys :: string) @ vs"
  by (induction xs ys rule: list_induct2) auto

lemma lex_last: "(xs :: string) @ [a] < xs @ [b] \<longleftrightarrow> a < b"
  by (induction xs) auto

lemma B32_sorted: "sorted_wrt (<) B32"
  by (simp add: B32_def char_less_code)

lemma B32_mono: "i < j \<Longrightarrow> j < 32 \<Longrightarrow> B32 ! i < B32 ! j"
  using sorted_wrt_nth_less[OF B32_sorted] by (simp add: B32_def)

lemma length_ulid_time [simp]: "length (ulid_time k t) = k"
  by (induction k arbitrary: t) auto

lemma ulid_time_mono: "s < t \<Longrightarrow> t < 32 ^ k \<Longrightarrow> ulid_time k s < ulid_time k t"
proof (induction k arbitrary: s t)
  case (Suc k)
  have bound: "t div 32 < 32 ^ k" using Suc.prems(2) by (simp add: less_mult_imp_div_less mult.commute)
  show ?case
  proof (cases "s div 32 = t div 32")
    case True
    have "s mod 32 < t mod 32" using True Suc.prems(1) div_mult_mod_eq[of s 32] div_mult_mod_eq[of t 32] by linarith
    then show ?thesis using True B32_mono by (simp add: lex_last)
  next
    case False
    have "s div 32 \<le> t div 32" using Suc.prems(1) by (simp add: div_le_mono)
    with False have "ulid_time k (s div 32) < ulid_time k (t div 32)" using Suc.IH bound by simp
    then show ?thesis by (auto intro!: lex_prefix)
  qed
qed simp

lemma ulid_mono: "s < t \<Longrightarrow> t < 32 ^ 10 \<Longrightarrow> ulid_of s r < ulid_of t r'"
  unfolding ulid_of_def by (rule lex_prefix) (auto intro: ulid_time_mono)

lemma ulid_eq: "s < 32 ^ 10 \<Longrightarrow> t < 32 ^ 10 \<Longrightarrow> (ulid_of s r = ulid_of t r) = (s = t)"
  using ulid_mono[of s t r r] ulid_mono[of t s r r] by (metis less_irrefl linorder_neqE_nat)

section \<open>The kernel key of a routine\<close>

lemma ulid_time_chars: "set (ulid_time k t) \<subseteq> set B32"
proof -
  have "length B32 = 32" by (simp add: B32_def)
  then show ?thesis by (induction k arbitrary: t) auto
qed

lemma ulid_chars: "set (ulid_of ms rnd) \<subseteq> set B32"
proof -
  have "length B32 = 32" by (simp add: B32_def)
  then show ?thesis using ulid_time_chars[of 10 ms] by (auto simp: ulid_of_def)
qed

lemma B32_upper: "set xs \<subseteq> set B32 \<Longrightarrow> to_ascii_uppercase (to_ascii_lowercase xs) = xs"
proof -
  have "list_all (\<lambda>c. ascii_upper (ascii_lower c) = c) B32" by code_simp
  then show "set xs \<subseteq> set B32 \<Longrightarrow> ?thesis"
    by (induction xs) (auto simp: to_ascii_uppercase_def to_ascii_lowercase_def list_all_iff)
qed

lemma kernel_key_round_trip: "set i \<subseteq> set B32 \<Longrightarrow> i \<noteq> [] \<Longrightarrow> fire_routine_id (routine_kernel_key i) = Some i"
  using B32_upper[of i] strip_prefix_append[of "''routine.''" "to_ascii_lowercase i"]
  by (simp add: fire_routine_id_def routine_kernel_key_def to_ascii_lowercase_def)

section \<open>Slugs\<close>

text \<open>The name the search looks up after \<open>k\<close> others that have a number.\<close>

definition slug_candidate :: "string \<Rightarrow> nat \<Rightarrow> string" where
  "slug_candidate base k = numbered base (unat (2 + of_nat k :: u32))"

lemma slug_candidate_inj: "inj_on (slug_candidate base) {..< 2 ^ 32}"
proof (rule inj_onI)
  fix j k
  assume b: "j \<in> {..< 2 ^ 32}" "k \<in> {..< 2 ^ 32}" and eq: "slug_candidate base j = slug_candidate base k"
  then have "unat (2 + of_nat j :: u32) = unat (2 + of_nat k :: u32)" by (auto simp: slug_candidate_def dest: numbered_inj)
  then have "(of_nat j :: u32) = of_nat k" by (metis add_left_cancel word_unat_eq_iff)
  with b show "j = k" by (simp add: word_of_nat_eq_iff take_bit_eq_mod)
qed

lemma slug_loop_step: "slug \<in> set slugs \<Longrightarrow>
    slug_loop slugs base slug (2 + of_nat k) = slug_loop slugs base (slug_candidate base k) (2 + of_nat (Suc k))"
  by (subst slug_loop.simps) (simp add: slug_candidate_def ac_simps)

lemma slug_loop_finds: "(\<And>j. j < d \<Longrightarrow> slug_candidate base (k + j) \<in> set slugs) \<Longrightarrow> slug_candidate base (k + d) \<notin> set slugs \<Longrightarrow>
    slug_loop slugs base (slug_candidate base k) (2 + of_nat (Suc k)) = Some (slug_candidate base (k + d))"
proof (induction d arbitrary: k)
  case 0
  then show ?case by (subst slug_loop.simps) simp
next
  case (Suc d)
  have "slug_candidate base (Suc k + j) \<in> set slugs" if "j < d" for j using Suc.prems(1)[of "Suc j"] that by simp
  with Suc.IH[of "Suc k"] Suc.prems show ?case using slug_loop_step[of "slug_candidate base k" slugs base "Suc k"] Suc.prems(1)[of 0]
    by simp
qed

lemma slug_loop_candidate: "slug_loop slugs base slug n = Some r \<Longrightarrow>
    r \<notin> set slugs \<and> (r = slug \<or> (\<exists>m :: u32. r = numbered base (unat m)))"
proof (rule slug_loop.raw_induct[where P = "\<lambda>slugs base slug n r. r \<notin> set slugs \<and> (r = slug \<or> (\<exists>m :: u32. r = numbered base (unat m)))"])
  fix f :: "string list \<Rightarrow> string \<Rightarrow> string \<Rightarrow> u32 \<Rightarrow> string option" and slugs base slug n r
  assume ih: "\<And>slugs base slug n r. f slugs base slug n = Some r \<Longrightarrow>
      r \<notin> set slugs \<and> (r = slug \<or> (\<exists>m :: u32. r = numbered base (unat m)))"
    and ret: "(if slug \<notin> set slugs then Some slug else f slugs base (numbered base (unat n)) (n + 1)) = Some r"
  show "r \<notin> set slugs \<and> (r = slug \<or> (\<exists>m :: u32. r = numbered base (unat m)))"
    using ret ih[of slugs base "numbered base (unat n)" "n + 1" r] by (auto split: if_splits)
qed

lemma slug_candidate_number: "k < 2 ^ 32 - 2 \<Longrightarrow> slug_candidate base k = numbered base (k + 2)"
proof -
  assume "k < 2 ^ 32 - 2"
  then have "unat (of_nat (2 + k) :: u32) = 2 + k" unfolding unsigned_of_nat by (simp add: take_bit_eq_mod)
  then show ?thesis unfolding slug_candidate_def of_nat_add by (simp add: add.commute)
qed

lemma numbered_not_base [simp]: "numbered base n \<noteq> base"
  by (simp add: numbered_def)

text \<open>One of the names up to \<open>2 ^ 32 - 2\<close>, before the counter is at its end, is free when there are fewer areas.\<close>

lemma slug_some_free:
  assumes few: "length slugs < 2 ^ 32 - 2" and base: "base \<in> set slugs"
  shows "\<exists>k < 2 ^ 32 - 3. slug_candidate base k \<notin> set slugs"
proof (rule ccontr)
  let ?C = "slug_candidate base ` {..< 2 ^ 32 - 3}"
  assume "\<not> ?thesis"
  then have "insert base ?C \<subseteq> set slugs" using base by auto
  then have "card (insert base ?C) \<le> card (set slugs)" by (simp add: card_mono)
  moreover have "inj_on (slug_candidate base) {..< 2 ^ 32 - 3}" by (rule inj_on_subset[OF slug_candidate_inj]) auto
  then have "card ?C = 2 ^ 32 - 3" by (simp add: card_image)
  moreover have "base \<notin> ?C" by (auto simp: slug_candidate_def dest: sym)
  ultimately show False using card_length[of slugs] few by simp
qed

text \<open>When every numbered name is taken too, the search never ends.\<close>

lemma slug_search_endless:
  "base \<in> set slugs \<Longrightarrow> (\<And>m :: u32. numbered base (unat m) \<in> set slugs) \<Longrightarrow> slug_loop slugs base base n = None"
  using slug_loop_candidate[of slugs base base n] by (cases "slug_loop slugs base base n") auto

definition slug_char :: "char \<Rightarrow> bool" where
  "slug_char c = (is_ascii_digit c \<or> is_ascii_lower c \<or> c = CHR ''-'')"

definition slug_ok :: "string \<Rightarrow> bool" where
  "slug_ok s = (s \<noteq> [] \<and> list_all slug_char s \<and> hd s \<noteq> CHR ''-'' \<and> last s \<noteq> CHR ''-'')"

lemma lower_slug_char: "is_ascii_alphanumeric c \<Longrightarrow> slug_char (ascii_lower c) \<and> ascii_lower c \<noteq> CHR ''-''"
  by (auto simp: is_ascii_alphanumeric_def slug_char_def ascii_lower_def is_ascii_digit_def is_ascii_upper_def
      is_ascii_lower_def of_char_of char_eq_code simp del: of_char_eq_iff)

lemma slug_chars_ok:
  "list_all slug_char out \<Longrightarrow> out \<noteq> [] \<longrightarrow> hd out \<noteq> CHR ''-'' \<Longrightarrow>
     list_all slug_char (slug_chars d out cs) \<and> (slug_chars d out cs \<noteq> [] \<longrightarrow> hd (slug_chars d out cs) \<noteq> CHR ''-'')"
proof (induction d out cs rule: slug_chars.induct)
  case (2 d out c cs)
  then show ?case
    using lower_slug_char[of c] by (cases out) (auto simp: slug_char_def)
qed simp

lemma strip_dashes: "dropWhile (\<lambda>c. c = CHR ''-'') (rev xs) = rev ys \<Longrightarrow> \<exists>zs. xs = ys @ zs"
proof -
  assume "dropWhile (\<lambda>c. c = CHR ''-'') (rev xs) = rev ys"
  then have "rev xs = takeWhile (\<lambda>c. c = CHR ''-'') (rev xs) @ rev ys" by (metis takeWhile_dropWhile_id)
  then have "xs = ys @ rev (takeWhile (\<lambda>c. c = CHR ''-'') (rev xs))" by (metis rev_append rev_rev_ident)
  then show ?thesis by blast
qed

lemma slugify_ok: "slug_ok (slugify title)"
proof -
  let ?x = "slug_chars False [] title"
  let ?y = "rev (dropWhile (\<lambda>c. c = CHR ''-'') (rev ?x))"
  have x: "list_all slug_char ?x" "?x \<noteq> [] \<longrightarrow> hd ?x \<noteq> CHR ''-''" using slug_chars_ok[of "[]" False title] by simp_all
  obtain zs where z: "?x = ?y @ zs" using strip_dashes[of ?x ?y] by auto
  show ?thesis
  proof (cases "?y = []")
    case True
    then have "slugify title = ''area''" by (simp only: slugify_def Let_def simp_thms if_True)
    then show ?thesis by (simp add: slug_ok_def slug_char_def is_ascii_lower_def is_ascii_digit_def)
  next
    case False
    then have s: "slugify title = ?y" by (simp only: slugify_def Let_def simp_thms if_False)
    have "list_all slug_char ?y" using x(1) z by (metis list_all_append)
    moreover have "hd ?y \<noteq> CHR ''-''" using x(2) z False by (metis hd_append2 append_is_Nil_conv)
    moreover have "last ?y \<noteq> CHR ''-''" using False hd_dropWhile[of "\<lambda>c. c = CHR ''-''" "rev ?x"] by (simp add: last_rev)
    ultimately show ?thesis using False s by (simp add: slug_ok_def)
  qed
qed

lemma dec_chars: "list_all slug_char (dec n) \<and> dec n \<noteq> [] \<and> last (dec n) \<noteq> CHR ''-''"
proof (induction n rule: dec.induct)
  case (1 n)
  have digit: "slug_char (digit_char d) \<and> digit_char d \<noteq> CHR ''-''" if "d < 10" for d
    using that by (auto simp: slug_char_def digit_char_def is_ascii_digit_def of_char_of char_eq_code simp del: of_char_eq_iff)
  then show ?case using 1 by (subst (1 2 3) dec.simps) auto
qed

lemma numbered_ok: "slug_ok base \<Longrightarrow> slug_ok (numbered base n)"
  using dec_chars[of n] by (auto simp: slug_ok_def numbered_def slug_char_def)

text \<open>
  C39: while there are fewer than \<open>2 ^ 32 - 2\<close> areas, the search for the slug of a new area ends with
  its u32 counter below its end, where it would wrap: the slug is taken by no other area, has only
  lower-case letters, digits and dashes, does not start or end with a dash, and is the title's slug
  or, when that is taken, that slug with the least number from 2 on that is free.
\<close>

theorem area_slug_fresh:
  assumes few: "length (db_areas (st_db w)) < 2 ^ 32 - 2"
  shows "\<exists>slug. allocate_area_slug title w = (Inr slug, w) \<and> slug \<notin> ar_slug ` set (db_areas (st_db w)) \<and> slug_ok slug
     \<and> (slug = slugify title \<or> slugify title \<in> ar_slug ` set (db_areas (st_db w)) \<and>
         (\<exists>n. 2 \<le> n \<and> n < 2 ^ 32 - 1 \<and> slug = numbered (slugify title) n \<and>
           (\<forall>m\<in>{2..<n}. numbered (slugify title) m \<in> ar_slug ` set (db_areas (st_db w)))))"
proof -
  let ?slugs = "map ar_slug (db_areas (st_db w))" and ?base = "slugify title"
  have alloc: "allocate_area_slug title w = (Inr r, w)" if "slug_loop ?slugs ?base ?base 2 = Some r" for r
    using that by (simp add: allocate_area_slug_def query_def mget_def mbind_def msome_def mret_def Let_def)
  show ?thesis
  proof (cases "?base \<in> set ?slugs")
    case False
    then have "slug_loop ?slugs ?base ?base 2 = Some ?base" by (simp add: slug_loop.simps)
    from alloc[OF this] False show ?thesis using slugify_ok[of title] by auto
  next
    case True
    define k where "k = (LEAST k. slug_candidate ?base k \<notin> set ?slugs)"
    obtain k0 where k0: "k0 < 2 ^ 32 - 3" "slug_candidate ?base k0 \<notin> set ?slugs"
      using slug_some_free[OF _ True] few by auto
    have free: "slug_candidate ?base k \<notin> set ?slugs" unfolding k_def by (rule LeastI) (rule k0(2))
    have taken: "slug_candidate ?base j \<in> set ?slugs" if "j < k" for j using not_less_Least that unfolding k_def by blast
    have k: "k < 2 ^ 32 - 3" using k0 Least_le[of "\<lambda>k. slug_candidate ?base k \<notin> set ?slugs" k0] by (simp add: k_def)
    have "slug_loop ?slugs ?base ?base 2 = Some (slug_candidate ?base k)"
      using slug_loop_step[OF True, of ?base 0] slug_loop_finds[of k ?base 0 ?slugs] free taken by simp
    from alloc[OF this] have a: "allocate_area_slug title w = (Inr (numbered ?base (k + 2)), w)"
      using k by (simp add: slug_candidate_number)
    have "numbered ?base m \<in> set ?slugs" if "m \<in> {2..<k + 2}" for m
    proof -
      from that have m: "m - 2 < k" "m - 2 + 2 = m" by auto
      with k have "slug_candidate ?base (m - 2) = numbered ?base m" using slug_candidate_number[of "m - 2" ?base] by simp
      with taken[OF m(1)] show ?thesis by simp
    qed
    with a free k True show ?thesis
      using numbered_ok[OF slugify_ok] slug_candidate_number[of k ?base]
      by (intro exI[of _ "numbered ?base (k + 2)"] conjI disjI2 exI[of _ "k + 2"]) auto
  qed
qed

text \<open>
  ids minted in different milliseconds sort, as texts, by their time, whatever the random parts.
\<close>

lemma ulid_sortable:
  assumes "s < 2 ^ 48" and "t < 2 ^ 48"
  shows "(s < t \<longrightarrow> ulid_of s r < ulid_of t r') \<and> (ulid_of s r = ulid_of t r \<longrightarrow> s = t)"
  using ulid_mono[of s t r r'] ulid_eq[of s t r] assms by simp

theorem ulid_sortable_witness:
  "ulid_of 1767225600000 [31, 30] < ulid_of 1767225600001 [0, 7]"
  using ulid_sortable[of 1767225600000 1767225600001 "[31, 30]" "[0, 7]"] by simp

text \<open>
  C40: the key under which a routine is registered with the kernel leads back to the routine's id when
  a fire comes in, for every id the store can mint (the key is lower case, the id upper case).
\<close>

theorem kernel_key_leads_back:
  "fire_routine_id (routine_kernel_key (ulid_of ms rnd)) = Some (ulid_of ms rnd)"
proof (rule kernel_key_round_trip[OF ulid_chars])
  have "length (ulid_time 10 ms) = 10" by simp
  then show "ulid_of ms rnd \<noteq> []" unfolding ulid_of_def by (metis append_is_Nil_conv list.size(3) zero_neq_numeral)
qed

section \<open>Markdown paths\<close>

text \<open>The components of a relative path.\<close>

fun split_on :: "char \<Rightarrow> string \<Rightarrow> string list" where
  "split_on c [] = [[]]"
| "split_on c (x # xs) = (if x = c then [] # split_on c xs
     else case split_on c xs of [] \<Rightarrow> [[x]] | p # ps \<Rightarrow> (x # p) # ps)"

lemma split_on_nonempty: "split_on c xs \<noteq> []"
  by (induction xs) (auto split: list.split)

lemma split_on_component: "c \<notin> set xs \<Longrightarrow> split_on c (xs @ c # ys) = xs # split_on c ys"
  by (induction xs) auto

lemma split_on_last: "c \<notin> set xs \<Longrightarrow> split_on c xs = [xs]"
  by (induction xs) auto

lemma contains_char: "contains xs [c] = (c \<in> set xs)"
  by (induction xs) (auto simp: starts_with_def)

lemma relpath_Inr: "review_markdown_relpath kind period = Inr path \<Longrightarrow>
    CHR ''/'' \<notin> set period \<and> split_on (CHR ''/'') path = [''reviews'', review_kind_wire kind, period @ ''.md'']"
proof -
  assume r: "review_markdown_relpath kind period = Inr path"
  then have p: "CHR ''/'' \<notin> set period"
    and path: "path = ''reviews/'' @ review_kind_wire kind @ ''/'' @ period @ ''.md''"
    by (auto simp: review_markdown_relpath_def unsafe_component_def contains_char split: if_splits)
  have k: "CHR ''/'' \<notin> set (review_kind_wire kind)" by (cases kind) auto
  have "split_on (CHR ''/'') path = split_on (CHR ''/'') (''reviews'' @ CHR ''/'' # review_kind_wire kind @ CHR ''/'' # period @ ''.md'')"
    by (simp add: path)
  moreover have "split_on (CHR ''/'') (period @ ''.md'') = [period @ ''.md'']" by (rule split_on_last) (use p in auto)
  ultimately show ?thesis
    using p split_on_component[OF k, of "period @ ''.md''"] split_on_component[of "CHR ''/''" "''reviews''"] by simp
qed

text \<open>
  C38: a Markdown export goes to exactly \<open>reviews/<kind>/<period>.md\<close> under the data directory: the
  path has these three components and none of them is \<open>.\<close>, \<open>..\<close> or empty; reviews that differ in
  kind or period get different paths.
\<close>

theorem review_path_contained:
  assumes "review_markdown_relpath kind period = Inr path"
  shows "split_on (CHR ''/'') path = [''reviews'', review_kind_wire kind, period @ ''.md'']
     \<and> list_all (\<lambda>c. c \<notin> {[], ''.'', ''..''}) (split_on (CHR ''/'') path)
     \<and> (review_markdown_relpath kind' period' = Inr path \<longrightarrow> kind' = kind \<and> period' = period)"
proof -
  have k: "review_kind_wire kind \<notin> {[], ''.'', ''..''}" by (cases kind) auto
  have "period @ ''.md'' \<notin> {[], ''.'', ''..''}" by (cases period) (auto simp: append_eq_Cons_conv)
  with k show ?thesis
    using relpath_Inr[OF assms] relpath_Inr[of kind' period' path] review_kind.wire_inj by auto
qed

theorem review_path_contained_witness:
  "split_on (CHR ''/'') ''reviews/weekly/2026-W39.md'' = [''reviews'', ''weekly'', ''2026-W39.md'']"
proof -
  have "review_markdown_relpath ReviewKind_Weekly ''2026-W39'' = Inr ''reviews/weekly/2026-W39.md''" by code_simp
  from review_path_contained[OF this] show ?thesis by simp
qed

definition label_char :: "char \<Rightarrow> bool" where
  "label_char c = (is_ascii_digit c \<or> c = CHR ''-'' \<or> c = CHR ''W'')"

lemma dec_label: "list_all label_char (dec n)"
proof (induction n rule: dec.induct)
  case (1 n)
  have digit: "label_char (digit_char d)" if "d < 10" for d
    using that by (simp add: label_char_def digit_char_def is_ascii_digit_def of_char_of)
  then show ?case using 1 by (subst dec.simps) auto
qed

lemma pad0_label: "list_all label_char (pad0 w n) \<and> pad0 w n \<noteq> []"
  using dec_label[of n] dec_pos[of n] by (auto simp: pad0_def label_char_def is_ascii_digit_def list_all_iff)

lemma label_safe: "s \<noteq> [] \<Longrightarrow> list_all label_char s \<Longrightarrow> \<not> unsafe_component s"
proof -
  assume s: "s \<noteq> []" "list_all label_char s"
  have no: "c \<notin> set s" if "\<not> label_char c" for c using s(2) that by (auto simp: list_all_iff)
  have contains: "\<not> contains s p" if "p \<noteq> []" "\<not> label_char (hd p)" for p
    using no[OF that(2)] that(1) by (auto simp: contains_sublist dest!: set_mono_sublist) (meson hd_in_set in_mono)
  have bad: "\<not> label_char (CHR ''.'')" "\<not> label_char (CHR ''/'')" "\<not> label_char (char_of (92 :: nat))"
    "\<not> label_char (char_of (0 :: nat))" by code_simp+
  have "\<not> starts_with s ''.''" using no[of "CHR ''.''"] by (cases s) (auto simp: starts_with_def label_char_def is_ascii_digit_def)
  then show ?thesis
    using s(1) no[OF bad(1)] contains[of "''/''"] contains[of "''..''"] contains[of "[char_of (92 :: nat)]"]
      contains[of "[char_of (0 :: nat)]"] bad unfolding unsafe_component_def by auto
qed

text \<open>
  a period that creation accepted for a daily or a weekly review always has a path, so the
  export cannot be refused for its period when the review is finalised later.
\<close>

lemma accepted_period_has_path:
  assumes "validate_review_period kind period = Inr p" and "kind \<noteq> ReviewKind_Rhythm"
  shows "review_markdown_relpath kind p = Inr (''reviews/'' @ review_kind_wire kind @ ''/'' @ p @ ''.md'')"
proof -
  have "p \<noteq> [] \<and> list_all label_char p"
  proof (cases kind)
    case ReviewKind_Daily
    then obtain y m d where "p = pad0 4 y @ ''-'' @ pad0 2 m @ ''-'' @ pad0 2 d"
      using assms(1) by (auto simp: canonical_iso_date_def split: option.splits if_splits)
    then show ?thesis using pad0_label by (simp add: label_char_def)
  next
    case ReviewKind_Weekly
    then obtain y k where "p = pad0 4 y @ ''-W'' @ pad0 2 k"
      using assms(1) by (auto simp: canonical_iso_week_def split: option.splits if_splits)
    then show ?thesis using pad0_label by (simp add: label_char_def)
  qed (use assms(2) in simp)
  then show ?thesis using assms(2) label_safe[of p] by (simp add: review_markdown_relpath_def)
qed

theorem accepted_period_has_path_witness:
  "review_markdown_relpath ReviewKind_Weekly ''2026-W39'' = Inr ''reviews/weekly/2026-W39.md''"
proof -
  have "validate_review_period ReviewKind_Weekly ''2026-w39'' = Inr ''2026-W39''" by code_simp
  from accepted_period_has_path[OF this] show ?thesis by simp
qed

end
