(* ===== verification/Demo.thy ===== *)
theory Demo
  imports Store_Laws Id_Laws
begin

text \<open>
  A concrete store for the witnesses: a clock that starts at the first second of 2026 and ticks
  once per reading, identifiers counted from zero, a disk that never fails, and the run of a few
  calls on it.
\<close>

definition demo_env :: Env where
  "demo_env = \<lparr>en_clock = (\<lambda>n. 1767225600 + n), en_ulid_ms = (\<lambda>n. n), en_ulid_rnd = (\<lambda>n. replicate 16 0),
     en_sha256 = (\<lambda>b. ''sha:'' @ b), en_cron_ok = (\<lambda>_. True), en_tz_ok = (\<lambda>_. True),
     en_local_day_start = (\<lambda>n. iso8601_at 1767225600), en_data_dir = Some ''/data'', en_write_fails = (\<lambda>_. False)\<rparr>"

lemma demo_ids:
  "ulid_of 0 (replicate 16 0) = ''00000000000000000000000000''" "ulid_of 1 (replicate 16 0) = ''00000000010000000000000000''"
  "ulid_of 2 (replicate 16 0) = ''00000000020000000000000000''" "ulid_of 3 (replicate 16 0) = ''00000000030000000000000000''"
  "ulid_of 4 (replicate 16 0) = ''00000000040000000000000000''" "ulid_of 5 (replicate 16 0) = ''00000000050000000000000000''"
  "ulid_of 6 (replicate 16 0) = ''00000000060000000000000000''" "ulid_of 7 (replicate 16 0) = ''00000000070000000000000000''"
  by code_simp+

lemma demo_labels: "canonical_iso_week ''2026-W02'' = Some ''2026-W02''"
  by code_simp

lemmas demo_simps = op_iff opened_def migrated_db_def demo_env_def demo_ids demo_labels log_ok_def new_event_def
  add_event_def taken_def next_seq_def violated_def row_by_Cons upd_by_def upd_where_def

text \<open>A call whose operation succeeded: the world it leaves.\<close>

lemma exec_ok:
  "create_week l w = (Inr k, w') \<Longrightarrow> exec (Call_create_week l) w = w'"
  "transition_week i s w = (Inr k, w') \<Longrightarrow> exec (Call_transition_week i s) w = w'"
  by simp_all

text \<open>A week is created, activated, reviewed and closed.\<close>

definition week_calls :: "Call list" where
  "week_calls = [Call_create_week ''2026-W02'', Call_transition_week ''00000000000000000000000000'' Week_Active,
     Call_transition_week ''00000000000000000000000000'' Week_Reviewing,
     Call_transition_week ''00000000000000000000000000'' Week_Closed]"

lemma week_run: "\<exists>k w1 k' w2 k'' w3 k''' w4. create_week ''2026-W02'' (opened demo_env) = (Inr k, w1)
    \<and> transition_week ''00000000000000000000000000'' Week_Active w1 = (Inr k', w2)
    \<and> transition_week ''00000000000000000000000000'' Week_Reviewing w2 = (Inr k'', w3)
    \<and> transition_week ''00000000000000000000000000'' Week_Closed w3 = (Inr k''', w4)
    \<and> week_view (st_db w4) ''00000000000000000000000000'' = Some Week_Closed"
  by (simp add: create_week_def transition_week_def week_view_def demo_simps week_violation_def ulid_eq)

lemma week_closed: "week_view (db_after demo_env week_calls) ''00000000000000000000000000'' = Some Week_Closed"
  using week_run by (auto simp: db_after_def run_def week_calls_def)

text \<open>Two areas whose titles have the slug of a third.\<close>

definition home_area :: "string \<Rightarrow> string \<Rightarrow> Area" where
  "home_area i slug = \<lparr>ar_id = i, ar_title = ''Home'', ar_slug = slug, ar_status = Area_Active, ar_sort_key = 0,
     ar_created_at = ''2026-01-01T00:00:00Z'', ar_updated_at = ''2026-01-01T00:00:00Z''\<rparr>"

definition two_homes :: Sin90Store where
  "two_homes = (opened demo_env)\<lparr>st_db := migrated_db\<lparr>db_areas := [home_area ''a'' ''home'', home_area ''b'' ''home-2'']\<rparr>\<rparr>"

theorem area_slug_fresh_witness: "allocate_area_slug ''Home!'' two_homes = (Inr ''home-3'', two_homes)"
proof -
  have s: "slugify ''Home!'' = ''home''" "numbered ''home'' 2 = ''home-2''" "numbered ''home'' 3 = ''home-3''" by code_simp+
  have taken: "ar_slug ` set (db_areas (st_db two_homes)) = {''home'', ''home-2''}" "length (db_areas (st_db two_homes)) < 2 ^ 32 - 2"
    by (simp_all add: two_homes_def home_area_def)
  obtain slug n where slug: "allocate_area_slug ''Home!'' two_homes = (Inr slug, two_homes)" "2 \<le> n" "slug = numbered ''home'' n"
      "slug \<notin> {''home'', ''home-2''}" "\<forall>m\<in>{2..<n}. numbered ''home'' m \<in> {''home'', ''home-2''}"
    using area_slug_fresh[OF taken(2), of "''Home!''"] unfolding taken(1) s(1) by blast
  have "n \<noteq> 2" using slug s by auto
  moreover have "\<not> 3 < n" using slug(5) s(3) by auto
  ultimately have "n = 3" using slug(2) by simp
  with slug s show ?thesis by simp
qed

end
