(* ===== verification/Store_Properties.thy ===== *)
theory Store_Properties
  imports Demo
begin

text \<open>
  What holds of the committed database after any sequence of calls, from any environment: the
  log, the statuses, the keys, the references and the rules between the rows.
\<close>

text \<open>
  C1: the status column of every area, week, rhythm, task, block, review and routine is what the
  replay of its events in the log gives; the replay refuses a first status that is no initial one,
  an event whose old status is not the current one and every move the machine does not allow, so
  the log also holds no such event.
\<close>
theorem statuses_from_log:
  fixes env :: Env and calls :: "Call list"
  defines "db \<equiv> db_after env calls"
  shows
  "replay area_status_of (\<lambda>s. s = Area_Active) area_transition_allowed None (status_log ''area'' i (db_events db)) = Some (area_view db i)
   \<and> replay week_status_of (\<lambda>s. s = Week_Planning) week_transition_allowed None (status_log ''week'' i (db_events db)) = Some (week_view db i)
   \<and> replay rhythm_status_of (\<lambda>s. s = Rhythm_Active) rhythm_transition_allowed None (status_log ''rhythm'' i (db_events db)) = Some (rhythm_view db i)
   \<and> replay task_status_of (\<lambda>s. s = Task_Backlog \<or> s = Task_Planned) task_transition_allowed None (status_log ''task'' i (db_events db)) = Some (task_view db i)
   \<and> replay schedule_block_status_of (\<lambda>s. s = Block_Planned) schedule_block_transition_allowed None (status_log ''block'' i (db_events db)) = Some (block_view db i)
   \<and> replay review_status_of (\<lambda>s. s = Review_Draft) review_transition_allowed None (status_log ''review'' i (db_events db)) = Some (review_view db i)
   \<and> replay routine_status_of (\<lambda>s. s = Routine_Active) routine_transition_allowed None (status_log ''routine'' i (db_events db)) = Some (routine_view db i)"
  unfolding db_def
  by (intro conjI area_log.replayed week_log.replayed rhythm_log.replayed task_log.replayed block_log.replayed
    review_log.replayed routine_log.replayed)

text \<open>
  C31: the event log is append-only across calls and its sequence numbers are 1, 2, 3, ... without a
  gap, with no event identifier used twice.
\<close>
theorem log_append_only:
  "\<exists>es. db_events (db_after env (calls @ later)) = db_events (db_after env calls) @ es
   \<and> map ev_seq (db_events (db_after env calls)) = [1..<Suc (length (db_events (db_after env calls)))]
   \<and> distinct (map ev_id (db_events (db_after env calls)))"
proof -
  have "prefix (db_events (db_after env calls)) (db_events (db_after env (calls @ later)))"
    using dsteps_grow[OF runs_step[of env calls later]] by (simp add: log_grows_def)
  with keys.holds[of env calls] show ?thesis
    by (auto simp: prefix_def keys_ok_def seqs_ok_def)
qed

text \<open>
  C26: a status from which the machine allows no move is final for the row of a task, a week, a
  rhythm, a block, a review and a routine: no later call, batch, replay or failing write changes it.
\<close>
theorem terminal_is_final:
  "(task_view (db_after env calls) i = Some s \<and> task_is_terminal s \<longrightarrow> task_view (db_after env (calls @ later)) i = Some s)
   \<and> (week_view (db_after env calls) i = Some s2 \<and> week_is_terminal s2 \<longrightarrow> week_view (db_after env (calls @ later)) i = Some s2)
   \<and> (rhythm_view (db_after env calls) i = Some s3 \<and> rhythm_is_terminal s3 \<longrightarrow> rhythm_view (db_after env (calls @ later)) i = Some s3)
   \<and> (block_view (db_after env calls) i = Some s4 \<and> schedule_block_is_terminal s4 \<longrightarrow> block_view (db_after env (calls @ later)) i = Some s4)
   \<and> (review_view (db_after env calls) i = Some s5 \<and> review_is_terminal s5 \<longrightarrow> review_view (db_after env (calls @ later)) i = Some s5)
   \<and> (routine_view (db_after env calls) i = Some s6 \<and> routine_is_terminal s6 \<longrightarrow> routine_view (db_after env (calls @ later)) i = Some s6)"
  using task_log.final[OF runs_step] week_log.final[OF runs_step] rhythm_log.final[OF runs_step]
    block_log.final[OF runs_step] review_log.final[OF runs_step] routine_log.final[OF runs_step]
  by auto

theorem terminal_is_final_witness:
  "week_view (db_after demo_env (week_calls @ [Call_create_task ''t'' None None TaskKind_DeepWork Energy_High None,
      Call_transition_week ''00000000000000000000000000'' Week_Active])) ''00000000000000000000000000'' = Some Week_Closed"
  using terminal_is_final[of demo_env week_calls] week_closed by (auto simp: week_is_terminal_def)

text \<open>
  C33: the tables are consistent after every sequence of calls. In each the identifiers are distinct,
  no two areas share a slug, no two weeks a label, no two reviews a kind and period, no two tasks the
  task they were carried from; and no reference dangles: the direction, week, parent and carried-from
  of a task, the direction and task of a block, the week of a review, the area and direction of a
  routine, the routine of a fire, the proposal of a rejection and the task of a classification all
  name a row.
\<close>
theorem tables_consistent: "keys_ok (db_after env calls) \<and> refs_ok (db_after env calls)"
  by (intro conjI keys.holds refs.holds)

text \<open>A task's parent is a task that has no parent itself.\<close>

lemma nesting_one_level:
  "list_all (\<lambda>t. case tk_parent_task_id t of None \<Rightarrow> True
     | Some p \<Rightarrow> p \<noteq> tk_id t \<and> (\<exists>q. row_by tk_id p (db_tasks (db_after env calls)) = Some q \<and> tk_parent_task_id q = None))
     (db_tasks (db_after env calls))"
proof -
  have "p \<noteq> tk_id t \<and> (\<exists>q. row_by tk_id p (db_tasks (db_after env calls)) = Some q \<and> tk_parent_task_id q = None)"
    if "t \<in> set (db_tasks (db_after env calls))" "tk_parent_task_id t = Some p" for t p
  proof -
    have "parent_ok (Some p) (db_after env calls)"
      using nesting.holds[of env calls] that by (metis (no_types, lifting) nesting_ok_def list_all_iff)
    then obtain q where q: "row_by tk_id p (db_tasks (db_after env calls)) = Some q" "tk_parent_task_id q = None"
      by (auto simp: parent_ok_def)
    have "row_by tk_id (tk_id t) (db_tasks (db_after env calls)) = Some t"
      using keys.holds[of env calls] that(1) by (simp add: keys_ok_def row_by_iff)
    with q that(2) show ?thesis by auto
  qed
  then show ?thesis by (auto simp: list_all_iff split: option.split)
qed

text \<open>
  C34: the rows are well formed after every sequence of calls: tasks nest one level deep and no task is
  its own parent; exactly the tasks of the triage direction carry triage columns, with a way the code
  knows; every rhythm divides at most a hundred percent, each share from 1 to 100, among distinct
  directions that exist; and for every entity at most one row of the outbox is live.
\<close>
theorem rows_well_formed:
  "list_all (\<lambda>t. case tk_parent_task_id t of None \<Rightarrow> True
     | Some p \<Rightarrow> p \<noteq> tk_id t \<and> (\<exists>q. row_by tk_id p (db_tasks (db_after env calls)) = Some q \<and> tk_parent_task_id q = None))
     (db_tasks (db_after env calls))
   \<and> list_all (\<lambda>t. triage_ok (tk_direction_id t) (tr_triage_via t) (tr_triage_entered_at t)) (db_tasks (db_after env calls))
   \<and> list_all (\<lambda>r. rh_allocations r \<noteq> [] \<and> distinct (map al_direction_id (rh_allocations r))
     \<and> list_all (\<lambda>a. 1 \<le> unat (al_pct a) \<and> unat (al_pct a) \<le> 100
          \<and> taken di_id (al_direction_id a) (db_directions (db_after env calls))) (rh_allocations r)
     \<and> sum_list (map (unat \<circ> al_pct) (rh_allocations r)) \<le> 100) (db_rhythms (db_after env calls))
   \<and> distinct (map ob_dedup_key (filter ob_live (db_outbox (db_after env calls))))"
proof (intro conjI nesting_one_level)
  show "list_all (\<lambda>t. triage_ok (tk_direction_id t) (tr_triage_via t) (tr_triage_entered_at t)) (db_tasks (db_after env calls))"
    using triage.holds[of env calls] by (simp add: rows_triage_ok_def row_triage_ok_def[abs_def])
  show "list_all (\<lambda>r. rh_allocations r \<noteq> [] \<and> distinct (map al_direction_id (rh_allocations r))
     \<and> list_all (\<lambda>a. 1 \<le> unat (al_pct a) \<and> unat (al_pct a) \<le> 100
          \<and> taken di_id (al_direction_id a) (db_directions (db_after env calls))) (rh_allocations r)
     \<and> sum_list (map (unat \<circ> al_pct) (rh_allocations r)) \<le> 100) (db_rhythms (db_after env calls))"
    using rhythms.holds[of env calls] by (auto simp: rhythms_ok_def list_all_iff dirs_exist_def check_alloc_ok)
  show "distinct (map ob_dedup_key (filter ob_live (db_outbox (db_after env calls))))"
    using outbox.holds[of env calls] by (simp add: outbox_ok_def live_keys_def)
qed

text \<open>
  C14: once a week has left planning and active, the tasks of that week are frozen: no later call
  adds, removes or changes one.
\<close>
theorem closed_week_frozen:
  assumes "week_view (db_after env calls) k = Some s" and "\<not> week_is_open s"
  shows "filter (\<lambda>t. tk_week_id t = Some k) (db_tasks (db_after env (calls @ later)))
       = filter (\<lambda>t. tk_week_id t = Some k) (db_tasks (db_after env calls))"
  using closed_dsteps[OF runs_step keys.holds] assms
  by (auto simp: tasks_of_week_def closed_week_def week_view_def)

theorem closed_week_frozen_witness:
  "filter (\<lambda>t. tk_week_id t = Some ''00000000000000000000000000'') (db_tasks (db_after demo_env
      (week_calls @ [Call_apply_proposal ''p'', Call_transition_task ''t'' Task_Done])))
   = filter (\<lambda>t. tk_week_id t = Some ''00000000000000000000000000'') (db_tasks (db_after demo_env week_calls))"
  using closed_week_frozen[OF week_closed] by simp

end
