(* ===== verification/Attention_Laws.thy ===== *)
theory Attention_Laws
  imports Demo "HOL-Library.Multiset"
begin

text \<open>
  Attention as a function of the log. The completed events of the log are, as a bag, the stamps of
  the completed blocks; the daily view is the fold of the completed events up to its watermark,
  so advancing it, rebuilding it and summing the blocks agree.
\<close>

section \<open>The log and the blocks\<close>

text \<open>What a completed event says, and what the row of a completed block says.\<close>

definition event_stamp :: "Event \<Rightarrow> string \<times> int \<times> string \<times> Json option" where
  "event_stamp e = (ev_entity_id e, payload_minutes e, payload_direction e, jget ''week_id'' (ev_payload e))"

definition direction_text :: "ScheduleBlock \<Rightarrow> string" where
  "direction_text b = (case bl_direction_id b of None \<Rightarrow> [] | Some d \<Rightarrow> d)"

definition block_stamp :: "Db \<Rightarrow> ScheduleBlock \<Rightarrow> string \<times> int \<times> string \<times> Json option" where
  "block_stamp db b = (bl_id b, uint (bl_planned_minutes b), direction_text b,
     Some (jopt JStr (week_id_of_task (bl_task_id b) db)))"

definition completed_events :: "Db \<Rightarrow> Event list" where
  "completed_events db = filter block_completed (db_events db)"

definition completed_blocks :: "Db \<Rightarrow> ScheduleBlock list" where
  "completed_blocks db = filter (\<lambda>b. bl_status b = Block_Completed) (db_blocks db)"

definition decodes :: "Event \<Rightarrow> bool" where
  "decodes e = (jget ''occurred_at'' (ev_payload e) = Some (JStr (ev_at e)) \<and> jget ''minutes'' (ev_payload e) = Some (JInt (payload_minutes e))
     \<and> 0 \<le> payload_minutes e)"

definition blocks_logged :: "Db \<Rightarrow> bool" where
  "blocks_logged db = (mset (map event_stamp (completed_events db)) = mset (map (block_stamp db) (completed_blocks db))
     \<and> list_all decodes (completed_events db))"

lemma upd_by_absent: "i \<notin> k ` set rows \<Longrightarrow> upd_by k i f rows = rows"
  by (auto simp: upd_by_def upd_where_def image_iff intro!: map_idI)

lemma upd_by_Cons: "upd_by k i f (q # rows) = (if k q = i then f q else q) # upd_by k i f rows"
  by (simp add: upd_by_def upd_where_def)

lemma filter_upd_other: "row_by k i rows = Some r \<Longrightarrow> distinct (map k rows) \<Longrightarrow> \<not> p r \<Longrightarrow> \<not> p (f r) \<Longrightarrow>
    filter p (upd_by k i f rows) = filter p rows"
  by (induction rows) (auto simp: upd_by_Cons row_by_Cons upd_by_absent split: if_splits)

lemma mset_filter_upd: "row_by k i rows = Some r \<Longrightarrow> distinct (map k rows) \<Longrightarrow> \<not> p r \<Longrightarrow> p (f r) \<Longrightarrow>
    mset (filter p (upd_by k i f rows)) = add_mset (f r) (mset (filter p rows))"
  by (induction rows) (auto simp: upd_by_Cons row_by_Cons upd_by_absent split: if_splits)

lemma week_of_task_stays:
  assumes "bstep db db'" and "fk tk_id (db_tasks db) t"
  shows "week_id_of_task t db' = week_id_of_task t db"
proof (cases t)
  case (Some i)
  with assms(2) obtain r where r: "row_by tk_id i (db_tasks db) = Some r"
    by (cases "row_by tk_id i (db_tasks db)") (auto simp: fk_def row_by_None taken_def)
  have "map_option tk_week_id (row_by tk_id i (db_tasks db')) = Some (tk_week_id r)"
    using assms(1) r
    by (induction rule: bstep.induct) (simp_all add: observe_upd_where observe_upd_by observe_append del: map_option_eq_Some)
  with Some r show ?thesis by (auto simp: week_id_of_task_def)
qed (simp add: week_id_of_task_def)

lemma blocks_logged_same:
  assumes "db_blocks db' = db_blocks db" and "completed_events db' = completed_events db"
    and "\<And>b. b \<in> set (db_blocks db) \<Longrightarrow> week_id_of_task (bl_task_id b) db' = week_id_of_task (bl_task_id b) db"
    and "blocks_logged db"
  shows "blocks_logged db'"
proof -
  have m: "map (block_stamp db') (completed_blocks db) = map (block_stamp db) (completed_blocks db)"
    by (rule map_cong) (auto simp: block_stamp_def completed_blocks_def assms(3))
  have "completed_blocks db' = completed_blocks db" using assms(1) by (simp add: completed_blocks_def)
  then show ?thesis using assms(2,4) unfolding blocks_logged_def by (simp only: m)
qed

lemma blocks_logged_frame: "blocks_logged db \<Longrightarrow> db_blocks db' = db_blocks db \<Longrightarrow> db_tasks db' = db_tasks db \<Longrightarrow>
    completed_events db' = completed_events db \<Longrightarrow> blocks_logged db'"
  by (rule blocks_logged_same) (simp_all add: week_id_of_task_def cong: option.case_cong)

lemma not_completed: "status_event e entity i f t \<Longrightarrow> entity \<noteq> ''block'' \<or> t \<noteq> ''completed'' \<Longrightarrow> \<not> block_completed e"
  by (auto simp: status_event_def block_completed_def)

lemma bstep_completed: "bstep db db' \<Longrightarrow> completed_events db' = completed_events db"
  by (induction rule: bstep.induct) (auto simp: completed_events_def not_completed, auto simp: block_completed_def status_event_def)

lemma same_tasks: "db_tasks db' = db_tasks db \<Longrightarrow> week_id_of_task t db' = week_id_of_task t db"
  by (simp add: week_id_of_task_def split: option.split)

lemma stamps_same: "db_tasks db' = db_tasks db \<Longrightarrow> block_stamp db' = block_stamp db"
  by (rule ext) (simp add: block_stamp_def same_tasks[of db' db])

definition stamps_ok :: "Db \<Rightarrow> bool" where
  "stamps_ok db = (keys_ok db \<and> refs_ok db \<and> blocks_logged db)"

lemma blocks_bstep: "bstep db db' \<Longrightarrow> stamps_ok db \<Longrightarrow> blocks_logged db'"
  by (rule blocks_logged_same[of db' db])
    (auto dest: bstep_frame bstep_completed week_of_task_stays simp: stamps_ok_def refs_ok_def list_all_iff)

lemma blocks_move:
  assumes r: "row_by bl_id i (db_blocks db) = Some r" and a: "schedule_block_transition_allowed (bl_status r) to"
    and se: "status_event e ''block'' i (Some (schedule_block_status_wire (bl_status r))) (schedule_block_status_wire to)"
    and k: "ev_kind e = ''transitioned''"
    and m: "jget ''minutes'' (ev_payload e) = Some (JInt (uint (bl_planned_minutes r)))"
    and t: "jget ''occurred_at'' (ev_payload e) = Some (JStr (ev_at e))"
    and d: "jget ''direction_id'' (ev_payload e) = Some (jopt JStr (bl_direction_id r))"
    and w: "jget ''week_id'' (ev_payload e) = Some (jopt JStr (week_id_of_task (bl_task_id r) db))"
    and ok: "keys_ok db" "blocks_logged db"
  shows "blocks_logged (add_event e (db\<lparr>db_blocks := upd_by bl_id i (\<lambda>b. b\<lparr>bl_status := to, bl_updated_at := now\<rparr>) (db_blocks db)\<rparr>))"
    (is "blocks_logged ?db'")
proof -
  have id: "bl_id r = i" using r by (auto dest: row_by_mem)
  have old: "bl_status r \<noteq> Block_Completed" using a by auto
  have dis: "distinct (map bl_id (db_blocks db))" using ok(1) by (simp add: keys_ok_def)
  have st: "block_stamp ?db' = block_stamp db" by (rule stamps_same) simp
  show ?thesis
  proof (cases "to = Block_Completed")
    case True
    have c: "block_completed e" using se k True by (simp add: status_event_def block_completed_def)
    have "event_stamp e = block_stamp db (r\<lparr>bl_status := to, bl_updated_at := now\<rparr>)"
      using se m d w id
      by (simp add: status_event_def event_stamp_def block_stamp_def payload_minutes_def payload_direction_def direction_text_def jopt_def
          split: option.split)
    moreover have "decodes e" using m t by (simp add: decodes_def payload_minutes_def)
    moreover have "mset (completed_blocks ?db') = add_mset (r\<lparr>bl_status := to, bl_updated_at := now\<rparr>) (mset (completed_blocks db))"
      using mset_filter_upd[OF r dis, of "\<lambda>b. bl_status b = Block_Completed" "\<lambda>b. b\<lparr>bl_status := to, bl_updated_at := now\<rparr>"] old True
      by (simp add: completed_blocks_def)
    ultimately show ?thesis
      using ok(2) c by (simp add: blocks_logged_def completed_events_def st)
  next
    case False
    then have "schedule_block_status_wire to \<noteq> ''completed''" by (cases to) simp_all
    then have "completed_events ?db' = completed_events db" using se by (simp add: completed_events_def not_completed)
    moreover have "completed_blocks ?db' = completed_blocks db"
      using filter_upd_other[OF r dis, of "\<lambda>b. bl_status b = Block_Completed" "\<lambda>b. b\<lparr>bl_status := to, bl_updated_at := now\<rparr>"] old False
      by (simp add: completed_blocks_def)
    ultimately show ?thesis using ok(2) by (simp add: blocks_logged_def st)
  qed
qed

lemma blocks_ostep: "ostep db db' \<Longrightarrow> stamps_ok db \<Longrightarrow> blocks_logged db'"
proof (induction rule: ostep.induct)
  case (batch db db')
  then show ?case by (rule blocks_bstep)
next
  case (move_block i db r to e now)
  then show ?case by (intro blocks_move) (simp_all add: stamps_ok_def)
next
  case (new_block r db e)
  then have "completed_events (add_event e (db\<lparr>db_blocks := db_blocks db @ [r]\<rparr>)) = completed_events db"
    "completed_blocks (add_event e (db\<lparr>db_blocks := db_blocks db @ [r]\<rparr>)) = completed_blocks db"
    by (simp_all add: completed_events_def completed_blocks_def not_completed)
  with new_block show ?case
    using stamps_same[of "add_event e (db\<lparr>db_blocks := db_blocks db @ [r]\<rparr>)" db] by (simp add: stamps_ok_def blocks_logged_def)
qed (simp add: stamps_ok_def, elim conjE, erule blocks_logged_frame; simp add: completed_events_def not_completed)+

lemma blocks_dstep: "dstep db db' \<Longrightarrow> \<not> ostep db db' \<Longrightarrow> blocks_logged db \<Longrightarrow> blocks_logged db'"
proof (induction rule: dstep.induct)
  case (other db db')
  then show ?case by blast
qed (erule blocks_logged_frame; simp add: completed_events_def)+

lemma stamps_step: "dstep db db' \<Longrightarrow> stamps_ok db \<Longrightarrow> stamps_ok db'"
  using keys.step refs.step blocks_ostep blocks_dstep by (metis stamps_ok_def)

interpretation stamps: store_invariant stamps_ok
  by unfold_locales (erule (1) stamps_step[OF dstep.other, OF ostep.batch] stamps_step[OF dstep.other] stamps_step
    | simp add: stamps_ok_def keys.migrated refs.migrated
    | simp add: blocks_logged_def completed_events_def completed_blocks_def migrated_db_def)+

section \<open>The daily view\<close>

definition view_of :: "Event list \<Rightarrow> AttentionDailyRow list" where
  "view_of es = fold fold_row (filter block_completed es) []"

definition view_ok :: "Db \<Rightarrow> bool" where
  "view_ok db = (keys_ok db \<and> db_watermark db \<le> length (db_events db)
     \<and> db_attention db = view_of (take (db_watermark db) (db_events db)))"

lemma max_seq_length: "seqs_ok es \<Longrightarrow> max_seq es = length es"
  using next_seq_keys[of es] by (simp add: next_seq_def max_seq_def)

lemma seq_at: "seqs_ok es \<Longrightarrow> n < length es \<Longrightarrow> ev_seq (es ! n) = Suc n"
proof -
  assume s: "seqs_ok es" and n: "n < length es"
  then have "map ev_seq es ! n = [1..<Suc (length es)] ! n" by (simp only: seqs_ok_def)
  with n show ?thesis by (simp del: upt_Suc)
qed

lemma take_old: "seqs_ok es \<Longrightarrow> e \<in> set (take n es) \<Longrightarrow> ev_seq e \<le> n"
  by (auto simp: in_set_conv_nth seq_at)

lemma drop_new: "seqs_ok es \<Longrightarrow> n \<le> length es \<Longrightarrow> e \<in> set (drop n es) \<Longrightarrow> n < ev_seq e \<and> ev_seq e \<le> length es"
  by (auto simp: in_set_conv_nth seq_at)

lemma new_rows:
  assumes "seqs_ok es" and "n \<le> length es"
  shows "sort_key ev_seq (filter (\<lambda>e. n < ev_seq e \<and> ev_seq e \<le> max_seq es \<and> block_completed e) es)
    = filter block_completed (drop n es)"
proof -
  have "filter (\<lambda>e. n < ev_seq e \<and> ev_seq e \<le> max_seq es \<and> block_completed e) (take n es @ drop n es)
      = filter block_completed (drop n es)"
  proof -
    have "filter (\<lambda>e. n < ev_seq e \<and> ev_seq e \<le> max_seq es \<and> block_completed e) (take n es) = []"
      using take_old[OF assms(1)] by (fastforce simp: filter_empty_conv)
    moreover have "filter (\<lambda>e. n < ev_seq e \<and> ev_seq e \<le> max_seq es \<and> block_completed e) (drop n es)
        = filter block_completed (drop n es)"
      using drop_new[OF assms] max_seq_length[OF assms(1)] by (intro filter_cong) auto
    ultimately show ?thesis by (simp only: filter_append append_Nil)
  qed
  moreover have "sorted (map ev_seq (filter block_completed (drop n es)))"
  proof -
    have "sorted (map ev_seq es)" using assms(1) by (simp add: seqs_ok_def del: upt_Suc)
    then have "sorted (map ev_seq (drop n es))" by (simp add: drop_map [symmetric] sorted_wrt_drop)
    then show ?thesis by (rule sorted_filter)
  qed
  ultimately show ?thesis by (simp add: sort_key_id_if_sorted)
qed

lemma view_of_split: "n \<le> length es \<Longrightarrow> fold fold_row (filter block_completed (drop n es)) (view_of (take n es)) = view_of es"
proof -
  have "view_of (take n es @ drop n es) = fold fold_row (filter block_completed (drop n es)) (view_of (take n es))"
    unfolding view_of_def filter_append fold_append by simp
  then show ?thesis by simp
qed

lemma view_frame: "view_ok db \<Longrightarrow> keys_ok db' \<Longrightarrow> db_watermark db' = db_watermark db \<Longrightarrow> db_attention db' = db_attention db \<Longrightarrow>
    log_grows db db' \<Longrightarrow> view_ok db'"
  by (auto simp: view_ok_def log_grows_def prefix_def)

lemma view_ostep: "ostep db db' \<Longrightarrow> view_ok db \<Longrightarrow> view_ok db'"
proof -
  assume s: "ostep db db'" and v: "view_ok db"
  have k: "keys_ok db'" using v s by (auto simp: view_ok_def intro: keys_ostep)
  have g: "log_grows db db'" using s by (rule ostep_grows)
  have "db_watermark db' = db_watermark db \<and> db_attention db' = db_attention db \<or> view_ok db'"
    using s v k
  proof (induction rule: ostep.induct)
    case (advance db rows)
    then have q: "seqs_ok (db_events db)" and w: "db_watermark db \<le> length (db_events db)" by (simp_all add: view_ok_def keys_ok_def)
    have "rows = view_of (db_events db)"
      using advance(2) advance.prems(1) view_of_split[OF w] by (simp add: new_rows[OF q w] view_ok_def)
    with advance show ?case by (simp add: view_ok_def max_seq_length[OF q])
  next
    case reset
    then show ?case by (simp add: view_ok_def view_of_def)
  qed (auto dest: bstep_frame)
  with view_frame[OF v k] g show ?thesis by blast
qed

lemma view_dstep: "dstep db db' \<Longrightarrow> view_ok db \<Longrightarrow> view_ok db'"
proof -
  assume s: "dstep db db'" and v: "view_ok db"
  have k: "keys_ok db'" using v s by (auto simp: view_ok_def intro: keys_dstep)
  have "db_watermark db' = db_watermark db \<and> db_attention db' = db_attention db \<or> ostep db db'"
    using s by (induction rule: dstep.induct) auto
  with view_frame[OF v k] view_ostep v dstep_grows[OF s] show ?thesis by blast
qed

interpretation view: store_invariant view_ok
  by unfold_locales (erule (1) view_ostep[OF ostep.batch] view_ostep view_dstep
    | simp add: view_ok_def keys.migrated | simp add: view_of_def migrated_db_def)+

section \<open>Advancing and rebuilding\<close>

lemma fold_event_decodes: "decodes e \<Longrightarrow> fold_event e w =
    (Inr (), w\<lparr>st_db := (st_db w)\<lparr>db_attention := fold_row e (db_attention (st_db w))\<rparr>\<rparr>)"
  by (auto simp: fold_event_def fold_row_def occurred_at_def decodes_def stmt_def mmod_def)

lemma fold_events_decode: "list_all decodes es \<Longrightarrow> \<exists>us. mfor fold_event es w =
    (Inr us, w\<lparr>st_db := (st_db w)\<lparr>db_attention := fold fold_row es (db_attention (st_db w))\<rparr>\<rparr>)"
proof (induction es arbitrary: w)
  case (Cons e es)
  then obtain us where "mfor fold_event es (w\<lparr>st_db := (st_db w)\<lparr>db_attention := fold_row e (db_attention (st_db w))\<rparr>\<rparr>) =
      (Inr us, w\<lparr>st_db := (st_db w)\<lparr>db_attention := fold fold_row es (fold_row e (db_attention (st_db w)))\<rparr>\<rparr>)"
    using Cons.IH[of "w\<lparr>st_db := (st_db w)\<lparr>db_attention := fold_row e (db_attention (st_db w))\<rparr>\<rparr>"] Cons.prems by auto
  with Cons.prems show ?case by (simp add: fold_event_decodes mret_def mbind_def)
qed (simp add: mret_def)

definition advanced :: "Sin90Store \<Rightarrow> Sin90Store" where
  "advanced w = w\<lparr>st_db := (st_db w)\<lparr>db_attention := view_of (db_events (st_db w)),
     db_watermark := length (db_events (st_db w))\<rparr>\<rparr>"

lemma apply_advances:
  assumes v: "view_ok (st_db w)" and d: "list_all decodes (completed_events (st_db w))"
  shows "attention_apply_new_events w = (Inr (), advanced w)"
proof -
  let ?es = "db_events (st_db w)" and ?n = "db_watermark (st_db w)"
  have q: "seqs_ok ?es" and n: "?n \<le> length ?es" using v by (simp_all add: view_ok_def keys_ok_def)
  have att: "db_attention (st_db w) = view_of (take ?n ?es)" using v by (simp add: view_ok_def)
  have "set (drop ?n ?es) \<subseteq> set ?es" by (rule set_drop_subset)
  then have "list_all decodes (filter block_completed (drop ?n ?es))"
    using d by (auto simp: completed_events_def list_all_iff)
  then obtain us where us: "mfor fold_event (filter block_completed (drop ?n ?es)) w =
      (Inr us, w\<lparr>st_db := (st_db w)\<lparr>db_attention := view_of ?es\<rparr>\<rparr>)"
    using fold_events_decode[of "filter block_completed (drop ?n ?es)" w] att view_of_split[OF n] by auto
  show ?thesis
  proof (cases "max_seq ?es \<le> ?n")
    case True
    then have "?n = length ?es" using n by (simp add: max_seq_length[OF q])
    then have "advanced w = w" using att by (simp add: advanced_def)
    with True show ?thesis by (simp add: attention_apply_new_events_def op_iff)
  next
    case False
    have "advanced w = w\<lparr>st_db := (st_db w)\<lparr>db_attention := view_of ?es, db_watermark := max_seq ?es\<rparr>\<rparr>"
      by (simp add: advanced_def max_seq_length[OF q])
    with False us show ?thesis
      by (auto simp: attention_apply_new_events_def op_iff new_rows[OF q n])
  qed
qed

lemma rebuild_advances:
  assumes v: "view_ok (st_db w)" and d: "list_all decodes (completed_events (st_db w))"
  shows "attention_rebuild w = (Inr (), advanced w)"
proof -
  let ?w = "w\<lparr>st_db := (st_db w)\<lparr>db_attention := [], db_watermark := 0\<rparr>\<rparr>"
  have "view_ok (st_db ?w)" using v by (simp add: view_ok_def view_of_def keys_ok_def)
  moreover have "list_all decodes (completed_events (st_db ?w))" using d by (simp add: completed_events_def)
  ultimately have "attention_apply_new_events ?w = (Inr (), advanced ?w)" by (rule apply_advances)
  then show ?thesis by (auto simp: attention_rebuild_def op_iff advanced_def)
qed

lemma run_decodes: "list_all decodes (completed_events (db_after env calls))"
  using stamps.holds[of env calls] by (simp add: stamps_ok_def blocks_logged_def)

section \<open>Totals\<close>

definition total_of :: "string \<Rightarrow> AttentionDailyRow list \<Rightarrow> int" where
  "total_of d rows = sum_list (map ad_actual_min (filter (\<lambda>r. ad_direction_id r = d) rows))"

definition day_keys :: "AttentionDailyRow list \<Rightarrow> (string \<times> string) list" where
  "day_keys rows = map (\<lambda>r. (ad_day r, ad_direction_id r)) rows"

lemma day_keys_bump: "distinct (day_keys rows) \<Longrightarrow> distinct (day_keys (bump day dir m rows))"
proof -
  have "map (\<lambda>r. (ad_day r, ad_direction_id r)) (upd_where c (\<lambda>r. r\<lparr>ad_actual_min := ad_actual_min r + m\<rparr>) rows)
      = map (\<lambda>r. (ad_day r, ad_direction_id r)) rows" for c
    by (rule map_upd_where) simp
  then show "distinct (day_keys rows) \<Longrightarrow> distinct (day_keys (bump day dir m rows))"
    by (auto simp: bump_def day_keys_def list_ex_iff)
qed

lemma total_upd: "distinct (day_keys rows) \<Longrightarrow> (day, dir) \<in> set (day_keys rows) \<Longrightarrow>
    total_of d (upd_where (\<lambda>r. ad_day r = day \<and> ad_direction_id r = dir) (\<lambda>r. r\<lparr>ad_actual_min := ad_actual_min r + m\<rparr>) rows)
    = total_of d rows + (if dir = d then m else 0)"
proof (induction rows)
  case (Cons q rows)
  show ?case
  proof (cases "ad_day q = day \<and> ad_direction_id q = dir")
    case True
    then have "(day, dir) \<notin> set (day_keys rows)" using Cons.prems(1) by (auto simp: day_keys_def)
    then have "upd_where (\<lambda>r. ad_day r = day \<and> ad_direction_id r = dir) (\<lambda>r. r\<lparr>ad_actual_min := ad_actual_min r + m\<rparr>) rows = rows"
      by (auto simp: upd_where_def day_keys_def image_iff intro!: map_idI)
    with True show ?thesis by (auto simp: total_of_def upd_where_def)
  next
    case False
    then show ?thesis using Cons by (auto simp: total_of_def upd_where_def day_keys_def)
  qed
qed (simp add: day_keys_def)

lemma total_bump: "distinct (day_keys rows) \<Longrightarrow> total_of d (bump day dir m rows) = total_of d rows + (if dir = d then m else 0)"
proof -
  assume u: "distinct (day_keys rows)"
  show ?thesis
  proof (cases "list_ex (\<lambda>r. ad_day r = day \<and> ad_direction_id r = dir) rows")
    case True
    then have "(day, dir) \<in> set (day_keys rows)" by (auto simp: list_ex_iff day_keys_def)
    then show ?thesis using total_upd[OF u] True by (simp add: bump_def)
  qed (simp add: bump_def total_of_def)
qed

lemma view_of_snoc: "view_of (es @ [e]) = (if block_completed e then fold_row e (view_of es) else view_of es)"
  by (simp add: view_of_def)

lemma view_keys: "distinct (day_keys (view_of es))"
proof (induction es rule: rev_induct)
  case Nil
  then show ?case by (simp add: view_of_def day_keys_def)
next
  case (snoc e es)
  then show ?case by (simp add: view_of_snoc fold_row_def day_keys_bump)
qed

lemma view_total: "total_of d (view_of es) =
    sum_list (map payload_minutes (filter (\<lambda>e. block_completed e \<and> payload_direction e = d) es))"
proof (induction es rule: rev_induct)
  case Nil
  then show ?case by (simp add: view_of_def total_of_def)
next
  case (snoc e es)
  then show ?case by (simp add: view_of_snoc fold_row_def total_bump[OF view_keys])
qed

text \<open>Two lists with the same bag of stamps have the same sums of what the stamp shows.\<close>

lemma same_stamps:
  fixes f :: "'a \<Rightarrow> int" and g :: "'b \<Rightarrow> int"
  assumes "mset (map s A) = mset (map t B)"
    and "\<And>a. f a = h (s a)" and "\<And>a. p a = q (s a)" and "\<And>b. g b = h (t b)" and "\<And>b. r b = q (t b)"
  shows "sum_list (map f (filter p A)) = sum_list (map g (filter r B))"
proof -
  have e: "f = (\<lambda>a. h (s a))" "p = (\<lambda>a. q (s a))" "g = (\<lambda>b. h (t b))" "r = (\<lambda>b. q (t b))" using assms(2-5) by auto
  have 1: "map f (filter p A) = map h (filter q (map s A))" by (simp add: filter_map comp_def e)
  have 2: "map g (filter r B) = map h (filter q (map t B))" by (simp add: filter_map comp_def e)
  have "mset (map h (filter q (map s A))) = mset (map h (filter q (map t B)))"
    using assms(1) by (simp only: mset_map mset_filter)
  then show ?thesis unfolding 1 2 by (metis sum_mset_sum_list)
qed

lemma direction_minutes:
  assumes "blocks_logged db"
  shows "sum_list (map payload_minutes (filter (\<lambda>e. block_completed e \<and> payload_direction e = d) (db_events db)))
    = sum_list (map (\<lambda>b. uint (bl_planned_minutes b)) (filter (\<lambda>b. direction_text b = d) (completed_blocks db)))"
proof -
  have "sum_list (map payload_minutes (filter (\<lambda>e. payload_direction e = d) (completed_events db)))
      = sum_list (map (\<lambda>b. uint (bl_planned_minutes b)) (filter (\<lambda>b. direction_text b = d) (completed_blocks db)))"
    by (rule same_stamps[where s = event_stamp and t = "block_stamp db" and h = "\<lambda>(i, m, x, k). m" and q = "\<lambda>(i, m, x, k). x = d"])
      (use assms in \<open>simp_all add: blocks_logged_def event_stamp_def block_stamp_def del: mset_map\<close>)
  then show ?thesis by (simp add: completed_events_def conj_commute)
qed

lemma week_minutes:
  assumes "blocks_logged db"
  shows "actual_minutes_of k (db_events db) = sum_list (map (\<lambda>b. uint (bl_planned_minutes b))
    (filter (\<lambda>b. week_id_of_task (bl_task_id b) db = Some k) (completed_blocks db)))"
proof -
  have "sum_list (map payload_minutes (filter (\<lambda>e. jget ''week_id'' (ev_payload e) = Some (JStr k)) (completed_events db)))
      = sum_list (map (\<lambda>b. uint (bl_planned_minutes b)) (filter (\<lambda>b. week_id_of_task (bl_task_id b) db = Some k) (completed_blocks db)))"
    by (rule same_stamps[where s = event_stamp and t = "block_stamp db" and h = "\<lambda>(i, m, x, j). m" and q = "\<lambda>(i, m, x, j). j = Some (JStr k)"])
      (use assms in \<open>simp_all add: blocks_logged_def event_stamp_def block_stamp_def jopt_def del: mset_map split: option.split\<close>)
  then show ?thesis by (simp add: completed_events_def actual_minutes_of_def conj_commute)
qed

lemma planned_of_block:
  "distinct (map tk_id ts) \<Longrightarrow> sum_list (concat (map (\<lambda>t. if bt = Some (tk_id t) \<and> tk_week_id t = Some k then [m] else []) ts))
    = (if Option.bind (Option.bind bt (\<lambda>i. row_by tk_id i ts)) tk_week_id = Some k then m else (0 :: int))"
proof (induction ts)
  case (Cons t ts)
  have "tk_id t \<notin> set (map tk_id ts)" using Cons.prems by simp
  then have "row_by tk_id (tk_id t) ts = None" by (simp add: row_by_None)
  with Cons show ?case by (cases bt) (auto simp: row_by_Cons)
qed (cases bt; simp add: row_by_def)

lemma week_of_task_bind: "week_id_of_task t db = Option.bind (Option.bind t (\<lambda>i. row_by tk_id i (db_tasks db))) tk_week_id"
  by (auto simp: week_id_of_task_def split: option.split)

lemma planned_minutes_blocks:
  assumes "distinct (map tk_id (db_tasks db))"
  shows "planned_minutes_of k db = sum_list (map (\<lambda>b. uint (bl_planned_minutes b))
    (filter (\<lambda>b. week_id_of_task (bl_task_id b) db = Some k) (db_blocks db)))"
proof -
  have "sum_list (concat (map (\<lambda>b. concat (map (\<lambda>t. if bl_task_id b = Some (tk_id t) \<and> tk_week_id t = Some k
          then [uint (bl_planned_minutes b)] else []) (db_tasks db))) bs))
      = sum_list (map (\<lambda>b. uint (bl_planned_minutes b)) (filter (\<lambda>b. week_id_of_task (bl_task_id b) db = Some k) bs))" for bs
    by (induction bs) (simp_all add: planned_of_block[OF assms] week_of_task_bind)
  then show ?thesis by (simp add: planned_minutes_of_def)
qed

lemma sum_split: "sum_list (map f (filter p xs)) = sum_list (map f (filter p (filter q xs))) + (sum_list (map f (filter (\<lambda>x. p x \<and> \<not> q x) xs)) :: int)"
  by (induction xs) auto

section \<open>Properties\<close>

text \<open>
  C12: the daily attention view is a function of the log: advancing it never fails, leaves exactly
  the fold of all completed blocks, and rebuilding it from nothing leads to the same world.
\<close>
theorem incremental_is_rebuild:
  "\<exists>w. attention_apply_new_events (run env calls) = (Inr (), w) \<and> attention_rebuild (run env calls) = (Inr (), w)
   \<and> db_attention (st_db w) = fold fold_row (filter block_completed (db_events (db_after env calls))) []
   \<and> db_watermark (st_db w) = length (db_events (db_after env calls))"
proof -
  have v: "view_ok (st_db (run env calls))" using view.holds by (simp add: db_after_def)
  have d: "list_all decodes (completed_events (st_db (run env calls)))" using run_decodes by (simp add: db_after_def)
  show ?thesis
    using apply_advances[OF v d] rebuild_advances[OF v d] by (simp add: advanced_def view_of_def db_after_def)
qed

text \<open>
  C13: after the view is advanced, the minutes it shows for a direction, over all days, are the
  planned minutes of the completed blocks of that direction, and no day and direction has two rows.
\<close>
theorem daily_totals_exact:
  "sum_list (map ad_actual_min (filter (\<lambda>r. ad_direction_id r = d) (db_attention (db_after env (calls @ [Call_attention_apply])))))
     = sum_list (map (\<lambda>b. uint (bl_planned_minutes b)) (filter (\<lambda>b. direction_text b = d)
         (filter (\<lambda>b. bl_status b = Block_Completed) (db_blocks (db_after env calls)))))
   \<and> distinct (map (\<lambda>r. (ad_day r, ad_direction_id r)) (db_attention (db_after env (calls @ [Call_attention_apply]))))"
proof -
  have v: "view_ok (st_db (run env calls))" using view.holds by (simp add: db_after_def)
  have d: "list_all decodes (completed_events (st_db (run env calls)))" using run_decodes by (simp add: db_after_def)
  have b: "blocks_logged (db_after env calls)" using stamps.holds by (simp add: stamps_ok_def)
  have "db_attention (db_after env (calls @ [Call_attention_apply])) = view_of (db_events (db_after env calls))"
    using apply_advances[OF v d] by (simp add: db_after_def run_snoc advanced_def)
  then show ?thesis
    using view_total[of d] view_keys direction_minutes[OF b]
    by (simp add: total_of_def day_keys_def completed_blocks_def)
qed

text \<open>
  The attention of a week counts the completed blocks of the week's tasks against all of them,
  so what is missing from the plan is exactly the minutes of its blocks that are not completed, and
  the deviation is never positive.
\<close>
theorem week_attention_exact:
  fixes env :: Env and calls :: "Call list" and k :: string
  defines "mine \<equiv> filter (\<lambda>b. week_id_of_task (bl_task_id b) (db_after env calls) = Some k) (db_blocks (db_after env calls))"
  shows "case fst (week_attention k (run env calls)) of
    Inl e \<Rightarrow> e = SE_NotFound (''week '' @ k) \<and> k \<notin> wk_id ` set (db_weeks (db_after env calls))
  | Inr a \<Rightarrow> wa_actual_min a = sum_list (map (\<lambda>b. uint (bl_planned_minutes b)) (filter (\<lambda>b. bl_status b = Block_Completed) mine))
    \<and> wa_deviation_min a = - sum_list (map (\<lambda>b. uint (bl_planned_minutes b)) (filter (\<lambda>b. bl_status b \<noteq> Block_Completed) mine))
    \<and> wa_deviation_min a \<le> 0"
proof -
  let ?db = "db_after env calls" and ?m = "\<lambda>b. uint (bl_planned_minutes b)"
  have st: "blocks_logged ?db" "distinct (map tk_id (db_tasks ?db))"
    using stamps.holds[of env calls] by (simp_all add: stamps_ok_def keys_ok_def)
  have "filter (\<lambda>b. week_id_of_task (bl_task_id b) ?db = Some k) (completed_blocks ?db) = filter (\<lambda>b. bl_status b = Block_Completed) mine"
    by (simp add: completed_blocks_def mine_def conj_commute)
  then have act: "actual_minutes_of k (db_events ?db) = sum_list (map ?m (filter (\<lambda>b. bl_status b = Block_Completed) mine))"
    using week_minutes[OF st(1), of k] by simp
  have "planned_minutes_of k ?db = sum_list (map ?m mine)"
    by (simp add: planned_minutes_blocks[OF st(2)] mine_def)
  also have "\<dots> = sum_list (map ?m (filter (\<lambda>b. bl_status b = Block_Completed) mine))
      + sum_list (map ?m (filter (\<lambda>b. bl_status b \<noteq> Block_Completed) mine))"
    using sum_split[of ?m "\<lambda>_. True" mine "\<lambda>b. bl_status b = Block_Completed"] by simp
  finally have dev: "actual_minutes_of k (db_events ?db) - planned_minutes_of k ?db = - sum_list (map ?m (filter (\<lambda>b. bl_status b \<noteq> Block_Completed) mine))"
    using act by simp
  have nn: "0 \<le> sum_list (map ?m xs)" for xs :: "ScheduleBlock list" by (induction xs) auto
  show ?thesis
  proof (cases "taken wk_id k (db_weeks ?db)")
    case True
    then have "fst (week_attention k (run env calls)) = Inr \<lparr>wa_week_id = k, wa_planned_min = planned_minutes_of k ?db,
        wa_actual_min = actual_minutes_of k (db_events ?db),
        wa_deviation_min = actual_minutes_of k (db_events ?db) - planned_minutes_of k ?db\<rparr>"
      by (simp add: week_attention_def db_after_def mbind_def mthen_def query_def mget_def mguard_def mret_def)
    then show ?thesis using act dev nn by simp
  next
    case False
    then show ?thesis
      by (auto simp: week_attention_def db_after_def mbind_def mthen_def query_def mget_def mguard_def mret_def mfail_def taken_def)
  qed
qed

end
