(* ===== verification/Gate_Laws.thy ===== *)
theory Gate_Laws
  imports Attention_Laws
begin

text \<open>
  The proposal gate as a machine of its own: the rows and the rejections move by one step of
  \<open>gate_step\<close> per call. The steps give the life of a proposal; the loop over the operations gives
  what an acceptance writes and logs.
\<close>


section \<open>The gate\<close>

text \<open>
  The proposals and the rejections on file, and the one move a call may make: a pending row comes
  in, a pending row becomes applied with its receipt, or a pending row becomes rejected together
  with its rejection. \<open>Proposal_Applying\<close> is no state of this machine.
\<close>

record Gate =
  ga_proposals :: "ProposalRow list"
  ga_rejections :: "Rejection list"

definition gate_of :: "Db \<Rightarrow> Gate" where
  "gate_of db = \<lparr>ga_proposals = db_proposals db, ga_rejections = db_rejections db\<rparr>"

definition pending_at_gate :: "string \<Rightarrow> Gate \<Rightarrow> ProposalRow option" where
  "pending_at_gate i g = (case row_by pp_id i (ga_proposals g) of None \<Rightarrow> None
     | Some r \<Rightarrow> if pp_status r = Proposal_Pending then Some r else None)"

definition applied_row :: "AppliedProposal \<Rightarrow> string \<Rightarrow> ProposalRow \<Rightarrow> ProposalRow" where
  "applied_row receipt now r = r\<lparr>pp_status := Proposal_Applied, pp_result := Some receipt, pp_decided_at := Some now\<rparr>"

definition rejected_row :: "string \<Rightarrow> ProposalRow \<Rightarrow> ProposalRow" where
  "rejected_row now r = r\<lparr>pp_status := Proposal_Rejected, pp_decided_at := Some now\<rparr>"

definition fresh_row :: "ProposalRow \<Rightarrow> bool" where
  "fresh_row r = (pp_status r = Proposal_Pending \<and> pp_result r = None \<and> pp_decided_at r = None)"

inductive gate_step :: "Call \<Rightarrow> Gate \<Rightarrow> Gate \<Rightarrow> bool" where
  idle: "gate_step c g g"
| submitted: "c = Call_submit_proposal p \<and> pp_id r = pr_id p \<and> pp_ops r = pr_ops p
      \<or> c = Call_sink_submit cap draft rec \<and> pp_id r = pd_id draft \<and> pp_ops r = pd_ops draft \<Longrightarrow>
    fresh_row r \<Longrightarrow> \<not> taken pp_id (pp_id r) (ga_proposals g) \<Longrightarrow>
    gate_step c g (g\<lparr>ga_proposals := ga_proposals g @ [r]\<rparr>)"
| applied: "pending_at_gate i g = Some r \<Longrightarrow> ap_proposal_id receipt = i \<Longrightarrow>
    gate_step (Call_apply_proposal i) g (g\<lparr>ga_proposals := upd_by pp_id i (applied_row receipt now) (ga_proposals g)\<rparr>)"
| rejected: "pending_at_gate i g = Some r \<Longrightarrow> rj_proposal_id q = i \<Longrightarrow> rj_reason q = reason \<Longrightarrow>
    rj_ops_summary q = summarize_ops (pp_ops r) \<Longrightarrow>
    gate_step (Call_reject_proposal i reason) g (g\<lparr>ga_proposals := upd_by pp_id i (rejected_row now) (ga_proposals g),
      ga_rejections := ga_rejections g @ [q]\<rparr>)"

lemma bsteps_gate: "bsteps db db' \<Longrightarrow> gate_of db' = gate_of db"
proof (induction rule: rtranclp_induct)
  case (step db1 db2)
  have "bstep db1 db2 \<Longrightarrow> gate_of db2 = gate_of db1"
    by (induction rule: bstep.induct) (simp_all add: gate_of_def)
  with step show ?case by simp
qed simp

lemma osteps_gate: "osteps db db' \<Longrightarrow> gate_of db' = gate_of db"
proof (induction rule: rtranclp_induct)
  case (step db1 db2)
  have "ostep db1 db2 \<Longrightarrow> gate_of db2 = gate_of db1"
    by (induction rule: ostep.induct) (simp_all add: gate_of_def bsteps_gate[unfolded gate_of_def, OF r_into_rtranclp])
  with step show ?case by simp
qed simp

lemma gate_pending: "pending_at_gate i (gate_of db) = pending_proposal i db"
  by (simp add: pending_at_gate_def gate_of_def pending_proposal_def)

definition gate_moves :: "Call \<Rightarrow> Db \<Rightarrow> Db \<Rightarrow> bool" where
  "gate_moves c db db' = gate_step c (gate_of db) (gate_of db')"

interpretation gate: step_refl "gate_moves c"
  by unfold_locales (simp add: gate_moves_def gate_step.idle)

lemma submit_gate: "keeps (gate_moves (Call_submit_proposal p)) (submit_proposal p)"
  unfolding submit_proposal_def
proof (intro gate.keeps_after gate.keeps_tx quiet)
  fix now w x w'
  let ?r = "\<lparr>pp_id = pr_id p, pp_status = Proposal_Pending, pp_source = pr_source p, pp_ops = pr_ops p,
    pp_rationale = pr_rationale p, pp_result = None, pp_created_at = now, pp_decided_at = None\<rparr>"
  assume "mbind (query (\<lambda>db. row_by pp_id (pr_id p) (db_proposals db))) (\<lambda>existing.
      case existing of
        Some row \<Rightarrow> mguard (pp_ops row = pr_ops p)
          (SE_Conflict (''proposal '' @ pr_id p @ '' already exists with different ops''))
      | None \<Rightarrow> mthen (validate_in p ''direct'') (mthen (insert_proposal ?r)
          (mthen (append_event ''proposal'' (pr_id p) ''submitted'' None (Some ''pending'')
             (JObj [(''id'', JStr (pr_id p)), (''source'', JStr (proposal_source_wire (pr_source p))),
                    (''ops_count'', JInt (int (length (pr_ops p))))]) now)
          (mret ())))) w = (Inr x, w')"
  then have "w' = w \<or> \<not> taken pp_id (pr_id p) (db_proposals (st_db w))
      \<and> db_proposals (st_db w') = db_proposals (st_db w) @ [?r] \<and> db_rejections (st_db w') = db_rejections (st_db w)"
    by (cases "row_by pp_id (pr_id p) (db_proposals (st_db w))")
      (auto simp: op_iff violation_defs dest!: validate_in_Inr)
  then show "gate_moves (Call_submit_proposal p) (st_db w) (st_db w')"
    using gate_step.submitted[of "Call_submit_proposal p" p ?r _ _ _ "gate_of (st_db w)"]
    by (auto simp: gate_moves_def gate_of_def fresh_row_def intro: gate_step.idle)
qed

lemma sink_submit_gate: "keeps (gate_moves (Call_sink_submit cap draft rec)) (sink_submit cap draft rec)"
  unfolding sink_submit_def
proof (intro gate.keeps_lift_then gate.keeps_guard gate.keeps_sink_tx)
  fix w x w'
  assume "mthen (dry_run (pd_id draft) (pd_ops draft) (pd_rationale draft) cap)
      (map_err Sink_Store (submit_rows draft rec)) w = (Inr x, w')"
  then obtain u w1 where 1: "dry_run (pd_id draft) (pd_ops draft) (pd_rationale draft) cap w = (Inr u, w1)"
      and 2: "submit_rows draft rec w1 = (Inr x, w')"
    by (auto simp: monad_iff store_iff)
  let ?r = "\<lparr>pp_id = pd_id draft, pp_status = Proposal_Pending, pp_source = source_for (ac_engine rec) (ac_served_tier rec),
    pp_ops = pd_ops draft, pp_rationale = pd_rationale draft, pp_result = None,
    pp_created_at = iso8601_at (en_clock (st_env w1) (st_ticks w1)), pp_decided_at = None\<rparr>"
  from 2 have "\<not> taken pp_id (pp_id ?r) (db_proposals (st_db w1)) \<and> db_proposals (st_db w') = db_proposals (st_db w1) @ [?r]
      \<and> db_rejections (st_db w') = db_rejections (st_db w1)"
    by (auto simp: submit_rows_def op_iff violation_defs)
  with dry_run_Inr[OF 1] show "gate_moves (Call_sink_submit cap draft rec) (st_db w) (st_db w')"
    using gate_step.submitted[of "Call_sink_submit cap draft rec" _ ?r cap draft rec "gate_of (st_db w)"]
    by (simp add: gate_moves_def gate_of_def fresh_row_def)
qed

text \<open>What a successful acceptance did: it replayed a receipt, or it claimed the row, ran the batch and filed the receipt.\<close>

lemma apply_proposal_Inr:
  assumes "apply_proposal i w = (Inr out, w')"
  obtains (replay) "pending_proposal i (st_db w) = None" "replay_applied i w = (Inr out, w')"
  | (now) r now w1 w2 where "pending_proposal i (st_db w) = Some r" "ao_applied_now out"
      "st_db w1 = (st_db w)\<lparr>db_proposals := upd_by pp_id i (\<lambda>r. r\<lparr>pp_status := Proposal_Applying\<rparr>) (db_proposals (st_db w))\<rparr>"
      "apply_ops (capability_of i (st_db w1)) (pp_ops r) w1 = (Inr (ap_event_ids (ao_receipt out)), w2)"
      "\<forall>op \<in> set (pp_ops r). sound_op op (st_db w1)"
      "ap_proposal_id (ao_receipt out) = i"
      "st_db w' = (st_db w2)\<lparr>db_proposals := upd_by pp_id i (applied_row (ao_receipt out) now) (db_proposals (st_db w2))\<rparr>"
proof (cases "pending_proposal i (st_db w)")
  case None
  with assms show ?thesis by (intro replay) (auto simp: apply_proposal_def op_iff)
next
  case (Some r)
  with assms show ?thesis
    by (auto simp: apply_proposal_def op_iff set_proposal_def apply_claimed_def applied_row_def[abs_def]
        dest!: validate_in_Inr intro!: now[of r])
qed

lemma upd_by_twice: "(\<And>r. k (f r) = k r) \<Longrightarrow> upd_by k i g (upd_by k i f rows) = upd_by k i (g \<circ> f) rows"
  by (simp add: upd_by_def upd_where_def)

lemma apply_gate: "keeps (gate_moves (Call_apply_proposal i)) (apply_proposal i)"
proof (rule keepsI)
  fix w r w'
  assume run: "apply_proposal i w = (r, w')"
  show "gate_moves (Call_apply_proposal i) (st_db w) (st_db w')"
  proof (cases r)
    case (Inl e)
    with run have "st_db w' = st_db w" by (auto simp: apply_proposal_def store_iff)
    then show ?thesis by (simp add: gate.S_refl)
  next
    case (Inr out)
    with run have "apply_proposal i w = (Inr out, w')" by simp
    then show ?thesis
    proof (cases rule: apply_proposal_Inr)
      case replay
      show ?thesis using replay_quiet[OF replay(2)] by (simp add: gate.S_refl)
    next
      case (now q t w1 w2)
      have "gate_of (st_db w2) = gate_of (st_db w1)" by (rule bsteps_gate[OF apply_ops_steps[OF now(5,4)]])
      then have "gate_of (st_db w') = gate_of (st_db w)\<lparr>ga_proposals := upd_by pp_id i (applied_row (ao_receipt out) t \<circ>
          (\<lambda>r. r\<lparr>pp_status := Proposal_Applying\<rparr>)) (ga_proposals (gate_of (st_db w)))\<rparr>"
        by (simp add: now(3,7) gate_of_def upd_by_twice)
      moreover have "applied_row (ao_receipt out) t \<circ> (\<lambda>r. r\<lparr>pp_status := Proposal_Applying\<rparr>) = applied_row (ao_receipt out) t"
        by (rule ext) (simp add: applied_row_def)
      ultimately show ?thesis
        using gate_step.applied[of i "gate_of (st_db w)" q "ao_receipt out" t] now(1,6) by (simp add: gate_moves_def gate_pending)
    qed
  qed
qed

lemma reject_gate: "keeps (gate_moves (Call_reject_proposal i reason)) (reject_proposal i reason)"
  unfolding reject_proposal_def
  by (intro gate.keeps_after gate.keeps_tx quiet)
    (auto simp: op_iff set_proposal_def gate_moves_def gate_of_def rejected_row_def[abs_def] split: option.splits
      intro!: gate_step.rejected[of i "gate_of _", unfolded gate_pending, simplified gate_of_def, simplified])

lemma mark_done_gate: "keeps (\<lambda>db db'. gate_of db' = gate_of db) (outbox_mark_done i v res)"
  by (simp add: keeps_def outbox_mark_done_def now_iso8601_def stmt_def mbind_def mthen_def mget_def mmod_def mret_def gate_of_def)

lemma exec_gate: "gate_moves c (st_db w) (st_db (exec c w))"
proof (cases "proposal_call c \<or> done_call c")
  case True
  then show ?thesis
    using submit_gate sink_submit_gate apply_gate reject_gate mark_done_gate unfolding keeps_def
    by (cases c) (simp_all add: gate_moves_def gate_step.idle)
next
  case False
  then have "osteps (st_db w) (st_db (exec c w))" using exec_osteps by blast
  then show ?thesis using osteps_gate by (simp add: gate_moves_def gate_step.idle)
qed

section \<open>The life of a proposal\<close>

definition row_settled :: "ProposalRow \<Rightarrow> bool" where
  "row_settled r = (pp_status r \<in> {Proposal_Pending, Proposal_Applied, Proposal_Rejected}
     \<and> (pp_status r = Proposal_Applied \<longleftrightarrow> pp_result r \<noteq> None) \<and> (pp_status r = Proposal_Pending \<longleftrightarrow> pp_decided_at r = None)
     \<and> (case pp_result r of None \<Rightarrow> True | Some a \<Rightarrow> ap_proposal_id a = pp_id r))"

definition rejected_ids :: "Gate \<Rightarrow> string list" where
  "rejected_ids g = map pp_id (filter (\<lambda>r. pp_status r = Proposal_Rejected) (ga_proposals g))"

definition gate_ok :: "Gate \<Rightarrow> bool" where
  "gate_ok g = (distinct (map pp_id (ga_proposals g)) \<and> list_all row_settled (ga_proposals g)
     \<and> mset (map rj_proposal_id (ga_rejections g)) = mset (rejected_ids g))"

lemma pending_gate_row: "pending_at_gate i g = Some r \<Longrightarrow> row_by pp_id i (ga_proposals g) = Some r \<and> pp_status r = Proposal_Pending"
  by (auto simp: pending_at_gate_def split: option.splits if_splits)

lemma gate_settled: "gate_step c g g' \<Longrightarrow> gate_ok g \<Longrightarrow> gate_ok g'"
proof (induction rule: gate_step.induct)
  case (submitted c p r cap draft rec g)
  then show ?case by (auto simp: gate_ok_def taken_def fresh_row_def row_settled_def rejected_ids_def)
next
  case (applied i g r receipt now)
  have r: "row_by pp_id i (ga_proposals g) = Some r" "pp_status r = Proposal_Pending" "distinct (map pp_id (ga_proposals g))"
    using pending_gate_row[OF applied(1)] applied.prems by (simp_all add: gate_ok_def)
  have "filter (\<lambda>r. pp_status r = Proposal_Rejected) (upd_by pp_id i (applied_row receipt now) (ga_proposals g))
      = filter (\<lambda>r. pp_status r = Proposal_Rejected) (ga_proposals g)"
    by (rule filter_upd_other[OF r(1,3)]) (simp_all add: r(2) applied_row_def)
  moreover have "list_all row_settled (upd_by pp_id i (applied_row receipt now) (ga_proposals g))"
    using applied by (intro list_all_upd_by) (auto simp: gate_ok_def row_settled_def applied_row_def)
  ultimately show ?case using applied.prems r(3) by (simp add: gate_ok_def rejected_ids_def keys_update applied_row_def)
next
  case (rejected i g r q reason now)
  have r: "row_by pp_id i (ga_proposals g) = Some r" "pp_status r = Proposal_Pending" "distinct (map pp_id (ga_proposals g))"
    using pending_gate_row[OF rejected(1)] rejected.prems by (simp_all add: gate_ok_def)
  have "mset (filter (\<lambda>r. pp_status r = Proposal_Rejected) (upd_by pp_id i (rejected_row now) (ga_proposals g)))
      = add_mset (rejected_row now r) (mset (filter (\<lambda>r. pp_status r = Proposal_Rejected) (ga_proposals g)))"
    by (rule mset_filter_upd[OF r(1,3)]) (simp_all add: r(2) rejected_row_def)
  then have "mset (rejected_ids (g\<lparr>ga_proposals := upd_by pp_id i (rejected_row now) (ga_proposals g), ga_rejections := ga_rejections g @ [q]\<rparr>))
      = add_mset i (mset (rejected_ids g))"
    using row_by_mem[OF r(1)] by (simp add: rejected_ids_def rejected_row_def)
  moreover have "list_all row_settled (upd_by pp_id i (rejected_row now) (ga_proposals g))"
  proof -
    have "row_settled (rejected_row now x)" if "x \<in> set (ga_proposals g)" "pp_id x = i" for x
    proof -
      have "x = r" using that r by (metis row_by_iff option.inject)
      then show ?thesis using that rejected.prems r(2)
        by (auto simp: gate_ok_def row_settled_def rejected_row_def list_all_iff)
    qed
    then show ?thesis using rejected.prems by (intro list_all_upd_by) (auto simp: gate_ok_def)
  qed
  ultimately show ?case using rejected.prems rejected(2) by (simp add: gate_ok_def keys_update rejected_row_def)
qed simp

definition same_content :: "ProposalRow \<Rightarrow> ProposalRow \<Rightarrow> bool" where
  "same_content r r' = (pp_id r' = pp_id r \<and> pp_ops r' = pp_ops r \<and> pp_source r' = pp_source r \<and> pp_rationale r' = pp_rationale r
     \<and> pp_created_at r' = pp_created_at r)"

lemma row_step: "gate_step c g g' \<Longrightarrow> row_by pp_id i (ga_proposals g) = Some r \<Longrightarrow>
    \<exists>r'. row_by pp_id i (ga_proposals g') = Some r' \<and> same_content r r' \<and> (pp_status r \<noteq> Proposal_Pending \<longrightarrow> r' = r)"
proof (induction rule: gate_step.induct)
  case (applied j g q receipt now)
  then show ?case using pending_gate_row[OF applied(1)]
    by (cases "i = j") (auto simp: row_by_update applied_row_def same_content_def)
next
  case (rejected j g q rj reason now)
  then show ?case using pending_gate_row[OF rejected(1)]
    by (cases "i = j") (auto simp: row_by_update rejected_row_def same_content_def)
qed (auto simp: same_content_def row_by_append)

lemma row_steps: "row_by pp_id i (ga_proposals (gate_of (db_after env calls))) = Some r \<Longrightarrow>
    \<exists>r'. row_by pp_id i (ga_proposals (gate_of (db_after env (calls @ later)))) = Some r' \<and> same_content r r'
      \<and> (pp_status r \<noteq> Proposal_Pending \<longrightarrow> r' = r)"
proof (induction later rule: rev_induct)
  case Nil
  then show ?case by (simp add: same_content_def)
next
  case (snoc c later)
  then obtain r1 where r1: "row_by pp_id i (ga_proposals (gate_of (db_after env (calls @ later)))) = Some r1" "same_content r r1"
      "pp_status r \<noteq> Proposal_Pending \<longrightarrow> r1 = r" by blast
  have "gate_step c (gate_of (db_after env (calls @ later))) (gate_of (db_after env (calls @ later @ [c])))"
    using exec_gate[of c "run env (calls @ later)"] run_snoc[of env "calls @ later" c] by (simp add: gate_moves_def db_after_def)
  from row_step[OF this r1(1)] r1 show ?case by (auto simp: same_content_def)
qed

lemma gate_invariant: "gate_ok (gate_of (db_after env calls))"
proof (induction calls rule: rev_induct)
  case Nil
  then show ?case by (simp add: db_after_def run_def opened_def migrated_db_def gate_of_def gate_ok_def rejected_ids_def)
next
  case (snoc c calls)
  then show ?case using exec_gate[of c "run env calls"] gate_settled by (simp add: gate_moves_def db_after_def run_snoc)
qed

section \<open>Properties\<close>

text \<open>
  C3: whatever a call does, the proposals and rejections on file make at most one step of the gate:
  only a submission adds a row, and it is pending; only the explicit acceptance of that proposal
  makes it applied; only its explicit rejection makes it rejected and files the rejection with it.
  The claim \<open>applying\<close> that the acceptance writes first is never seen after a call.
\<close>
theorem gate_refined:
  "gate_step c (gate_of (db_after env calls)) (gate_of (db_after env (calls @ [c])))"
  using exec_gate[of c "run env calls"] by (simp add: gate_moves_def db_after_def run_snoc)

text \<open>
  C27: after every sequence of calls each proposal is pending, applied or rejected; it has a receipt,
  with its own id, exactly when it is applied and a decision time exactly when it is not pending;
  the rejections are, one for one, those of the rejected proposals.
\<close>
theorem proposals_settled:
  "list_all (\<lambda>r. pp_status r \<in> {Proposal_Pending, Proposal_Applied, Proposal_Rejected}
     \<and> (pp_status r = Proposal_Applied \<longleftrightarrow> pp_result r \<noteq> None) \<and> (pp_status r = Proposal_Pending \<longleftrightarrow> pp_decided_at r = None)
     \<and> (case pp_result r of None \<Rightarrow> True | Some a \<Rightarrow> ap_proposal_id a = pp_id r)) (db_proposals (db_after env calls))
   \<and> mset (map rj_proposal_id (db_rejections (db_after env calls)))
     = mset (map pp_id (filter (\<lambda>r. pp_status r = Proposal_Rejected) (db_proposals (db_after env calls))))"
  using gate_invariant[of env calls] by (simp add: gate_ok_def gate_of_def rejected_ids_def row_settled_def[abs_def])

text \<open>
  C28: a proposal on file stays on file, with the same operations, source, rationale and time, and
  once it is decided no later call changes any column of it.
\<close>
theorem decided_is_final:
  "case row_by pp_id i (db_proposals (db_after env calls)) of
     None \<Rightarrow> True
   | Some r \<Rightarrow> \<exists>r'. row_by pp_id i (db_proposals (db_after env (calls @ later))) = Some r' \<and> same_content r r'
       \<and> (pp_status r = Proposal_Pending \<or> r' = r)"
  using row_steps[of i env calls _ later] by (auto simp: gate_of_def split: option.split)

section \<open>Receipts\<close>

text \<open>The ids a call returns are those of the events it appended, none of them about a proposal.\<close>

definition logs :: "string list \<Rightarrow> Db \<Rightarrow> Db \<Rightarrow> bool" where
  "logs ids db db' = (\<exists>es. db_events db' = db_events db @ es \<and> ids = map ev_id es \<and> list_all (\<lambda>e. ev_entity e \<noteq> ''proposal'') es)"

lemma logs_append: "logs ids db db1 \<Longrightarrow> logs ids' db1 db2 \<Longrightarrow> logs (ids @ ids') db db2"
  by (auto simp: logs_def)

lemma logs_none: "db_events db' = db_events db \<Longrightarrow> logs [] db db'"
  by (simp add: logs_def)

lemma logs_one: "db_events db' = db_events db @ [e] \<Longrightarrow> ev_entity e \<noteq> ''proposal'' \<Longrightarrow> i = ev_id e \<Longrightarrow> logs [i] db db'"
  by (auto simp: logs_def intro!: exI[of _ "[e]"])

lemma logs_two: "db_events db' = db_events db @ [e, f] \<Longrightarrow> ev_entity e \<noteq> ''proposal'' \<Longrightarrow> ev_entity f \<noteq> ''proposal'' \<Longrightarrow>
    i = ev_id e \<Longrightarrow> j = ev_id f \<Longrightarrow> logs [i, j] db db'"
  by (auto simp: logs_def intro!: exI[of _ "[e, f]"])

lemma new_task_logs: "apply_new_task now k nt w = (Inr i, w') \<Longrightarrow> logs [i] (st_db w) (st_db w')"
  by (cases nt) (auto simp: apply_new_task_def op_iff intro!: logs_one)

lemma new_tasks_logs: "mfor (apply_new_task now k) ts w = (Inr ids, w') \<Longrightarrow> logs ids (st_db w) (st_db w')"
proof (induction ts arbitrary: w ids)
  case (Cons t ts)
  then obtain i w1 js where "apply_new_task now k t w = (Inr i, w1)" "mfor (apply_new_task now k) ts w1 = (Inr js, w')" "ids = i # js"
    by (auto simp: monad_iff)
  then show ?case using logs_append[OF new_task_logs Cons.IH] by fastforce
qed (simp add: monad_iff logs_none)

lemma reorder_events: "mfor (reorder_one now k) ts w = (Inr us, w') \<Longrightarrow> db_events (st_db w') = db_events (st_db w)"
proof (induction ts arbitrary: w us)
  case (Cons t ts)
  then obtain u w1 us' where 1: "reorder_one now k t w = (Inr u, w1)" and 2: "mfor (reorder_one now k) ts w1 = (Inr us', w')"
    by (auto simp: monad_iff)
  from 1 have "db_events (st_db w1) = db_events (st_db w)" by (cases t) (auto simp: reorder_one_def op_iff)
  then show ?case using Cons.IH[OF 2] by simp
qed (simp add: monad_iff)

lemma carry_logs: "apply_carry_over now i k w = (Inr ids, w') \<Longrightarrow> logs ids (st_db w) (st_db w')"
  by (auto simp: apply_carry_over_def copy_eval_def set_task_status_def op_iff
    split: option.splits intro!: logs_two)

lemma arm_logs: "apply_arm now cs op w = (Inr ids, w') \<Longrightarrow> logs ids (st_db w) (st_db w')"
proof (cases op)
  case (CreateTasks k ts)
  assume "apply_arm now cs op w = (Inr ids, w')"
  with CreateTasks show ?thesis by (auto simp: apply_create_tasks_def dest: new_tasks_logs)
next
  case (ReorderTasks k order)
  assume "apply_arm now cs op w = (Inr ids, w')"
  with ReorderTasks show ?thesis
    by (auto simp: apply_reorder_tasks_def op_iff intro!: logs_one dest!: reorder_events)
next
  case (CarryOverTask i k)
  assume "apply_arm now cs op w = (Inr ids, w')"
  with CarryOverTask show ?thesis by (auto intro: carry_logs)
qed (auto simp: apply_create_area_def apply_create_task_def apply_create_direction_def apply_transition_task_def
  apply_adjust_rhythm_def apply_assign_direction_def apply_draft_body_def set_task_status_def allocate_area_slug_def op_iff
  split: if_splits intro!: logs_one)

lemma ops_logs: "apply_ops cs ops w = (Inr ids, w') \<Longrightarrow> logs ids (st_db w) (st_db w')"
proof -
  assume "apply_ops cs ops w = (Inr ids, w')"
  then obtain idss where "mfor (apply_op cs) ops w = (Inr idss, w')" "ids = concat idss" by (auto simp: apply_ops_def monad_iff)
  moreover have "mfor (apply_op cs) ops w = (Inr idss, w') \<Longrightarrow> logs (concat idss) (st_db w) (st_db w')" for w
  proof (induction ops arbitrary: w idss)
    case (Cons op ops)
    then obtain js w1 jss where 1: "apply_op cs op w = (Inr js, w1)" and 2: "mfor (apply_op cs) ops w1 = (Inr jss, w')" and "idss = js # jss"
      by (auto simp: monad_iff)
    moreover have "logs js (st_db w) (st_db w1)" using 1 by (auto simp: apply_op_def op_iff dest: arm_logs)
    ultimately show ?case using logs_append[OF _ Cons.IH[OF 2]] by simp
  qed (simp add: monad_iff logs_none)
  ultimately show ?thesis by simp
qed

section \<open>Accepting twice\<close>

lemma replay_value: "row_by pp_id i (db_proposals (st_db w)) = Some r \<Longrightarrow> pp_status r = Proposal_Applied \<Longrightarrow> pp_result r = Some a \<Longrightarrow>
    apply_proposal i w = (Inr \<lparr>ao_receipt = a, ao_applied_now = False\<rparr>, w)"
  by (simp add: apply_proposal_def store_iff op_iff pending_proposal_def replay_applied_def)

lemma applied_visible:
  assumes "apply_proposal i w = (Inr out, w')"
  shows "\<exists>r. row_by pp_id i (db_proposals (st_db w')) = Some r \<and> pp_status r = Proposal_Applied \<and> pp_result r = Some (ao_receipt out)"
  using assms
proof (cases rule: apply_proposal_Inr)
  case replay
  then show ?thesis by (auto simp: replay_applied_def op_iff split: option.splits ProposalStatus.splits)
next
  case (now r t w1 w2)
  have "db_proposals (st_db w2) = db_proposals (st_db w1)" using bsteps_frame[OF apply_ops_steps[OF now(5,4)]] by simp
  with now(1,3) have "row_by pp_id i (db_proposals (st_db w2)) = Some (r\<lparr>pp_status := Proposal_Applying\<rparr>)"
    by (auto simp: row_by_update dest!: pending_row)
  then show ?thesis by (simp add: now(7) row_by_update applied_row_def)
qed

text \<open>
  C5: accepting a proposal is idempotent: once an acceptance has answered, every later acceptance of
  it, after any calls, returns the same receipt, says that nothing was applied now, and leaves the
  whole world as it is.
\<close>
theorem apply_idempotent:
  "case fst (apply_proposal i (run env calls)) of
     Inl e \<Rightarrow> db_after env (calls @ [Call_apply_proposal i]) = db_after env calls
   | Inr out \<Rightarrow> apply_proposal i (run env (calls @ Call_apply_proposal i # later))
       = (Inr \<lparr>ao_receipt = ao_receipt out, ao_applied_now = False\<rparr>, run env (calls @ Call_apply_proposal i # later))"
proof (cases "apply_proposal i (run env calls)")
  case (Pair q w')
  have w': "w' = run env (calls @ [Call_apply_proposal i])" using Pair by (simp add: run_snoc)
  show ?thesis
  proof (cases q)
    case (Inl e)
    with Pair have "st_db w' = st_db (run env calls)" by (auto simp: apply_proposal_def store_iff)
    then show ?thesis using Inl Pair w' by (simp add: db_after_def)
  next
    case (Inr out)
    obtain r where r: "row_by pp_id i (db_proposals (db_after env (calls @ [Call_apply_proposal i]))) = Some r"
        "pp_status r = Proposal_Applied" "pp_result r = Some (ao_receipt out)"
      using applied_visible[of i "run env calls" out w'] Pair Inr w' by (auto simp: db_after_def)
    then have "row_by pp_id i (db_proposals (db_after env ((calls @ [Call_apply_proposal i]) @ later))) = Some r"
      using row_steps[of i env "calls @ [Call_apply_proposal i]" r later] by (auto simp: gate_of_def)
    then show ?thesis using replay_value[of i "run env (calls @ Call_apply_proposal i # later)" r] r Pair Inr by (simp add: db_after_def)
  qed
qed

text \<open>
  C4: an acceptance is all or nothing and its receipt is exact: a refused one leaves the database as
  it was, a repeated one writes nothing, and one that applies now has run the whole batch, its
  receipt lists, in order, the ids of exactly the events it appended, and none of these events is
  about the proposal itself (its change of status is in no event).
\<close>
theorem receipt_exact:
  "case apply_proposal i (run env calls) of
     (Inl e, w) \<Rightarrow> st_db w = db_after env calls
   | (Inr out, w) \<Rightarrow> ap_proposal_id (ao_receipt out) = i \<and> ao_applied_now out = (pending_proposal i (db_after env calls) \<noteq> None)
      \<and> (\<exists>es. db_events (st_db w) = db_events (db_after env calls) @ es
         \<and> (if ao_applied_now out then ap_event_ids (ao_receipt out) = map ev_id es \<and> list_all (\<lambda>e. ev_entity e \<noteq> ''proposal'') es
            else st_db w = db_after env calls))"
proof (cases "apply_proposal i (run env calls)")
  case (Pair q w')
  show ?thesis
  proof (cases q)
    case (Inl e)
    with Pair have "apply_proposal i (run env calls) = (Inl e, w')" by simp
    then have "st_db w' = db_after env calls" by (auto simp: apply_proposal_def store_iff db_after_def)
    with Pair Inl show ?thesis by simp
  next
    case (Inr out)
    with Pair have run: "apply_proposal i (run env calls) = (Inr out, w')" by simp
    have id: "ap_proposal_id (ao_receipt out) = i"
      using applied_visible[OF run] gate_invariant[of env "calls @ [Call_apply_proposal i]"] run
      by (auto simp: gate_ok_def gate_of_def row_settled_def list_all_iff db_after_def run_snoc dest!: row_by_mem)
    from run show ?thesis
    proof (cases rule: apply_proposal_Inr)
      case replay
      then have "\<not> ao_applied_now out" "w' = run env calls"
        by (auto simp: replay_applied_def op_iff split: option.splits ProposalStatus.splits)
      with replay(1) Pair Inr id show ?thesis by (simp add: db_after_def)
    next
      case (now r t w1 w2)
      have "logs (ap_event_ids (ao_receipt out)) (st_db w1) (st_db w2)" by (rule ops_logs[OF now(4)])
      with now(1,2,3,7) Pair Inr id show ?thesis by (auto simp: logs_def db_after_def)
    qed
  qed
qed

section \<open>An accepted batch meets no illegal transition\<close>

text \<open>\<open>fails P m w\<close>: whatever error \<open>m\<close> ends with when started in \<open>w\<close>, it satisfies \<open>P\<close>.\<close>

definition fails :: "('e \<Rightarrow> bool) \<Rightarrow> ('w, 'e, 'a) prog \<Rightarrow> 'w \<Rightarrow> bool" where
  "fails P m w = (\<forall>e w'. m w = (Inl e, w') \<longrightarrow> P e)"

named_theorems fails_rules \<open>which errors a program can end with\<close>

lemma fails_bind [fails_rules]: "fails P m w \<Longrightarrow> (\<And>x w'. m w = (Inr x, w') \<Longrightarrow> fails P (k x) w') \<Longrightarrow> fails P (mbind m k) w"
  unfolding fails_def by (auto simp: monad_iff)

lemma fails_then [fails_rules]: "fails P m w \<Longrightarrow> (\<And>x w'. m w = (Inr x, w') \<Longrightarrow> fails P k w') \<Longrightarrow> fails P (mthen m k) w"
  unfolding fails_def by (auto simp: monad_iff)

lemma fails_pure [fails_rules]: "fails P (mret x) w" "fails P (mget h) w"
  by (auto simp: fails_def monad_iff)

lemma fails_never [fails_rules]: "fails P (query f) w" "fails P (stmt g) w" "fails P ulid w" "fails P now_iso8601 w"
  by (auto simp: fails_def store_iff)

lemma fails_guard [fails_rules]: "P e \<Longrightarrow> fails P (mguard b e) w"
  by (auto simp: fails_def monad_iff)

lemma fails_some [fails_rules]: "P e \<Longrightarrow> fails P (msome r e) w"
  by (auto simp: fails_def monad_iff)

lemma fails_lift: "(\<And>e. r = Inl e \<Longrightarrow> P e) \<Longrightarrow> fails P (mlift r) w"
  by (auto simp: fails_def monad_iff)

lemma fails_option [fails_rules]: "fails P m w \<Longrightarrow> (\<And>x. r = Some x \<Longrightarrow> fails P (k x) w) \<Longrightarrow>
    fails P (case r of None \<Rightarrow> m | Some x \<Rightarrow> k x) w"
  by (cases r) auto

lemma fails_for [fails_rules]: "(\<And>x w. fails P (f x) w) \<Longrightarrow> fails P (mfor f xs) w"
proof (induction xs arbitrary: w)
  case (Cons x xs)
  then show ?case by (auto intro!: fails_rules)
qed (auto intro: fails_rules)

text \<open>The error of an illegal transition, and the rest.\<close>

definition no_transition :: "StoreError \<Rightarrow> bool" where
  "no_transition e = (\<forall>t. e \<noteq> SE_Transition t)"

lemma no_transition_simps [simp]: "no_transition (SE_Sqlx v)" "no_transition (SE_NotFound m)" "no_transition (SE_Conflict m)"
  "no_transition (SE_WeekNotOpen m)" "no_transition (SE_SameWeekCarry m)" "no_transition (SE_Invalid m)" "no_transition (SE_Internal m)"
  by (simp_all add: no_transition_def)

lemma checked_fails [fails_rules]: "fails no_transition (checked_stmt c f) w"
  by (auto simp: fails_def checked_iff)

lemma append_event_fails [fails_rules]: "fails no_transition (append_event ent i k f t p at) w"
  unfolding append_event_def insert_event_def by (intro fails_rules)

lemma insert_fails [fails_rules]: "fails no_transition (insert_area a) w" "fails no_transition (insert_task t) w"
  "fails no_transition (insert_direction d) w" "fails no_transition (insert_eval e) w"
  unfolding insert_defs by (intro fails_rules)+

lemma require_fails [fails_rules]: "fails no_transition (require_task_week_open i) w"
  "fails no_transition (read_task_status i) w" "fails no_transition (read_rhythm_status i) w"
  "fails no_transition (allocate_area_slug title) w"
  unfolding require_task_week_open_def read_task_status_def read_rhythm_status_def allocate_area_slug_def Let_def
  by (intro fails_rules no_transition_simps)+

lemma directions_fails [fails_rules]: "fails no_transition (require_directions_exist as) w"
  by (induction as arbitrary: w) (auto intro!: fails_rules)

lemma parts_fail [fails_rules]: "fails no_transition (copy_eval i j) w" "fails no_transition (set_task_status now i s) w"
  "fails no_transition (reorder_one now k nt) w" "fails no_transition (apply_new_task now k nt2) w"
  unfolding copy_eval_def set_task_status_def reorder_one_def apply_new_task_def
  by (auto intro!: fails_rules split: prod.split)

text \<open>The operations without a check of a transition.\<close>

lemma plain_arms_fail:
  "fails no_transition (apply_create_area now title) w"
  "fails no_transition (apply_create_task now title d p kind energy est) w"
  "fails no_transition (apply_create_direction now title win) w"
  "fails no_transition (apply_create_tasks now k ts) w"
  "fails no_transition (apply_reorder_tasks now k order) w"
  "fails no_transition (apply_assign_direction now cs i d2) w"
  "fails no_transition (apply_draft_body now r body) w"
  unfolding apply_create_area_def apply_create_task_def apply_create_direction_def apply_create_tasks_def apply_reorder_tasks_def
    apply_assign_direction_def apply_draft_body_def
  by (auto simp: Let_def split: prod.split intro!: fails_rules)

text \<open>The validator's overlay follows the database through the batch.\<close>

definition tracks :: "Working \<Rightarrow> Db \<Rightarrow> bool" where
  "tracks v db = ((\<lambda>i. working_task_status i v) \<subseteq>\<^sub>m task_status_in db
     \<and> (\<forall>i. vc_rhythm_is_retired (w_ctx v) i = Some False \<longrightarrow> rhythm_retired_in db i = Some False))"

lemma tracks_task: "tracks v db \<Longrightarrow> working_task_status i v = Some s \<Longrightarrow> task_status_in db i = Some s"
  by (auto simp: tracks_def map_le_def dom_def)

lemma legal_check: "task_transition_allowed s t \<Longrightarrow> check_task_transition s t = Inr ()"
  by (simp add: check_task_transition_def)

lemma transition_fails:
  assumes "tracks v (st_db w)" and "working_task_status i v = Some s" and "task_transition_allowed s to"
  shows "fails no_transition (apply_transition_task now i to) w"
proof -
  have lift: "fails no_transition (mlift (transition_err (check_task_transition prior to))) w2"
    if "require_task_week_open i w = (Inr u, w1)" "read_task_status i w1 = (Inr prior, w2')" for u w1 w2 w2' prior
  proof -
    have "prior = s" using that tracks_task[OF assms(1,2)]
      by (auto simp: require_task_week_open_def read_task_status_def op_iff task_status_in_def split: option.splits)
    then show ?thesis using assms(3) by (auto simp: legal_check transition_err_def intro: fails_lift)
  qed
  show ?thesis unfolding apply_transition_task_def by (rule fails_rules | (rule lift, assumption+) | simp)+
qed

lemma carry_fails:
  assumes "tracks v (st_db w)" and "working_task_status i v = Some s" and "task_transition_allowed s Task_CarriedOver"
  shows "fails no_transition (apply_carry_over now i k) w"
proof -
  have lift: "fails no_transition (mlift (transition_err (check_task_transition prior Task_CarriedOver))) w5"
    if "require_task_week_open i w = (Inr u, w1)" "query (\<lambda>db. row_by tk_id i (db_tasks db)) w1 = (Inr r, w2)"
      "msome r (SE_NotFound (''task '' @ i)) w2 = (Inr src, w3)"
      "mguard (tk_week_id src \<noteq> Some k) (SE_SameWeekCarry i) w3 = (Inr u', w4)"
      "read_task_status i w4 = (Inr prior, w4')" for u w1 r w2 src w3 u' w4 w4' prior w5
  proof -
    have "prior = s" using that tracks_task[OF assms(1,2)]
      by (auto simp: require_task_week_open_def read_task_status_def op_iff task_status_in_def split: option.splits)
    then show ?thesis using assms(3) by (auto simp: legal_check transition_err_def intro: fails_lift)
  qed
  show ?thesis unfolding apply_carry_over_def by (rule fails_rules | (rule lift, assumption+) | simp)+
qed

lemma adjust_fails:
  assumes "tracks v (st_db w)" and "vc_rhythm_is_retired (w_ctx v) i = Some False"
  shows "fails no_transition (apply_adjust_rhythm now i as) w"
proof -
  have lift: "fails no_transition (mlift (transition_err (check_rhythm_transition prior Rhythm_Adjusted))) w2"
    if "require_directions_exist as w = (Inr u, w1)" "read_rhythm_status i w1 = (Inr prior, w2')" for u w1 w2 w2' prior
  proof -
    have "w1 = w" using that(1) by (simp add: store_iff)
    then have "prior \<noteq> Rhythm_Retired" using that(2) assms
      by (auto simp: read_rhythm_status_def op_iff tracks_def rhythm_retired_in_def)
    then have "rhythm_transition_allowed prior Rhythm_Adjusted" by (cases "prior") simp_all
    then show ?thesis by (auto simp: check_rhythm_transition_def transition_err_def intro: fails_lift)
  qed
  show ?thesis unfolding apply_adjust_rhythm_def by (rule fails_rules | (rule lift, assumption+) | simp)+
qed


lemma arm_fails:
  assumes v: "validate_op sha cs op v = (Inr x, v')" and t: "tracks v (st_db w)"
  shows "fails no_transition (apply_arm now cs' op) w"
proof (cases op)
  case (TransitionTask i to)
  then show ?thesis using v t by (auto simp: validate_transition simp del: validate_op.simps intro: transition_fails)
next
  case (CarryOverTask i k)
  then show ?thesis using v t by (auto simp: validate_carry_over simp del: validate_op.simps intro: carry_fails)
next
  case (AdjustRhythm i as)
  then show ?thesis using v t by (auto simp: monad_iff intro: adjust_fails)
qed (simp_all add: plain_arms_fail)

fun effect :: "Sin90Op \<Rightarrow> (string \<rightharpoonup> TaskStatus) \<Rightarrow> (string \<rightharpoonup> TaskStatus)" where
  "effect (TransitionTask i to) m = m(i \<mapsto> to)"
| "effect (CarryOverTask i k) m = m(i \<mapsto> Task_CarriedOver)"
| "effect _ m = m"

lemma effect_mono: "m \<subseteq>\<^sub>m f \<Longrightarrow> effect op m \<subseteq>\<^sub>m effect op f"
  by (cases op) (simp_all add: map_le_upd)

lemma working_set: "(\<lambda>i. working_task_status i (v\<lparr>w_task := (w_task v)(t \<mapsto> s)\<rparr>)) = (\<lambda>i. working_task_status i v)(t \<mapsto> s)"
  by (rule ext) (simp add: working_task_status_def split: option.split)

lemma validate_effect: "validate_op sha cs op v = (Inr x, v') \<Longrightarrow>
    (\<lambda>i. working_task_status i v') = effect op (\<lambda>i. working_task_status i v)"
proof -
  assume v: "validate_op sha cs op v = (Inr x, v')"
  have other: "(\<lambda>i. working_task_status i v') = (\<lambda>i. working_task_status i v)" if "\<And>t. moves t [op] = []"
    using other_ops_keep_tasks[OF v that] validate_op_ctx[OF v] by (simp add: working_task_status_def fun_eq_iff split: option.split)
  show ?thesis
  proof (cases op)
    case (TransitionTask i to)
    then show ?thesis using v by (auto simp: validate_transition working_set simp del: validate_op.simps)
  next
    case (CarryOverTask i k)
    then show ?thesis using v by (auto simp: validate_carry_over working_set simp del: validate_op.simps)
  qed (use other in simp_all)
qed

definition statuses_grow :: "Db \<Rightarrow> Db \<Rightarrow> bool" where
  "statuses_grow db db' = (task_status_in db \<subseteq>\<^sub>m task_status_in db')"

interpretation sg: step_order statuses_grow
  by unfold_locales (auto simp: statuses_grow_def intro: map_le_trans)

lemma statuses_same: "db_tasks db' = db_tasks db \<Longrightarrow> statuses_grow db db'"
  by (simp add: statuses_grow_def task_status_in_def map_le_def)

lemma statuses_insert: "db_tasks db' = db_tasks db @ [r] \<Longrightarrow> statuses_grow db db'"
  by (auto simp: statuses_grow_def task_status_in_def map_le_def row_by_append)

lemma statuses_upd: "db_tasks db' = upd_where c f (db_tasks db) \<Longrightarrow> (\<And>t. tk_id (f t) = tk_id t) \<Longrightarrow> (\<And>t. tk_status (f t) = tk_status t) \<Longrightarrow>
    statuses_grow db db'"
  by (simp add: statuses_grow_def task_status_in_def map_le_def observe_upd_where)

lemma new_task_statuses: "apply_new_task now k nt w = (Inr i, w') \<Longrightarrow> statuses_grow (st_db w) (st_db w')"
  by (cases nt) (auto simp: apply_new_task_def op_iff intro!: statuses_insert)

lemma reorder_statuses: "reorder_one now k nt w = (Inr u, w') \<Longrightarrow> statuses_grow (st_db w) (st_db w')"
  by (cases nt) (auto simp: reorder_one_def op_iff intro!: statuses_upd)

lemma loop_statuses: "(\<And>x w y w'. f x w = (Inr y, w') \<Longrightarrow> statuses_grow (st_db w) (st_db w')) \<Longrightarrow>
    mfor f xs w = (Inr ys, w') \<Longrightarrow> statuses_grow (st_db w) (st_db w')"
  by (rule sg.loop[where Q = "\<lambda>_ _. True"]) auto

lemma task_statuses_set: "row_by tk_id i (db_tasks db) = Some r \<Longrightarrow> db_tasks db' = upd_by tk_id i (\<lambda>t. t\<lparr>tk_status := s, tk_updated_at := now\<rparr>) (db_tasks db) @ rs \<Longrightarrow>
    (task_status_in db)(i \<mapsto> s) \<subseteq>\<^sub>m task_status_in db'"
  by (auto simp: task_status_in_def map_le_def row_by_append row_by_update split: if_splits)

lemma arm_effect:
  assumes a: "apply_arm now cs op w = (Inr ids, w')"
  shows "effect op (task_status_in (st_db w)) \<subseteq>\<^sub>m task_status_in (st_db w')"
proof -
  have plain: "effect op (task_status_in (st_db w)) \<subseteq>\<^sub>m task_status_in (st_db w')"
    if "\<And>m. effect op m = m" "statuses_grow (st_db w) (st_db w')"
    using that by (simp add: statuses_grow_def)
  show ?thesis
  proof (cases op)
    case (TransitionTask i to)
    then show ?thesis using a
      by (auto simp: apply_transition_task_def set_task_status_def read_task_status_def op_iff intro!: task_statuses_set)
  next
    case (CarryOverTask i k)
    then show ?thesis using a
      by (auto simp: apply_carry_over_def copy_eval_def set_task_status_def op_iff split: option.splits intro!: task_statuses_set)
  next
    case (CreateTasks k ts)
    have "statuses_grow (st_db w) (st_db w')"
      by (rule loop_statuses[OF new_task_statuses]) (use a CreateTasks in \<open>simp_all add: apply_create_tasks_def\<close>)
    then show ?thesis using CreateTasks by (intro plain) simp_all
  next
    case (ReorderTasks k order)
    then obtain us w1 where l: "mfor (reorder_one now k) (enumerate 0 order) w = (Inr us, w1)"
        and t: "db_tasks (st_db w') = db_tasks (st_db w1)"
      using a by (auto simp: apply_reorder_tasks_def op_iff)
    have "statuses_grow (st_db w) (st_db w1)" by (rule loop_statuses[OF reorder_statuses l])
    then have "statuses_grow (st_db w) (st_db w')" using statuses_same[OF t] by (rule sg.S_trans)
    then show ?thesis using ReorderTasks by (intro plain) simp_all
  next
    case (CreateTask title d p kind energy est)
    then show ?thesis using a by (intro plain) (auto simp: apply_create_task_def op_iff intro!: statuses_insert)
  next
    case (AssignTaskDirection i d)
    then show ?thesis using a
      by (intro plain) (auto simp: apply_assign_direction_def op_iff split: if_splits intro!: statuses_upd)
  qed (use a in \<open>auto simp: apply_create_area_def apply_create_direction_def apply_adjust_rhythm_def apply_draft_body_def
      allocate_area_slug_def op_iff task_status_in_def map_le_def\<close>)
qed

lemma rhythm_stays: "bsteps db db' \<Longrightarrow> rhythm_retired_in db i = Some False \<Longrightarrow> rhythm_retired_in db' i = Some False"
proof (induction rule: rtranclp_induct)
  case (step db1 db2)
  have "bstep db1 db2 \<Longrightarrow> rhythm_retired_in db1 i = Some False \<Longrightarrow> rhythm_retired_in db2 i = Some False"
    by (induction rule: bstep.induct) (auto simp: rhythm_retired_in_def row_by_update row_by_append)
  with step show ?case by blast
qed

lemma tracks_step:
  assumes v: "validate_op sha cs op v = (Inr x, v')" and t: "tracks v (st_db w)" and s: "sound_op op (st_db w)"
    and a: "apply_op cs' op w = (Inr ids, w')"
  shows "tracks v' (st_db w')"
proof -
  obtain now w1 where 1: "apply_arm now cs' op w1 = (Inr ids, w')" "st_db w1 = st_db w" using a by (auto simp: apply_op_def op_iff)
  have "effect op (\<lambda>i. working_task_status i v) \<subseteq>\<^sub>m effect op (task_status_in (st_db w))"
    using t by (intro effect_mono) (simp add: tracks_def)
  also have "\<dots> \<subseteq>\<^sub>m task_status_in (st_db w')" using arm_effect[OF 1(1)] 1(2) by simp
  finally have m: "(\<lambda>i. working_task_status i v') \<subseteq>\<^sub>m task_status_in (st_db w')" by (simp add: validate_effect[OF v])
  have "bsteps (st_db w) (st_db w')" using apply_op_steps[OF s a] .
  with m t show ?thesis by (auto simp: tracks_def validate_op_ctx[OF v] intro: rhythm_stays)
qed

lemma batch_fails:
  "mfor (validate_op sha cs) ops v = (Inr xs, v') \<Longrightarrow> tracks v (st_db w) \<Longrightarrow> \<forall>op \<in> set ops. sound_op op (st_db w) \<Longrightarrow>
    fails no_transition (mfor (apply_op cs') ops) w"
proof (induction ops arbitrary: v w xs)
  case Nil
  then show ?case by (simp add: fails_pure)
next
  case (Cons op ops)
  then obtain x v1 ys where v1: "validate_op sha cs op v = (Inr x, v1)" and rest: "mfor (validate_op sha cs) ops v1 = (Inr ys, v')"
    by (auto simp: monad_iff)
  have f: "fails no_transition (apply_op cs' op) w"
    unfolding apply_op_def using Cons.prems(2) by (intro fails_rules arm_fails[OF v1]) (auto simp: op_iff)
  have "fails no_transition (mfor (apply_op cs') ops) w1" if a: "apply_op cs' op w = (Inr ids, w1)" for ids w1
  proof (rule Cons.IH[OF rest])
    show "tracks v1 (st_db w1)" using tracks_step[OF v1 _ _ a] Cons.prems by simp
    show "\<forall>op \<in> set ops. sound_op op (st_db w1)"
      using Cons.prems(3) sound_op_stable[OF _ apply_op_steps[OF _ a]] by auto
  qed
  with f show ?case by (auto intro!: fails_bind fails_pure)
qed

lemma tracks_start: "snapshot_sound sha db s \<Longrightarrow> tracks (Working_new (snapshot_ctx s)) db"
  by (auto simp: tracks_def Working_new_def working_task_status_def snapshot_ctx_def snapshot_sound_def map_le_def dom_def
      intro: sym)

lemma validated_ops_fail:
  assumes "validate_in p cs w = (Inr x, w1)"
  shows "fails no_transition (apply_ops cs' (pr_ops p)) w1"
proof -
  let ?s = "snapshot_of (en_sha256 (st_env w)) (pr_ops p) (st_db w)"
  from assms have "w1 = w" and "validate (en_sha256 (st_env w)) p (snapshot_ctx ?s) cs = Inr x"
    by (auto simp: validate_in_def build_snapshot_def monad_iff proposal_err_iff)
  moreover have "\<forall>op \<in> set (pr_ops p). sound_op op (st_db w)" using validate_in_Inr[OF assms] by simp
  ultimately show ?thesis
    unfolding apply_ops_def
    by (auto simp: validate_ok intro!: fails_bind fails_pure intro: batch_fails[OF _ tracks_start[OF snapshot_of_sound]])
qed

lemma validate_in_fails: "fails no_transition (validate_in p cs) w"
  unfolding validate_in_def build_snapshot_def
  by (intro fails_rules fails_lift) (auto simp: proposal_err_iff no_transition_def)

text \<open>
  C2: the validator's simulation of a batch is exact for the status machines: once a batch passes
  the validator, acceptance never meets an illegal transition of a task or a rhythm, however often
  the batch moves one task, and whatever the world is. (An acceptance can still fail, for instance
  because the week of a task is closed.)
\<close>
theorem accepted_batch_has_no_illegal_move:
  "fst (apply_proposal i w) \<noteq> Inl (SE_Transition t)"
proof -
  have "fails no_transition (apply_claimed i r) w1" for r w1
    unfolding apply_claimed_def
  proof (intro fails_then fails_bind fails_rules validate_in_fails, goal_cases)
    case (1 cs w2 u w3)
    then show ?case using validated_ops_fail[OF 1(2)] by simp
  qed (auto simp: Let_def intro!: fails_rules)
  then have "fails no_transition (mbind (query (pending_proposal i)) (\<lambda>claimed. case claimed of
      None \<Rightarrow> replay_applied i
    | Some row \<Rightarrow> mthen (set_proposal i (\<lambda>r. r\<lparr>pp_status := Proposal_Applying\<rparr>)) (apply_claimed i row))) w"
    by (auto simp: set_proposal_def replay_applied_def fails_def op_iff no_transition_def split: option.splits ProposalStatus.splits)
  then show ?thesis
    by (cases "apply_proposal i w") (auto simp: apply_proposal_def store_iff fails_def no_transition_def)
qed

end
