(* ===== verification/Write_Laws.thy ===== *)
theory Write_Laws
  imports Gate_Laws
begin

text \<open>
  What single writes promise beyond the invariants: closed reviews and retired routines stay as
  they are, a fire is recorded once, the export is the body, and the AI sink reaches no table of
  the plan.
\<close>

section \<open>Rows that are closed\<close>

lemma review_step: "dstep db db' \<Longrightarrow> row_by rv_id i (db_reviews db) = Some r \<Longrightarrow>
    \<exists>r'. row_by rv_id i (db_reviews db') = Some r' \<and> (rv_status r = Review_Finalized \<longrightarrow> r' = r)"
proof (induction rule: dstep.induct)
  case (other db db')
  have b: "bstep db db' \<Longrightarrow> row_by rv_id i (db_reviews db) = Some r \<Longrightarrow>
      \<exists>r'. row_by rv_id i (db_reviews db') = Some r' \<and> (rv_status r = Review_Finalized \<longrightarrow> r' = r)" for db db'
    by (induction rule: bstep.induct) (auto simp: row_by_upd_where)
  from other show ?case
    by (induction rule: ostep.induct) (auto simp: row_by_append row_by_update dest: b)
qed auto

lemma routine_step: "dstep db db' \<Longrightarrow> row_by ro_id i (db_routines db) = Some r \<Longrightarrow>
    \<exists>r'. row_by ro_id i (db_routines db') = Some r' \<and> (ro_status r = Routine_Retired \<longrightarrow> Routine.truncate r' = Routine.truncate r)"
proof (induction rule: dstep.induct)
  case (other db db')
  from other show ?case
  proof (induction rule: ostep.induct)
    case (batch db db')
    then show ?case using bstep_frame by auto
  next
    case (patch_routine j db q new now)
    then show ?case by (cases "i = j") (auto simp: row_by_update routine_is_terminal_def)
  next
    case (move_routine j db q to e now)
    then show ?case by (cases "i = j") (auto simp: row_by_update)
  next
    case (suspend db g)
    then show ?case by (auto simp: row_by_map Routine.defs)
  qed (auto simp: row_by_append)
qed auto

lemma fires_step: "dstep db db' \<Longrightarrow> taken rf_fire_id i (db_fires db) \<Longrightarrow> taken rf_fire_id i (db_fires db')"
proof (induction rule: dstep.induct)
  case (other db db')
  have b: "bstep db db' \<Longrightarrow> db_fires db' = db_fires db" for db db'
    by (induction rule: bstep.induct) auto
  from other show ?case by (induction rule: ostep.induct) (auto simp: b)
qed auto

lemma review_steps: "dsteps db db' \<Longrightarrow> row_by rv_id i (db_reviews db) = Some r \<Longrightarrow>
    \<exists>r'. row_by rv_id i (db_reviews db') = Some r' \<and> (rv_status r = Review_Finalized \<longrightarrow> r' = r)"
  by (induction rule: rtranclp_induct) (blast dest: review_step)+

lemma routine_steps: "dsteps db db' \<Longrightarrow> row_by ro_id i (db_routines db) = Some r \<Longrightarrow>
    \<exists>r'. row_by ro_id i (db_routines db') = Some r' \<and> (ro_status r = Routine_Retired \<longrightarrow> Routine.truncate r' = Routine.truncate r)"
proof (induction rule: rtranclp_induct)
  case (step db1 db2)
  then obtain r1 where r1: "row_by ro_id i (db_routines db1) = Some r1"
      "ro_status r = Routine_Retired \<longrightarrow> Routine.truncate r1 = Routine.truncate r" by blast
  moreover have "ro_status r1 = ro_status (Routine.truncate r1)" "ro_status r = ro_status (Routine.truncate r)"
    by (simp_all add: Routine.defs)
  ultimately show ?case using routine_step[OF step.hyps(2) r1(1)] by metis
qed auto

lemma fires_steps: "dsteps db db' \<Longrightarrow> taken rf_fire_id i (db_fires db) \<Longrightarrow> taken rf_fire_id i (db_fires db')"
  by (induction rule: rtranclp_induct) (auto intro: fires_step)

section \<open>Fires\<close>

lemma fire_recorded:
  assumes "record_routine_fire fire key at trigger w = (Inr (Fire_Recorded i review), w')"
  shows "fire_routine_id key = Some i \<and> taken rf_fire_id fire (db_fires (st_db w')) \<and> (\<exists>r. row_by ro_id i (db_routines (st_db w')) = Some r)"
  using assms
  by (auto simp: record_routine_fire_def record_new_fire_def auto_review_def insert_weekly_review_draft_if_absent_def
      weekly_draft_on_def op_iff taken_def split: option.splits if_splits prod.splits)

lemma fire_again:
  assumes "fire_routine_id key = Some i" and "taken rf_fire_id fire (db_fires (st_db w))" and "row_by ro_id i (db_routines (st_db w)) = Some r"
  shows "\<exists>w'. record_routine_fire fire key at trigger w =
    (Inr (if ro_status r = Routine_Retired then Fire_RoutineRetired i else Fire_Duplicate i), w') \<and> st_db w' = st_db w"
  using assms by (auto simp: record_routine_fire_def record_new_fire_def with_tx_def mbind_def query_def mget_def mret_def
      now_iso8601_def mthen_def mmod_def)

section \<open>The AI sink\<close>

text \<open>The database without the tables of the gate and of the AI.\<close>

definition plan_of :: "Db \<Rightarrow> Db" where
  "plan_of db = db\<lparr>db_events := [], db_proposals := [], db_ai_calls := [], db_classify_evals := []\<rparr>"

definition same_plan :: "Db \<Rightarrow> Db \<Rightarrow> bool" where
  "same_plan db db' = (plan_of db' = plan_of db)"

interpretation sp: step_order same_plan
  by unfold_locales (simp_all add: same_plan_def)

lemma sink_submit_plan: "keeps same_plan (sink_submit cap draft rec)"
  unfolding sink_submit_def
proof (intro sp.keeps_lift_then sp.keeps_guard sp.keeps_sink_tx)
  fix w x w'
  assume "mthen (dry_run (pd_id draft) (pd_ops draft) (pd_rationale draft) cap)
      (map_err Sink_Store (submit_rows draft rec)) w = (Inr x, w')"
  then obtain u w1 where 1: "dry_run (pd_id draft) (pd_ops draft) (pd_rationale draft) cap w = (Inr u, w1)"
      and 2: "submit_rows draft rec w1 = (Inr x, w')"
    by (auto simp: monad_iff store_iff)
  from 2 have "plan_of (st_db w') = plan_of (st_db w1)" by (auto simp: submit_rows_def op_iff plan_of_def add_event_def)
  with dry_run_Inr[OF 1] show "same_plan (st_db w) (st_db w')" by (simp add: same_plan_def)
qed

lemma sink_record_call_plan: "keeps same_plan (sink_record_call rec)"
  unfolding sink_record_call_def insert_call_row_def
  by (intro sp.keeps_map_err sp.keeps_checked) (simp add: same_plan_def plan_of_def)

lemma sink_record_eval_plan: "keeps same_plan (sink_record_classify_eval i at)"
  unfolding sink_record_classify_eval_def
  by (intro sp.keeps_map_err sp.keeps_checked) (simp add: same_plan_def plan_of_def)

lemma sink_precheck_same: "st_db (snd (sink_precheck cap drafts w)) = st_db w"
  by (simp add: sink_precheck_def trial_def split: prod.split)

section \<open>Properties\<close>

text \<open>
  C36: whatever calls follow, a finalised review never changes again, in no column, and a retired
  routine keeps every column but the mark of a suspension by the kernel; neither is ever deleted.
\<close>
theorem closed_rows_frozen:
  "(case row_by rv_id i (db_reviews (db_after env calls)) of None \<Rightarrow> True
    | Some r \<Rightarrow> \<exists>r'. row_by rv_id i (db_reviews (db_after env (calls @ later))) = Some r' \<and> (rv_status r = Review_Draft \<or> r' = r))
   \<and> (case row_by ro_id j (db_routines (db_after env calls)) of None \<Rightarrow> True
    | Some q \<Rightarrow> \<exists>q'. row_by ro_id j (db_routines (db_after env (calls @ later))) = Some q'
        \<and> (ro_status q \<in> {Routine_Active, Routine_Paused} \<or> Routine.truncate q' = Routine.truncate q))"
proof -
  have "s = Review_Draft \<or> s = Review_Finalized" for s by (cases s) simp_all
  moreover have "s = Routine_Active \<or> s = Routine_Paused \<or> s = Routine_Retired" for s by (cases s) simp_all
  ultimately show ?thesis
    using review_steps[OF runs_step[of env calls later], of i] routine_steps[OF runs_step[of env calls later], of j]
    by (fastforce split: option.split)
qed

text \<open>
  C30: a fire is recorded once: after a fire was recorded, every later delivery of the same fire for
  the same key, with whatever time and trigger and after any calls, changes nothing in the database.
  It is answered as a duplicate, unless the routine has been retired by then: the code looks at the
  status before it looks for the fire, so then the answer is that the routine is retired.
\<close>
theorem fire_recorded_once:
  "case fst (record_routine_fire fire key at trigger (run env calls)) of
     Inr (Fire_Recorded i review) \<Rightarrow>
       (let w = run env (calls @ Call_record_routine_fire fire key at trigger # later)
        in \<exists>r w'. row_by ro_id i (db_routines (st_db w)) = Some r
          \<and> record_routine_fire fire key at' trigger' w =
              (Inr (if ro_status r = Routine_Retired then Fire_RoutineRetired i else Fire_Duplicate i), w')
          \<and> st_db w' = st_db w)
   | _ \<Rightarrow> True"
proof (cases "record_routine_fire fire key at trigger (run env calls)")
  case (Pair q w1)
  show ?thesis
  proof (cases "\<exists>i review. q = Inr (Fire_Recorded i review)")
    case True
    then obtain i review where q: "q = Inr (Fire_Recorded i review)" by blast
    let ?c = "Call_record_routine_fire fire key at trigger" and ?w = "run env (calls @ Call_record_routine_fire fire key at trigger # later)"
    have w1: "w1 = run env (calls @ [?c])" using Pair by (simp add: run_snoc)
    have f: "fire_routine_id key = Some i" "taken rf_fire_id fire (db_fires (db_after env (calls @ [?c])))"
        "\<exists>r. row_by ro_id i (db_routines (db_after env (calls @ [?c]))) = Some r"
      using fire_recorded[of fire key at trigger "run env calls" i review w1] Pair q w1 by (auto simp: db_after_def)
    have s: "dsteps (db_after env (calls @ [?c])) (st_db ?w)"
      using runs_step[of env "calls @ [?c]" later] by (simp add: db_after_def)
    obtain r where "row_by ro_id i (db_routines (st_db ?w)) = Some r" using f(3) routine_steps[OF s] by blast
    with fire_again[OF f(1) fires_steps[OF s f(2)] this, of at' trigger'] show ?thesis using Pair q by (simp add: Let_def)
  qed (use Pair in \<open>auto split: sum.split RoutineFireOutcome.split\<close>)
qed

text \<open>
  C16: the AI reaches no table of the plan: whatever its sink is asked to do, with whatever
  operations in the draft, the areas, directions, weeks, rhythms, tasks, blocks, reviews, routines,
  fires, attention, settings, rejections and the outbox are as before; a precheck changes no table
  at all, although it runs the operations.
\<close>
theorem ai_reaches_no_plan:
  "plan_of (db_after env (calls @ [Call_sink_submit cap draft rec])) = plan_of (db_after env calls)
   \<and> plan_of (db_after env (calls @ [Call_sink_record_call rec])) = plan_of (db_after env calls)
   \<and> plan_of (db_after env (calls @ [Call_sink_record_classify_eval i at])) = plan_of (db_after env calls)
   \<and> db_after env (calls @ [Call_sink_precheck cap drafts]) = db_after env calls"
  using sink_submit_plan sink_record_call_plan sink_record_eval_plan sink_precheck_same
  by (simp add: keeps_def same_plan_def db_after_def run_snoc)

text \<open>
  C29: a submission of the AI that is taken holds only operations its capability allows, at least
  one, comes from the capability its record names, and is filed as a pending proposal whose source
  says which engine and tier produced it; one that is not taken leaves the database as it was.
\<close>
theorem ai_submission_exact:
  "case sink_submit cap draft rec w of
     (Inl e, w') \<Rightarrow> st_db w' = st_db w
   | (Inr u, w') \<Rightarrow> pd_ops draft \<noteq> [] \<and> list_all (op_allowed cap) (pd_ops draft) \<and> ac_task_kind rec = cap
      \<and> pending_proposal (pd_id draft) (st_db w) = None
      \<and> map_option (\<lambda>r. (pp_ops r, pp_source r)) (pending_proposal (pd_id draft) (st_db w'))
        = Some (pd_ops draft, source_for (ac_engine rec) (ac_served_tier rec))"
proof (cases "sink_submit cap draft rec w")
  case (Pair q w')
  show ?thesis
  proof (cases q)
    case (Inl e)
    with Pair show ?thesis
      by (auto simp: sink_submit_def monad_iff sink_tx_def split: prod.splits sum.splits)
  next
    case (Inr u)
    with Pair have run: "sink_submit cap draft rec w = (Inr u, w')" by simp
    then have a: "allowed_ops cap (pd_ops draft) = Inr ()" "ac_task_kind rec = cap"
      and "sink_tx (mthen (dry_run (pd_id draft) (pd_ops draft) (pd_rationale draft) cap)
        (map_err Sink_Store (submit_rows draft rec))) w = (Inr u, w')"
      by (auto simp: sink_submit_def monad_iff)
    then obtain v w1 where 1: "dry_run (pd_id draft) (pd_ops draft) (pd_rationale draft) cap w = (Inr v, w1)"
        and 2: "submit_rows draft rec w1 = (Inr u, w')"
      by (auto simp: sink_tx_def monad_iff store_iff split: prod.splits sum.splits)
    have "row_by pp_id (pd_id draft) (db_proposals (st_db w1)) = None"
      and "map_option (\<lambda>r. (pp_ops r, pp_source r)) (pending_proposal (pd_id draft) (st_db w'))
        = Some (pd_ops draft, source_for (ac_engine rec) (ac_served_tier rec))"
      using 2 by (auto simp: submit_rows_def op_iff violation_defs not_taken_row pending_proposal_def row_by_append row_by_Cons)
    then show ?thesis using Pair Inr a dry_run_Inr[OF 1]
      by (auto simp: allowed_ops_def pending_proposal_def split: if_splits)
  qed
qed

end
