(* ===== verification/Ladder_Laws.thy ===== *)
theory Ladder_Laws
  imports Ladder "HOL-Library.Sublist"
begin

text \<open>
  The promises of the engine ladder: every model call is paid for from the budget of the run and
  leaves exactly one record, nothing a remote tier served gets through without consent, and an
  aborted run does nothing more.
\<close>

section \<open>Accounting\<close>

definition model_records :: "AiCallRecord list \<Rightarrow> nat" where
  "model_records log = length (filter (\<lambda>r. ac_engine r \<noteq> Engine_Reflex) log)"

fun paid :: "'v Outcome \<Rightarrow> nat" where
  "paid (Produced v engine rec) = (if ac_engine rec = Engine_Reflex then 0 else 1)"
| "paid _ = 0"

fun paid_step :: "'v StepResult \<Rightarrow> nat" where
  "paid_step (Stop out) = paid out"
| "paid_step (Go_On failed det) = 0"

lemma model_records_simps [simp]: "model_records [] = 0"
  "model_records (r # log) = (if ac_engine r = Engine_Reflex then 0 else 1) + model_records log"
  "model_records (log @ log') = model_records log + model_records log'"
  by (simp_all add: model_records_def)

lemma step_paid: "ladder_step po cap step failed det st = (res, st', log) \<Longrightarrow> step \<noteq> Step_Model Engine_Reflex \<Longrightarrow>
    paid_step res + model_records log + rn_calls_left st' = rn_calls_left st"
  by (auto simp: ladder_step_def reflex_step_def model_step_def reply_step_def failure_step_def fresh_record_def
    with_reply_def Let_def split: Step.splits option.splits sum.splits if_splits LadderAction.splits)

lemma steps_paid: "run_steps po cap steps failed det st = (out, st', log) \<Longrightarrow> Step_Model Engine_Reflex \<notin> set steps \<Longrightarrow>
    paid out + model_records log + rn_calls_left st' = rn_calls_left st"
proof (induction po cap steps failed det st arbitrary: out st' log rule: run_steps.induct)
  case (2 po cap step steps failed det st)
  obtain res st1 log1 where s: "ladder_step po cap step failed det st = (res, st1, log1)"
    by (cases "ladder_step po cap step failed det st")
  have p: "paid_step res + model_records log1 + rn_calls_left st1 = rn_calls_left st"
    using step_paid[OF s] 2(3) by auto
  show ?case
  proof (cases res)
    case (Go_On failed1 det1)
    obtain log2 where r: "run_steps po cap steps failed1 det1 (st1\<lparr>rn_tick := Suc (rn_tick st1)\<rparr>) = (out, st', log2)"
        and l: "log = log1 @ log2"
      using 2(2) s Go_On by (auto split: prod.splits)
    from 2(1)[OF s[symmetric] Go_On refl r] Go_On 2(3) p l show ?thesis by simp
  qed (use 2(2) s p in auto)
qed auto

lemma plan_proper: "Step_Model Engine_Reflex \<notin> set (plan cap access settings present)"
  by (simp add: plan_def)

lemma item_paid: "run_item po cap steps st = (out, st', log) \<Longrightarrow> Step_Model Engine_Reflex \<notin> set steps \<Longrightarrow>
    paid out + model_records log + rn_calls_left st' = rn_calls_left st"
  by (auto simp: run_item_def split: if_splits dest: steps_paid)

lemma items_paid: "run_items cap steps pos st = (outs, st', log) \<Longrightarrow> Step_Model Engine_Reflex \<notin> set steps \<Longrightarrow>
    sum_list (map paid outs) + model_records log + rn_calls_left st' = rn_calls_left st"
proof (induction pos arbitrary: st outs st' log)
  case (Cons po pos)
  obtain out st1 log1 where i: "run_item po cap steps st = (out, st1, log1)" by (cases "run_item po cap steps st")
  obtain outs2 log2 where r: "run_items cap steps pos st1 = (outs2, st', log2)" "outs = out # outs2" "log = log1 @ log2"
    using Cons.prems(1) i by (auto split: prod.splits)
  show ?case using item_paid[OF i Cons.prems(2)] Cons.IH[OF r(1) Cons.prems(2)] r(2,3) by simp
qed auto

section \<open>What gets through\<close>

fun of_engine :: "(Engine \<Rightarrow> bool) \<Rightarrow> 'v Outcome \<Rightarrow> bool" where
  "of_engine p (Produced v engine rec) = (p engine \<and> ac_engine rec = engine)"
| "of_engine p _ = True"

fun local_only :: "'v Outcome \<Rightarrow> bool" where
  "local_only (Produced v engine rec) = (ac_served_tier rec \<noteq> Some Tier_Remote)"
| "local_only _ = True"

text \<open>A property of outcomes and records that every step has, the run has.\<close>

lemma steps_all:
  assumes step: "\<And>step failed det st res st' log. step \<in> set steps \<Longrightarrow> ladder_step po cap step failed det st = (res, st', log) \<Longrightarrow>
      (case res of Stop out \<Rightarrow> P out | Go_On f d \<Rightarrow> True) \<and> list_all Q log"
    and "\<And>det. P (Nothing_Produced det)"
    and "run_steps po cap steps failed det st = (out, st', log)"
  shows "P out \<and> list_all Q log"
  using assms(1,3)
proof (induction po cap steps failed det st arbitrary: out st' log rule: run_steps.induct)
  case (1 po cap failed det st)
  then show ?case using assms(2) by auto
next
  case (2 po cap step steps failed det st)
  obtain res st1 log1 where s: "ladder_step po cap step failed det st = (res, st1, log1)"
    by (cases "ladder_step po cap step failed det st")
  have p: "(case res of Stop out \<Rightarrow> P out | Go_On f d \<Rightarrow> True) \<and> list_all Q log1"
    by (rule 2(2)[OF _ s]) simp
  show ?case
  proof (cases res)
    case (Go_On failed1 det1)
    obtain log2 where r: "run_steps po cap steps failed1 det1 (st1\<lparr>rn_tick := Suc (rn_tick st1)\<rparr>) = (out, st', log2)"
        and l: "log = log1 @ log2"
      using 2(3) s Go_On by (auto split: prod.splits)
    have "P out \<and> list_all Q log2"
      by (rule 2(1)[OF s[symmetric] Go_On refl _ r]) (erule 2(2)[rotated], simp)
    with p l show ?thesis by simp
  qed (use 2(3) s p in auto)
qed

lemma items_all:
  assumes step: "\<And>po step failed det st res st' log. po \<in> set pos \<Longrightarrow> step \<in> set steps \<Longrightarrow>
      ladder_step po cap step failed det st = (res, st', log) \<Longrightarrow>
      (case res of Stop out \<Rightarrow> P out | Go_On f d \<Rightarrow> True) \<and> list_all Q log"
    and "\<And>det. P (Nothing_Produced det)" and "P Aborted"
    and "run_items cap steps pos st = (outs, st', log)"
  shows "list_all P outs \<and> list_all Q log"
  using assms(1,4)
proof (induction pos arbitrary: st outs st' log)
  case (Cons po pos)
  obtain out st1 log1 where i: "run_item po cap steps st = (out, st1, log1)" by (cases "run_item po cap steps st")
  obtain outs2 log2 where r: "run_items cap steps pos st1 = (outs2, st', log2)" "outs = out # outs2" "log = log1 @ log2"
    using Cons.prems(2) i by (auto split: prod.splits)
  have "P out \<and> list_all Q log1"
  proof (cases "rn_aborted st")
    case True
    then show ?thesis using i assms(3) by (simp add: run_item_def)
  next
    case False
    then have "run_steps po cap steps None False st = (out, st1, log1)" using i by (simp add: run_item_def)
    then show ?thesis by (rule steps_all[rotated 2]) (erule (1) Cons.prems(1)[rotated], simp, rule assms(2))
  qed
  moreover have "list_all P outs2 \<and> list_all Q log2" by (rule Cons.IH[OF _ r(1)]) (erule (1) Cons.prems(1)[rotated], simp)
  ultimately show ?case using r(2,3) by simp
qed auto

section \<open>Aborts\<close>

lemma step_abort: "ladder_step po cap step failed det st = (res, st', log) \<Longrightarrow> \<not> rn_aborted st \<Longrightarrow>
    rn_aborted st' = (case res of Stop Aborted \<Rightarrow> True | _ \<Rightarrow> False)"
  by (auto simp: ladder_step_def reflex_step_def model_step_def reply_step_def failure_step_def Let_def
    split: Step.splits option.splits sum.splits if_splits LadderAction.splits)

lemma steps_abort: "run_steps po cap steps failed det st = (out, st', log) \<Longrightarrow> \<not> rn_aborted st \<Longrightarrow>
    rn_aborted st' = (case out of Aborted \<Rightarrow> True | _ \<Rightarrow> False)"
proof (induction po cap steps failed det st arbitrary: out st' log rule: run_steps.induct)
  case (2 po cap step steps failed det st)
  obtain res st1 log1 where s: "ladder_step po cap step failed det st = (res, st1, log1)"
    by (cases "ladder_step po cap step failed det st")
  show ?case
  proof (cases res)
    case (Go_On failed1 det1)
    obtain log2 where r: "run_steps po cap steps failed1 det1 (st1\<lparr>rn_tick := Suc (rn_tick st1)\<rparr>) = (out, st', log2)"
      using 2(2) s Go_On by (auto split: prod.splits)
    from 2(1)[OF s[symmetric] Go_On refl r] step_abort[OF s 2(3)] Go_On show ?thesis by simp
  qed (use 2(2,3) s step_abort[OF s 2(3)] in \<open>auto split: Outcome.splits\<close>)
qed auto

lemma aborted_items: "rn_aborted st \<Longrightarrow> run_items cap steps pos st = (map (\<lambda>_. Aborted) pos, st, [])"
  by (induction pos) (simp_all add: run_item_def)

fun aborted_item :: "'v Outcome \<Rightarrow> bool" where
  "aborted_item Aborted = True"
| "aborted_item _ = False"

lemma items_abort: "run_items cap steps pos st = (outs, st', log) \<Longrightarrow> \<not> rn_aborted st \<Longrightarrow> rn_aborted st' = list_ex aborted_item outs"
proof (induction pos arbitrary: st outs st' log)
  case (Cons po pos)
  obtain out st1 log1 where i: "run_item po cap steps st = (out, st1, log1)" by (cases "run_item po cap steps st")
  obtain outs2 log2 where r: "run_items cap steps pos st1 = (outs2, st', log2)" "outs = out # outs2" "log = log1 @ log2"
    using Cons.prems(1) i by (auto split: prod.splits)
  have "run_steps po cap steps None False st = (out, st1, log1)" using i Cons.prems(2) by (simp add: run_item_def)
  then have a: "rn_aborted st1 = aborted_item out" using steps_abort Cons.prems(2) by (cases out) fastforce+
  show ?case
  proof (cases "rn_aborted st1")
    case True
    then show ?thesis using aborted_items[OF True, of cap steps pos] r a by simp
  next
    case False
    then show ?thesis using Cons.IH[OF r(1) False] r(2) a by simp
  qed
qed auto

lemma items_append: "run_items cap steps pos st = (outs1, st1, log1) \<Longrightarrow> run_items cap steps pos' st1 = (outs2, st2, log2) \<Longrightarrow>
    run_items cap steps (pos @ pos') st = (outs1 @ outs2, st2, log1 @ log2)"
  by (induction pos arbitrary: st outs1 log1) (auto split: prod.splits)

section \<open>Properties\<close>

text \<open>
  C24: the calls to models are exactly accounted for: in a run over any items, the records of failed
  or refused model calls, the results that a model produced and the calls that are left add up to
  the budget of 20, so a run never makes more than 20 calls and none goes unrecorded.
\<close>
theorem model_budget:
  "case run_items cap (plan cap access settings present) items RunState_new of (outs, st, log) \<Rightarrow>
     length (filter (\<lambda>r. ac_engine r \<noteq> Engine_Reflex) log) + sum_list (map paid outs) + rn_calls_left st = 20"
proof (cases "run_items cap (plan cap access settings present) items RunState_new")
  case (fields outs st log)
  from items_paid[OF this plan_proper] show ?thesis
    unfolding fields by (simp add: model_records_def RunState_new_def MAX_MODEL_CALLS_PER_RUN_def)
qed

text \<open>
  C23: without consent nothing remote gets through: when the setting is off whenever it is read
  (a setting that cannot be read counts as off), no result of the run was served by a remote tier
  and none is attributed to the executive; and when the plan was made without consent or for local
  access only, the executive engine is not called at all.
\<close>
theorem nothing_remote_without_consent:
  assumes "run_items cap (plan cap access settings present) items st = (outs, st', log)"
  shows "(list_all (\<lambda>po. \<forall>n. \<not> as_executive_enabled (fresh_settings po n)) items \<longrightarrow> list_all local_only outs)
    \<and> (access = Access_LocalOnly \<or> \<not> as_executive_enabled settings \<longrightarrow>
         list_all (of_engine (\<lambda>e. e \<noteq> Engine_Executive)) outs \<and> list_all (\<lambda>r. ac_engine r \<noteq> Engine_Executive) log)"
proof (intro conjI impI)
  assume off: "list_all (\<lambda>po. \<forall>n. \<not> as_executive_enabled (fresh_settings po n)) items"
  have "list_all local_only outs \<and> list_all (\<lambda>_. True) log"
    by (rule items_all[OF _ _ _ assms])
      (use off in \<open>auto simp: list_all_iff ladder_step_def reflex_step_def model_step_def reply_step_def failure_step_def
        fresh_record_def with_reply_def tripwire_def Let_def
        split: Step.splits option.splits sum.splits if_splits LadderAction.splits\<close>)
  then show "list_all local_only outs" ..
next
  assume no: "access = Access_LocalOnly \<or> \<not> as_executive_enabled settings"
  have "Step_Model Engine_Executive \<notin> set (plan cap access settings present)" using no by (auto simp: plan_def)
  then have "list_all (of_engine (\<lambda>e. e \<noteq> Engine_Executive)) outs \<and> list_all (\<lambda>r. ac_engine r \<noteq> Engine_Executive) log"
    by (intro items_all[OF _ _ _ assms])
      (auto simp: ladder_step_def reflex_step_def model_step_def reply_step_def failure_step_def
        fresh_record_def with_reply_def Let_def
        split: Step.splits option.splits sum.splits if_splits LadderAction.splits)
  then show "list_all (of_engine (\<lambda>e. e \<noteq> Engine_Executive)) outs" "list_all (\<lambda>r. ac_engine r \<noteq> Engine_Executive) log" by auto
qed

definition leaky_port :: "nat Ports" where
  "leaky_port = \<lparr>po_run_id = ''r'', po_model_present = True,
     po_complete = (\<lambda>n e. Inr \<lparr>mr_text = ''5'', mr_model_id = None, mr_tier = Tier_Remote, mr_prompt_tokens = None,
       mr_completion_tokens = None\<rparr>),
     po_settings = (\<lambda>n. None), po_past_deadline = (\<lambda>n. False), po_now = (\<lambda>n. ''t''), po_mint_id = (\<lambda>n. ''i''),
     po_elapsed_ms = (\<lambda>n. 0), po_parse = (\<lambda>r. Inr 5), po_reflex_decisive = None, po_reflex_fallback = Some 7\<rparr>"

theorem nothing_remote_without_consent_witness:
  "case run_items Cap_Propose (plan Cap_Propose Access_LocalOnly AiSettings_default True) [leaky_port] RunState_new of
     (outs, st, log) \<Rightarrow> list_all local_only outs \<and> list_all (\<lambda>r. ac_engine r \<noteq> Engine_Executive) log \<and> length log = 1"
proof (cases "run_items Cap_Propose (plan Cap_Propose Access_LocalOnly AiSettings_default True) [leaky_port] RunState_new")
  case (fields outs st log)
  have "length log = 1"
    using fields by (auto simp: plan_def run_item_def RunState_new_def leaky_port_def ladder_step_def model_step_def reply_step_def
      reflex_step_def fresh_record_def with_reply_def tripwire_def fresh_settings_def AiSettings_default_def
      MAX_MODEL_CALLS_PER_RUN_def Let_def)
  moreover have "list_all (\<lambda>po. \<forall>n. \<not> as_executive_enabled (fresh_settings po n)) [leaky_port]"
    by (simp add: leaky_port_def fresh_settings_def AiSettings_default_def)
  ultimately show ?thesis using nothing_remote_without_consent[OF fields] fields by simp
qed

text \<open>
  an abort ends the run: the first item whose call says that the connection is lost, the call
  was cancelled or the generation ends is reported as aborted, and so is every later item, and no
  record is written after it.
\<close>
lemma abort_is_final:
  "case run_items cap steps (items @ later) RunState_new of (outs, st, log) \<Rightarrow>
   case run_items cap steps items RunState_new of (outs1, st1, log1) \<Rightarrow>
     prefix outs1 outs \<and> prefix log1 log \<and>
     (if list_ex aborted_item outs1 then outs = outs1 @ map (\<lambda>_. Aborted) later \<and> log = log1 else True)"
proof -
  obtain outs1 st1 log1 where i: "run_items cap steps items RunState_new = (outs1, st1, log1)"
    by (cases "run_items cap steps items RunState_new")
  obtain outs2 st2 log2 where l: "run_items cap steps later st1 = (outs2, st2, log2)" by (cases "run_items cap steps later st1")
  have "rn_aborted st1 = list_ex aborted_item outs1"
    using items_abort[OF i] by (simp add: RunState_new_def)
  then show ?thesis using items_append[OF i l] i l aborted_items[of st1 cap steps later] by auto
qed

end
