(* ===== verification/Programs.thy ===== *)
theory Programs
  imports Prelude
begin

text \<open>
  Programs that run beside others: catching an error, and the relations between the world a program
  finds and the world it leaves, whatever it returns.
\<close>

definition attempt :: "('w, 'e, 'a) prog \<Rightarrow> ('w, 'e, 'e + 'a) prog" where
  "attempt m w = (case m w of (r, w') \<Rightarrow> (Inr r, w'))"

definition effects :: "('w \<Rightarrow> 'w \<Rightarrow> bool) \<Rightarrow> ('w, 'e, 'a) prog \<Rightarrow> bool" where
  "effects R m = (\<forall>p. R p (snd (m p)))"

lemma movesD: "effects R m \<Longrightarrow> m p = (r, p') \<Longrightarrow> R p p'"
  by (metis effects_def snd_conv)

lemma movesI: "(\<And>p r p'. m p = (r, p') \<Longrightarrow> R p p') \<Longrightarrow> effects R m"
  unfolding effects_def by (metis surjective_pairing)

text \<open>A reflexive and transitive relation that the steps of a program keep.\<close>

locale world_order =
  fixes R :: "'w \<Rightarrow> 'w \<Rightarrow> bool"
  assumes R_refl: "R p p"
    and R_trans: "R p q \<Longrightarrow> R q r \<Longrightarrow> R p r"
begin

lemma moves_ret: "effects R (mret x)" and moves_fail: "effects R (mfail e)" and moves_get: "effects R (mget f)"
  by (auto simp: effects_def mret_def mfail_def mget_def R_refl)

lemma moves_lift: "effects R (mlift r)"
  by (cases r) (auto simp: mlift_def moves_ret moves_fail)

lemma moves_guard: "effects R (mguard b e)"
  by (simp add: mguard_def moves_ret moves_fail)

lemma moves_bind: "effects R m \<Longrightarrow> (\<And>x. effects R (k x)) \<Longrightarrow> effects R (mbind m k)"
  by (rule movesI) (auto simp: mbind_def split: prod.splits sum.splits dest: movesD intro: R_trans)

lemma moves_bind_post:
  assumes "effects R m" and "\<And>p x p'. m p = (Inr x, p') \<Longrightarrow> P x" and "\<And>x. P x \<Longrightarrow> effects R (k x)"
  shows "effects R (mbind m k)"
proof (rule movesI)
  fix p r p'
  assume run: "mbind m k p = (r, p')"
  obtain q p1 where m: "m p = (q, p1)" by (cases "m p")
  show "R p p'"
  proof (cases q)
    case (Inr x)
    with m assms(2)[of p x p1] assms(3) have "effects R (k x)" by simp
    with run m Inr have "R p1 p'" by (auto simp: mbind_def dest: movesD)
    with movesD[OF assms(1) m] show ?thesis by (rule R_trans)
  qed (use run m movesD[OF assms(1) m] in \<open>simp add: mbind_def\<close>)
qed

lemma moves_then: "effects R m \<Longrightarrow> effects R k \<Longrightarrow> effects R (mthen m k)"
  by (simp add: mthen_def moves_bind)

lemma moves_attempt: "effects R m \<Longrightarrow> effects R (attempt m)"
  by (rule movesI) (auto simp: attempt_def split: prod.splits dest: movesD)

lemma moves_for: "(\<And>x. x \<in> set xs \<Longrightarrow> effects R (f x)) \<Longrightarrow> effects R (mfor f xs)"
  by (induction xs) (auto intro!: moves_bind moves_ret)

lemmas moves_world = moves_ret moves_get moves_fail moves_lift moves_guard moves_bind moves_then moves_attempt moves_for

end

end
