(* ===== verification/Reconciler.thy ===== *)
theory Reconciler
  imports Api Payloads Programs
begin

text \<open>
  The reconciler of \<open>src/adapter_agent24/reconciler.rs\<close>: it lands the rows of the outbox on the
  kernel and compares the kernel's schedules with the routines. The kernel is a parameter: its
  answers are oracles indexed by the number of \<open>await\<close> points passed so far. At every \<open>await\<close>
  other tasks of the program may run, so each one is preceded by an arbitrary list of calls of the
  store (\<open>kn_during\<close>). Log lines have no effect.
\<close>

section \<open>The kernel\<close>

text \<open>
  The errors of the SDK's client the source tells apart, and the rest. \<open>is_permanent\<close> and the texts
  are the SDK's.
\<close>

datatype ClientError =
    CE_Forbidden | CE_QuotaExceeded | CE_InvalidParams | CE_TokenInvalid | CE_PayloadTooLarge
  | CE_NotFound | CE_Revoked | CE_ConnectionLost
  | CE_RateLimited | CE_Busy | CE_NotReady | CE_Draining
  | CE_Rest string

datatype ModuleSpec = Spec_Cron string "string option" | Spec_Rest

record ModuleScheduleState =
  ms_key :: string
  ms_spec :: ModuleSpec
  ms_enabled :: bool
  ms_user_suspended :: bool
  ms_system_disabled_reason :: "string option"

datatype RememberOnce = Remember_Found string | Remember_Created string | Remember_Inconclusive

datatype KernelCall =
    KC_Upsert string ModuleSpec bool
  | KC_Delete string
  | KC_Remember string string Json
  | KC_List

record Kernel =
  kn_during :: "nat \<Rightarrow> Call list"
  kn_upsert :: "nat \<Rightarrow> string \<Rightarrow> ModuleSpec \<Rightarrow> bool \<Rightarrow> ClientError + unit"
  kn_delete :: "nat \<Rightarrow> string \<Rightarrow> ClientError + unit"
  kn_remember :: "nat \<Rightarrow> string \<Rightarrow> string \<Rightarrow> Json \<Rightarrow> ClientError + RememberOnce"
  kn_list :: "nat \<Rightarrow> ClientError + ModuleScheduleState list"
  kn_is_permanent :: "ClientError \<Rightarrow> bool"
  kn_show :: "ClientError \<Rightarrow> string"
  kn_parse_error :: "string \<Rightarrow> Json \<Rightarrow> string"
  kn_recall_max_pages :: nat
  kn_instant :: "nat \<Rightarrow> nat"

text \<open>
  The task: the store it shares, the await points it has passed and the requests it has sent, each
  with the await at which it waits for the answer.
\<close>

record Pump =
  pu_kernel :: Kernel
  pu_store :: Sin90Store
  pu_awaits :: nat
  pu_sent :: "(nat \<times> KernelCall) list"

datatype ReconcileError = RE_Store StoreError | RE_Kernel ClientError

type_synonym 'a pump = "(Pump, ReconcileError, 'a) prog"

definition await :: "unit pump" where
  "await = mmod (\<lambda>p. p\<lparr>pu_store := fold exec (kn_during (pu_kernel p) (pu_awaits p)) (pu_store p),
     pu_awaits := Suc (pu_awaits p)\<rparr>)"

definition at_once :: "'a store \<Rightarrow> 'a pump" where
  "at_once m p = (case m (pu_store p) of (Inl e, w) \<Rightarrow> (Inl (RE_Store e), p\<lparr>pu_store := w\<rparr>)
     | (Inr x, w) \<Rightarrow> (Inr x, p\<lparr>pu_store := w\<rparr>))"

definition on_store :: "'a store \<Rightarrow> 'a pump" where
  "on_store m = mthen await (at_once m)"

text \<open>A request leaves, other tasks run, the answer arrives: the one the kernel gives at that await.\<close>

definition ask :: "KernelCall \<Rightarrow> (Kernel \<Rightarrow> nat \<Rightarrow> 'a) \<Rightarrow> 'a pump" where
  "ask c answer =
     mbind (mget pu_awaits) (\<lambda>n.
     mthen (mmod (\<lambda>p. p\<lparr>pu_sent := pu_sent p @ [(n, c)]\<rparr>))
     (mthen await (mget (\<lambda>p. answer (pu_kernel p) n))))"

record ReconcilerClients =
  rc_scheduler :: bool
  rc_memory :: bool

definition clients_any :: "ReconcilerClients \<Rightarrow> bool" where
  "clients_any c = (rc_scheduler c \<or> rc_memory c)"

section \<open>Memories\<close>

definition remember_body :: "RememberDesired \<Rightarrow> Json" where
  "remember_body d = JObj [(''review_id'', JStr (rm_review_id d)), (''review_kind'', JStr (rm_review_kind d)),
     (''period'', JStr (rm_period d)), (''summary'', JStr (rm_summary d)), (''finalized_at'', JStr (rm_finalized_at d))]"

text \<open>\<open>{:?}\<close> of a text without characters to escape.\<close>

definition quoted :: "string \<Rightarrow> string" where
  "quoted s = [char_of (34 :: nat)] @ s @ [char_of (34 :: nat)]"

definition em_dash :: string where
  "em_dash = map char_of [226, 128, 148 :: nat]"

definition inconclusive_text :: "string \<Rightarrow> nat \<Rightarrow> string" where
  "inconclusive_text dedup_key pages = ''recall pre-check for dedup_key '' @ quoted dedup_key @ '' did not finish within '' @
     dec pages @ '' pages (cursor still non-empty) '' @ em_dash @ '' cannot yet tell whether a memory already exists; '' @
     ''retrying later rather than risking a duplicate remember''"

definition remember_review_summary :: "RememberDesired \<Rightarrow> (ClientError + string) pump" where
  "remember_review_summary d =
     mbind (ask (KC_Remember ''review.summary'' (rm_dedup_key d) (remember_body d))
       (\<lambda>kn n. (kn_remember kn n ''review.summary'' (rm_dedup_key d) (remember_body d), kn_recall_max_pages kn))) (\<lambda>(r, pages).
     mret (case r of
         Inl e \<Rightarrow> Inl e
       | Inr (Remember_Found i) \<Rightarrow> Inr i
       | Inr (Remember_Created i) \<Rightarrow> Inr i
       | Inr Remember_Inconclusive \<Rightarrow> Inl (CE_Rest (inconclusive_text (rm_dedup_key d) pages))))"

section \<open>One row\<close>

definition backoff_after :: "int \<Rightarrow> nat" where
  "backoff_after attempts_after_increment =
     (let exponent = nat (max (max (attempts_after_increment - 1) (- (2 ^ 63))) 0) mod 2 ^ 32;
          secs = (if exponent < 64 then 2 ^ exponent else 2 ^ 64 - 1)
      in min secs 300)"

fun permanent_failure_kind :: "ClientError \<Rightarrow> string" where
  "permanent_failure_kind CE_Forbidden = ''forbidden''"
| "permanent_failure_kind CE_QuotaExceeded = ''quota_exceeded''"
| "permanent_failure_kind CE_InvalidParams = ''invalid_params''"
| "permanent_failure_kind CE_TokenInvalid = ''token_invalid''"
| "permanent_failure_kind CE_PayloadTooLarge = ''payload_too_large''"
| "permanent_failure_kind _ = ''other''"

definition OTHER_BUCKET_EXHAUSTION_THRESHOLD :: nat where
  "OTHER_BUCKET_EXHAUSTION_THRESHOLD = 20"

definition UNKNOWN_KIND_RETRY_SECS :: nat where
  "UNKNOWN_KIND_RETRY_SECS = 3600"

datatype RowOutcome = Row_Continue | Row_StopBatch | Row_Revoked

definition after_secs :: "nat \<Rightarrow> string store" where
  "after_secs secs = mbind (mget (\<lambda>w. iso8601_after_secs (en_clock (st_env w) (st_ticks w)) secs))
     (\<lambda>t. mthen (mmod (\<lambda>w. w\<lparr>st_ticks := Suc (st_ticks w)\<rparr>)) (mret t))"

definition mark_bad_desired :: "OutboxRow \<Rightarrow> RowOutcome pump" where
  "mark_bad_desired row =
     mbind (mget (\<lambda>p. kn_parse_error (pu_kernel p) (ob_kind row) (ob_desired row))) (\<lambda>text.
     mthen (on_store (outbox_mark_failed (ob_id row) (ob_version row) ''bad_desired''
       (ob_kind row @ '' desired payload: '' @ text))) (mret Row_Continue))"

text \<open>The dispatch on the kind: an early return on the left, the kernel's answer on the right.\<close>

definition dispatch_row :: "ReconcilerClients \<Rightarrow> OutboxRow \<Rightarrow> (RowOutcome + (ClientError + string option)) pump" where
  "dispatch_row clients row =
     (if ob_kind row = ''scheduler.upsert'' then
        (case parse_upsert_desired (ob_desired row) of
           None \<Rightarrow> mbind (mark_bad_desired row) (\<lambda>out. mret (Inl out))
         | Some d \<Rightarrow>
             if \<not> rc_scheduler clients then mret (Inl Row_Continue)
             else let spec = Spec_Cron (ud_cron d) (Some (ud_tz d)) in
               mbind (ask (KC_Upsert (ud_key d) spec (ud_enabled d)) (\<lambda>kn n. kn_upsert kn n (ud_key d) spec (ud_enabled d)))
                 (\<lambda>r. mret (Inr (map_sum id (\<lambda>_. None) r))))
      else if ob_kind row = ''scheduler.delete'' then
        (case parse_delete_desired (ob_desired row) of
           None \<Rightarrow> mbind (mark_bad_desired row) (\<lambda>out. mret (Inl out))
         | Some key \<Rightarrow>
             if \<not> rc_scheduler clients then mret (Inl Row_Continue)
             else mbind (ask (KC_Delete key) (\<lambda>kn n. kn_delete kn n key)) (\<lambda>r. mret (Inr (map_sum id (\<lambda>_. None) r))))
      else if ob_kind row = ''memory.remember'' then
        (case parse_remember_desired (ob_desired row) of
           None \<Rightarrow> mbind (mark_bad_desired row) (\<lambda>out. mret (Inl out))
         | Some d \<Rightarrow>
             if \<not> rc_memory clients then mret (Inl Row_Continue)
             else mbind (remember_review_summary d) (\<lambda>r. mret (Inr (map_sum id Some r))))
      else
        mbind (at_once (after_secs UNKNOWN_KIND_RETRY_SECS)) (\<lambda>t.
        mthen (on_store (outbox_mark_retry (ob_id row) (ob_version row)
          (''unrecognized outbox kind '' @ quoted (ob_kind row) @ '' '' @ em_dash @ '' forward-compat wait, not a failure'') t False))
        (mret (Inl Row_Continue))))"

definition retry_row :: "OutboxRow \<Rightarrow> string \<Rightarrow> bool \<Rightarrow> unit pump" where
  "retry_row row text bump_other_bucket =
     mbind (at_once (after_secs (backoff_after (int (ob_attempts row) + 1)))) (\<lambda>t.
       on_store (outbox_mark_retry (ob_id row) (ob_version row) text t bump_other_bucket))"

text \<open>The classification of the answer, its arms in the order of the source.\<close>

definition settle_error :: "OutboxRow \<Rightarrow> ClientError \<Rightarrow> RowOutcome pump" where
  "settle_error row e =
     mbind (mget (\<lambda>p. (kn_is_permanent (pu_kernel p) e, kn_show (pu_kernel p) e))) (\<lambda>(permanent, text).
     if e = CE_NotFound \<and> ob_kind row = ''scheduler.delete'' then
       mthen (on_store (outbox_mark_done (ob_id row) (ob_version row) None)) (mret Row_Continue)
     else if e = CE_Revoked then mret Row_Revoked
     else if e = CE_ConnectionLost then mret Row_StopBatch
     else if permanent then
       mthen (on_store (outbox_mark_failed (ob_id row) (ob_version row) (permanent_failure_kind e) text)) (mret Row_Continue)
     else if e \<in> {CE_RateLimited, CE_Busy, CE_NotReady, CE_Draining} then
       mthen (retry_row row text False) (mret Row_StopBatch)
     else if ob_other_bucket_attempts row + 1 \<ge> OTHER_BUCKET_EXHAUSTION_THRESHOLD then
       mthen (on_store (outbox_mark_failed (ob_id row) (ob_version row) ''exhausted'' text)) (mret Row_Continue)
     else mthen (retry_row row text True) (mret Row_Continue))"

definition settle_row :: "OutboxRow \<Rightarrow> ClientError + string option \<Rightarrow> RowOutcome pump" where
  "settle_row row result =
     (case result of
        Inr result_ref \<Rightarrow> mthen (on_store (outbox_mark_done (ob_id row) (ob_version row) result_ref)) (mret Row_Continue)
      | Inl e \<Rightarrow> settle_error row e)"

definition apply_one :: "ReconcilerClients \<Rightarrow> OutboxRow \<Rightarrow> RowOutcome pump" where
  "apply_one clients row =
     mbind (on_store (outbox_row_is_current (ob_id row) (ob_version row))) (\<lambda>current.
     if \<not> current then mret Row_Continue
     else mbind (dispatch_row clients row) (\<lambda>r.
       case r of Inl out \<Rightarrow> mret out | Inr result \<Rightarrow> settle_row row result))"

section \<open>A pass over the due rows\<close>

datatype PumpControl = Pump_Continue | Pump_Stop

fun drain_rows :: "ReconcilerClients \<Rightarrow> OutboxRow list \<Rightarrow> PumpControl pump" where
  "drain_rows clients [] = mret Pump_Continue"
| "drain_rows clients (row # rows) =
     mbind (apply_one clients row) (\<lambda>out.
       case out of
         Row_Continue \<Rightarrow> drain_rows clients rows
       | Row_StopBatch \<Rightarrow> mret Pump_Continue
       | Row_Revoked \<Rightarrow> mret Pump_Stop)"

definition drain_pending_before :: "ReconcilerClients \<Rightarrow> string \<Rightarrow> PumpControl pump" where
  "drain_pending_before clients now = mbind (on_store (outbox_due_pending now)) (drain_rows clients)"

definition drain_pending :: "ReconcilerClients \<Rightarrow> PumpControl pump" where
  "drain_pending clients = mbind (at_once now_iso8601) (drain_pending_before clients)"

section \<open>The full comparison\<close>

record LocalDesired =
  ld_routine_id :: string
  ld_cron :: string
  ld_tz :: string
  ld_enabled :: bool

text \<open>
  \<open>BTreeMap::insert\<close> on the list of entries in the order of the keys. Upper case of a cron text is
  the ASCII one: a text with other letters is no cron expression.
\<close>

fun bt_insert :: "string \<Rightarrow> 'v \<Rightarrow> (string \<times> 'v) list \<Rightarrow> (string \<times> 'v) list" where
  "bt_insert k v [] = [(k, v)]"
| "bt_insert k v ((k', v') # kvs) =
     (if k < k' then (k, v) # (k', v') # kvs else if k = k' then (k, v) # kvs else (k', v') # bt_insert k v kvs)"

definition normalize_cron :: "string \<Rightarrow> string" where
  "normalize_cron expr = to_ascii_uppercase (join_with '' '' (split_whitespace expr))"

fun spec_matches :: "ModuleSpec \<Rightarrow> string \<Rightarrow> string \<Rightarrow> bool" where
  "spec_matches (Spec_Cron expr ktz) cron tz =
     (normalize_cron expr = normalize_cron cron \<and> map_option trim ktz = Some (trim tz))"
| "spec_matches Spec_Rest cron tz = False"

definition local_desired :: "Routine \<Rightarrow> LocalDesired" where
  "local_desired r = \<lparr>ld_routine_id = ro_id r, ld_cron = ro_cron r, ld_tz = ro_tz r, ld_enabled = (ro_status r = Routine_Active)\<rparr>"

definition local_map :: "Routine list \<Rightarrow> (string \<times> LocalDesired) list" where
  "local_map routines = fold (\<lambda>r m. if ro_status r = Routine_Retired then m
     else bt_insert (routine_kernel_key (ro_id r)) (local_desired r) m) routines []"

definition local_desired_map :: "(string \<times> LocalDesired) list pump" where
  "local_desired_map = mbind (on_store (list_routines None None None)) (\<lambda>routines. mret (local_map routines))"

definition needs_upsert :: "ModuleScheduleState \<Rightarrow> LocalDesired \<Rightarrow> bool" where
  "needs_upsert state d = (ms_system_disabled_reason state \<noteq> None \<or> \<not> spec_matches (ms_spec state) (ld_cron d) (ld_tz d)
     \<or> ms_enabled state \<noteq> ld_enabled d)"

text \<open>The first loop; it returns the ids of the routines a human has suspended on the kernel.\<close>

fun correct_local :: "(string \<times> ModuleScheduleState) list \<Rightarrow> LocalDesired list \<Rightarrow> string list pump" where
  "correct_local kern [] = mret []"
| "correct_local kern (d # ds) =
     (case map_of kern (routine_kernel_key (ld_routine_id d)) of
        None \<Rightarrow> mthen (on_store (outbox_enqueue_upsert_for_routine (ld_routine_id d))) (correct_local kern ds)
      | Some state \<Rightarrow>
          if ms_user_suspended state then
            mbind (correct_local kern ds) (\<lambda>ids. mret (ld_routine_id d # ids))
          else if needs_upsert state d then
            mthen (on_store (outbox_enqueue_upsert_for_routine (ld_routine_id d))) (correct_local kern ds)
          else correct_local kern ds)"

text \<open>The second loop, over the keys of the kernel.\<close>

fun delete_orphans :: "(string \<times> LocalDesired) list \<Rightarrow> string list \<Rightarrow> unit pump" where
  "delete_orphans loc [] = mret ()"
| "delete_orphans loc (key # keys) =
     (if map_of loc key \<noteq> None then delete_orphans loc keys
      else case strip_prefix key ''routine.'' of
        None \<Rightarrow> delete_orphans loc keys
      | Some routine_id_lower \<Rightarrow>
          mthen (on_store (outbox_enqueue_delete_for_orphan (to_ascii_uppercase routine_id_lower) key))
            (delete_orphans loc keys))"

definition reconcile_full :: "ReconcilerClients \<Rightarrow> unit pump" where
  "reconcile_full clients =
     (if \<not> rc_scheduler clients then mret ()
      else mbind local_desired_map (\<lambda>loc.
        mbind (ask KC_List kn_list) (\<lambda>answer.
        mbind (mlift (map_sum RE_Kernel id answer)) (\<lambda>schedules.
        let kern = fold (\<lambda>s m. bt_insert (ms_key s) s m) schedules [] in
        mbind (correct_local kern (map snd loc)) (\<lambda>suspended.
        mthen (delete_orphans loc (map fst kern))
          (on_store (sync_kernel_suspended_routines suspended)))))))"

definition reconcile_once :: "ReconcilerClients \<Rightarrow> unit pump" where
  "reconcile_once clients = mthen (reconcile_full clients) (mthen (drain_pending clients) (mret ()))"

section \<open>The pump\<close>

record PumpState =
  ps_full_ok :: bool
  ps_full_attempts :: nat
  ps_next_full_attempt :: nat
  ps_last_full_success :: nat

definition PumpState_new :: "nat \<Rightarrow> PumpState" where
  "PumpState_new now = \<lparr>ps_full_ok = False, ps_full_attempts = 0, ps_next_full_attempt = now, ps_last_full_success = now\<rparr>"

definition instant :: "nat pump" where
  "instant = mget (\<lambda>p. kn_instant (pu_kernel p) (pu_awaits p))"

definition full_reconcile_due :: "nat \<Rightarrow> nat \<Rightarrow> PumpState \<Rightarrow> bool" where
  "full_reconcile_due interval now state =
     (if ps_full_ok state then interval \<le> now - ps_last_full_success state else ps_next_full_attempt state \<le> now)"

definition try_full :: "ReconcilerClients \<Rightarrow> PumpState \<Rightarrow> (PumpControl \<times> PumpState) pump" where
  "try_full clients state =
     mbind (attempt (reconcile_full clients)) (\<lambda>r.
     mbind instant (\<lambda>now.
       mret (case r of
         Inr _ \<Rightarrow> (Pump_Continue, state\<lparr>ps_full_ok := True, ps_full_attempts := 0, ps_last_full_success := now\<rparr>)
       | Inl (RE_Kernel CE_Revoked) \<Rightarrow> (Pump_Stop, state)
       | Inl _ \<Rightarrow> (Pump_Continue, state\<lparr>ps_full_attempts := ps_full_attempts state + 1,
           ps_next_full_attempt := now + backoff_after (int (ps_full_attempts state) + 1)\<rparr>))))"

definition pump_tick :: "ReconcilerClients \<Rightarrow> PumpState \<Rightarrow> nat \<Rightarrow> (PumpControl \<times> PumpState) pump" where
  "pump_tick clients state full_reconcile_interval =
     mbind (attempt (drain_pending clients)) (\<lambda>r.
     if r = Inr Pump_Stop then mret (Pump_Stop, state)
     else mbind instant (\<lambda>now.
       if full_reconcile_due full_reconcile_interval now state then try_full clients state
       else mret (Pump_Continue, state)))"

definition FULL_RECONCILE_INTERVAL :: nat where
  "FULL_RECONCILE_INTERVAL = 3600"

text \<open>
  The loop of \<open>spawn_pump_loop\<close> up to its \<open>n\<close>-th wake; a sleep or a notification ends each wait, and
  what other tasks do meanwhile is the interference of the next await.
\<close>

fun pump_loop :: "nat \<Rightarrow> ReconcilerClients \<Rightarrow> PumpState \<Rightarrow> (PumpControl \<times> PumpState) pump" where
  "pump_loop 0 clients state = mret (Pump_Continue, state)"
| "pump_loop (Suc n) clients state =
     mbind (pump_tick clients state FULL_RECONCILE_INTERVAL) (\<lambda>(control, state1).
       if control = Pump_Stop then mret (Pump_Stop, state1)
       else mthen await (pump_loop n clients state1))"

end
