(* ===== verification/Reconciler_Laws.thy ===== *)
theory Reconciler_Laws
  imports Reconciler Store_Properties Gate_Laws
begin

text \<open>
  The reconciler next to the rest of the program: whatever runs at its awaits, it is a sequence of
  calls of the store; a row is done only when its desired state was accepted by the kernel; a
  kernel that accepts everything gets every due row.
\<close>

section \<open>What the pump may do\<close>

text \<open>A reflexive and transitive relation that the steps of the pump keep.\<close>

locale pump_core = world_order R for R :: "Pump \<Rightarrow> Pump \<Rightarrow> bool" +
  assumes R_await: "effects R await"
begin

lemma moves_query: "effects R (at_once (query f))"
  by (auto simp: effects_def at_once_def query_def mget_def R_refl)

lemma moves_on_store: "effects R (at_once m) \<Longrightarrow> effects R (on_store m)"
  by (simp add: on_store_def moves_then R_await)

lemmas moves_core = moves_world moves_on_store moves_query R_await

end

text \<open>The same with the requests and the pump's writes, the settling of a row apart.\<close>

locale pump_frame = pump_core +
  assumes R_send: "effects R (mmod (\<lambda>p. p\<lparr>pu_sent := pu_sent p @ [(pu_awaits p, c)]\<rparr>))"
    and R_tick: "effects R (at_once (mmod (\<lambda>w. w\<lparr>st_ticks := Suc (st_ticks w)\<rparr>)))"
    and R_retry: "effects R (at_once (outbox_mark_retry i v err at b))"
    and R_failed: "effects R (at_once (outbox_mark_failed i v kind err))"
    and R_upsert: "effects R (at_once (outbox_enqueue_upsert_for_routine i))"
    and R_delete: "effects R (at_once (outbox_enqueue_delete_for_orphan i key))"
    and R_sync: "effects R (at_once (sync_kernel_suspended_routines ids))"
begin

lemmas moves_control = moves_core R_retry R_failed R_upsert R_delete R_sync

lemma moves_ask: "effects R (ask c answer)"
proof (rule movesI)
  fix p r p'
  assume "ask c answer p = (r, p')"
  then have p': "p' = snd (await (p\<lparr>pu_sent := pu_sent p @ [(pu_awaits p, c)]\<rparr>))"
    by (auto simp: ask_def mthen_def mbind_def mget_def mmod_def await_def)
  from R_send[of c] have "R p (p\<lparr>pu_sent := pu_sent p @ [(pu_awaits p, c)]\<rparr>)" by (simp add: effects_def mmod_def)
  with R_await show "R p p'" unfolding p' effects_def by (blast intro: R_trans)
qed

lemma moves_read_clock: "effects R (at_once (mbind (mget f) (\<lambda>t. mthen (mmod (\<lambda>w. w\<lparr>st_ticks := Suc (st_ticks w)\<rparr>)) (mret t))))"
  using R_tick by (simp add: effects_def at_once_def mbind_def mthen_def mget_def mmod_def mret_def)

lemma moves_clock: "effects R (at_once now_iso8601)" "effects R (at_once (after_secs n))"
  using moves_read_clock[of "\<lambda>w. iso8601_at (en_clock (st_env w) (st_ticks w))"]
    moves_read_clock[of "\<lambda>w. iso8601_after_secs (en_clock (st_env w) (st_ticks w)) n"]
  by (simp_all add: now_iso8601_def after_secs_def)

lemma moves_dispatch: "effects R (dispatch_row clients row)"
  unfolding dispatch_row_def mark_bad_desired_def remember_review_summary_def outbox_row_is_current_def
  by (auto simp: Let_def split: option.split prod.split intro!: moves_control moves_ask moves_clock)

lemma moves_settle_error:
  assumes "effects R (at_once (outbox_mark_done (ob_id row) (ob_version row) None)) \<or> e \<noteq> CE_NotFound \<or> ob_kind row \<noteq> ''scheduler.delete''"
  shows "effects R (settle_error row e)"
  using assms unfolding settle_error_def retry_row_def
  by (auto split: prod.split intro!: moves_control moves_clock)

lemma moves_reconcile_full: "effects R (reconcile_full clients)"
proof -
  have "effects R (correct_local kern ds)" for kern ds
    by (induction ds) (auto split: option.split intro!: moves_control)
  moreover have "effects R (delete_orphans loc keys)" for loc keys
    by (induction keys) (auto split: option.split intro!: moves_control)
  ultimately show ?thesis
    unfolding reconcile_full_def local_desired_map_def list_routines_def Let_def
    by (auto intro!: moves_control moves_ask)
qed

end

text \<open>
  A row in the hands of the pump was read from the store earlier; what settling it may do can
  depend on that.
\<close>

locale pump_order = pump_frame +
  assumes R_apply: "row \<in> set (db_outbox (st_db (pu_store p))) \<Longrightarrow> R p q \<Longrightarrow> R q (snd (apply_one clients row q))"
begin

lemma drain_rows_moves: "set rows \<subseteq> set (db_outbox (st_db (pu_store p))) \<Longrightarrow> R p q \<Longrightarrow> R q (snd (drain_rows clients rows q))"
proof (induction rows arbitrary: q)
  case (Cons row rows)
  obtain out q1 where a: "apply_one clients row q = (out, q1)" by fastforce
  then have q1: "R q q1" using R_apply[of row p q clients] Cons.prems by simp
  with Cons have "R q1 (snd (drain_rows clients rows q1))" using R_trans by auto
  with q1 a show ?case
    by (cases out) (auto simp: mbind_def mret_def split: RowOutcome.split intro: R_trans)
qed (simp add: mret_def R_refl)

lemma moves_drain: "effects R (drain_pending clients)"
proof -
  have "effects R (drain_pending_before clients now)" for now
  proof (rule movesI)
    fix p r p'
    assume d: "drain_pending_before clients now p = (r, p')"
    define p1 where "p1 = snd (await p)"
    have "p' = snd (drain_rows clients (sort_key ob_created_at (filter (\<lambda>r. ob_status r = ''pending'' \<and>
        (case ob_next_attempt_at r of None \<Rightarrow> True | Some t \<Rightarrow> t \<le> now)) (db_outbox (st_db (pu_store p1))))) p1)"
      using d by (auto simp: drain_pending_before_def on_store_def at_once_def outbox_due_pending_def query_def mthen_def
        mbind_def mget_def p1_def await_def mmod_def)
    moreover have "R p p1" using R_await by (simp add: effects_def p1_def)
    ultimately show "R p p'" using drain_rows_moves[OF _ R_refl] by (auto intro: R_trans)
  qed
  then show ?thesis unfolding drain_pending_def by (auto intro!: moves_bind moves_clock)
qed

lemma moves_tick: "effects R (pump_tick clients state interval)"
  unfolding pump_tick_def try_full_def instant_def
  by (auto intro!: moves_control moves_drain moves_reconcile_full split: prod.split)

lemma moves_loop: "effects R (pump_loop n clients state)"
  by (induction n arbitrary: state) (auto intro!: moves_control moves_tick split: prod.split)

end

text \<open>When a settled row needs no history.\<close>

locale pump_steps = pump_frame +
  assumes R_done: "effects R (at_once (outbox_mark_done i v res))"
begin

lemma moves_apply: "effects R (apply_one clients row)"
  unfolding apply_one_def settle_row_def outbox_row_is_current_def
  by (auto split: sum.split intro!: moves_control moves_dispatch moves_settle_error R_done)

end

sublocale pump_steps \<subseteq> pump_order R
  using moves_apply by unfold_locales (simp add: effects_def)

section \<open>The pump is a sequence of calls\<close>

fun pump_call :: "Call \<Rightarrow> bool" where
  "pump_call (Call_outbox_mark_done i v res) = True"
| "pump_call (Call_outbox_mark_retry i v err at b) = True"
| "pump_call (Call_outbox_mark_failed i v kind err) = True"
| "pump_call (Call_outbox_enqueue_upsert i) = True"
| "pump_call (Call_outbox_enqueue_delete i key) = True"
| "pump_call (Call_sync_kernel_suspended_routines ids) = True"
| "pump_call Call_today_view = True"
| "pump_call _ = False"

definition by_calls :: "Pump \<Rightarrow> Pump \<Rightarrow> bool" where
  "by_calls p q = (pu_kernel q = pu_kernel p \<and> (\<exists>cs. pu_store q = fold exec cs (pu_store p)
     \<and> list_all (\<lambda>c. pump_call c \<or> (\<exists>n. c \<in> set (kn_during (pu_kernel p) n))) cs))"

lemma at_once_sel: "pu_store (snd (at_once m p)) = snd (m (pu_store p))" "pu_kernel (snd (at_once m p)) = pu_kernel p"
  "pu_sent (snd (at_once m p)) = pu_sent p" "pu_awaits (snd (at_once m p)) = pu_awaits p"
  by (auto simp: at_once_def split: prod.split sum.split)

lemma by_one_call: "(\<And>w. snd (m w) = exec c w) \<Longrightarrow> pump_call c \<Longrightarrow> effects by_calls (at_once m)"
  by (auto simp: effects_def by_calls_def at_once_sel intro!: exI[of _ "[c]"])

lemma today_view_is_tick: "exec Call_today_view w = w\<lparr>st_ticks := Suc (st_ticks w)\<rparr>"
  by (simp add: today_view_def local_day_start_utc_def query_def mbind_def mthen_def mget_def mmod_def mret_def)

interpretation calls: pump_steps by_calls
proof unfold_locales
  show "by_calls p p" for p by (auto simp: by_calls_def intro!: exI[of _ "[]"])
next
  show "by_calls p r" if pq: "by_calls p q" and qr: "by_calls q r" for p q r
  proof -
    obtain cs ds where "pu_store q = fold exec cs (pu_store p)" "pu_store r = fold exec ds (pu_store q)"
        "list_all (\<lambda>c. pump_call c \<or> (\<exists>n. c \<in> set (kn_during (pu_kernel p) n))) (cs @ ds)"
      using pq qr by (auto simp: by_calls_def)
    with pq qr show ?thesis by (auto simp: by_calls_def intro!: exI[of _ "cs @ ds"])
  qed
next
  show "effects by_calls await"
    by (auto simp: effects_def by_calls_def await_def mmod_def list_all_iff intro!: exI[of _ "kn_during _ _"])
next
  show "effects by_calls (mmod (\<lambda>p. p\<lparr>pu_sent := pu_sent p @ [(pu_awaits p, c)]\<rparr>))" for c
    by (auto simp: effects_def by_calls_def mmod_def intro!: exI[of _ "[]"])
next
  show "effects by_calls (at_once (mmod (\<lambda>w. w\<lparr>st_ticks := Suc (st_ticks w)\<rparr>)))"
    by (rule by_one_call[of _ Call_today_view]) (simp_all add: today_view_is_tick del: exec.simps, simp add: mmod_def)
next
  show "effects by_calls (at_once (outbox_mark_retry i v err at b))" for i v err at b
    by (rule by_one_call[of _ "Call_outbox_mark_retry i v err at b"]) simp_all
next
  show "effects by_calls (at_once (outbox_mark_failed i v kind err))" for i v kind err
    by (rule by_one_call[of _ "Call_outbox_mark_failed i v kind err"]) simp_all
next
  show "effects by_calls (at_once (outbox_enqueue_upsert_for_routine i))" for i
    by (rule by_one_call[of _ "Call_outbox_enqueue_upsert i"]) simp_all
next
  show "effects by_calls (at_once (outbox_enqueue_delete_for_orphan i key))" for i key
    by (rule by_one_call[of _ "Call_outbox_enqueue_delete i key"]) simp_all
next
  show "effects by_calls (at_once (sync_kernel_suspended_routines ids))" for ids
    by (rule by_one_call[of _ "Call_sync_kernel_suspended_routines ids"]) simp_all
next
  show "effects by_calls (at_once (outbox_mark_done i v res))" for i v res
    by (rule by_one_call[of _ "Call_outbox_mark_done i v res"]) simp_all
qed

text \<open>The pump task at its start, on a fresh store.\<close>

definition pump_on :: "Kernel \<Rightarrow> Env \<Rightarrow> Pump" where
  "pump_on kn env = \<lparr>pu_kernel = kn, pu_store = opened env, pu_awaits = 0, pu_sent = []\<rparr>"

text \<open>
  C9: however the pump task and the other tasks interleave, the store ends as after one sequence of
  its public calls, in which the pump's own are the write-backs of outbox rows, the corrections and
  the mirror of suspensions; so what holds after every sequence of calls holds under the pump too.
\<close>
theorem pump_is_calls:
  "\<exists>cs. pu_store (snd (pump_loop n clients state (pump_on kn env))) = run env cs
     \<and> list_all (\<lambda>c. pump_call c \<or> (\<exists>k. c \<in> set (kn_during kn k))) cs"
proof -
  have "by_calls (pump_on kn env) (snd (pump_loop n clients state (pump_on kn env)))"
    using calls.moves_loop by (simp add: effects_def)
  then show ?thesis by (simp add: by_calls_def run_def pump_on_def)
qed

section \<open>Payloads\<close>

definition payloads_ok :: "Db \<Rightarrow> bool" where
  "payloads_ok db = (keys_ok db \<and> list_all (\<lambda>r. payload_ok (ob_kind r) (ob_dedup_key r) (ob_desired r)) (db_outbox db))"

lemma payloads_ostep: "ostep db db' \<Longrightarrow> payloads_ok db \<Longrightarrow>
    list_all (\<lambda>r. payload_ok (ob_kind r) (ob_dedup_key r) (ob_desired r)) (db_outbox db')"
proof (induction rule: ostep.induct)
  case (batch db db')
  then show ?case by (simp add: payloads_ok_def bstep_frame)
next
  case (outbox_overwrite r db kind desired)
  have "ob_dedup_key q = ob_dedup_key r" if "q \<in> set (db_outbox db)" "ob_id q = ob_id r" for q
    using that outbox_overwrite live_row_mem[of "ob_dedup_key r" "db_outbox db" r]
    by (auto simp: payloads_ok_def keys_ok_def distinct_map inj_on_def)
  with outbox_overwrite show ?case
    by (auto simp: payloads_ok_def overwrite_row_def intro!: list_all_upd_by)
qed (auto simp: payloads_ok_def intro!: list_all_upd)

lemma payloads_dstep: "dstep db db' \<Longrightarrow> payloads_ok db \<Longrightarrow>
    list_all (\<lambda>r. payload_ok (ob_kind r) (ob_dedup_key r) (ob_desired r)) (db_outbox db')"
  by (induction rule: dstep.induct) (auto simp: payloads_ok_def intro!: list_all_upd dest: payloads_ostep[unfolded payloads_ok_def])

lemma payloads_step: "dstep db db' \<Longrightarrow> payloads_ok db \<Longrightarrow> payloads_ok db'"
  using keys.step payloads_dstep by (simp add: payloads_ok_def)

interpretation payloads: store_invariant payloads_ok
  by unfold_locales (erule (1) payloads_step[OF dstep.other, OF ostep.batch] payloads_step[OF dstep.other] payloads_step
    | simp add: payloads_ok_def keys.migrated | simp add: migrated_db_def)+

text \<open>
  C32: every outbox row the store ever holds is one the reconciler understands: its kind is one of the
  three it dispatches on, its payload has the fields of that kind's struct, and the key inside it is
  the one its deduplication key names.
\<close>
theorem payloads_understood:
  "list_all (\<lambda>r. (ob_kind r = ''scheduler.upsert'' \<and> (\<exists>i d. ob_dedup_key r = routine_dedup_key i
        \<and> parse_upsert_desired (ob_desired r) = Some d \<and> ud_key d = routine_kernel_key i))
     \<or> (ob_kind r = ''scheduler.delete'' \<and> (\<exists>key. parse_delete_desired (ob_desired r) = Some key))
     \<or> (ob_kind r = ''memory.remember'' \<and> (\<exists>d. parse_remember_desired (ob_desired r) = Some d
        \<and> rm_dedup_key d = ob_dedup_key r))) (db_outbox (db_after env calls))"
  using payloads.holds[of env calls] by (simp add: payloads_ok_def payload_ok_def)

section \<open>Done means delivered\<close>

text \<open>What may happen to the outbox while no row is settled: rows get newer versions, none becomes done.\<close>

definition newer :: "OutboxRow list \<Rightarrow> OutboxRow list \<Rightarrow> bool" where
  "newer rows rows' = (\<forall>r \<in> set rows. \<exists>r' \<in> set rows'. ob_id r' = ob_id r \<and> (ob_version r < ob_version r'
     \<or> (ob_version r' = ob_version r \<and> ob_kind r' = ob_kind r \<and> ob_desired r' = ob_desired r)))"

definition unsettled :: "Db \<Rightarrow> Db \<Rightarrow> bool" where
  "unsettled db db' = (newer (db_outbox db) (db_outbox db') \<and> (keys_ok db \<longrightarrow> keys_ok db')
     \<and> (\<forall>r \<in> set (db_outbox db'). ob_status r = ''done'' \<longrightarrow> r \<in> set (db_outbox db)))"

lemma newer_refl: "newer rows rows"
  by (auto simp: newer_def)

lemma newer_trans: "newer a b \<Longrightarrow> newer b c \<Longrightarrow> newer a c"
  unfolding newer_def
proof (rule ballI)
  fix r
  assume ab: "\<forall>r \<in> set a. \<exists>r' \<in> set b. ob_id r' = ob_id r \<and> (ob_version r < ob_version r'
      \<or> (ob_version r' = ob_version r \<and> ob_kind r' = ob_kind r \<and> ob_desired r' = ob_desired r))"
    and bc: "\<forall>r \<in> set b. \<exists>r' \<in> set c. ob_id r' = ob_id r \<and> (ob_version r < ob_version r'
      \<or> (ob_version r' = ob_version r \<and> ob_kind r' = ob_kind r \<and> ob_desired r' = ob_desired r))"
    and r: "r \<in> set a"
  from ab r obtain s where s: "s \<in> set b" "ob_id s = ob_id r" "ob_version r < ob_version s
      \<or> (ob_version s = ob_version r \<and> ob_kind s = ob_kind r \<and> ob_desired s = ob_desired r)" by blast
  from bc s(1) obtain t where t: "t \<in> set c" "ob_id t = ob_id s" "ob_version s < ob_version t
      \<or> (ob_version t = ob_version s \<and> ob_kind t = ob_kind s \<and> ob_desired t = ob_desired s)" by blast
  from s t show "\<exists>t \<in> set c. ob_id t = ob_id r \<and> (ob_version r < ob_version t
      \<or> (ob_version t = ob_version r \<and> ob_kind t = ob_kind r \<and> ob_desired t = ob_desired r))"
    by (intro bexI[of _ t]) auto
qed

lemma newer_append: "newer rows (rows @ rows')"
  by (auto simp: newer_def)

lemma newer_upd:
  assumes "\<And>r. r \<in> set rows \<Longrightarrow> c r \<Longrightarrow> ob_id (f r) = ob_id r \<and> (ob_version r < ob_version (f r)
     \<or> (ob_version (f r) = ob_version r \<and> ob_kind (f r) = ob_kind r \<and> ob_desired (f r) = ob_desired r))"
  shows "newer rows (upd_where c f rows)"
  unfolding newer_def
proof (rule ballI)
  fix r
  assume "r \<in> set rows"
  then show "\<exists>r' \<in> set (upd_where c f rows). ob_id r' = ob_id r \<and> (ob_version r < ob_version r'
      \<or> (ob_version r' = ob_version r \<and> ob_kind r' = ob_kind r \<and> ob_desired r' = ob_desired r))"
    using assms[of r] by (intro bexI[of _ "if c r then f r else r"]) (auto simp: set_upd_where)
qed

interpretation unsettled: step_order unsettled
  by unfold_locales (auto simp: unsettled_def newer_refl intro: newer_trans)

lemma unsettled_frame: "db_outbox db' = db_outbox db \<Longrightarrow> dsteps db db' \<Longrightarrow> unsettled db db'"
  using keys.steps by (auto simp: unsettled_def newer_refl)

lemma ostep_unsettled: "ostep db db' \<Longrightarrow> unsettled db db'"
proof -
  assume s: "ostep db db'"
  have "newer (db_outbox db) (db_outbox db') \<and> (\<forall>r \<in> set (db_outbox db'). ob_status r = ''done'' \<longrightarrow> r \<in> set (db_outbox db))"
    using s
  proof (induction rule: ostep.induct)
    case (batch db db')
    then show ?case by (simp add: bstep_frame newer_refl)
  next
    case (outbox_insert r db)
    then show ?case by (auto simp: newer_append)
  next
    case (outbox_overwrite r db kind desired)
    then show ?case by (auto simp: upd_by_def in_upd_where overwrite_row_def intro!: newer_upd)
  next
    case (outbox_mark f db i v)
    have "ob_status (f r) \<noteq> ''done''" if "pending_at i v r" for r
      using outbox_mark(3)[of r] that by (auto simp: pending_at_def)
    with outbox_mark show ?case by (auto simp: in_upd_where intro!: newer_upd)
  qed (simp_all add: newer_refl)
  then show ?thesis using keys_ostep[OF s] by (simp add: unsettled_def)
qed

lemma osteps_unsettled: "osteps db db' \<Longrightarrow> unsettled db db'"
  by (induction rule: rtranclp_induct) (auto intro: unsettled.S_refl unsettled.S_trans ostep_unsettled)

text \<open>The proposals are decided without the outbox.\<close>

interpretation same_outbox: step_order "\<lambda>db db'. db_outbox db' = db_outbox db"
  by unfold_locales auto

lemma bsteps_outbox: "bsteps db db' \<Longrightarrow> db_outbox db' = db_outbox db"
  by (induction rule: rtranclp_induct) (auto dest: bstep_frame)

lemma proposal_call_outbox: "proposal_call c \<Longrightarrow> db_outbox (st_db (exec c w)) = db_outbox (st_db w)"
proof -
  have "keeps (\<lambda>db db'. db_outbox db' = db_outbox db) (submit_proposal p)" for p
    unfolding submit_proposal_def
    by (intro same_outbox.keeps_after same_outbox.keeps_tx quiet)
      (auto simp: op_iff split: option.splits dest!: validate_in_Inr)
  moreover have "keeps (\<lambda>db db'. db_outbox db' = db_outbox db) (reject_proposal i reason)" for i reason
    unfolding reject_proposal_def
    by (intro same_outbox.keeps_after same_outbox.keeps_tx quiet)
      (auto simp: op_iff set_proposal_def split: option.splits)
  moreover have "keeps (\<lambda>db db'. db_outbox db' = db_outbox db) (sink_submit cap draft rec)" for cap draft rec
    unfolding sink_submit_def
    by (intro same_outbox.keeps_lift_then same_outbox.keeps_guard same_outbox.keeps_sink_tx)
      (auto simp: monad_iff store_iff submit_rows_def op_iff dest!: dry_run_Inr)
  moreover have "db_outbox (st_db w') = db_outbox (st_db w)" if "apply_proposal i w = (Inr out, w')" for i w out w'
    using that
  proof (cases rule: apply_proposal_Inr)
    case (now r now w1 w2)
    then show ?thesis using bsteps_outbox[OF apply_ops_steps[OF now(5,4)]] by simp
  qed (auto dest: replay_quiet)
  then have "keeps (\<lambda>db db'. db_outbox db' = db_outbox db) (apply_proposal i)" for i
    unfolding apply_proposal_def by (intro same_outbox.keeps_tx) (auto simp: apply_proposal_def with_tx_iff)
  ultimately show "proposal_call c \<Longrightarrow> ?thesis" unfolding keeps_def by (cases c) simp_all
qed

lemma exec_unsettled: "\<not> done_call c \<Longrightarrow> unsettled (st_db w) (st_db (exec c w))"
  using exec_osteps[of c w] proposal_call_outbox[of c w] exec_steps[of w c]
  by (cases "proposal_call c") (auto intro: osteps_unsettled unsettled_frame)

text \<open>What the row asks of the kernel, and when the kernel has granted it.\<close>

definition request_of :: "OutboxRow \<Rightarrow> KernelCall option" where
  "request_of r =
     (if ob_kind r = ''scheduler.upsert'' then
        map_option (\<lambda>d. KC_Upsert (ud_key d) (Spec_Cron (ud_cron d) (Some (ud_tz d))) (ud_enabled d)) (parse_upsert_desired (ob_desired r))
      else if ob_kind r = ''scheduler.delete'' then map_option KC_Delete (parse_delete_desired (ob_desired r))
      else map_option (\<lambda>d. KC_Remember ''review.summary'' (rm_dedup_key d) (remember_body d)) (parse_remember_desired (ob_desired r)))"

fun granted :: "Kernel \<Rightarrow> nat \<times> KernelCall \<Rightarrow> bool" where
  "granted kn (n, KC_Upsert key spec enabled) = (kn_upsert kn n key spec enabled = Inr ())"
| "granted kn (n, KC_Delete key) = (kn_delete kn n key \<in> {Inr (), Inl CE_NotFound})"
| "granted kn (n, KC_Remember kind key body) = (\<exists>i. kn_remember kn n kind key body \<in> {Inr (Remember_Found i), Inr (Remember_Created i)})"
| "granted kn (n, KC_List) = False"

lemma request_of_same: "ob_kind r = ob_kind q \<Longrightarrow> ob_desired r = ob_desired q \<Longrightarrow> request_of r = request_of q"
  by (simp add: request_of_def)

definition landed :: "Pump \<Rightarrow> OutboxRow \<Rightarrow> bool" where
  "landed p r = (\<exists>n c. request_of r = Some c \<and> (n, c) \<in> set (pu_sent p) \<and> granted (pu_kernel p) (n, c))"

definition all_landed :: "Pump \<Rightarrow> bool" where
  "all_landed p = (keys_ok (st_db (pu_store p)) \<and> list_all (landed p) (filter (\<lambda>r. ob_status r = ''done'') (db_outbox (st_db (pu_store p)))))"

definition calm :: "Kernel \<Rightarrow> bool" where
  "calm kn = (\<forall>n. list_all (\<lambda>c. \<not> done_call c) (kn_during kn n))"

definition honest :: "Pump \<Rightarrow> Pump \<Rightarrow> bool" where
  "honest p q = (pu_kernel q = pu_kernel p \<and> (calm (pu_kernel p) \<longrightarrow> prefix (pu_sent p) (pu_sent q)
     \<and> newer (db_outbox (st_db (pu_store p))) (db_outbox (st_db (pu_store q))) \<and> (all_landed p \<longrightarrow> all_landed q)))"

lemma landed_mono: "landed p r \<Longrightarrow> pu_kernel q = pu_kernel p \<Longrightarrow> prefix (pu_sent p) (pu_sent q) \<Longrightarrow> landed q r"
  unfolding landed_def using set_mono_prefix by (metis subsetD)

lemma honest_refl: "honest p p"
  by (simp add: honest_def newer_refl)

lemma honest_trans: "honest p q \<Longrightarrow> honest q r \<Longrightarrow> honest p r"
  unfolding honest_def using newer_trans prefix_order.trans by metis

text \<open>A step that settles nothing.\<close>

lemma honest_unsettled:
  assumes "pu_kernel q = pu_kernel p" and "calm (pu_kernel p) \<Longrightarrow> prefix (pu_sent p) (pu_sent q)"
    and "calm (pu_kernel p) \<Longrightarrow> unsettled (st_db (pu_store p)) (st_db (pu_store q))"
  shows "honest p q"
  unfolding honest_def
proof (intro conjI impI)
  assume c: "calm (pu_kernel p)" and "all_landed p"
  then show "all_landed q"
    using assms(2,3)[OF c] landed_mono[OF _ assms(1)] by (auto simp: all_landed_def unsettled_def list_all_iff)
qed (use assms in \<open>auto simp: unsettled_def\<close>)

lemma honest_at_once: "keeps unsettled m \<Longrightarrow> effects honest (at_once m)"
  by (auto simp: effects_def at_once_sel keeps_def intro!: honest_unsettled)

lemma keeps_unsettled: "keeps osteps m \<Longrightarrow> keeps unsettled m"
  by (simp add: keeps_def osteps_unsettled)

lemma fold_unsettled: "list_all (\<lambda>c. \<not> done_call c) cs \<Longrightarrow> unsettled (st_db w) (st_db (fold exec cs w))"
proof (induction cs arbitrary: w)
  case (Cons c cs)
  then show ?case using unsettled.S_trans[OF exec_unsettled[of c w]] by auto
qed (simp add: unsettled.S_refl)

interpretation honest: pump_frame honest
proof unfold_locales
  show "honest p p" for p by (rule honest_refl)
  show "honest p q \<Longrightarrow> honest q r \<Longrightarrow> honest p r" for p q r by (rule honest_trans)
  show "effects honest await"
    by (auto simp: effects_def await_def mmod_def calm_def intro!: honest_unsettled fold_unsettled)
  show "effects honest (mmod (\<lambda>p. p\<lparr>pu_sent := pu_sent p @ [(pu_awaits p, c)]\<rparr>))" for c
    by (auto simp: effects_def mmod_def intro!: honest_unsettled unsettled.S_refl)
  show "effects honest (at_once (mmod (\<lambda>w. w\<lparr>st_ticks := Suc (st_ticks w)\<rparr>)))"
    by (rule honest_at_once) (simp add: keeps_def mmod_def unsettled.S_refl)
  show "effects honest (at_once (outbox_mark_retry i v err at b))" for i v err at b
    by (intro honest_at_once keeps_unsettled mark_retry_keeps)
  show "effects honest (at_once (outbox_mark_failed i v kind err))" for i v kind err
    by (intro honest_at_once keeps_unsettled mark_failed_keeps)
  show "effects honest (at_once (outbox_enqueue_upsert_for_routine i))" for i
    by (intro honest_at_once keeps_unsettled enqueue_upsert_keeps)
  show "effects honest (at_once (outbox_enqueue_delete_for_orphan i key))" for i key
    by (intro honest_at_once keeps_unsettled enqueue_delete_keeps)
  show "effects honest (at_once (sync_kernel_suspended_routines ids))" for ids
    by (intro honest_at_once keeps_unsettled sync_keeps)
qed

text \<open>What was asked, and that the answer read is the one the kernel gave.\<close>

lemma await_sel: "pu_kernel (snd (await p)) = pu_kernel p" "pu_sent (snd (await p)) = pu_sent p"
  "fst (await p) = Inr ()"
  by (simp_all add: await_def mmod_def)

lemma ask_Inr: "ask c answer p = (Inr x, p') \<Longrightarrow>
    x = answer (pu_kernel p) (pu_awaits p) \<and> pu_kernel p' = pu_kernel p \<and> pu_sent p' = pu_sent p @ [(pu_awaits p, c)]"
  by (auto simp: ask_def mthen_def mbind_def mget_def mmod_def await_def)

definition accepted :: "string \<Rightarrow> ClientError + string option \<Rightarrow> bool" where
  "accepted kind r = (case r of Inr _ \<Rightarrow> True | Inl e \<Rightarrow> e = CE_NotFound \<and> kind = ''scheduler.delete'')"

lemma mark_bad_iff: "mark_bad_desired row p = (Inr x, p') \<Longrightarrow> x = Row_Continue"
  by (auto simp: mark_bad_desired_def monad_iff)

lemma map_sum_iff: "(map_sum f g s = Inr y) = (\<exists>x. s = Inr x \<and> y = g x)" "(map_sum f g s = Inl e) = (\<exists>x. s = Inl x \<and> e = f x)"
  by (cases s; auto)+

lemma dispatch_asked:
  assumes "dispatch_row clients row p = (Inr (Inr r), p')" and "accepted (ob_kind row) r"
  shows "landed p' row"
  using assms
  by (auto 0 4 simp: dispatch_row_def accepted_def landed_def request_of_def Let_def monad_iff remember_review_summary_def map_sum_iff
    split: if_splits option.splits sum.splits RememberOnce.splits dest!: ask_Inr mark_bad_iff intro!: exI[of _ "pu_awaits p"]) metis+

text \<open>Settling a row of which the pump holds a copy.\<close>

lemma mark_done_db: "st_db (snd (outbox_mark_done i v res w)) = (st_db w)\<lparr>db_outbox := upd_where (pending_at i v)
    (\<lambda>r. r\<lparr>ob_status := ''done'', ob_done_at := Some (iso8601_at (en_clock (st_env w) (st_ticks w))), ob_result_ref := res\<rparr>) (db_outbox (st_db w))\<rparr>"
  by (simp add: outbox_mark_done_def now_iso8601_def stmt_def mbind_def mthen_def mget_def mmod_def mret_def)

lemma same_version:
  assumes "newer rows rows'" and "r \<in> set rows" and "r' \<in> set rows'" and "distinct (map ob_id rows')"
    and "ob_id r' = ob_id r" and "ob_version r' = ob_version r"
  shows "ob_kind r' = ob_kind r \<and> ob_desired r' = ob_desired r"
proof -
  from assms(1,2) obtain s where s: "s \<in> set rows'" "ob_id s = ob_id r"
      "ob_version r < ob_version s \<or> (ob_version s = ob_version r \<and> ob_kind s = ob_kind r \<and> ob_desired s = ob_desired r)"
    by (auto simp: newer_def)
  with assms(3-5) have "s = r'" by (auto simp: distinct_map inj_on_def)
  with s(3) assms(6) show ?thesis by simp
qed

lemma mark_done_honest:
  assumes row: "row \<in> set (db_outbox (st_db (pu_store p)))" and pq: "honest p q" and l: "landed q row"
  shows "honest q (snd (at_once (outbox_mark_done (ob_id row) (ob_version row) res) q))"
    (is "honest q ?q")
proof -
  let ?db = "st_db (pu_store q)"
  have k: "pu_kernel q = pu_kernel p" using pq by (simp add: honest_def)
  have db: "db_outbox (st_db (pu_store ?q)) = upd_where (pending_at (ob_id row) (ob_version row))
      (\<lambda>r. r\<lparr>ob_status := ''done'', ob_done_at := Some (iso8601_at (en_clock (st_env (pu_store q)) (st_ticks (pu_store q)))),
        ob_result_ref := res\<rparr>) (db_outbox ?db)"
    by (simp add: at_once_sel mark_done_db)
  have landed: "landed ?q = landed q" by (rule ext) (simp add: landed_def at_once_sel)
  have "all_landed ?q" if c: "calm (pu_kernel q)" and a: "all_landed q"
    unfolding all_landed_def
  proof
    show "keys_ok (st_db (pu_store ?q))"
      using a keys.steps[OF keepsD[OF mark_done_keeps]] by (metis all_landed_def at_once_sel(1) prod.collapse)
    show "list_all (landed ?q) (filter (\<lambda>r. ob_status r = ''done'') (db_outbox (st_db (pu_store ?q))))"
      unfolding list_all_iff landed
    proof (clarsimp simp: db in_upd_where)
      fix r'
      assume d: "ob_status r' = ''done''"
        and "r' \<in> set (db_outbox ?db) \<and> \<not> pending_at (ob_id row) (ob_version row) r' \<or>
          (\<exists>s \<in> set (db_outbox ?db). pending_at (ob_id row) (ob_version row) s \<and> r' = s\<lparr>ob_status := ''done'',
            ob_done_at := Some (iso8601_at (en_clock (st_env (pu_store q)) (st_ticks (pu_store q)))), ob_result_ref := res\<rparr>)"
      then consider "r' \<in> set (db_outbox ?db)"
        | s where "s \<in> set (db_outbox ?db)" "ob_id s = ob_id row" "ob_version s = ob_version row"
          "ob_kind r' = ob_kind s" "ob_desired r' = ob_desired s"
        by (auto simp: pending_at_def)
      then show "landed q r'"
      proof cases
        case 1
        with a d show ?thesis by (auto simp: all_landed_def list_all_iff)
      next
        case 2
        have "ob_kind s = ob_kind row \<and> ob_desired s = ob_desired row"
          using pq c k a 2 row by (intro same_version[of "db_outbox (st_db (pu_store p))" "db_outbox ?db"])
            (auto simp: honest_def all_landed_def keys_ok_def)
        with 2 l show ?thesis using request_of_same[of r' row] by (simp add: landed_def)
      qed
    qed
  qed
  then show ?thesis
    using db by (auto simp: honest_def at_once_sel intro!: newer_upd)
qed

lemma honest_settle:
  assumes row: "row \<in> set (db_outbox (st_db (pu_store p)))" and pq: "honest p q"
    and l: "accepted (ob_kind row) r \<Longrightarrow> landed q row"
  shows "honest q (snd (settle_row row r q))"
proof (cases "accepted (ob_kind row) r")
  case False
  then have "effects honest (settle_row row r)"
    by (auto simp: settle_row_def accepted_def split: sum.split intro!: honest.moves_settle_error)
  then show ?thesis by (simp add: effects_def)
next
  case True
  define q1 where "q1 = snd (await q)"
  have q1: "honest q q1" using honest.R_await by (simp add: effects_def q1_def)
  have run: "snd (mthen (on_store m) (mret x) q) = snd (at_once m q1)" for m :: "unit store" and x :: RowOutcome
    by (cases "at_once m q1"; cases "fst (at_once m q1)") (simp_all add: on_store_def mthen_def mbind_def mret_def await_def mmod_def q1_def)
  have "snd (settle_row row r q) = snd (at_once (outbox_mark_done (ob_id row) (ob_version row)
      (case r of Inr res \<Rightarrow> res | Inl _ \<Rightarrow> None)) q1)"
  proof (cases r)
    case (Inl e)
    with True show ?thesis by (simp add: settle_row_def settle_error_def accepted_def mbind_def mget_def run)
  qed (simp add: settle_row_def run)
  moreover have "landed q1 row"
    using l[OF True] by (simp add: landed_def q1_def await_sel)
  ultimately show ?thesis
    using mark_done_honest[OF row honest_trans[OF pq q1]] honest_trans[OF q1] by metis
qed

interpretation honest: pump_order honest
proof unfold_locales
  fix row p q clients
  assume row: "row \<in> set (db_outbox (st_db (pu_store p)))" and pq: "honest p q"
  obtain cur q1 where 1: "on_store (outbox_row_is_current (ob_id row) (ob_version row)) q = (cur, q1)" by fastforce
  have q1: "honest q q1"
    using movesD[of honest "on_store (outbox_row_is_current (ob_id row) (ob_version row))" q cur q1] 1 by (simp add: outbox_row_is_current_def honest.moves_control)
  show "honest q (snd (apply_one clients row q))"
  proof (cases "cur = Inr True")
    case False
    with 1 q1 show ?thesis by (cases cur) (auto simp: apply_one_def mbind_def mret_def)
  next
    case True
    obtain r q2 where 2: "dispatch_row clients row q1 = (r, q2)" by fastforce
    have q2: "honest q q2"
      using q1 movesD[of honest "dispatch_row clients row" q1 r q2] honest.moves_dispatch 2 honest_trans by blast
    show ?thesis
    proof (cases "\<exists>x. r = Inr (Inr x)")
      case False
      with 1 2 True q2 show ?thesis by (auto simp: apply_one_def mbind_def mret_def split: sum.split)
    next
      case x: True
      then obtain x where x: "r = Inr (Inr x)" by blast
      have "honest q2 (snd (settle_row row x q2))"
        by (rule honest_settle[OF row honest_trans[OF pq q2]]) (use 2 x dispatch_asked in blast)
      with 1 2 True x q2 show ?thesis
        using honest_trans by (auto simp: apply_one_def mbind_def)
    qed
  qed
qed

text \<open>
  C8: as long as nobody but the pump settles outbox rows, every row marked done had exactly its
  desired state sent to the kernel and accepted by it (a deletion also when the kernel no longer knew
  the key): an edit that arrives while a request is under way is never marked done by its answer,
  whatever the other tasks do at each await and whatever the kernel answers.
\<close>
theorem done_was_delivered:
  fixes kn :: Kernel and n clients state env
  defines "p \<equiv> snd (pump_loop n clients state (pump_on kn env))"
  assumes "\<forall>k. list_all (\<lambda>c. \<not> done_call c) (kn_during kn k)"
  shows "list_all (\<lambda>r. \<exists>k c. request_of r = Some c \<and> (k, c) \<in> set (pu_sent p) \<and> granted kn (k, c))
    (filter (\<lambda>r. ob_status r = ''done'') (db_outbox (st_db (pu_store p))))"
proof -
  have h: "honest (pump_on kn env) p" using honest.moves_loop by (simp add: effects_def p_def)
  have "all_landed (pump_on kn env)"
    using keys.migrated by (simp add: all_landed_def pump_on_def opened_def) (simp add: migrated_db_def)
  with h assms(2) have "all_landed p" "pu_kernel p = kn" by (auto simp: honest_def calm_def pump_on_def)
  then show ?thesis by (simp add: all_landed_def landed_def[abs_def])
qed

text \<open>A kernel that accepts everything; while the pump reads the outbox, somebody creates a routine.\<close>

definition demo_kernel :: Kernel where
  "demo_kernel = \<lparr>kn_during = (\<lambda>n. if n = 0 then [Call_create_routine \<lparr>nro_title = ''run'', nro_area_id = None,
       nro_direction_id = None, nro_kind = RoutineKind_Exercise, nro_cron = ''0 7 * * *'', nro_tz = Some ''UTC'',
       nro_target_count = None, nro_target_minutes = None\<rparr>] else []),
     kn_upsert = (\<lambda>_ _ _ _. Inr ()), kn_delete = (\<lambda>_ _. Inr ()), kn_remember = (\<lambda>_ _ _ _. Inr (Remember_Created ''m'')),
     kn_list = (\<lambda>_. Inr []), kn_is_permanent = (\<lambda>_. False), kn_show = (\<lambda>_. []), kn_parse_error = (\<lambda>_ _. []),
     kn_recall_max_pages = 5, kn_instant = id\<rparr>"

definition demo_clients :: ReconcilerClients where
  "demo_clients = \<lparr>rc_scheduler = True, rc_memory = True\<rparr>"

theorem done_was_delivered_witness:
  "list_all (\<lambda>r. \<exists>k c. request_of r = Some c
       \<and> (k, c) \<in> set (pu_sent (snd (pump_loop 2 demo_clients (PumpState_new 0) (pump_on demo_kernel demo_env))))
       \<and> granted demo_kernel (k, c))
     (filter (\<lambda>r. ob_status r = ''done'')
       (db_outbox (st_db (pu_store (snd (pump_loop 2 demo_clients (PumpState_new 0) (pump_on demo_kernel demo_env)))))))"
  by (rule done_was_delivered) (simp add: demo_kernel_def)

end
