(* ===== verification/Pump_Laws.thy ===== *)
theory Pump_Laws
  imports Reconciler_Laws
begin

text \<open>
  What the pump achieves: a pass against a kernel that accepts everything lands every due row, a
  comparison orders exactly the corrections that are needed, a revocation ends the task, and how
  long failures wait.
\<close>

section \<open>A pass that succeeds\<close>

definition obliging :: "Kernel \<Rightarrow> bool" where
  "obliging kn = (\<forall>n. kn_during kn n = [] \<and> (\<forall>key spec enabled. kn_upsert kn n key spec enabled = Inr ())
     \<and> (\<forall>key. kn_delete kn n key = Inr ())
     \<and> (\<forall>kind key body. \<exists>i. kn_remember kn n kind key body = Inr (Remember_Found i) \<or> kn_remember kn n kind key body = Inr (Remember_Created i)))"

definition due_at :: "string \<Rightarrow> OutboxRow \<Rightarrow> bool" where
  "due_at now r = (ob_status r = ''pending'' \<and> (case ob_next_attempt_at r of None \<Rightarrow> True | Some t \<Rightarrow> t \<le> now))"

definition all_clients :: ReconcilerClients where
  "all_clients = \<lparr>rc_scheduler = True, rc_memory = True\<rparr>"

abbreviation rows_of :: "Pump \<Rightarrow> OutboxRow list" where
  "rows_of p \<equiv> db_outbox (st_db (pu_store p))"

text \<open>Without interference an await only counts.\<close>

lemma obliging_await: "obliging (pu_kernel p) \<Longrightarrow> await p = (Inr (), p\<lparr>pu_awaits := Suc (pu_awaits p)\<rparr>)"
  by (simp add: await_def mmod_def obliging_def)

lemma obliging_ask: "obliging (pu_kernel p) \<Longrightarrow> ask c f p = (Inr (f (pu_kernel p) (pu_awaits p)),
    p\<lparr>pu_sent := pu_sent p @ [(pu_awaits p, c)], pu_awaits := Suc (pu_awaits p)\<rparr>)"
  by (simp add: ask_def mthen_def mbind_def mget_def mmod_def obliging_await)

lemma obliging_dispatch:
  assumes k: "obliging (pu_kernel p)" and r: "payload_ok (ob_kind row) (ob_dedup_key row) (ob_desired row)"
  shows "\<exists>res sent n. dispatch_row all_clients row p = (Inr (Inr (Inr res)), p\<lparr>pu_sent := sent, pu_awaits := n\<rparr>)"
proof -
  have mem: "\<exists>i. (case kn_remember (pu_kernel p) n kind key body of Inl e \<Rightarrow> Inl e | Inr (Remember_Found i) \<Rightarrow> Inr i
      | Inr (Remember_Created i) \<Rightarrow> Inr i | Inr Remember_Inconclusive \<Rightarrow> Inl f) = Inr i" for n kind key body and f :: ClientError
  proof -
    from k obtain i where "kn_remember (pu_kernel p) n kind key body = Inr (Remember_Found i) \<or>
        kn_remember (pu_kernel p) n kind key body = Inr (Remember_Created i)" unfolding obliging_def by blast
    then show ?thesis by auto
  qed
  from r consider (upsert) d where "ob_kind row = ''scheduler.upsert''" "parse_upsert_desired (ob_desired row) = Some d"
    | (delete) key where "ob_kind row = ''scheduler.delete''" "parse_delete_desired (ob_desired row) = Some key"
    | (remember) d where "ob_kind row = ''memory.remember''" "parse_remember_desired (ob_desired row) = Some d"
    by (auto simp: payload_ok_def)
  then show ?thesis
  proof cases
    case upsert
    with k show ?thesis
      by (auto simp: dispatch_row_def all_clients_def Let_def mbind_def mret_def obliging_ask obliging_def[of "pu_kernel p"])
  next
    case delete
    with k show ?thesis
      by (auto simp: dispatch_row_def all_clients_def Let_def mbind_def mret_def obliging_ask obliging_def[of "pu_kernel p"])
  next
    case (remember d)
    obtain i where "(case kn_remember (pu_kernel p) (pu_awaits p) ''review.summary'' (rm_dedup_key d) (remember_body d) of Inl e \<Rightarrow> Inl e
        | Inr (Remember_Found i) \<Rightarrow> Inr i | Inr (Remember_Created i) \<Rightarrow> Inr i
        | Inr Remember_Inconclusive \<Rightarrow> Inl (CE_Rest (inconclusive_text (rm_dedup_key d) (kn_recall_max_pages (pu_kernel p))))) = Inr i"
      using mem by blast
    with k remember show ?thesis
      by (auto simp: dispatch_row_def all_clients_def mbind_def mret_def obliging_ask remember_review_summary_def)
  qed
qed

text \<open>One row lands.\<close>

definition landed_row :: "OutboxRow \<Rightarrow> string \<Rightarrow> string option \<Rightarrow> OutboxRow list \<Rightarrow> OutboxRow list" where
  "landed_row row t res rows = upd_where (\<lambda>r. ob_id r = ob_id row)
     (\<lambda>r. r\<lparr>ob_status := ''done'', ob_done_at := Some t, ob_result_ref := res\<rparr>) rows"

lemma pending_at_self:
  assumes "distinct (map ob_id rows)" and "row \<in> set rows" and "ob_status row = ''pending''"
  shows "upd_where (pending_at (ob_id row) (ob_version row)) f rows = upd_where (\<lambda>r. ob_id r = ob_id row) f rows"
proof -
  have "pending_at (ob_id row) (ob_version row) r = (ob_id r = ob_id row)" if "r \<in> set rows" for r
    using that assms by (auto simp: pending_at_def distinct_map inj_on_def)
  then show ?thesis by (simp add: upd_where_def)
qed

lemma obliging_apply:
  assumes k: "obliging (pu_kernel p)" and d: "distinct (map ob_id (rows_of p))"
    and row: "row \<in> set (rows_of p)" "ob_status row = ''pending''" and r: "payload_ok (ob_kind row) (ob_dedup_key row) (ob_desired row)"
  shows "\<exists>q t res. apply_one all_clients row p = (Inr Row_Continue, q) \<and> pu_kernel q = pu_kernel p
    \<and> rows_of q = landed_row row t res (rows_of p)"
proof -
  have "list_ex (pending_at (ob_id row) (ob_version row)) (rows_of p)"
    using row by (auto simp: list_ex_iff pending_at_def)
  then have cur: "on_store (outbox_row_is_current (ob_id row) (ob_version row)) p = (Inr True, p\<lparr>pu_awaits := Suc (pu_awaits p)\<rparr>)"
    using k by (simp add: on_store_def mthen_def mbind_def obliging_await at_once_def outbox_row_is_current_def query_def mget_def)
  let ?p1 = "p\<lparr>pu_awaits := Suc (pu_awaits p)\<rparr>"
  obtain res sent n where ds: "dispatch_row all_clients row ?p1 = (Inr (Inr (Inr res)), ?p1\<lparr>pu_sent := sent, pu_awaits := n\<rparr>)"
    using obliging_dispatch[of ?p1 row] k r by auto
  let ?p2 = "p\<lparr>pu_sent := sent, pu_awaits := n\<rparr>"
  obtain u w where m: "outbox_mark_done (ob_id row) (ob_version row) res (pu_store p) = (Inr u, w)"
    by (simp add: outbox_mark_done_def now_iso8601_def stmt_def mbind_def mthen_def mget_def mmod_def mret_def)
  have w: "db_outbox (st_db w) = landed_row row (iso8601_at (en_clock (st_env (pu_store p)) (st_ticks (pu_store p)))) res (rows_of p)"
    using mark_done_db[of "ob_id row" "ob_version row" res "pu_store p"] m
    by (simp add: landed_row_def pending_at_self[OF d row(1,2)])
  have "apply_one all_clients row p = (Inr Row_Continue, ?p2\<lparr>pu_awaits := Suc n, pu_store := w\<rparr>)"
    using cur ds m k by (simp add: apply_one_def settle_row_def mbind_def mthen_def on_store_def obliging_await at_once_def mret_def)
  with w show ?thesis by auto
qed

definition landed_status :: "string list \<Rightarrow> OutboxRow \<Rightarrow> string \<times> string" where
  "landed_status ids r = (ob_id r, if ob_id r \<in> set ids then ''done'' else ob_status r)"

lemma obliging_drain:
  assumes "obliging (pu_kernel p)" and "distinct (map ob_id (rows_of p))" and "distinct (map ob_id rows)"
    and "\<And>r. r \<in> set rows \<Longrightarrow> r \<in> set (rows_of p) \<and> ob_status r = ''pending'' \<and> payload_ok (ob_kind r) (ob_dedup_key r) (ob_desired r)"
  shows "\<exists>q. drain_rows all_clients rows p = (Inr Pump_Continue, q)
    \<and> map (landed_status []) (rows_of q) = map (landed_status (map ob_id rows)) (rows_of p)"
  using assms
proof (induction rows arbitrary: p)
  case (Cons row rows)
  obtain q t res where q: "apply_one all_clients row p = (Inr Row_Continue, q)" "pu_kernel q = pu_kernel p"
      "rows_of q = landed_row row t res (rows_of p)"
    using obliging_apply[of p row] Cons.prems by auto
  have ids: "map ob_id (rows_of q) = map ob_id (rows_of p)"
    by (simp add: q(3) landed_row_def map_upd_where)
  have "r \<in> set (rows_of q)" if "r \<in> set rows" for r
  proof -
    have "ob_id r \<noteq> ob_id row" using that Cons.prems(3) by (metis distinct.simps(2) image_eqI list.simps(9) set_map)
    with that Cons.prems(4) show ?thesis by (auto simp: q(3) landed_row_def in_upd_where)
  qed
  then obtain q' where q': "drain_rows all_clients rows q = (Inr Pump_Continue, q')"
      "map (landed_status []) (rows_of q') = map (landed_status (map ob_id rows)) (rows_of q)"
    using Cons.IH[of q] Cons.prems ids q(2) by auto
  have "map (landed_status (map ob_id rows)) (rows_of q) = map (landed_status (map ob_id (row # rows))) (rows_of p)"
    by (auto simp: q(3) landed_row_def upd_where_def landed_status_def)
  with q q' show ?case by (simp add: mbind_def)
qed (simp add: mret_def)

text \<open>The pump on a store that has already served some calls.\<close>

definition pump_after :: "Kernel \<Rightarrow> Env \<Rightarrow> Call list \<Rightarrow> Pump" where
  "pump_after kn env calls = \<lparr>pu_kernel = kn, pu_store = run env calls, pu_awaits = 0, pu_sent = []\<rparr>"

text \<open>
  C18: against a kernel that accepts every request, with both grants and nobody writing meanwhile, one
  pass of the pump over the outbox that any calls have left ends well and marks every due row done,
  leaving the others as they are.
\<close>
theorem pass_lands_all_due:
  fixes kn :: Kernel and env calls
  defines "w \<equiv> run env calls"
  defines "now \<equiv> iso8601_at (en_clock (st_env w) (st_ticks w))"
  assumes "obliging kn"
  shows "fst (drain_pending all_clients (pump_after kn env calls)) = Inr Pump_Continue
    \<and> map (\<lambda>r. (ob_id r, ob_status r)) (rows_of (snd (drain_pending all_clients (pump_after kn env calls))))
      = map (\<lambda>r. (ob_id r, if due_at now r then ''done'' else ob_status r)) (db_outbox (db_after env calls))"
proof -
  let ?rows = "db_outbox (db_after env calls)"
  let ?due = "sort_key ob_created_at (filter (due_at now) ?rows)"
  let ?p = "pump_after kn env calls\<lparr>pu_store := w\<lparr>st_ticks := Suc (st_ticks w)\<rparr>, pu_awaits := Suc 0\<rparr>"
  have inv: "payloads_ok (db_after env calls)" by (rule payloads.holds)
  then have d: "distinct (map ob_id ?rows)" by (simp add: payloads_ok_def keys_ok_def)
  have rows: "rows_of ?p = ?rows" by (simp add: db_after_def w_def)
  have "drain_pending all_clients (pump_after kn env calls) = drain_rows all_clients ?due ?p"
    using assms by (simp add: drain_pending_def drain_pending_before_def on_store_def at_once_def now_iso8601_def mbind_def mthen_def
      mget_def mmod_def mret_def obliging_await outbox_due_pending_def query_def pump_after_def due_at_def[abs_def] db_after_def)
  moreover have "\<exists>q. drain_rows all_clients ?due ?p = (Inr Pump_Continue, q)
      \<and> map (landed_status []) (rows_of q) = map (landed_status (map ob_id ?due)) (rows_of ?p)"
  proof (rule obliging_drain)
    show "obliging (pu_kernel ?p)" using assms by (simp add: pump_after_def)
    show "distinct (map ob_id ?due)" using d by (simp add: distinct_map inj_on_def)
  qed (use d inv rows in \<open>auto simp: payloads_ok_def list_all_iff due_at_def\<close>)
  moreover have "landed_status (map ob_id ?due) r = (ob_id r, if due_at now r then ''done'' else ob_status r)" if "r \<in> set ?rows" for r
    using d that by (auto simp: landed_status_def distinct_map inj_on_def)
  ultimately show ?thesis using rows by (auto simp: landed_status_def[abs_def])
qed

definition demo_routine :: NewRoutine where
  "demo_routine = \<lparr>nro_title = ''run'', nro_area_id = None, nro_direction_id = None, nro_kind = RoutineKind_Exercise,
     nro_cron = ''0 7 * * *'', nro_tz = Some ''UTC'', nro_target_count = None, nro_target_minutes = None\<rparr>"

theorem pass_lands_all_due_witness:
  fixes w kn
  defines "w \<equiv> run demo_env [Call_create_routine demo_routine]"
  defines "kn \<equiv> demo_kernel\<lparr>kn_during := \<lambda>_. []\<rparr>"
  shows "fst (drain_pending all_clients (pump_after kn demo_env [Call_create_routine demo_routine])) = Inr Pump_Continue
    \<and> map (\<lambda>r. (ob_id r, ob_status r)) (rows_of (snd (drain_pending all_clients (pump_after kn demo_env [Call_create_routine demo_routine]))))
      = map (\<lambda>r. (ob_id r, if due_at (iso8601_at (en_clock (st_env w) (st_ticks w))) r then ''done'' else ob_status r))
          (db_outbox (db_after demo_env [Call_create_routine demo_routine]))"
  unfolding w_def kn_def by (rule pass_lands_all_due) (simp add: obliging_def demo_kernel_def)

section \<open>A revocation ends the task\<close>

fun revoked :: "Kernel \<Rightarrow> nat \<times> KernelCall \<Rightarrow> bool" where
  "revoked kn (n, KC_Upsert key spec enabled) = (kn_upsert kn n key spec enabled = Inl CE_Revoked)"
| "revoked kn (n, KC_Delete key) = (kn_delete kn n key = Inl CE_Revoked)"
| "revoked kn (n, KC_Remember kind key body) = (kn_remember kn n kind key body = Inl CE_Revoked)"
| "revoked kn (n, KC_List) = (kn_list kn n = Inl CE_Revoked)"

definition serving :: "Pump \<Rightarrow> bool" where
  "serving p = list_all (\<lambda>c. \<not> revoked (pu_kernel p) c) (pu_sent p)"

text \<open>Only the last request can have been refused that way, and then the result says so.\<close>

definition ends_on :: "(ReconcileError + 'a \<Rightarrow> bool) \<Rightarrow> 'a pump \<Rightarrow> bool" where
  "ends_on stop m = (\<forall>p. serving p \<longrightarrow> pu_kernel (snd (m p)) = pu_kernel p
     \<and> list_all (\<lambda>c. \<not> revoked (pu_kernel p) c) (butlast (pu_sent (snd (m p)))) \<and> (serving (snd (m p)) \<or> stop (fst (m p))))"

lemma butlast_serving: "serving p \<Longrightarrow> list_all (\<lambda>c. \<not> revoked (pu_kernel p) c) (butlast (pu_sent p))"
  by (auto simp: serving_def list_all_iff dest: in_set_butlastD)

definition silent :: "Pump \<Rightarrow> Pump \<Rightarrow> bool" where
  "silent p q = (pu_kernel q = pu_kernel p \<and> pu_sent q = pu_sent p)"

interpretation silent: pump_core silent
  by unfold_locales (auto simp: silent_def effects_def await_sel)

lemma silent_at_once: "effects silent (at_once m)"
  by (simp add: effects_def silent_def at_once_sel)

lemmas silent_rules = silent.moves_core silent_at_once

lemma silent_ends: "effects silent m \<Longrightarrow> ends_on stop m"
  by (auto simp: effects_def silent_def ends_on_def serving_def list_all_iff dest: in_set_butlastD)

lemma ends_onI: "(\<And>p r q. serving p \<Longrightarrow> m p = (r, q) \<Longrightarrow> pu_kernel q = pu_kernel p
     \<and> list_all (\<lambda>c. \<not> revoked (pu_kernel p) c) (butlast (pu_sent q)) \<and> (serving q \<or> stop r)) \<Longrightarrow> ends_on stop m"
  unfolding ends_on_def by (metis prod.collapse)

lemma ends_onD: "ends_on stop m \<Longrightarrow> serving p \<Longrightarrow> m p = (r, q) \<Longrightarrow> pu_kernel q = pu_kernel p
     \<and> list_all (\<lambda>c. \<not> revoked (pu_kernel p) c) (butlast (pu_sent q)) \<and> (serving q \<or> stop r)"
  unfolding ends_on_def by (metis fst_conv snd_conv)

text \<open>What follows a program that may have met the revocation must then send nothing and say so itself.\<close>

lemma ends_after:
  assumes m: "ends_on stop m" and k: "\<And>x. ends_on stop' (k x)"
    and s: "\<And>x. stop (Inr x) \<Longrightarrow> effects silent (k x) \<and> (\<forall>p. stop' (fst (k x p)))" and e: "\<And>e. stop (Inl e) \<Longrightarrow> stop' (Inl e)"
  shows "ends_on stop' (mbind m k)"
proof (rule ends_onI)
  fix p r' q'
  assume p: "serving p" and run: "mbind m k p = (r', q')"
  obtain r q where q: "m p = (r, q)" by fastforce
  note s1 = ends_onD[OF m p q]
  show "pu_kernel q' = pu_kernel p \<and> list_all (\<lambda>c. \<not> revoked (pu_kernel p) c) (butlast (pu_sent q')) \<and> (serving q' \<or> stop' r')"
  proof (cases r)
    case (Inl x)
    with q s1 e run show ?thesis by (auto simp: mbind_def)
  next
    case (Inr x)
    with run q have x: "k x q = (r', q')" by (simp add: mbind_def)
    show ?thesis
    proof (cases "serving q")
      case True
      with s1 ends_onD[OF k True x] show ?thesis by simp
    next
      case False
      with s1 Inr have "stop (Inr x)" by simp
      with s[of x] have "silent q (snd (k x q))" "stop' (fst (k x q))" by (auto simp: effects_def)
      with x s1 show ?thesis by (simp add: silent_def)
    qed
  qed
qed

lemma ends_bind: "effects silent m \<Longrightarrow> (\<And>x. ends_on stop (k x)) \<Longrightarrow> ends_on stop (mbind m k)"
  by (rule ends_after[OF silent_ends[where stop = "\<lambda>_. False"]]) auto

lemma ends_ask:
  assumes "\<And>kn n. revoked kn (n, c) \<Longrightarrow> stop (Inr (f kn n))"
  shows "ends_on stop (ask c f)"
  using assms
  by (auto simp: ends_on_def ask_def mthen_def mbind_def mget_def mmod_def await_def serving_def butlast_append)

lemma ends_dispatch: "ends_on (\<lambda>r. r = Inr (Inr (Inl CE_Revoked))) (dispatch_row clients row)"
proof -
  have up: "ends_on (\<lambda>r. r = Inr (Inr (Inl CE_Revoked)))
      (mbind (ask (KC_Upsert k s b) (\<lambda>kn n. kn_upsert kn n k s b)) (\<lambda>r. mret (Inr (map_sum id (\<lambda>_. None :: string option) r))))" for k s b
    by (rule ends_after[OF ends_ask[where stop = "\<lambda>r. r = Inr (Inl CE_Revoked)"]])
      (auto simp: mret_def intro!: silent_ends silent_rules)
  have de: "ends_on (\<lambda>r. r = Inr (Inr (Inl CE_Revoked)))
      (mbind (ask (KC_Delete k) (\<lambda>kn n. kn_delete kn n k)) (\<lambda>r. mret (Inr (map_sum id (\<lambda>_. None :: string option) r))))" for k
    by (rule ends_after[OF ends_ask[where stop = "\<lambda>r. r = Inr (Inl CE_Revoked)"]])
      (auto simp: mret_def intro!: silent_ends silent_rules)
  have re: "ends_on (\<lambda>r. r = Inr (Inl CE_Revoked)) (remember_review_summary d)" for d
    unfolding remember_review_summary_def
    by (rule ends_after[OF ends_ask[where stop = "\<lambda>r. \<exists>n. r = Inr (Inl CE_Revoked, n)"]])
      (auto simp: mret_def intro!: silent_ends silent_rules)
  have re': "ends_on (\<lambda>r. r = Inr (Inr (Inl CE_Revoked))) (mbind (remember_review_summary d) (\<lambda>r. mret (Inr (map_sum id Some r))))" for d
    by (rule ends_after[OF re]) (auto simp: mret_def intro!: silent_ends silent_rules)
  show ?thesis
    unfolding dispatch_row_def mark_bad_desired_def Let_def
    by (auto intro!: up de re' silent_ends silent_rules split: option.split)
qed

lemma ends_apply: "ends_on (\<lambda>r. r = Inr Row_Revoked) (apply_one clients row)"
proof -
  have sil: "effects silent (settle_row row r)" for r
    unfolding settle_row_def settle_error_def retry_row_def
    by (auto intro!: silent_rules split: sum.split prod.split)
  have stop: "fst (settle_row row (Inl CE_Revoked) p) = Inr Row_Revoked" for p
    by (simp add: settle_row_def settle_error_def mbind_def mget_def mret_def)
  have d: "ends_on (\<lambda>r. r = Inr Row_Revoked) (mbind (dispatch_row clients row) (\<lambda>r. case r of Inl out \<Rightarrow> mret out | Inr result \<Rightarrow> settle_row row result))"
    by (rule ends_after[OF ends_dispatch]) (auto simp: stop split: sum.split intro: silent_ends silent_rules sil)
  show ?thesis
    unfolding apply_one_def
  proof (rule ends_bind)
    show "effects silent (on_store (outbox_row_is_current (ob_id row) (ob_version row)))" by (intro silent_rules)
    show "ends_on (\<lambda>r. r = Inr Row_Revoked) (if \<not> current then mret Row_Continue
        else mbind (dispatch_row clients row) (\<lambda>r. case r of Inl out \<Rightarrow> mret out | Inr result \<Rightarrow> settle_row row result))" for current
      using d by (cases current) (simp_all add: silent_ends silent_rules)
  qed
qed

lemma ends_drain: "ends_on (\<lambda>r. r = Inr Pump_Stop) (drain_pending clients)"
proof -
  have "ends_on (\<lambda>r. r = Inr Pump_Stop) (drain_rows clients rows)" for rows
  proof (induction rows)
    case (Cons row rows)
    show ?case
      unfolding drain_rows.simps
      by (rule ends_after[OF ends_apply]) (auto simp: mret_def split: RowOutcome.split intro!: Cons.IH silent_ends silent_rules)
  qed (simp add: silent_ends silent_rules)
  then show ?thesis
    unfolding drain_pending_def drain_pending_before_def by (intro ends_bind silent_rules)
qed

lemma ends_full: "ends_on (\<lambda>r. r = Inl (RE_Kernel CE_Revoked)) (reconcile_full clients)"
proof -
  have sil: "effects silent (correct_local kern ds)" for kern ds
    by (induction ds) (auto split: option.split intro!: silent_rules)
  have sil': "effects silent (delete_orphans loc keys)" for loc keys
    by (induction keys) (auto split: option.split intro!: silent_rules)
  define rest where "rest = (\<lambda>loc answer. mbind (mlift (map_sum RE_Kernel id answer)) (\<lambda>schedules.
      let kern = fold (\<lambda>s m. bt_insert (ms_key s) s m) schedules [] in
      mbind (correct_local kern (map snd loc)) (\<lambda>suspended.
      mthen (delete_orphans loc (map fst kern)) (on_store (sync_kernel_suspended_routines suspended)))))"
  have full: "reconcile_full clients = (if \<not> rc_scheduler clients then mret ()
      else mbind local_desired_map (\<lambda>loc. mbind (ask KC_List kn_list) (rest loc)))"
    by (simp add: reconcile_full_def rest_def)
  have sil_rest: "effects silent (rest loc answer)" for loc answer
    unfolding rest_def Let_def by (intro silent_rules sil sil')
  have stop: "fst (rest loc (Inl CE_Revoked) p) = Inl (RE_Kernel CE_Revoked)" for loc p
    by (simp add: rest_def mlift_def mbind_def mfail_def)
  have asked: "ends_on (\<lambda>r. r = Inl (RE_Kernel CE_Revoked)) (mbind (ask KC_List kn_list) (rest loc))" for loc
    by (rule ends_after[OF ends_ask[where stop = "\<lambda>r. r = Inr (Inl CE_Revoked)"]])
      (auto simp: stop intro: silent_ends sil_rest)
  have "effects silent local_desired_map" unfolding local_desired_map_def by (intro silent_rules)
  with asked show ?thesis
    unfolding full by (cases "rc_scheduler clients") (auto intro: ends_bind silent_ends silent_rules)
qed

lemma ends_attempt: "ends_on stop m \<Longrightarrow> ends_on (\<lambda>r. \<exists>x. r = Inr x \<and> stop x) (attempt m)"
  by (auto simp: ends_on_def attempt_def split: prod.splits)

lemma ends_try: "ends_on (\<lambda>r. \<exists>s. r = Inr (Pump_Stop, s)) (try_full clients state)"
  unfolding try_full_def instant_def
  by (rule ends_after[OF ends_attempt[OF ends_full]])
    (auto simp: mbind_def mget_def mret_def intro!: silent_ends silent_rules)

lemma ends_tick: "ends_on (\<lambda>r. \<exists>s. r = Inr (Pump_Stop, s)) (pump_tick clients state interval)"
proof -
  have "ends_on (\<lambda>r. \<exists>s. r = Inr (Pump_Stop, s)) (mbind instant (\<lambda>now.
      if full_reconcile_due interval now state then try_full clients state else mret (Pump_Continue, state)))"
    unfolding instant_def by (rule ends_bind) (auto intro: ends_try silent_ends silent_rules)
  then show ?thesis
    unfolding pump_tick_def
    by (intro ends_after[OF ends_attempt[OF ends_drain]]) (auto simp: mret_def intro: silent_ends silent_rules)
qed

lemma ends_loop: "ends_on (\<lambda>r. \<exists>s. r = Inr (Pump_Stop, s)) (pump_loop n clients state)"
proof (induction n arbitrary: state)
  case (Suc n)
  have "ends_on (\<lambda>r. \<exists>s. r = Inr (Pump_Stop, s)) (mthen await (pump_loop n clients s))" for s
    unfolding mthen_def by (rule ends_bind[OF silent.R_await Suc.IH])
  then show ?case
    unfolding pump_loop.simps
    by (intro ends_after[OF ends_tick]) (auto simp: mret_def silent_ends[OF silent.moves_ret] silent.moves_ret)
qed (simp add: silent_ends silent_rules)

text \<open>
  C19: a revocation is the end: in any run of the pump only the last request can have been answered
  with it, and when it was, the run has stopped; so nothing is sent to a kernel that has revoked this
  generation, in the middle of a batch, between passes or in the comparison.
\<close>
theorem nothing_sent_after_revocation:
  fixes kn :: Kernel and n clients state env
  defines "out \<equiv> pump_loop n clients state (pump_on kn env)"
  shows "list_all (\<lambda>c. \<not> revoked kn c) (butlast (pu_sent (snd out)))
    \<and> (list_all (\<lambda>c. \<not> revoked kn c) (pu_sent (snd out)) \<or> (\<exists>s. fst out = Inr (Pump_Stop, s)))"
proof -
  have "serving (pump_on kn env)" "pu_kernel (pump_on kn env) = kn" by (simp_all add: serving_def pump_on_def)
  with ends_loop[of n clients state] show ?thesis
    unfolding out_def ends_on_def by (auto simp: serving_def dest!: spec[of _ "pump_on kn env"])
qed

section \<open>Waiting\<close>

lemma min_300: "min (2 ^ k) (300 :: nat) = (if k < 9 then 2 ^ k else 300)"
proof (cases "k < 9")
  case True
  then have "k \<in> {0, 1, 2, 3, 4, 5, 6, 7, 8}" by auto
  then show ?thesis by auto
next
  case False
  then have "(2 :: nat) ^ 9 \<le> 2 ^ k" by (intro power_increasing) auto
  with False show ?thesis by simp
qed

text \<open>
  After its n-th failure in a row a request waits 1, 2, 4, ... seconds, at most 300; the count is
  cut to 32 bits first, so after 4294967296 failures the wait starts again at one second.
\<close>
theorem backoff_exact:
  "backoff_after (int n + 1) = (if n mod 2 ^ 32 < 9 then 2 ^ (n mod 2 ^ 32) else 300)
   \<and> backoff_after (int 4294967296 + 1) = 1"
proof -
  have b: "backoff_after (int n + 1) = (if n mod 2 ^ 32 < 9 then 2 ^ (n mod 2 ^ 32) else 300)" for n
  proof -
    have "(if n mod 2 ^ 32 < 64 then 2 ^ (n mod 2 ^ 32) else 2 ^ 64 - 1) = (if n mod 2 ^ 32 < 64 then 2 ^ (n mod 2 ^ 32) else (2 ^ 64 - 1 :: nat))"
      by simp
    have m: "nat (max (max (int n) (- (2 ^ 63))) 0) = n" by simp
    show ?thesis
      using min_300[of "n mod 2 ^ 32"] unfolding backoff_after_def add_diff_cancel_right' m Let_def
      by (auto split: if_splits)
  qed
  from b[of n] b[of 4294967296] show ?thesis by simp
qed

text \<open>
  Once a comparison has succeeded, a later periodic one that fails is due again at every later
  instant: the wait that the code computes for it is not consulted.
\<close>
theorem periodic_failure_not_delayed:
  assumes "ps_full_ok state" and "full_reconcile_due interval now state"
    and "fst (reconcile_full clients p) = Inl e" and "e \<noteq> RE_Kernel CE_Revoked"
  shows "\<exists>s. fst (try_full clients state p) = Inr (Pump_Continue, s) \<and> full_reconcile_due interval (now + d) s"
proof -
  obtain q where "reconcile_full clients p = (Inl e, q)" using assms(3) by (metis prod.collapse)
  with assms(1,2,4) show ?thesis
    by (auto simp: try_full_def attempt_def mbind_def instant_def mget_def mret_def full_reconcile_due_def
        split: ReconcileError.split ClientError.split)
qed

lemma busy_full: "fst (reconcile_full all_clients (pump_on (demo_kernel\<lparr>kn_list := \<lambda>_. Inl CE_Busy\<rparr>) demo_env)) = Inl (RE_Kernel CE_Busy)"
  by (simp add: reconcile_full_def all_clients_def local_desired_map_def on_store_def list_routines_def query_def at_once_def
    ask_def mbind_def mthen_def mget_def mmod_def mret_def mlift_def mfail_def await_def pump_on_def demo_kernel_def)

theorem periodic_failure_not_delayed_witness:
  fixes state
  defines "state \<equiv> \<lparr>ps_full_ok = True, ps_full_attempts = 0, ps_next_full_attempt = 0, ps_last_full_success = 0\<rparr>"
  shows "\<exists>s. fst (try_full all_clients state (pump_on (demo_kernel\<lparr>kn_list := \<lambda>_. Inl CE_Busy\<rparr>) demo_env)) = Inr (Pump_Continue, s)
    \<and> full_reconcile_due FULL_RECONCILE_INTERVAL (3600 + 1) s"
  unfolding state_def
  by (rule periodic_failure_not_delayed[where e = "RE_Kernel CE_Busy"]) (simp_all add: busy_full full_reconcile_due_def FULL_RECONCILE_INTERVAL_def)

end
