(* ===== verification/Unicode.thy ===== *)
theory Unicode
  imports RustStr
begin

text \<open>
  Rust's \<open>char\<close>s: the code points of a text and back, and the classes of code points that the AI
  capabilities ask for. \<open>chars\<close> reads the UTF-8 bytes of a text, \<open>utf8\<close> writes them.
\<close>

section \<open>Code points\<close>

definition cont_at :: "string \<Rightarrow> nat \<Rightarrow> nat" where
  "cont_at s i = (if i < length s then code (s ! i) - 128 else 0)"

fun chars :: "string \<Rightarrow> nat list" where
  "chars [] = []"
| "chars (a # s) =
     (if code a < 128 then code a # chars s
      else if code a < 224 then ((code a - 192) * 64 + cont_at s 0) # chars (drop 1 s)
      else if code a < 240 then ((code a - 224) * 4096 + cont_at s 0 * 64 + cont_at s 1) # chars (drop 2 s)
      else ((code a - 240) * 262144 + cont_at s 0 * 4096 + cont_at s 1 * 64 + cont_at s 2) # chars (drop 3 s))"

definition utf8_char :: "nat \<Rightarrow> string" where
  "utf8_char u = map char_of
     (if u < 128 then [u]
      else if u < 2048 then [192 + u div 64, 128 + u mod 64]
      else if u < 65536 then [224 + u div 4096, 128 + u div 64 mod 64, 128 + u mod 64]
      else [240 + u div 262144, 128 + u div 4096 mod 64, 128 + u div 64 mod 64, 128 + u mod 64])"

definition utf8 :: "nat list \<Rightarrow> string" where
  "utf8 us = concat (map utf8_char us)"

lemma utf8_simps [simp]: "utf8 [] = []" "utf8 (u # us) = utf8_char u @ utf8 us" "utf8 (us @ vs) = utf8 us @ utf8 vs"
  by (simp_all add: utf8_def)

lemma split_64: "(u :: nat) div 64 * 64 + u mod 64 = u" "(u :: nat) div 4096 * 4096 + u div 64 mod 64 * 64 + u mod 64 = u"
  "(u :: nat) div 262144 * 262144 + u div 4096 mod 64 * 4096 + u div 64 mod 64 * 64 + u mod 64 = u"
proof -
  have 1: "u div 64 = u div 4096 * 64 + u div 64 mod 64"
    using div_mult_mod_eq[of "u div 64" 64] div_mult2_eq[of u 64 64] by simp
  have 2: "u div 4096 = u div 262144 * 64 + u div 4096 mod 64"
    using div_mult_mod_eq[of "u div 4096" 64] div_mult2_eq[of u 4096 64] by simp
  show "u div 64 * 64 + u mod 64 = u" by simp
  then show "u div 4096 * 4096 + u div 64 mod 64 * 64 + u mod 64 = u" using 1 by linarith
  then show "u div 262144 * 262144 + u div 4096 mod 64 * 4096 + u div 64 mod 64 * 64 + u mod 64 = u" using 2 by linarith
qed

lemma chars_utf8_char:
  assumes "u < 1114112"
  shows "chars (utf8_char u @ s) = u # chars s"
proof -
  have b: "192 + u div 64 < 224" if "u < 2048" using that by (simp add: less_mult_imp_div_less)
  have c: "224 + u div 4096 < 240" if "u < 65536" using that by (simp add: less_mult_imp_div_less)
  have d: "240 + u div 262144 < 256" using assms by (simp add: less_mult_imp_div_less)
  have m: "128 + n mod 64 < 256" for n :: nat using mod_less_divisor[of 64 n] by linarith
  consider "u < 128" | "128 \<le> u" "u < 2048" | "2048 \<le> u" "u < 65536" | "65536 \<le> u" by linarith
  then show ?thesis
  proof cases
    case 1
    then show ?thesis by (simp add: utf8_char_def)
  next
    case 2
    with b m[of u] split_64(1)[of u] show ?thesis by (simp add: utf8_char_def cont_at_def)
  next
    case 3
    with c m[of u] m[of "u div 64"] split_64(2)[of u] show ?thesis by (simp add: utf8_char_def cont_at_def)
  next
    case 4
    with d m[of u] m[of "u div 64"] m[of "u div 4096"] split_64(3)[of u] show ?thesis by (simp add: utf8_char_def cont_at_def)
  qed
qed

lemma chars_utf8: "list_all (\<lambda>u. u < 1114112) us \<Longrightarrow> chars (utf8 us) = us"
  by (induction us) (simp_all add: chars_utf8_char)

section \<open>Classes\<close>

definition in_ranges :: "(nat \<times> nat) list \<Rightarrow> nat \<Rightarrow> bool" where
  "in_ranges rs u = list_ex (\<lambda>(a, b). a \<le> u \<and> u \<le> b) rs"

text \<open>
  \<open>char::is_control\<close>, \<open>is_whitespace\<close> and \<open>is_numeric\<close>: the categories Cc, White_Space and N of Unicode,
  the last in version 17 (the source asks for the stable toolchain; an older one knows fewer numerals).
\<close>

definition is_control :: "nat \<Rightarrow> bool" where
  "is_control u = (u < 32 \<or> 127 \<le> u \<and> u \<le> 159)"

definition is_whitespace :: "nat \<Rightarrow> bool" where
  "is_whitespace u = in_ranges [(9, 13), (32, 32), (133, 133), (160, 160), (5760, 5760), (8192, 8202), (8232, 8233),
     (8239, 8239), (8287, 8287), (12288, 12288)] u"

definition numeric_ranges :: "(nat \<times> nat) list" where
  "numeric_ranges =
   [(48, 57), (178, 179), (185, 185), (188, 190), (1632, 1641), (1776, 1785), (1984, 1993),
    (2406, 2415), (2534, 2543), (2548, 2553), (2662, 2671), (2790, 2799), (2918, 2927), (2930, 2935),
    (3046, 3058), (3174, 3183), (3192, 3198), (3302, 3311), (3416, 3422), (3430, 3448), (3558, 3567),
    (3664, 3673), (3792, 3801), (3872, 3891), (4160, 4169), (4240, 4249), (4969, 4988), (5870, 5872),
    (6112, 6121), (6128, 6137), (6160, 6169), (6470, 6479), (6608, 6618), (6784, 6793), (6800, 6809),
    (6992, 7001), (7088, 7097), (7232, 7241), (7248, 7257), (8304, 8304), (8308, 8313), (8320, 8329),
    (8528, 8578), (8581, 8585), (9312, 9371), (9450, 9471), (10102, 10131), (11517, 11517),
    (12295, 12295), (12321, 12329), (12344, 12346), (12690, 12693), (12832, 12841), (12872, 12879),
    (12881, 12895), (12928, 12937), (12977, 12991), (42528, 42537), (42726, 42735), (43056, 43061),
    (43216, 43225), (43264, 43273), (43472, 43481), (43504, 43513), (43600, 43609), (44016, 44025),
    (65296, 65305), (65799, 65843), (65856, 65912), (65930, 65931), (66273, 66299), (66336, 66339),
    (66369, 66369), (66378, 66378), (66513, 66517), (66720, 66729), (67672, 67679), (67705, 67711),
    (67751, 67759), (67835, 67839), (67862, 67867), (68028, 68029), (68032, 68047), (68050, 68095),
    (68160, 68168), (68221, 68222), (68253, 68255), (68331, 68335), (68440, 68447), (68472, 68479),
    (68521, 68527), (68858, 68863), (68912, 68921), (68928, 68937), (69216, 69246), (69405, 69414),
    (69457, 69460), (69573, 69579), (69714, 69743), (69872, 69881), (69942, 69951), (70096, 70105),
    (70113, 70132), (70384, 70393), (70736, 70745), (70864, 70873), (71248, 71257), (71360, 71369),
    (71376, 71395), (71472, 71483), (71904, 71922), (72016, 72025), (72688, 72697), (72784, 72812),
    (73040, 73049), (73120, 73129), (73184, 73193), (73552, 73561), (73664, 73684), (74752, 74862),
    (90416, 90425), (92768, 92777), (92864, 92873), (93008, 93017), (93019, 93025), (93552, 93561),
    (93824, 93846), (118000, 118009), (119488, 119507), (119520, 119539), (119648, 119672),
    (120782, 120831), (123200, 123209), (123632, 123641), (124144, 124153), (124401, 124410),
    (125127, 125135), (125264, 125273), (126065, 126123), (126125, 126127), (126129, 126132),
    (126209, 126253), (126255, 126269), (127232, 127244), (130032, 130041)]"

definition is_numeric :: "nat \<Rightarrow> bool" where
  "is_numeric u = in_ranges numeric_ranges u"

definition is_alphabetic_ascii :: "nat \<Rightarrow> bool" where
  "is_alphabetic_ascii u = (65 \<le> u \<and> u \<le> 90 \<or> 97 \<le> u \<and> u \<le> 122)"

definition is_digit_ascii :: "nat \<Rightarrow> bool" where
  "is_digit_ascii u = (48 \<le> u \<and> u \<le> 57)"

definition is_alphanumeric_ascii :: "nat \<Rightarrow> bool" where
  "is_alphanumeric_ascii u = (is_alphabetic_ascii u \<or> is_digit_ascii u)"

definition lower_ascii :: "nat \<Rightarrow> nat" where
  "lower_ascii u = (if 65 \<le> u \<and> u \<le> 90 then u + 32 else u)"

section \<open>Strings over code points\<close>

definition drop_start :: "(nat \<Rightarrow> bool) \<Rightarrow> nat list \<Rightarrow> nat list" where
  "drop_start p us = dropWhile p us"

definition drop_end :: "(nat \<Rightarrow> bool) \<Rightarrow> nat list \<Rightarrow> nat list" where
  "drop_end p us = rev (dropWhile p (rev us))"

text \<open>\<open>split_whitespace\<close> and \<open>split(sep)\<close>.\<close>

fun words_from :: "nat list \<Rightarrow> nat list \<Rightarrow> nat list list" where
  "words_from acc [] = (if acc = [] then [] else [rev acc])"
| "words_from acc (u # us) =
     (if is_whitespace u then (if acc = [] then [] else [rev acc]) @ words_from [] us else words_from (u # acc) us)"

definition split_words :: "nat list \<Rightarrow> nat list list" where
  "split_words us = words_from [] us"

fun split_on :: "nat \<Rightarrow> nat list \<Rightarrow> nat list list" where
  "split_on sep [] = [[]]"
| "split_on sep (u # us) =
     (if u = sep then [] # split_on sep us
      else case split_on sep us of [] \<Rightarrow> [[u]] | f # fs \<Rightarrow> (u # f) # fs)"

fun join_chars :: "nat list \<Rightarrow> nat list list \<Rightarrow> nat list" where
  "join_chars sep [] = []"
| "join_chars sep [f] = f"
| "join_chars sep (f # fs) = f @ sep @ join_chars sep fs"

text \<open>\<open>str::find\<close>: what stands before the first occurrence and what follows it.\<close>

definition begins :: "nat list \<Rightarrow> nat list \<Rightarrow> bool" where
  "begins p us = (take (length p) us = p)"

fun cut_at :: "nat list \<Rightarrow> nat list \<Rightarrow> (nat list \<times> nat list) option" where
  "cut_at p [] = (if p = [] then Some ([], []) else None)"
| "cut_at p (u # us) =
     (if begins p (u # us) then Some ([], drop (length p) (u # us))
      else map_option (\<lambda>(a, b). (u # a, b)) (cut_at p us))"

lemma begins_prefix: "begins p us = prefix p us"
  unfolding begins_def prefix_def by (metis append_eq_conv_conj append_take_drop_id)

lemma cut_at_Some: "cut_at p us = Some (a, b) \<Longrightarrow> us = a @ p @ b"
proof (induction us arbitrary: a)
  case (Cons u us)
  show ?case
  proof (cases "begins p (u # us)")
    case True
    with Cons.prems show ?thesis by (auto simp: begins_def) (metis append_take_drop_id)
  next
    case False
    with Cons show ?thesis by auto
  qed
qed (auto split: if_splits)

end
