(* ===== verification/Ai_Run.thy ===== *)
theory Ai_Run
  imports Api Programs Unicode
begin

text \<open>
  An AI run as a task beside the rest of the program: it reads the store, asks the model through
  the ladder and writes through the sink. At each await other tasks may run, so each is preceded by
  an arbitrary list of calls of the store (\<open>or_during\<close>). The model, the run's ids and clock, a
  failing read pool, \<open>serde_json\<close> and Unicode's lower-case mapping are oracles. Log lines have no
  effect, and the records of steps that produced nothing, which the source writes while the ladder
  runs, are written when it has ended.
\<close>

datatype Role = Role_System | Role_User

datatype Complexity = Complexity_Simple | Complexity_Complex

record ModelRequest =
  mq_messages :: "(Role \<times> string) list"
  mq_schema_name :: string
  mq_schema :: Json
  mq_max_tokens :: nat
  mq_complexity :: Complexity

record Oracle =
  or_during :: "nat \<Rightarrow> Call list"
  or_dropped :: "nat \<Rightarrow> bool"
  or_read_fails :: "nat \<Rightarrow> string option"
  or_model :: "(nat \<Rightarrow> ModelRequest \<Rightarrow> ModelFailure + ModelReply) option"
  or_settings :: "nat \<Rightarrow> AiSettings option"
  or_past_deadline :: "nat \<Rightarrow> bool"
  or_now :: "nat \<Rightarrow> string"
  or_call_id :: "nat \<Rightarrow> string"
  or_ulid :: "nat \<Rightarrow> string"
  or_elapsed_ms :: "nat \<Rightarrow> nat"
  or_json :: "string \<Rightarrow> Json option"
  or_json_text :: "Json \<Rightarrow> string"
  or_lowercase :: "string \<Rightarrow> string"

record Brain =
  br_oracle :: Oracle
  br_store :: Sin90Store
  br_awaits :: nat
  br_minted :: nat
  br_emitted :: "(string \<times> Json) list"

text \<open>
  The error of a part of a run is a value; the run itself ends without one only when its future is
  dropped at an await, by the deadline around it or because the client has gone.
\<close>

type_synonym 'a brain = "(Brain, unit, 'a) prog"

datatype ReadError = Read_Pool string | Read_Store StoreError

definition ai_await :: "unit brain" where
  "ai_await = mbind (mget (\<lambda>b. or_dropped (br_oracle b) (br_awaits b))) (\<lambda>dropped.
     mthen (mmod (\<lambda>b. b\<lparr>br_store := fold exec (or_during (br_oracle b) (br_awaits b)) (br_store b), br_awaits := Suc (br_awaits b)\<rparr>))
       (if dropped then mfail () else mret ()))"

definition ai_at_once :: "(Sin90Store, 'e, 'a) prog \<Rightarrow> ('e + 'a) brain" where
  "ai_at_once m b = (case m (br_store b) of (r, w) \<Rightarrow> (Inr r, b\<lparr>br_store := w\<rparr>))"

text \<open>A read through the pool that only reads, and a write through the sink.\<close>

definition ai_read :: "'a store \<Rightarrow> (ReadError + 'a) brain" where
  "ai_read m = mthen ai_await
     (mbind (mget (\<lambda>b. or_read_fails (br_oracle b) (br_awaits b))) (\<lambda>fails.
      case fails of Some e \<Rightarrow> mret (Inl (Read_Pool e))
      | None \<Rightarrow> mbind (ai_at_once m) (\<lambda>r. mret (map_sum Read_Store id r))))"

definition ai_sink :: "'a sink \<Rightarrow> (SinkError + 'a) brain" where
  "ai_sink m = mthen ai_await (ai_at_once m)"

text \<open>\<open>unwrap_or_else\<close> on a read.\<close>

definition read_or :: "'a \<Rightarrow> 'a store \<Rightarrow> 'a brain" where
  "read_or d m = mbind (ai_read m) (\<lambda>r. mret (case r of Inl _ \<Rightarrow> d | Inr x \<Rightarrow> x))"

definition ai_ulid :: "string brain" where
  "ai_ulid = mbind (mget (\<lambda>b. or_ulid (br_oracle b) (br_minted b)))
     (\<lambda>u. mthen (mmod (\<lambda>b. b\<lparr>br_minted := Suc (br_minted b)\<rparr>)) (mret u))"

definition ai_now :: "string brain" where
  "ai_now = mbind (ai_at_once now_iso8601) (\<lambda>r. mret (case r of Inr t \<Rightarrow> t | Inl _ \<Rightarrow> []))"

text \<open>The events handed to the sink beyond the process, in order.\<close>

definition ai_emit :: "string \<Rightarrow> Json \<Rightarrow> unit brain" where
  "ai_emit kind payload = mmod (\<lambda>b. b\<lparr>br_emitted := br_emitted b @ [(kind, payload)]\<rparr>)"

section \<open>The ladder inside a run\<close>

definition engine_complexity :: "Engine \<Rightarrow> Complexity" where
  "engine_complexity engine = (if engine = Engine_Executive then Complexity_Complex else Complexity_Simple)"

definition ports_of ::
  "string \<Rightarrow> (Engine \<Rightarrow> ModelRequest) \<Rightarrow> (ModelReply \<Rightarrow> string + 'v) \<Rightarrow> 'v option \<Rightarrow> 'v option \<Rightarrow> Oracle \<Rightarrow> 'v Ports" where
  "ports_of run_id build parse decisive fallback o' =
     \<lparr>po_run_id = run_id, po_model_present = (or_model o' \<noteq> None),
      po_complete = (\<lambda>n engine. case or_model o' of None \<Rightarrow> Inl MF_Other | Some m \<Rightarrow> m n (build engine)),
      po_settings = or_settings o', po_past_deadline = or_past_deadline o', po_now = or_now o', po_mint_id = or_call_id o',
      po_elapsed_ms = or_elapsed_ms o', po_parse = parse, po_reflex_decisive = decisive, po_reflex_fallback = fallback\<rparr>"

definition record_call_best_effort :: "AiCallRecord \<Rightarrow> unit brain" where
  "record_call_best_effort rec = mthen (ai_sink (sink_record_call rec)) (mret ())"

definition ladder_item ::
  "string \<Rightarrow> Capability \<Rightarrow> Step list \<Rightarrow> RunState \<Rightarrow> (Engine \<Rightarrow> ModelRequest) \<Rightarrow> (ModelReply \<Rightarrow> string + 'v) \<Rightarrow>
   'v option \<Rightarrow> 'v option \<Rightarrow> ('v Outcome \<times> RunState) brain" where
  "ladder_item run_id cap steps st build parse decisive fallback =
     mbind ai_await (\<lambda>_. mbind (mget br_oracle) (\<lambda>o'.
     case run_item (ports_of run_id build parse decisive fallback o') cap steps st of
       (out, st1, log) \<Rightarrow> mthen (mfor record_call_best_effort log) (mret (out, st1))))"

section \<open>What the capabilities share\<close>

text \<open>One layer of a Markdown fence around a reply.\<close>

definition strip_suffix :: "string \<Rightarrow> string \<Rightarrow> string option" where
  "strip_suffix s p = map_option rev (strip_prefix (rev s) (rev p))"

definition fence :: string where
  "fence = replicate 3 (char_of (96 :: nat))"

definition unfenced :: "string \<Rightarrow> string" where
  "unfenced rest = trim (case strip_suffix rest fence of None \<Rightarrow> rest | Some r \<Rightarrow> r)"

definition strip_json_fence :: "string \<Rightarrow> string" where
  "strip_json_fence s =
     (let t = trim s in
      case strip_prefix t (fence @ ''json'') of
        Some rest \<Rightarrow> unfenced rest
      | None \<Rightarrow> (case strip_prefix t fence of Some rest \<Rightarrow> unfenced rest | None \<Rightarrow> t))"

text \<open>A struct with \<open>deny_unknown_fields\<close>: every field once and no other one, or all of them in order.\<close>

definition strict_fields :: "string list \<Rightarrow> Json \<Rightarrow> Json list option" where
  "strict_fields names v =
     (case v of
        JObj kvs \<Rightarrow> (if distinct (map fst kvs) \<and> set (map fst kvs) \<subseteq> set names then those (map (map_of kvs) names) else None)
      | JArr vs \<Rightarrow> (if length vs = length names then Some vs else None)
      | _ \<Rightarrow> None)"

definition strings_of :: "Json \<Rightarrow> string list option" where
  "strings_of v = (case v of JArr vs \<Rightarrow> those (map jstr vs) | _ \<Rightarrow> None)"

text \<open>
  Handing a decision to the sink: the sink the routes give a run mirrors a submission as soon as it
  is committed; a refusal is recorded as a call of its own, and the record says whether the state
  had moved or the store had failed.
\<close>

definition failed_record :: "SinkError \<Rightarrow> AiCallRecord \<Rightarrow> AiCallRecord" where
  "failed_record e rec = rec\<lparr>ac_ok := False, ac_proposal_id := None, ac_error_kind := Some
     (case e of Sink_Invalid _ \<Rightarrow> ''rejected_by_precheck'' | Sink_Store _ \<Rightarrow> ''submit_store_error'')\<rparr>"

definition emitting_submit :: "Capability \<Rightarrow> ProposalDraft \<Rightarrow> AiCallRecord \<Rightarrow> (SinkError + unit) brain" where
  "emitting_submit cap draft rec =
     mbind (ai_sink (sink_submit cap draft rec)) (\<lambda>result.
     mthen (if isl result then mret () else ai_emit ''proposal.submitted'' (JObj [(''id'', JStr (pd_id draft))]))
       (mret result))"

definition submit_or_record :: "Capability \<Rightarrow> ProposalDraft \<Rightarrow> AiCallRecord \<Rightarrow> (SinkError + unit) brain" where
  "submit_or_record cap draft rec =
     mbind (emitting_submit cap draft rec) (\<lambda>r.
     case r of
       Inr _ \<Rightarrow> mret (Inr ())
     | Inl e \<Rightarrow> mthen (record_call_best_effort (failed_record e rec)) (mret (Inl e)))"

definition ai_settings_or_default :: "AiSettings brain" where
  "ai_settings_or_default = read_or AiSettings_default read_ai_settings"

definition model_is_some :: "bool brain" where
  "model_is_some = mget (\<lambda>b. or_model (br_oracle b) \<noteq> None)"

end
