(* ===== verification/Classify.thy ===== *)
theory Classify
  imports Ai_Run
begin

text \<open>
  The capability that files inbox tasks under directions, \<open>src/ai/classify.rs\<close>, and the history read
  of \<open>src/store/ai_port.rs\<close> it needs.
\<close>

section \<open>Titles\<close>

definition normalize_title :: "(string \<Rightarrow> string) \<Rightarrow> string \<Rightarrow> string" where
  "normalize_title lowercase title = lowercase (join_with '' '' (split_whitespace title))"

definition title_history :: "(string \<Rightarrow> string) \<Rightarrow> string \<Rightarrow> DirectionId list store" where
  "title_history lowercase normalized = query (\<lambda>db.
     [di_id d. t \<leftarrow> db_tasks db, d \<leftarrow> db_directions db, tk_direction_id t = Some (di_id d) \<and> eligible_direction d
        \<and> normalize_title lowercase (tk_title t) = normalized])"

section \<open>Candidates\<close>

record KeyedCandidate =
  kc_key :: string
  kc_direction_id :: DirectionId
  kc_title :: string
  kc_area_title :: "string option"

definition candidate_keys :: "DirectionCandidate list \<Rightarrow> KeyedCandidate list" where
  "candidate_keys cs = map (\<lambda>(i, c). \<lparr>kc_key = ''d'' @ dec (i + 1), kc_direction_id = dc_direction_id c,
     kc_title = dc_title c, kc_area_title = dc_area_title c\<rparr>) (enumerate 0 cs)"

section \<open>The first rule: the same title before\<close>

definition r1_reflex :: "DirectionId list \<Rightarrow> DirectionId option" where
  "r1_reflex history = (case history of [] \<Rightarrow> None | d # ds \<Rightarrow> if list_all (\<lambda>d'. d' = d) ds then Some d else None)"

section \<open>The second rule: words in common\<close>

definition is_cjk :: "nat \<Rightarrow> bool" where
  "is_cjk u = in_ranges [(0x4E00, 0x9FFF), (0x3400, 0x4DBF), (0x3040, 0x30FF), (0xAC00, 0xD7A3), (0xF900, 0xFAFF),
     (0x20000, 0x2FA1F)] u"

definition finalize_word :: "nat list \<Rightarrow> nat list set \<Rightarrow> nat list set" where
  "finalize_word cur words = (if 3 \<le> length cur \<and> list_ex is_alphabetic_ascii cur then insert cur words else words)"

fun tokenize_from :: "nat list \<Rightarrow> nat list \<Rightarrow> nat list set \<Rightarrow> nat list set \<Rightarrow> nat list set \<times> nat list set" where
  "tokenize_from cur [] words bigrams = (finalize_word cur words, bigrams)"
| "tokenize_from cur (c # cs) words bigrams =
     (if is_alphanumeric_ascii c then tokenize_from (cur @ [lower_ascii c]) cs words bigrams
      else tokenize_from [] cs (finalize_word cur words)
        (case cs of [] \<Rightarrow> bigrams | c' # _ \<Rightarrow> if is_cjk c \<and> is_cjk c' then insert [c, c'] bigrams else bigrams))"

definition tokenize :: "string \<Rightarrow> nat list set \<times> nat list set" where
  "tokenize s = tokenize_from [] (chars s) {} {}"

definition combined_title :: "KeyedCandidate \<Rightarrow> string" where
  "combined_title c = (case kc_area_title c of Some a \<Rightarrow> kc_title c @ '' '' @ a | None \<Rightarrow> kc_title c)"

definition hits :: "nat list set \<times> nat list set \<Rightarrow> KeyedCandidate \<Rightarrow> nat \<times> nat" where
  "hits t c = (card (fst t \<inter> fst (tokenize (combined_title c))), card (snd t \<inter> snd (tokenize (combined_title c))))"

record Race =
  ra_best_total :: nat
  ra_best :: "(nat \<times> nat \<times> KeyedCandidate) option"
  ra_tie :: bool

definition race_step :: "nat list set \<times> nat list set \<Rightarrow> KeyedCandidate \<Rightarrow> Race \<Rightarrow> Race" where
  "race_step t c r =
     (let (words, bigrams) = hits t c; total = words + bigrams in
      if total = 0 then r
      else if ra_best_total r < total then \<lparr>ra_best_total = total, ra_best = Some (words, bigrams, c), ra_tie = False\<rparr>
      else if total = ra_best_total r then (if ra_best r \<noteq> None then r\<lparr>ra_tie := True\<rparr> else r)
      else r)"

definition r2_reflex :: "string \<Rightarrow> KeyedCandidate list \<Rightarrow> DirectionId option" where
  "r2_reflex title candidates =
     (let t = tokenize title in
      if fst t = {} \<and> snd t = {} then None
      else let r = fold (race_step t) candidates \<lparr>ra_best_total = 0, ra_best = None, ra_tie = False\<rparr> in
        if ra_tie r then None
        else case ra_best r of None \<Rightarrow> None
          | Some (words, bigrams, winner) \<Rightarrow> if 1 \<le> words \<or> 2 \<le> bigrams then Some (kc_direction_id winner) else None)"

section \<open>The model's request and reply\<close>

definition CLASSIFY_SYSTEM_PROMPT :: string where
  "CLASSIFY_SYSTEM_PROMPT = ''You are sorting one task into the best-fitting Direction '' @
     ''from a short candidate list. Pick exactly one candidate key, or '' @ [char_of (34 :: nat)] @ ''none'' @ [char_of (34 :: nat)] @
     '' if nothing fits well. '' @ ''Respond with JSON only, matching the given schema.''"

definition MAX_REASON_CHARS :: nat where
  "MAX_REASON_CHARS = 200"

record ClassifyDecision =
  cd_direction_id :: "DirectionId option"
  cd_reason :: string
  cd_low_confidence :: bool
  cd_confidence :: "string option"
  cd_choice :: "string option"

definition schema_enum :: "Json list \<Rightarrow> Json" where
  "schema_enum choices = JObj [(''type'', JStr ''string''), (''enum'', JArr choices)]"

definition schema_object :: "(string \<times> Json) list \<Rightarrow> string list \<Rightarrow> Json" where
  "schema_object props req = JObj [(''type'', JStr ''object''), (''additionalProperties'', JBool False),
     (''properties'', JObj props), (''required'', jstrs req)]"

definition schema_text :: "nat \<Rightarrow> Json" where
  "schema_text n = JObj [(''type'', JStr ''string''), (''maxLength'', JInt (int n))]"

definition classify_schema :: "KeyedCandidate list \<Rightarrow> Json" where
  "classify_schema candidates = schema_object
     [(''choice'', schema_enum (map (JStr \<circ> kc_key) candidates @ [JStr ''none''])),
      (''confidence'', schema_enum [JStr ''low'', JStr ''medium'', JStr ''high'']),
      (''reason'', schema_text MAX_REASON_CHARS)] [''choice'', ''confidence'', ''reason'']"

definition build_classify_request :: "(Json \<Rightarrow> string) \<Rightarrow> Task \<Rightarrow> KeyedCandidate list \<Rightarrow> Engine \<Rightarrow> ModelRequest" where
  "build_classify_request text_of task candidates engine =
     \<lparr>mq_messages = [(Role_System, CLASSIFY_SYSTEM_PROMPT), (Role_User, text_of (JObj
        [(''item'', JObj [(''title'', JStr (tk_title task))]),
         (''candidates'', JArr (map (\<lambda>c. JObj [(''key'', JStr (kc_key c)), (''title'', JStr (kc_title c)),
            (''area'', jopt JStr (kc_area_title c))]) candidates))]))],
      mq_schema_name = ''sin90_classify'', mq_schema = classify_schema candidates, mq_max_tokens = 256,
      mq_complexity = engine_complexity engine\<rparr>"

record ModelChoice =
  mc_choice :: string
  mc_confidence :: string
  mc_reason :: string

definition parse_model_choice :: "Json \<Rightarrow> ModelChoice option" where
  "parse_model_choice v =
     (case strict_fields [''choice'', ''confidence'', ''reason''] v of
        Some [JStr c, JStr f, JStr r] \<Rightarrow> Some \<lparr>mc_choice = c, mc_confidence = f, mc_reason = r\<rparr> | _ \<Rightarrow> None)"

datatype Confidence = Confidence_Low | Confidence_Medium | Confidence_High

definition Confidence_parse :: "string \<Rightarrow> Confidence option" where
  "Confidence_parse s = (if s = ''low'' then Some Confidence_Low else if s = ''medium'' then Some Confidence_Medium
     else if s = ''high'' then Some Confidence_High else None)"

fun Confidence_as_str :: "Confidence \<Rightarrow> string" where
  "Confidence_as_str Confidence_Low = ''low''"
| "Confidence_as_str Confidence_Medium = ''medium''"
| "Confidence_as_str Confidence_High = ''high''"

text \<open>The derived order of the enumeration.\<close>

instantiation Confidence :: linorder
begin

fun confidence_rank :: "Confidence \<Rightarrow> nat" where
  "confidence_rank Confidence_Low = 0"
| "confidence_rank Confidence_Medium = 1"
| "confidence_rank Confidence_High = 2"

definition less_eq_Confidence :: "Confidence \<Rightarrow> Confidence \<Rightarrow> bool" where
  "less_eq_Confidence a b = (confidence_rank a \<le> confidence_rank b)"

definition less_Confidence :: "Confidence \<Rightarrow> Confidence \<Rightarrow> bool" where
  "less_Confidence a b = (confidence_rank a < confidence_rank b)"

instance
proof
  show "a \<le> b \<Longrightarrow> b \<le> a \<Longrightarrow> a = b" for a b :: Confidence
    by (cases a; cases b) (auto simp: less_eq_Confidence_def)
qed (auto simp: less_eq_Confidence_def less_Confidence_def)

end

definition CLASSIFY_CONFIDENCE_THRESHOLD :: Confidence where
  "CLASSIFY_CONFIDENCE_THRESHOLD = Confidence_Medium"

definition bad_output :: string where
  "bad_output = ''bad_output''"

definition decide_choice :: "ModelChoice \<Rightarrow> Confidence \<Rightarrow> KeyedCandidate list \<Rightarrow> ClassifyDecision" where
  "decide_choice m confidence candidates =
     (let d = \<lparr>cd_direction_id = None, cd_reason = mc_reason m,
        cd_low_confidence = (confidence < CLASSIFY_CONFIDENCE_THRESHOLD),
        cd_confidence = Some (Confidence_as_str confidence), cd_choice = Some (mc_choice m)\<rparr> in
      if mc_choice m = ''none'' then d
      else if confidence < CLASSIFY_CONFIDENCE_THRESHOLD then d\<lparr>cd_low_confidence := True\<rparr>
      else d\<lparr>cd_direction_id := map_option kc_direction_id (find (\<lambda>c. kc_key c = mc_choice m) candidates),
             cd_low_confidence := False\<rparr>)"

definition parse_classify_reply ::
  "(string \<Rightarrow> Json option) \<Rightarrow> string \<Rightarrow> KeyedCandidate list \<Rightarrow> string + ClassifyDecision" where
  "parse_classify_reply json_of reply candidates =
     (case Option.bind (json_of (strip_json_fence reply)) parse_model_choice of
        None \<Rightarrow> Inl bad_output
      | Some m \<Rightarrow>
          (case Confidence_parse (mc_confidence m) of
             None \<Rightarrow> Inl bad_output
           | Some confidence \<Rightarrow>
               if char_count (mc_reason m) > MAX_REASON_CHARS then Inl bad_output
               else if mc_choice m \<noteq> ''none'' \<and> \<not> list_ex (\<lambda>c. kc_key c = mc_choice m) candidates then Inl bad_output
               else Inr (decide_choice m confidence candidates)))"

section \<open>The rationale\<close>

definition MAX_RATIONALE_CHARS :: nat where
  "MAX_RATIONALE_CHARS = 280"

definition is_cf_format_char :: "nat \<Rightarrow> bool" where
  "is_cf_format_char u = in_ranges [(0x00AD, 0x00AD), (0x061C, 0x061C), (0x200B, 0x200F), (0x202A, 0x202E), (0x2060, 0x2064),
     (0x2066, 0x2069), (0xFEFF, 0xFEFF)] u"

definition clip :: "string \<Rightarrow> string" where
  "clip s = (if char_count s > MAX_RATIONALE_CHARS then take_chars MAX_RATIONALE_CHARS s else s)"

definition classify_rationale :: "Engine \<Rightarrow> string \<Rightarrow> string" where
  "classify_rationale engine reason =
     clip (engine_wire engine @ '': '' @ utf8 (filter (\<lambda>c. \<not> is_control c \<and> \<not> is_cf_format_char c) (chars reason)))"

section \<open>One task\<close>

datatype ItemResult = Item_Proposed string | Item_Nothing | Item_Deferred | Item_Rejected | Item_Aborted

record ClassifyItem =
  ci_task_id :: TaskId
  ci_result :: ItemResult
  ci_reason :: "string option"

definition submit_direction_assignment ::
  "TaskId \<Rightarrow> DirectionId \<Rightarrow> string \<Rightarrow> AiCallRecord \<Rightarrow> (ItemResult \<times> string option \<times> bool) brain" where
  "submit_direction_assignment task_id direction_id rationale rec =
     mbind ai_ulid (\<lambda>u.
     let draft_id = ''ai-classify-'' @ u in
     mbind (submit_or_record Cap_Classify \<lparr>pd_id = draft_id, pd_ops = [AssignTaskDirection task_id direction_id],
       pd_rationale = Some rationale\<rparr> rec) (\<lambda>r.
     mret (case r of Inr _ \<Rightarrow> (Item_Proposed draft_id, None, False)
       | Inl (Sink_Store _) \<Rightarrow> (Item_Rejected, None, True)
       | Inl (Sink_Invalid _) \<Rightarrow> (Item_Rejected, None, False))))"

definition reflex_decision :: "string \<Rightarrow> DirectionId \<Rightarrow> ClassifyDecision" where
  "reflex_decision reason d = \<lparr>cd_direction_id = Some d, cd_reason = reason, cd_low_confidence = False,
     cd_confidence = None, cd_choice = None\<rparr>"

text \<open>What a decision becomes: a proposal, a proposal for the triage direction, or a recorded call.\<close>

definition settle_decision ::
  "Task \<Rightarrow> ClassifyDecision \<Rightarrow> Engine \<Rightarrow> AiCallRecord \<Rightarrow> (ItemResult \<times> string option \<times> bool) brain" where
  "settle_decision task d engine rec =
     (case cd_direction_id d of
        Some direction_id \<Rightarrow> submit_direction_assignment (tk_id task) direction_id (classify_rationale engine (cd_reason d)) rec
      | None \<Rightarrow>
          if cd_low_confidence d then
            mthen (record_call_best_effort rec) (mret (Item_Nothing, Some ''low_confidence'', False))
          else submit_direction_assignment (tk_id task) TRIAGE_DIRECTION_ID (classify_rationale engine (cd_reason d)) rec)"

definition settle_outcome ::
  "Task \<Rightarrow> ClassifyDecision Outcome \<Rightarrow> (ItemResult \<times> string option \<times> bool) brain" where
  "settle_outcome task out =
     (case out of
        Produced d engine rec \<Rightarrow> settle_decision task d engine rec
      | Nothing_Produced deterministic \<Rightarrow> mret (Item_Nothing, Some ''undetermined'', \<not> deterministic)
      | Deferred \<Rightarrow> mret (Item_Deferred, None, False)
      | Aborted \<Rightarrow> mret (Item_Aborted, None, False))"

text \<open>Which results of a task parked in triage count as an evaluation that found nothing new.\<close>

definition eval_recorded :: "Task \<Rightarrow> ItemResult \<Rightarrow> string option \<Rightarrow> bool \<Rightarrow> bool" where
  "eval_recorded task result reason skip_eval =
     (tk_direction_id task = Some TRIAGE_DIRECTION_ID \<and> \<not> skip_eval
      \<and> (result = Item_Nothing \<and> (reason = Some ''low_confidence'' \<or> reason = Some ''undetermined'') \<or> result = Item_Rejected))"

definition classify_one ::
  "string \<Rightarrow> Task \<Rightarrow> KeyedCandidate list \<Rightarrow> Step list \<Rightarrow> RunState \<Rightarrow> string \<Rightarrow> (ItemResult \<times> string option \<times> RunState) brain" where
  "classify_one run_id task candidates steps st run_started_at =
     (if candidates = [] then mret (Item_Nothing, Some ''undetermined'', st)
      else mbind (mget br_oracle) (\<lambda>o'.
        mbind (read_or [] (title_history (or_lowercase o') (normalize_title (or_lowercase o') (tk_title task)))) (\<lambda>history.
        mbind (ladder_item run_id Cap_Classify steps st
          (build_classify_request (or_json_text o') task candidates)
          (\<lambda>reply. parse_classify_reply (or_json o') (mr_text reply) candidates)
          (map_option (reflex_decision ''a same-titled task is already classified into it'') (r1_reflex history))
          (map_option (reflex_decision ''its title overlaps this Direction/Area the most'') (r2_reflex (tk_title task) candidates)))
          (\<lambda>(out, st1).
        mbind (settle_outcome task out) (\<lambda>(result, reason, skip_eval).
        mthen (if eval_recorded task result reason skip_eval
               then mthen (ai_sink (sink_record_classify_eval (tk_id task) run_started_at)) (mret ()) else mret ())
          (mret (result, reason, st1)))))))"

section \<open>A run\<close>

fun classify_tasks ::
  "string \<Rightarrow> KeyedCandidate list \<Rightarrow> Step list \<Rightarrow> string \<Rightarrow> RunState \<Rightarrow> Task list \<Rightarrow> ClassifyItem list brain" where
  "classify_tasks run_id candidates steps started st [] = mret []"
| "classify_tasks run_id candidates steps started st (task # tasks) =
     mbind (if rn_aborted st then mret (Item_Aborted, None, st)
            else classify_one run_id task candidates steps st started) (\<lambda>(result, reason, st1).
     mbind (classify_tasks run_id candidates steps started st1 tasks) (\<lambda>items.
     mret (\<lparr>ci_task_id = tk_id task, ci_result = result, ci_reason = reason\<rparr> # items)))"

definition run_classify :: "string \<Rightarrow> Task list \<Rightarrow> ModelAccess \<Rightarrow> ClassifyItem list brain" where
  "run_classify run_id tasks access =
     mbind ai_now (\<lambda>run_started_at.
     mbind ai_settings_or_default (\<lambda>settings.
     mbind (read_or [] (direction_candidates 40)) (\<lambda>raw_candidates.
     mbind model_is_some (\<lambda>present.
     classify_tasks run_id (candidate_keys raw_candidates) (plan Cap_Classify access settings present) run_started_at
       RunState_new tasks))))"

section \<open>The targets of a run\<close>

definition MAX_CLASSIFY_TASK_IDS :: nat where
  "MAX_CLASSIFY_TASK_IDS = 20"

datatype ClassifyInputError =
    EmptyTaskIds | TooManyTaskIds | TaskNotInInbox TaskId | DuplicateTaskId TaskId | ClassifyReadFailed ReadError

fun first_duplicate :: "string set \<Rightarrow> string list \<Rightarrow> string option" where
  "first_duplicate seen [] = None"
| "first_duplicate seen (i # ids) = (if i \<in> seen then Some i else first_duplicate (insert i seen) ids)"

fun lookup_targets :: "TaskId list \<Rightarrow> (ClassifyInputError + Task list) brain" where
  "lookup_targets [] = mret (Inr [])"
| "lookup_targets (i # ids) = mbind (ai_read (inbox_task i)) (\<lambda>r.
     case r of
       Inl e \<Rightarrow> mret (Inl (ClassifyReadFailed e))
     | Inr None \<Rightarrow> mret (Inl (TaskNotInInbox i))
     | Inr (Some t) \<Rightarrow> mbind (lookup_targets ids) (\<lambda>out. mret (map_sum id (\<lambda>ts. t # ts) out)))"

definition select_targets :: "TaskId list option \<Rightarrow> (ClassifyInputError + Task list) brain" where
  "select_targets task_ids =
     (case task_ids of
        None \<Rightarrow> mbind (ai_read (ai_inbox MAX_CLASSIFY_TASK_IDS)) (\<lambda>r. mret (map_sum ClassifyReadFailed id r))
      | Some ids \<Rightarrow>
          if ids = [] then mret (Inl EmptyTaskIds)
          else if length ids > MAX_CLASSIFY_TASK_IDS then mret (Inl TooManyTaskIds)
          else case first_duplicate {} ids of
            Some i \<Rightarrow> mret (Inl (DuplicateTaskId i))
          | None \<Rightarrow> lookup_targets ids)"

end
