(* ===== verification/Propose.thy ===== *)
theory Propose
  imports Classify
begin

text \<open>
  The capability that suggests a schedule for a week, \<open>src/ai/propose.rs\<close>: tasks to carry over, an
  order, new tasks for directions without any, from one decision and as up to three proposals.
\<close>

section \<open>The target week\<close>

datatype ProposeInputError = UnknownWeek WeekId | WeekNotOpen WeekId WeekStatus | ProposeReadFailed ReadError

definition select_week :: "WeekId \<Rightarrow> (ProposeInputError + Week) brain" where
  "select_week week_id = mbind (ai_read (week_lookup week_id)) (\<lambda>r. mret (case r of
       Inl e \<Rightarrow> Inl (ProposeReadFailed e)
     | Inr None \<Rightarrow> Inl (UnknownWeek week_id)
     | Inr (Some week) \<Rightarrow> if \<not> week_is_open (wk_status week) then Inl (WeekNotOpen week_id (wk_status week)) else Inr week))"

section \<open>Candidates\<close>

record KeyedTask =
  kt_key :: string
  kt_task_id :: TaskId
  kt_title :: string

record KeyedDirection =
  kd_key :: string
  kd_direction_id :: DirectionId
  kd_title :: string

definition keyed_tasks :: "string \<Rightarrow> Task list \<Rightarrow> KeyedTask list" where
  "keyed_tasks prfx tasks = map (\<lambda>(i, t). \<lparr>kt_key = prfx @ dec (i + 1), kt_task_id = tk_id t, kt_title = tk_title t\<rparr>)
     (enumerate 0 tasks)"

text \<open>The loop over the allocation: \<open>seen\<close> are the directions met, \<open>n\<close> how many keys are given.\<close>

fun gaps_from :: "DirectionId set \<Rightarrow> DirectionId set \<Rightarrow> nat \<Rightarrow> Alloc list \<Rightarrow> (ReadError + KeyedDirection list) brain" where
  "gaps_from used seen n [] = mret (Inr [])"
| "gaps_from used seen n (a # as) =
     (if al_pct a = 0 \<or> al_direction_id a = TRIAGE_DIRECTION_ID \<or> al_direction_id a \<in> used \<or> al_direction_id a \<in> seen
      then gaps_from used (if al_pct a = 0 \<or> al_direction_id a = TRIAGE_DIRECTION_ID \<or> al_direction_id a \<in> used then seen
        else insert (al_direction_id a) seen) n as
      else mbind (ai_read (direction_lookup (al_direction_id a))) (\<lambda>r.
        case r of
          Inl e \<Rightarrow> mret (Inl e)
        | Inr c \<Rightarrow>
            (let seen1 = insert (al_direction_id a) seen in
             case c of
               None \<Rightarrow> gaps_from used seen1 n as
             | Some c \<Rightarrow>
                 if direction_is_terminal (dc_status c) then gaps_from used seen1 n as
                 else mbind (gaps_from used seen1 (n + 1) as) (\<lambda>rest. mret (map_sum id (\<lambda>gs.
                   \<lparr>kd_key = ''g'' @ dec (n + 1), kd_direction_id = dc_direction_id c, kd_title = dc_title c\<rparr> # gs) rest)))))"

definition gap_directions :: "Alloc list \<Rightarrow> Task list \<Rightarrow> (ReadError + KeyedDirection list) brain" where
  "gap_directions alloc week_tasks_all = gaps_from (set (List.map_filter tk_direction_id week_tasks_all)) {} 0 alloc"

section \<open>The rules\<close>

definition carry_reflex :: "Task list \<Rightarrow> TaskId list" where
  "carry_reflex prev_tasks = map tk_id (filter (\<lambda>t. tk_status t = Task_Planned \<or> tk_status t = Task_InProgress) prev_tasks)"

fun status_tier :: "TaskStatus \<Rightarrow> nat" where
  "status_tier Task_InProgress = 0"
| "status_tier Task_Planned = 1"
| "status_tier Task_Backlog = 2"
| "status_tier _ = 3"

definition pct_of :: "Alloc list \<Rightarrow> DirectionId option \<Rightarrow> nat" where
  "pct_of alloc d = (case d of None \<Rightarrow> 0
     | Some i \<Rightarrow> (case find (\<lambda>a. al_direction_id a = i) alloc of None \<Rightarrow> 0 | Some a \<Rightarrow> unat (al_pct a)))"

text \<open>\<open>sort_by\<close> is stable: sorting by the last criterion first gives the lexicographic order.\<close>

definition reorder_reflex :: "Task list \<Rightarrow> Alloc list \<Rightarrow> TaskId list" where
  "reorder_reflex week_tasks_w alloc =
     map tk_id (sort_key (\<lambda>t. status_tier (tk_status t))
       (sort_key (\<lambda>t. - int (pct_of alloc (tk_direction_id t))) (sort_key tk_created_at week_tasks_w)))"

section \<open>The model's request and reply\<close>

definition PROPOSE_SYSTEM_PROMPT :: string where
  "PROPOSE_SYSTEM_PROMPT = ''You are drafting scheduling suggestions for one week. '' @
     ''You may: pick tasks from last week to carry over, reorder this week'' @ [char_of (39 :: nat)] @ ''s tasks, and propose at '' @
     ''most 3 brand-new tasks for under-allocated Directions. Respond with JSON only, matching the '' @
     ''given schema. Omit anything you have no useful suggestion for (empty array is fine).''"

definition MAX_NEW_TASKS :: nat where
  "MAX_NEW_TASKS = 3"

definition MAX_NEW_TASK_TITLE_CHARS :: nat where
  "MAX_NEW_TASK_TITLE_CHARS = 120"

record ProposeDecision =
  pc_carry :: "TaskId list"
  pc_order :: "TaskId list"
  pc_new_tasks :: "NewTask list"
  pc_reason :: string

definition schema_array :: "Json \<Rightarrow> Json" where
  "schema_array items = JObj [(''type'', JStr ''array''), (''items'', items)]"

definition propose_schema :: "KeyedTask list \<Rightarrow> KeyedTask list \<Rightarrow> KeyedDirection list \<Rightarrow> Json" where
  "propose_schema ps ws gs = schema_object
     [(''carry'', schema_array (schema_enum (map (JStr \<circ> kt_key) ps))),
      (''order'', schema_array (schema_enum (map (JStr \<circ> kt_key) ws))),
      (''new_tasks'', JObj [(''type'', JStr ''array''), (''maxItems'', JInt (int MAX_NEW_TASKS)),
         (''items'', schema_object
            [(''title'', JObj [(''type'', JStr ''string''), (''minLength'', JInt 1), (''maxLength'', JInt (int MAX_NEW_TASK_TITLE_CHARS))]),
             (''direction'', schema_enum (map (JStr \<circ> kd_key) gs))] [''title'', ''direction''])]),
      (''reason'', schema_text MAX_REASON_CHARS)] [''carry'', ''order'', ''new_tasks'', ''reason'']"

definition keyed_json :: "string \<Rightarrow> string \<Rightarrow> Json" where
  "keyed_json key title = JObj [(''key'', JStr key), (''title'', JStr title)]"

definition build_propose_request ::
  "(Json \<Rightarrow> string) \<Rightarrow> KeyedTask list \<Rightarrow> KeyedTask list \<Rightarrow> KeyedDirection list \<Rightarrow> Engine \<Rightarrow> ModelRequest" where
  "build_propose_request text_of ps ws gs engine =
     \<lparr>mq_messages = [(Role_System, PROPOSE_SYSTEM_PROMPT), (Role_User, text_of (JObj
        [(''carry_candidates'', JArr (map (\<lambda>k. keyed_json (kt_key k) (kt_title k)) ps)),
         (''reorder_candidates'', JArr (map (\<lambda>k. keyed_json (kt_key k) (kt_title k)) ws)),
         (''gap_directions'', JArr (map (\<lambda>k. keyed_json (kd_key k) (kd_title k)) gs))]))],
      mq_schema_name = ''sin90_propose'', mq_schema = propose_schema ps ws gs, mq_max_tokens = 512,
      mq_complexity = engine_complexity engine\<rparr>"

record ModelNewTask =
  mn_title :: string
  mn_direction :: string

record ModelPropose =
  mp_carry :: "string list"
  mp_order :: "string list"
  mp_new_tasks :: "ModelNewTask list"
  mp_reason :: string

definition parse_model_new_task :: "Json \<Rightarrow> ModelNewTask option" where
  "parse_model_new_task v = (case strict_fields [''title'', ''direction''] v of
     Some [JStr t, JStr d] \<Rightarrow> Some \<lparr>mn_title = t, mn_direction = d\<rparr> | _ \<Rightarrow> None)"

definition parse_model_propose :: "Json \<Rightarrow> ModelPropose option" where
  "parse_model_propose v =
     (case strict_fields [''carry'', ''order'', ''new_tasks'', ''reason''] v of
        Some [c, ord, JArr ns, JStr r] \<Rightarrow>
          (case (strings_of c, strings_of ord, those (map parse_model_new_task ns)) of
             (Some cs, Some os, Some ms) \<Rightarrow> Some \<lparr>mp_carry = cs, mp_order = os, mp_new_tasks = ms, mp_reason = r\<rparr>
           | _ \<Rightarrow> None)
      | _ \<Rightarrow> None)"

text \<open>The one cleaning pass over texts of the model.\<close>

definition is_stripped_char :: "nat \<Rightarrow> bool" where
  "is_stripped_char c = (is_control c \<or> c = 0x2028 \<or> c = 0x2029 \<or> is_cf_format_char c)"

definition is_whitespace_class_control :: "nat \<Rightarrow> bool" where
  "is_whitespace_class_control c = (9 \<le> c \<and> c \<le> 13 \<or> c = 0x85 \<or> c = 0x2028 \<or> c = 0x2029)"

definition clean_chars :: "nat list \<Rightarrow> nat list" where
  "clean_chars us = join_chars [32] (split_words (filter (\<lambda>c. \<not> is_stripped_char c)
     (map (\<lambda>c. if is_whitespace_class_control c then 32 else c) us)))"

definition clean_ai_text :: "string \<Rightarrow> string" where
  "clean_ai_text s = utf8 (clean_chars (chars s))"

text \<open>\<open>ok_or("bad_output")\<close> for every key of a list.\<close>

fun resolve_keys :: "(string \<Rightarrow> 'a option) \<Rightarrow> string list \<Rightarrow> 'a list option" where
  "resolve_keys f [] = Some []"
| "resolve_keys f (k # ks) = (case f k of None \<Rightarrow> None | Some x \<Rightarrow> map_option (\<lambda>xs. x # xs) (resolve_keys f ks))"

definition task_by_key :: "KeyedTask list \<Rightarrow> string \<Rightarrow> TaskId option" where
  "task_by_key cs k = map_option kt_task_id (find (\<lambda>c. kt_key c = k) cs)"

definition new_task_of :: "KeyedDirection list \<Rightarrow> ModelNewTask \<Rightarrow> NewTask option" where
  "new_task_of gs nt =
     (let title = clean_ai_text (mn_title nt) in
      if title = [] \<or> char_count title > MAX_NEW_TASK_TITLE_CHARS then None
      else map_option (\<lambda>g. \<lparr>nt_title = title, nt_direction_id = Some (kd_direction_id g)\<rparr>)
             (find (\<lambda>g. kd_key g = mn_direction nt) gs))"

definition complete_order :: "KeyedTask list \<Rightarrow> string list \<Rightarrow> TaskId list \<Rightarrow> TaskId list" where
  "complete_order ws keys explicit = explicit @ map kt_task_id (filter (\<lambda>c. kt_key c \<notin> set keys) ws)"

definition parse_propose_reply ::
  "(string \<Rightarrow> Json option) \<Rightarrow> string \<Rightarrow> KeyedTask list \<Rightarrow> KeyedTask list \<Rightarrow> KeyedDirection list \<Rightarrow> string + ProposeDecision" where
  "parse_propose_reply json_of reply ps ws gs =
     (case Option.bind (json_of (strip_json_fence reply)) parse_model_propose of
        None \<Rightarrow> Inl bad_output
      | Some m \<Rightarrow>
          if char_count (mp_reason m) > MAX_REASON_CHARS \<or> \<not> distinct (mp_carry m) then Inl bad_output
          else (case resolve_keys (task_by_key ps) (mp_carry m) of
            None \<Rightarrow> Inl bad_output
          | Some carry \<Rightarrow>
              if \<not> distinct (mp_order m) then Inl bad_output
              else (case resolve_keys (task_by_key ws) (mp_order m) of
                None \<Rightarrow> Inl bad_output
              | Some explicit \<Rightarrow>
                  if length (mp_new_tasks m) > MAX_NEW_TASKS then Inl bad_output
                  else (case those (map (new_task_of gs) (mp_new_tasks m)) of
                    None \<Rightarrow> Inl bad_output
                  | Some new_tasks \<Rightarrow> Inr \<lparr>pc_carry = carry, pc_order = complete_order ws (mp_order m) explicit,
                      pc_new_tasks = new_tasks, pc_reason = mp_reason m\<rparr>))))"

definition propose_rationale :: "Engine \<Rightarrow> string \<Rightarrow> string" where
  "propose_rationale engine reason = clip (engine_wire engine @ '': '' @ clean_ai_text reason)"

section \<open>One decision, up to three proposals\<close>

datatype ProposeKind = Kind_Carry | Kind_Reorder | Kind_Create

fun propose_kind_str :: "ProposeKind \<Rightarrow> string" where
  "propose_kind_str Kind_Carry = ''propose.carry''"
| "propose_kind_str Kind_Reorder = ''propose.reorder''"
| "propose_kind_str Kind_Create = ''propose.create''"

datatype ProposeItemResult = Part_Proposed string | Part_Nothing | Part_Deferred | Part_Rejected | Part_Aborted | Part_Skipped

record ProposeItem =
  pi_kind :: ProposeKind
  pi_result :: ProposeItemResult

record ProposeDedup =
  dd_excluded_carry_task_ids :: "TaskId set"
  dd_skip_reorder :: bool
  dd_excluded_create_direction_ids :: "DirectionId set"
  dd_skip_create :: bool

definition ProposeDedup_default :: ProposeDedup where
  "ProposeDedup_default = \<lparr>dd_excluded_carry_task_ids = {}, dd_skip_reorder = False,
     dd_excluded_create_direction_ids = {}, dd_skip_create = False\<rparr>"

definition sibling_record :: "bool \<Rightarrow> string \<Rightarrow> AiCallRecord \<Rightarrow> AiCallRecord" where
  "sibling_record is_first i rec =
     (let r = rec\<lparr>ac_id := i\<rparr> in
      if is_first then r else r\<lparr>ac_prompt_tokens := None, ac_completion_tokens := None, ac_latency_ms := 0\<rparr>)"

definition submit_one :: "Sin90Op list \<Rightarrow> string \<Rightarrow> AiCallRecord \<Rightarrow> bool \<Rightarrow> ProposeItemResult brain" where
  "submit_one ops rationale rec is_first =
     mbind ai_ulid (\<lambda>u. mbind ai_ulid (\<lambda>u'.
     let draft_id = ''ai-propose-'' @ u in
     mbind (submit_or_record Cap_Propose \<lparr>pd_id = draft_id, pd_ops = ops, pd_rationale = Some rationale\<rparr>
       (sibling_record is_first u' rec)) (\<lambda>r.
     mret (case r of Inr _ \<Rightarrow> Part_Proposed draft_id | Inl _ \<Rightarrow> Part_Rejected))))"

text \<open>A part that is skipped, tried, or has nothing to say.\<close>

definition submit_part :: "bool \<Rightarrow> Sin90Op list \<Rightarrow> string \<Rightarrow> AiCallRecord \<Rightarrow> bool \<Rightarrow> ProposeItemResult brain" where
  "submit_part skip ops rationale rec is_first =
     (if skip then mret Part_Skipped
      else if ops \<noteq> [] then submit_one ops rationale rec is_first
      else mret Part_Nothing)"

definition items_of :: "ProposeItemResult \<Rightarrow> ProposeItemResult \<Rightarrow> ProposeItemResult \<Rightarrow> ProposeItem list" where
  "items_of c r n = [\<lparr>pi_kind = Kind_Carry, pi_result = c\<rparr>, \<lparr>pi_kind = Kind_Reorder, pi_result = r\<rparr>,
     \<lparr>pi_kind = Kind_Create, pi_result = n\<rparr>]"

definition carry_ops :: "WeekId \<Rightarrow> ProposeDecision \<Rightarrow> Sin90Op list" where
  "carry_ops week_id d = map (\<lambda>i. CarryOverTask i week_id) (pc_carry d)"

definition reorder_ops :: "WeekId \<Rightarrow> TaskId list \<Rightarrow> ProposeDecision \<Rightarrow> Sin90Op list" where
  "reorder_ops week_id current_order d = (if pc_order d = current_order then [] else [ReorderTasks week_id (pc_order d)])"

definition create_ops :: "WeekId \<Rightarrow> ProposeDecision \<Rightarrow> Sin90Op list" where
  "create_ops week_id d = (if pc_new_tasks d = [] then [] else [CreateTasks week_id (pc_new_tasks d)])"

definition submit_decision ::
  "WeekId \<Rightarrow> TaskId list \<Rightarrow> ProposeDedup \<Rightarrow> ProposeDecision \<Rightarrow> Engine \<Rightarrow> AiCallRecord \<Rightarrow> ProposeItem list brain" where
  "submit_decision week_id current_order dedup d engine rec =
     (let rationale = propose_rationale engine (pc_reason d);
          carry = carry_ops week_id d; reorder = reorder_ops week_id current_order d; create = create_ops week_id d;
          carry_will = (carry \<noteq> []);
          reorder_will = (\<not> dd_skip_reorder dedup \<and> reorder \<noteq> []);
          create_will = (\<not> dd_skip_create dedup \<and> create \<noteq> []) in
      mbind (submit_part False carry rationale rec True) (\<lambda>c.
      mbind (submit_part (dd_skip_reorder dedup) reorder rationale rec (\<not> carry_will)) (\<lambda>r.
      mbind (submit_part (dd_skip_create dedup) create rationale rec (\<not> carry_will \<and> \<not> reorder_will)) (\<lambda>n.
      mthen (if \<not> carry_will \<and> \<not> reorder_will \<and> \<not> create_will then record_call_best_effort rec else mret ())
        (mret (items_of c r n))))))"

definition propose_reflex :: "TaskId list \<Rightarrow> TaskId list \<Rightarrow> ProposeDecision" where
  "propose_reflex carry order = \<lparr>pc_carry = carry, pc_order = order, pc_new_tasks = [],
     pc_reason = ''every planned/in_progress task from last week; tasks re-ordered by '' @ ''status and Direction quota''\<rparr>"

definition propose_decide ::
  "string \<Rightarrow> WeekId \<Rightarrow> KeyedTask list \<Rightarrow> KeyedTask list \<Rightarrow> KeyedDirection list \<Rightarrow> TaskId list \<Rightarrow> TaskId list \<Rightarrow>
   TaskId list \<Rightarrow> ProposeDedup \<Rightarrow> Step list \<Rightarrow> ProposeItem list brain" where
  "propose_decide run_id week_id ps ws gs reflex_carry reflex_order current_order dedup steps =
     mbind (mget br_oracle) (\<lambda>o'.
     mbind (ladder_item run_id Cap_Propose steps RunState_new (build_propose_request (or_json_text o') ps ws gs)
       (\<lambda>reply. parse_propose_reply (or_json o') (mr_text reply) ps ws gs) None
       (Some (propose_reflex reflex_carry reflex_order))) (\<lambda>(out, st).
     case out of
       Produced d engine rec \<Rightarrow> submit_decision week_id current_order dedup d engine rec
     | Nothing_Produced _ \<Rightarrow> mret (items_of Part_Nothing (if dd_skip_reorder dedup then Part_Skipped else Part_Nothing)
         (if dd_skip_create dedup then Part_Skipped else Part_Nothing))
     | Deferred \<Rightarrow> mret (items_of Part_Deferred Part_Deferred Part_Deferred)
     | Aborted \<Rightarrow> mret (items_of Part_Aborted Part_Aborted Part_Aborted)))"

section \<open>A run\<close>

definition run_propose :: "string \<Rightarrow> Week \<Rightarrow> ProposeDedup \<Rightarrow> ModelAccess \<Rightarrow> ProposeItem list brain" where
  "run_propose run_id week dedup access =
     mbind ai_settings_or_default (\<lambda>settings.
     mbind (read_or [] (week_tasks (wk_id week))) (\<lambda>week_tasks_all.
     mbind (read_or None (previous_open_week (wk_iso_week week))) (\<lambda>prev_week.
     mbind (case prev_week of Some p \<Rightarrow> read_or [] (week_tasks (wk_id p)) | None \<Rightarrow> mret []) (\<lambda>prev_tasks.
     let week_tasks_w = filter (\<lambda>t. \<not> task_is_terminal (tk_status t)) week_tasks_all;
         current_order = map tk_id week_tasks_w;
         reflex_carry = filter (\<lambda>i. i \<notin> dd_excluded_carry_task_ids dedup) (carry_reflex prev_tasks) in
     if reflex_carry = [] \<and> dd_skip_reorder dedup \<and> dd_skip_create dedup
     then mret (items_of Part_Nothing Part_Skipped Part_Skipped)
     else
       (let carryable = List.map_filter (\<lambda>i. find (\<lambda>t. tk_id t = i) prev_tasks) reflex_carry in
        mbind (read_or [] rhythm_alloc) (\<lambda>alloc.
        mbind (gap_directions alloc week_tasks_all) (\<lambda>gaps.
        let gs = filter (\<lambda>g. kd_direction_id g \<notin> dd_excluded_create_direction_ids dedup)
               (case gaps of Inl _ \<Rightarrow> [] | Inr gs \<Rightarrow> gs) in
        mbind model_is_some (\<lambda>present.
        propose_decide run_id (wk_id week) (keyed_tasks ''p'' carryable) (keyed_tasks ''w'' week_tasks_w) gs
          reflex_carry (reorder_reflex week_tasks_w alloc) current_order dedup
          (plan Cap_Propose access settings present)))))))))"

end
