(* ===== verification/Summarize.thy ===== *)
theory Summarize
  imports Propose
begin

text \<open>
  The capability that drafts the body of a weekly review, \<open>src/ai/summarize.rs\<close>: the facts of the
  week, rendered by the program, and a narrative of the model that may refer to numbers only through
  placeholders the program fills.
\<close>

section \<open>Facts\<close>

definition FACTS_HEADING_WORD :: string where
  "FACTS_HEADING_WORD = utf8 [0x672C, 0x5468, 0x6570, 0x5B57]"

definition UNASSIGNED_LABEL :: string where
  "UNASSIGNED_LABEL = utf8 [0x672A, 0x5206, 0x7C7B]"

record Fact =
  fa_key :: string
  fa_label :: string
  fa_value :: string

definition hm :: "int \<Rightarrow> string" where
  "hm minutes = (let m = nat (max minutes 0) in dec (m div 60) @ '' '' @ utf8 [0x5C0F, 0x65F6] @ '' '' @ dec (m mod 60) @ '' '' @ utf8 [0x5206, 0x949F])"

text \<open>The format characters of Unicode's category Cf.\<close>

definition CF_RANGES :: "(nat \<times> nat) list" where
  "CF_RANGES =
    [(0x00AD, 0x00AD), (0x0600, 0x0605), (0x061C, 0x061C), (0x06DD, 0x06DD), (0x070F, 0x070F), (0x0890, 0x0891),
     (0x08E2, 0x08E2), (0x180E, 0x180E), (0x200B, 0x200F), (0x202A, 0x202E), (0x2060, 0x2064), (0x2066, 0x206F),
     (0xFEFF, 0xFEFF), (0xFFF9, 0xFFFB), (0x110BD, 0x110BD), (0x110CD, 0x110CD), (0x13430, 0x1343F),
     (0x1BCA0, 0x1BCA3), (0x1D173, 0x1D17A), (0xE0001, 0xE0001), (0xE0020, 0xE007F)]"

definition is_format_char :: "nat \<Rightarrow> bool" where
  "is_format_char c = in_ranges CF_RANGES c"

definition is_forbidden_control :: "nat \<Rightarrow> bool" where
  "is_forbidden_control c = (is_control c \<and> c \<noteq> 10 \<or> c = 0x2028 \<or> c = 0x2029)"

fun normalize_from :: "bool \<Rightarrow> nat list \<Rightarrow> nat list" where
  "normalize_from in_ws [] = []"
| "normalize_from in_ws (c # cs) =
     (if is_format_char c then normalize_from in_ws cs
      else if c \<noteq> 10 \<and> is_whitespace c then (if in_ws then [] else [32]) @ normalize_from True cs
      else c # normalize_from False cs)"

definition normalize :: "nat list \<Rightarrow> nat list" where
  "normalize s = normalize_from False s"

text \<open>The escapes of \<open>sanitize_inline\<close>: Markdown marks get a backslash, HTML and brackets a look-alike.\<close>

definition inline_char :: "nat \<Rightarrow> nat list" where
  "inline_char c =
     (if c \<in> set [92, 96, 42, 95, 91, 93, 40, 41, 35, 124, 126, 33] then [92, c]
      else if c = 60 then [0xFF1C] else if c = 62 then [0xFF1E] else if c = 38 then [0xFF06]
      else if c = 0x3014 then [0xFF3B] else if c = 0x3015 then [0xFF3D]
      else if c = 0x300C then [0x300E] else if c = 0x300D then [0x300F] else [c])"

definition sanitize_chars :: "nat list \<Rightarrow> nat list" where
  "sanitize_chars s =
     (let flat = map (\<lambda>c. if c = 13 then 32 else c) (filter (\<lambda>c. \<not> is_forbidden_control c \<or> c = 13) s);
          flat = map (\<lambda>c. if c = 10 then 32 else c) (normalize flat)
      in concat (map inline_char (drop_end is_whitespace (drop_start is_whitespace flat))))"

definition sanitize_inline :: "string \<Rightarrow> string" where
  "sanitize_inline s = utf8 (sanitize_chars (chars s))"

definition bucket_name :: "SummarizeBucket \<Rightarrow> string" where
  "bucket_name b = sanitize_inline (case sb_label b of None \<Rightarrow> UNASSIGNED_LABEL | Some l \<Rightarrow> l)"

definition fact_texts :: "SummarizeDraft \<Rightarrow> (string \<times> string) list" where
  "fact_texts d =
     map (\<lambda>b. (utf8 [0x9886, 0x57DF, 0x300C] @ bucket_name b @ utf8 [0x300D, 0x6295, 0x5165], hm (sb_minutes b))) (su_by_area d) @
     map (\<lambda>b. (utf8 [0x65B9, 0x5411, 0x300C] @ bucket_name b @ utf8 [0x300D, 0x6295, 0x5165], hm (sb_minutes b))) (su_by_direction d) @
     [(utf8 [0x5B8C, 0x6210, 0x4EFB, 0x52A1, 0x6570], dec (su_tasks_done d))] @
     map (\<lambda>r. (utf8 [0x8282, 0x5F8B, 0x300C] @ sanitize_inline (sr_label r) @ utf8 [0x300D],
       utf8 [0x89E6, 0x53D1] @ '' '' @ dec (sr_fired r) @ '' '' @ utf8 [0x6B21] @ '' / '' @ utf8 [0x5B8C, 0x6210] @ '' '' @ dec (sr_completed r) @ '' '' @ utf8 [0x6B21])) (su_routines d)"

definition facts :: "SummarizeDraft \<Rightarrow> Fact list" where
  "facts d = map (\<lambda>(i, l, v). \<lparr>fa_key = ''f'' @ dec (i + 1), fa_label = l, fa_value = v\<rparr>) (enumerate 0 (fact_texts d))"

definition render_unit :: "Fact \<Rightarrow> string" where
  "render_unit f = utf8 [0x3014] @ fa_label f @ utf8 [0xFF1A] @ fa_value f @ utf8 [0x3015]"

definition newline :: string where
  "newline = [char_of (10 :: nat)]"

definition render_facts :: "string \<Rightarrow> Fact list \<Rightarrow> string" where
  "render_facts week fs = ''## '' @ week @ '' '' @ FACTS_HEADING_WORD @ newline @ newline @
     concat (map (\<lambda>f. ''- '' @ fa_label f @ utf8 [0xFF1A] @ fa_value f @ newline) fs)"

section \<open>The narrative\<close>

datatype NarrativeError =
    NE_ForbiddenControl nat
  | NE_LiteralDigit nat
  | NE_CjkNumeralWithMeasure "nat list"
  | NE_MeasureAfterUnit "nat list"
  | NE_ReservedBracket nat
  | NE_UnknownPlaceholder "nat list"
  | NE_MentionsFactsHeading
  | NE_Unterminated
  | NE_TooLong
  | NE_Empty

definition MAX_NARRATIVE_CHARS :: nat where
  "MAX_NARRATIVE_CHARS = 2000"

definition CJK_NUMERALS :: "nat list" where
  "CJK_NUMERALS =
    [0x3007, 0x96F6, 0x4E00, 0x4E8C, 0x4E24, 0x4E09, 0x56DB, 0x4E94, 0x516D, 0x4E03, 0x516B, 0x4E5D, 0x5341,
     0x767E, 0x5343, 0x4E07, 0x4EBF, 0x58F9, 0x8D30, 0x53C1, 0x8086, 0x4F0D, 0x9646, 0x67D2, 0x634C, 0x7396,
     0x62FE, 0x4F70, 0x4EDF, 0x842C, 0x5169, 0x8CB3, 0x53C3, 0x9678, 0x5104, 0x5EFF, 0x5345, 0x534C]"

definition MEASURE :: "nat list list" where
  "MEASURE =
    [[0x5C0F, 0x65F6], [0x5206, 0x949F], [0x4E2A], [0x4EF6], [0x6B21], [0x9879], [0x5929], [0x5468], [0x0025],
     [0xFF05], [0x500D], [0x6210]]"

definition RESERVED :: "nat list" where
  "RESERVED = [0x3014, 0x3015, 0x300C, 0x300D]"

definition measure_follows :: "nat list \<Rightarrow> nat list option" where
  "measure_follows rest = find (\<lambda>m. begins m (case rest of c # cs \<Rightarrow> if c = 32 then cs else rest | [] \<Rightarrow> [])) MEASURE"

definition is_cjk_numeral :: "nat \<Rightarrow> bool" where
  "is_cjk_numeral c = (c \<in> set CJK_NUMERALS)"

text \<open>The scan for numerals in front of a measure word: a run of numerals, then three characters at most.\<close>

function scan_numerals :: "nat list \<Rightarrow> NarrativeError + unit" where
  "scan_numerals [] = Inr ()"
| "scan_numerals (c # cs) =
     (if is_cjk_numeral c then
        (let run = takeWhile is_cjk_numeral (c # cs); rest = dropWhile is_cjk_numeral (c # cs) in
         case measure_follows (take 3 rest) of
           Some m \<Rightarrow> Inl (NE_CjkNumeralWithMeasure (run @ m))
         | None \<Rightarrow> scan_numerals rest)
      else scan_numerals cs)"
  by pat_completeness auto
termination
  by (relation "measure length") (auto simp: le_imp_less_Suc length_dropWhile_le)

definition check_literal :: "nat list \<Rightarrow> NarrativeError + unit" where
  "check_literal seg =
     (case find is_numeric seg of
        Some c \<Rightarrow> Inl (NE_LiteralDigit c)
      | None \<Rightarrow> (case find (\<lambda>c. c \<in> set RESERVED) seg of
          Some c \<Rightarrow> Inl (NE_ReservedBracket c)
        | None \<Rightarrow> scan_numerals seg))"

definition number_of :: "nat list \<Rightarrow> nat" where
  "number_of ds = foldl (\<lambda>n d. 10 * n + (d - 48)) 0 ds"

definition parse_key :: "nat list \<Rightarrow> (nat \<times> nat) option" where
  "parse_key key =
     (case key of
        [] \<Rightarrow> None
      | kind # num \<Rightarrow>
          if (kind \<noteq> 102 \<and> kind \<noteq> 116) \<or> num = [] \<or> begins [48] num \<or> \<not> list_all is_digit_ascii num then None
          else if number_of num < 2 ^ 64 then Some (kind, number_of num) else None)"

text \<open>A line without the marks that would make it a heading, a list, a quote or a table.\<close>

definition line_marks :: "nat list" where
  "line_marks = [35, 45, 42, 43, 62, 124, 96, 126, 61, 95]"

function strip_marks :: "nat list \<Rightarrow> nat list" where
  "strip_marks t =
     (let t1 = drop_start is_whitespace (drop_start (\<lambda>c. c \<in> set line_marks) t) in
      if t1 = t then t else strip_marks t1)"
  by pat_completeness auto
termination
proof (relation "measure length")
  show "t1 = drop_start is_whitespace (drop_start (\<lambda>c. c \<in> set line_marks) t) \<Longrightarrow> t1 \<noteq> t \<Longrightarrow> (t1, t) \<in> measure length" for t1 t
  proof -
    assume t1: "t1 = drop_start is_whitespace (drop_start (\<lambda>c. c \<in> set line_marks) t)" "t1 \<noteq> t"
    then have "suffix t1 t"
      by (auto simp: drop_start_def intro: suffix_order.trans suffix_dropWhile)
    with t1(2) show "(t1, t) \<in> measure length" by (metis in_measure suffix_length_less strict_suffix_def)
  qed
qed simp

declare strip_marks.simps [simp del]

definition plain_line :: "nat list \<Rightarrow> nat list" where
  "plain_line l = map (\<lambda>c. if c = 60 then 0xFF1C else if c = 38 then 0xFF06 else c) (strip_marks (drop_start is_whitespace l))"

text \<open>What a placeholder stands for.\<close>

definition rendered :: "Fact list \<Rightarrow> string list \<Rightarrow> nat list \<Rightarrow> nat list option" where
  "rendered fs titles key =
     (case parse_key key of
        Some (kind, n) \<Rightarrow>
          (if kind = 102 then map_option (\<lambda>f. chars (render_unit f)) (find (\<lambda>f. chars (fa_key f) = key) fs)
           else if n - 1 < length titles then Some ([0x300C] @ chars (sanitize_inline (titles ! (n - 1))) @ [0x300D]) else None)
      | None \<Rightarrow> None)"

lemma cut_at_shorter: "cut_at [123, 123] rest = Some (lit, after) \<Longrightarrow> cut_at [125, 125] after = Some (key, rest1) \<Longrightarrow>
    length rest1 < length rest"
  by (auto dest!: cut_at_Some)

function fill_from :: "Fact list \<Rightarrow> string list \<Rightarrow> nat list \<Rightarrow> NarrativeError + nat list" where
  "fill_from fs titles rest =
     (case cut_at [123, 123] rest of
        None \<Rightarrow> map_sum id (\<lambda>_. rest) (check_literal rest)
      | Some (lit, after) \<Rightarrow>
          (case check_literal lit of
             Inl e \<Rightarrow> Inl e
           | Inr _ \<Rightarrow>
               (case cut_at [125, 125] after of
                  None \<Rightarrow> Inl NE_Unterminated
                | Some (key, rest1) \<Rightarrow>
                    (case rendered fs titles key of
                       None \<Rightarrow> Inl (NE_UnknownPlaceholder key)
                     | Some unit \<Rightarrow>
                         (case (if begins [102] key then measure_follows rest1 else None) of
                            Some m \<Rightarrow> Inl (NE_MeasureAfterUnit ([123, 123] @ key @ [125, 125] @ m))
                          | None \<Rightarrow> map_sum id (\<lambda>out. lit @ unit @ out) (fill_from fs titles rest1))))))"
  by pat_completeness auto
termination
  by (relation "measure (\<lambda>(fs, titles, rest). length rest)") (auto dest: cut_at_shorter)

declare fill_from.simps [simp del]

definition fill_narrative :: "nat list \<Rightarrow> Fact list \<Rightarrow> string list \<Rightarrow> NarrativeError + nat list" where
  "fill_narrative narr fs titles =
     (case find is_forbidden_control narr of
        Some c \<Rightarrow> Inl (NE_ForbiddenControl c)
      | None \<Rightarrow>
          (let narr = normalize narr in
           if list_all is_whitespace narr then Inl NE_Empty
           else if length narr > MAX_NARRATIVE_CHARS then Inl NE_TooLong
           else if cut_at (chars FACTS_HEADING_WORD) (filter (\<lambda>c. \<not> is_whitespace c) narr) \<noteq> None
           then Inl NE_MentionsFactsHeading
           else map_sum id (\<lambda>out. join_chars [10, 10] (filter (\<lambda>l. l \<noteq> []) (map plain_line (split_on 10 out))))
                  (fill_from fs titles narr)))"

definition compose_body :: "string \<Rightarrow> string option \<Rightarrow> string" where
  "compose_body facts_md narrative =
     (case narrative of
        Some n \<Rightarrow> facts_md @ newline @ ''## '' @ utf8 [0x53D9, 0x8FF0] @ newline @ newline @ n @ newline
      | None \<Rightarrow> facts_md)"

definition trim_end :: "string \<Rightarrow> nat list" where
  "trim_end s = drop_end is_whitespace (chars s)"

definition is_program_only :: "string \<Rightarrow> string list \<Rightarrow> bool" where
  "is_program_only body candidates = (trim_end body = [] \<or> list_ex (\<lambda>c. trim_end c = trim_end body) candidates)"

fun digit_runs_from :: "nat list \<Rightarrow> nat list \<Rightarrow> nat list list" where
  "digit_runs_from cur [] = (if cur = [] then [] else [cur])"
| "digit_runs_from cur (c # cs) =
     (if is_numeric c then digit_runs_from (cur @ [c]) cs
      else (if cur = [] then [] else [cur]) @ digit_runs_from [] cs)"

definition digit_runs :: "string \<Rightarrow> nat list list" where
  "digit_runs s = digit_runs_from [] (chars s)"

section \<open>The model's request and reply\<close>

definition SUMMARIZE_SYSTEM_PROMPT :: string where
  "SUMMARIZE_SYSTEM_PROMPT =
    ''You are writing the narrative paragraph(s) of a weekly review. Never type a digit yourself, '' @
    ''including Chinese numerals '' @ utf8 [0x2014] @
    '' to reference a number, use the placeholder {{fN}} exactly as given; to reference a completed '' @
    ''task, use {{tN}}. Never type the brackets '' @ utf8 [0x3014, 0x3015, 0x300C, 0x300D] @
    '' yourself, only the program may render them. Do not use headings, lists, tables, quotes, or '' @ ''HTML '' @
    utf8 [0x2014] @ '' plain paragraphs only. Avoid '' @ utf8 [0x0022] @ ''Chinese-numeral + measure-word'' @
    utf8 [0x0022] @ '' phrasing like '' @ utf8 [0x0022, 0x8FD9, 0x4E00, 0x5468, 0x0022] @ ''/'' @
    utf8 [0x0022, 0x4E00, 0x4E2A, 0x0022] @ ''/'' @ utf8 [0x0022, 0x4E00, 0x6B21, 0x0022] @
    '' even for everyday counts that are not from the facts '' @ utf8 [0x2014] @ '' prefer '' @
    utf8 [0x0022, 0x672C, 0x5468, 0x0022] @ ''/'' @ utf8 [0x0022, 0x67D0, 0x4E2A, 0x0022] @ ''/'' @
    utf8 [0x0022, 0x518D, 0x6B21, 0x0022] @ '' instead. Respond with JSON only, matching the given schema.''"

definition summarize_schema :: Json where
  "summarize_schema = schema_object [(''narrative'', schema_text MAX_NARRATIVE_CHARS)] [''narrative'']"

definition build_summarize_request :: "(Json \<Rightarrow> string) \<Rightarrow> Fact list \<Rightarrow> string list \<Rightarrow> Engine \<Rightarrow> ModelRequest" where
  "build_summarize_request text_of fs titles engine =
     \<lparr>mq_messages = [(Role_System, SUMMARIZE_SYSTEM_PROMPT), (Role_User, text_of (JObj
        [(''facts'', JArr (map (\<lambda>f. JObj [(''key'', JStr (fa_key f)), (''label'', JStr (fa_label f)), (''value'', JStr (fa_value f))]) fs)),
         (''tasks'', JArr (map (\<lambda>(i, t). keyed_json (''t'' @ dec (i + 1)) t) (enumerate 0 titles)))]))],
      mq_schema_name = ''sin90_summarize'', mq_schema = summarize_schema, mq_max_tokens = 1024,
      mq_complexity = engine_complexity engine\<rparr>"

definition parse_model_narrative :: "Json \<Rightarrow> string option" where
  "parse_model_narrative v = (case strict_fields [''narrative''] v of Some [JStr n] \<Rightarrow> Some n | _ \<Rightarrow> None)"

definition parse_summarize_reply ::
  "(string \<Rightarrow> Json option) \<Rightarrow> string \<Rightarrow> Fact list \<Rightarrow> string list \<Rightarrow> string + string option" where
  "parse_summarize_reply json_of reply fs titles =
     (case Option.bind (json_of (strip_json_fence reply)) parse_model_narrative of
        None \<Rightarrow> Inl bad_output
      | Some n \<Rightarrow> map_sum (\<lambda>_. bad_output) (\<lambda>out. Some (utf8 out)) (fill_narrative (chars n) fs titles))"

definition summarize_rationale :: "Engine \<Rightarrow> bool \<Rightarrow> string" where
  "summarize_rationale engine produced_narrative = engine_wire engine @ '': '' @
     (if produced_narrative
      then ''drafted this week'' @ [char_of (39 :: nat)] @ ''s review body (facts block + narrative) from the current weekly draft''
      else ''drafted this week'' @ [char_of (39 :: nat)] @ ''s review body (facts block only) from the current weekly draft'')"

section \<open>The target review\<close>

datatype SummarizeInputError =
    UnknownReview string | UnsupportedKind ReviewKind | ReviewNotDraft string ReviewStatus | SummarizeReadFailed ReadError

definition select_review :: "string \<Rightarrow> (SummarizeInputError + Review) brain" where
  "select_review review_id = mbind (ai_read (review_lookup review_id)) (\<lambda>r. mret (case r of
       Inl e \<Rightarrow> Inl (SummarizeReadFailed e)
     | Inr None \<Rightarrow> Inl (UnknownReview review_id)
     | Inr (Some review) \<Rightarrow>
         if rv_kind review \<noteq> ReviewKind_Weekly then Inl (UnsupportedKind (rv_kind review))
         else if rv_status review \<noteq> Review_Draft then Inl (ReviewNotDraft (rv_id review) (rv_status review))
         else Inr review))"

section \<open>A run\<close>

datatype SummarizeItemResult =
    Body_Proposed string | Body_Nothing | Body_Deferred | Body_Rejected | Body_Aborted | Body_Skipped | Body_ReadFailed ReadError

definition body_sha256 :: "string \<Rightarrow> string brain" where
  "body_sha256 body = mget (\<lambda>b. en_sha256 (st_env (br_store b)) body)"

definition submit_body ::
  "Review \<Rightarrow> string \<Rightarrow> string \<Rightarrow> Engine \<Rightarrow> bool \<Rightarrow> AiCallRecord \<Rightarrow> SummarizeItemResult brain" where
  "submit_body review base body engine produced rec =
     mbind ai_ulid (\<lambda>u.
     let draft_id = ''ai-summarize-'' @ u in
     mbind (submit_or_record Cap_Summarize \<lparr>pd_id = draft_id, pd_ops = [DraftReviewBody (rv_id review) base body],
       pd_rationale = Some (summarize_rationale engine produced)\<rparr> rec) (\<lambda>r.
     mret (case r of Inr _ \<Rightarrow> Body_Proposed draft_id | Inl _ \<Rightarrow> Body_Rejected)))"

definition settle_body :: "Review \<Rightarrow> string \<Rightarrow> string option Outcome \<Rightarrow> SummarizeItemResult brain" where
  "settle_body review facts_md out =
     (case out of
        Produced value engine rec \<Rightarrow>
          (let body = compose_body facts_md value in
           mbind (body_sha256 (rv_body review)) (\<lambda>base.
           mbind (body_sha256 body) (\<lambda>new_hash.
           if new_hash = base then mthen (record_call_best_effort rec) (mret Body_Nothing)
           else submit_body review base body engine (value \<noteq> None) rec)))
      | Nothing_Produced _ \<Rightarrow> mret Body_Nothing
      | Deferred \<Rightarrow> mret Body_Deferred
      | Aborted \<Rightarrow> mret Body_Aborted)"

definition run_summarize :: "string \<Rightarrow> Review \<Rightarrow> ModelAccess \<Rightarrow> SummarizeItemResult brain" where
  "run_summarize run_id review access =
     mbind (ai_read (ai_weekly_draft (rv_period review))) (\<lambda>r.
     case r of
       Inl e \<Rightarrow> mret (Body_ReadFailed e)
     | Inr draft \<Rightarrow>
         (let fs = facts draft; facts_md = render_facts (su_week draft) fs in
          if \<not> is_program_only (rv_body review) [facts_md, su_auto_draft_md draft] then mret Body_Skipped
          else mbind (read_or [] (done_titles (rv_period review))) (\<lambda>titles.
            mbind ai_settings_or_default (\<lambda>settings.
            mbind model_is_some (\<lambda>present.
            mbind (mget br_oracle) (\<lambda>o'.
            mbind (ladder_item run_id Cap_Summarize (plan Cap_Summarize access settings present) RunState_new
              (build_summarize_request (or_json_text o') fs titles)
              (\<lambda>reply. parse_summarize_reply (or_json o') (mr_text reply) fs titles) None (Some None)) (\<lambda>(out, st).
            settle_body review facts_md out)))))))"

end
