(* ===== verification/Ai_Laws.thy ===== *)
theory Ai_Laws
  imports Summarize Write_Laws
begin

text \<open>
  The AI runs next to the rest of the program: whatever the model answers and whatever else runs,
  a run is a sequence of calls, its own are submissions of the shape its capability has and records
  of the AI's log, and by itself it leaves the plan alone.
\<close>

section \<open>A run is a sequence of calls\<close>

definition by_ai_calls :: "(Call \<Rightarrow> bool) \<Rightarrow> Brain \<Rightarrow> Brain \<Rightarrow> bool" where
  "by_ai_calls own b b' = (br_oracle b' = br_oracle b \<and> (\<exists>cs. br_store b' = fold exec cs (br_store b)
     \<and> list_all (\<lambda>c. own c \<or> (\<exists>n. c \<in> set (or_during (br_oracle b) n))) cs))"

text \<open>
  The calls of a run: submissions whose operations satisfy \<open>ok\<close>, trials that leave nothing behind,
  and the AI's own log.
\<close>

fun ai_call :: "Capability \<Rightarrow> (Sin90Op list \<Rightarrow> bool) \<Rightarrow> Call \<Rightarrow> bool" where
  "ai_call cap ok (Call_sink_submit cap' draft rec) = (cap' = cap \<and> ok (pd_ops draft))"
| "ai_call cap ok (Call_sink_record_call rec) = True"
| "ai_call cap ok (Call_sink_record_classify_eval i at) = (cap = Cap_Classify)"
| "ai_call cap ok (Call_sink_precheck cap' drafts) = (cap' = cap)"
| "ai_call cap ok Call_today_view = True"
| "ai_call cap ok _ = False"

text \<open>The reads of the port leave the store as it is.\<close>

lemma read_settings_only: "snd (read_ai_settings w) = w"
  by (simp add: read_ai_settings_def query_def mbind_def mget_def mret_def mfail_def split: option.split Json.split)

lemma query_only: "snd (query f w) = w"
  by (simp add: query_def mget_def)

lemma weekly_draft_only: "snd (ai_weekly_draft k w) = w"
  by (simp add: ai_weekly_draft_def weekly_draft_on_def query_def mbind_def mget_def msome_def mret_def mfail_def
      split: option.split prod.split)

lemma done_titles_only: "snd (done_titles k w) = w"
  by (simp add: done_titles_def query_def mbind_def mget_def msome_def mret_def mfail_def split: option.split prod.split)

locale ai_calls =
  fixes own :: "Call \<Rightarrow> bool"
begin

abbreviation "R \<equiv> by_ai_calls own"

lemma world: "world_order R"
proof
  show "R b b" for b by (auto simp: by_ai_calls_def intro!: exI[of _ "[]"])
  show "R a c" if ab: "R a b" and bc: "R b c" for a b c
  proof -
    obtain cs ds where "br_store b = fold exec cs (br_store a)" "br_store c = fold exec ds (br_store b)"
        "list_all (\<lambda>c. own c \<or> (\<exists>n. c \<in> set (or_during (br_oracle a) n))) (cs @ ds)"
      using ab bc by (auto simp: by_ai_calls_def)
    with ab bc show ?thesis by (auto simp: by_ai_calls_def intro!: exI[of _ "cs @ ds"])
  qed
qed

lemmas moves_world = world_order.moves_world[OF world]

lemma moves_quiet: "(\<And>b. br_oracle (snd (m b)) = br_oracle b \<and> br_store (snd (m b)) = br_store b) \<Longrightarrow> effects R m"
  by (auto simp: effects_def by_ai_calls_def intro!: exI[of _ "[]"])

lemma moves_await: "effects R ai_await"
  by (auto simp: effects_def by_ai_calls_def ai_await_def mbind_def mthen_def mget_def mmod_def mfail_def mret_def list_all_iff
      intro!: exI[of _ "or_during _ _"])

lemma moves_call: "(\<And>w. snd (m w) = exec c w) \<Longrightarrow> own c \<Longrightarrow> effects R (ai_at_once m)"
  by (auto simp: effects_def by_ai_calls_def ai_at_once_def split: prod.split intro!: exI[of _ "[c]"]) (metis snd_conv)

lemma moves_read_only: "(\<And>w. snd (m w) = w) \<Longrightarrow> effects R (ai_at_once m)"
  by (rule moves_quiet) (auto simp: ai_at_once_def split: prod.split dest: sym, metis snd_conv)

lemma moves_read_at_once: "effects R (ai_at_once m) \<Longrightarrow> effects R (ai_read m)"
  unfolding ai_read_def by (intro moves_world moves_await) (auto split: option.split intro!: moves_world)

lemma moves_read: "(\<And>w. snd (m w) = w) \<Longrightarrow> effects R (ai_read m)"
  by (intro moves_read_at_once moves_read_only)

lemma moves_read_or: "(\<And>w. snd (m w) = w) \<Longrightarrow> effects R (read_or d m)"
  unfolding read_or_def by (intro moves_world moves_read)

lemma moves_sink: "(\<And>w. snd (m w) = exec c w) \<Longrightarrow> own c \<Longrightarrow> effects R (ai_sink m)"
  unfolding ai_sink_def by (intro moves_world moves_await moves_call)

lemma moves_ulid: "effects R ai_ulid"
  by (rule moves_quiet) (simp add: ai_ulid_def mbind_def mthen_def mget_def mmod_def mret_def)

lemma moves_emit: "effects R (ai_emit kind payload)"
  by (rule moves_quiet) (simp add: ai_emit_def mmod_def)

end

text \<open>A run also writes to the AI's log and reads the clock.\<close>

locale ai_run = ai_calls +
  assumes own_record: "own (Call_sink_record_call rec)"
    and own_clock: "own Call_today_view"
begin

lemma moves_record: "effects R (record_call_best_effort rec)"
  unfolding record_call_best_effort_def
  by (intro moves_world moves_sink[of _ "Call_sink_record_call rec"]) (simp_all add: own_record)

lemma moves_now: "effects R ai_now"
proof -
  have "effects R (ai_at_once now_iso8601)"
    by (rule moves_call[of _ Call_today_view])
      (simp_all add: own_clock today_view_def local_day_start_utc_def now_iso8601_def query_def mbind_def mthen_def mget_def mmod_def mret_def)
  then show ?thesis unfolding ai_now_def by (intro moves_world)
qed

lemma moves_submit: "(\<And>rec. own (Call_sink_submit cap draft rec)) \<Longrightarrow> effects R (submit_or_record cap draft rec)"
  unfolding submit_or_record_def emitting_submit_def
  by (auto split: sum.split intro!: moves_world moves_record moves_emit moves_sink[of _ "Call_sink_submit cap draft rec"])

lemma moves_ladder: "effects R (ladder_item run_id cap steps st build parse decisive fallback)"
  unfolding ladder_item_def by (auto split: prod.split intro!: moves_world moves_await moves_record)

lemma moves_settings: "effects R ai_settings_or_default"
  unfolding ai_settings_or_default_def by (intro moves_read_or read_settings_only)

lemma moves_present: "effects R model_is_some"
  unfolding model_is_some_def by (intro moves_world)

lemmas moves_all = moves_world moves_await moves_record moves_ulid moves_now moves_ladder moves_settings moves_present
  moves_read moves_read_or query_only

end

interpretation classify_run: ai_run "ai_call Cap_Classify ok" for ok
  by unfold_locales simp_all

interpretation propose_run: ai_run "ai_call Cap_Propose ok" for ok
  by unfold_locales simp_all

interpretation summarize_run: ai_run "ai_call Cap_Summarize ok" for ok
  by unfold_locales simp_all

section \<open>Classify\<close>

definition files_one_of :: "TaskId set \<Rightarrow> Sin90Op list \<Rightarrow> bool" where
  "files_one_of ids ops = (\<exists>i d. i \<in> ids \<and> ops = [AssignTaskDirection i d])"

abbreviation "by_classify ids \<equiv> by_ai_calls (ai_call Cap_Classify (files_one_of ids))"

lemma classify_assign: "i \<in> ids \<Longrightarrow> effects (by_classify ids) (submit_direction_assignment i d why rec)"
  unfolding submit_direction_assignment_def Let_def
  by (intro classify_run.moves_all classify_run.moves_submit) (auto simp: files_one_of_def)

lemma classify_settle: "tk_id task \<in> ids \<Longrightarrow> effects (by_classify ids) (settle_outcome task out)"
  unfolding settle_outcome_def settle_decision_def
  by (auto split: Outcome.split option.split intro!: classify_assign classify_run.moves_all)

lemma classify_one_moves: "tk_id task \<in> ids \<Longrightarrow> effects (by_classify ids) (classify_one run_id task candidates steps st started)"
proof -
  assume i: "tk_id task \<in> ids"
  have e: "effects (by_classify ids) (ai_sink (sink_record_classify_eval j at))" for j at
    by (rule classify_run.moves_sink[of _ "Call_sink_record_classify_eval j at"]) simp_all
  show ?thesis
    unfolding classify_one_def title_history_def
    by (auto split: prod.split intro!: classify_run.moves_all classify_settle[OF i] e)
qed

lemma classify_tasks_moves: "tk_id ` set tasks \<subseteq> ids \<Longrightarrow> effects (by_classify ids) (classify_tasks run_id candidates steps started st tasks)"
  by (induction tasks arbitrary: st) (auto split: prod.split intro!: classify_run.moves_all classify_one_moves)

lemma run_classify_moves: "tk_id ` set tasks \<subseteq> ids \<Longrightarrow> effects (by_classify ids) (run_classify run_id tasks access)"
  unfolding run_classify_def direction_candidates_def
  by (intro classify_run.moves_all classify_tasks_moves)

section \<open>Propose\<close>

definition plans_week :: "WeekId \<Rightarrow> Sin90Op list \<Rightarrow> bool" where
  "plans_week k ops = ((\<exists>is. is \<noteq> [] \<and> ops = map (\<lambda>i. CarryOverTask i k) is) \<or> (\<exists>is. ops = [ReorderTasks k is])
     \<or> (\<exists>ns. ns \<noteq> [] \<and> ops = [CreateTasks k ns]))"

abbreviation "by_propose k \<equiv> by_ai_calls (ai_call Cap_Propose (plans_week k))"

lemma propose_part: "ops = [] \<or> plans_week k ops \<Longrightarrow> effects (by_propose k) (submit_part skip ops why rec first)"
  unfolding submit_part_def submit_one_def Let_def
  by (auto intro!: propose_run.moves_all propose_run.moves_submit)

lemma propose_submit: "effects (by_propose k) (submit_decision k cur dedup d engine rec)"
  unfolding submit_decision_def Let_def
  by (auto intro!: propose_run.moves_all propose_part simp: carry_ops_def reorder_ops_def create_ops_def plans_week_def)

lemma gaps_moves: "effects (by_propose k) (gaps_from used seen n as)"
  by (induction as arbitrary: seen n)
    (auto simp: Let_def direction_lookup_def split: sum.split option.split intro!: propose_run.moves_all)

lemma run_propose_moves: "effects (by_propose (wk_id week)) (run_propose run_id week dedup access)"
  unfolding run_propose_def propose_decide_def Let_def week_tasks_def previous_open_week_def rhythm_alloc_def gap_directions_def
  by (auto split: option.split prod.split Outcome.split intro!: propose_run.moves_all gaps_moves propose_submit)

section \<open>Summarize\<close>

definition drafts_body :: "string \<Rightarrow> Sin90Op list \<Rightarrow> bool" where
  "drafts_body i ops = (\<exists>base body. ops = [DraftReviewBody i base body])"

abbreviation "by_summarize i \<equiv> by_ai_calls (ai_call Cap_Summarize (drafts_body i))"

lemma summarize_settle: "effects (by_summarize (rv_id review)) (settle_body review facts_md out)"
  unfolding settle_body_def submit_body_def body_sha256_def Let_def
  by (auto split: Outcome.split intro!: summarize_run.moves_all summarize_run.moves_submit simp: drafts_body_def)

lemma run_summarize_moves: "effects (by_summarize (rv_id review)) (run_summarize run_id review access)"
  unfolding run_summarize_def Let_def
  by (auto split: sum.split prod.split intro!: summarize_run.moves_all summarize_settle weekly_draft_only done_titles_only)

section \<open>Properties\<close>

text \<open>The world of a run that starts after some calls.\<close>

definition brain_after :: "Oracle \<Rightarrow> Env \<Rightarrow> Call list \<Rightarrow> Brain" where
  "brain_after oracle env calls = \<lparr>br_oracle = oracle, br_store = run env calls, br_awaits = 0, br_minted = 0, br_emitted = []\<rparr>"

text \<open>
  C10: an AI run, whatever the model answers, however reads fail and whatever other tasks do at its
  awaits, leaves the store as after a sequence of its public calls. Its own are records of the AI's
  log and submissions of one shape: classify files one of its tasks under one direction, propose
  carries tasks into, reorders or adds tasks to its week, summarize drafts the body of its review.
\<close>
theorem ai_runs_are_calls:
  "(\<exists>cs. br_store (snd (run_classify run_id tasks access (brain_after oracle env calls))) = run env (calls @ cs)
     \<and> list_all (\<lambda>c. ai_call Cap_Classify (files_one_of (tk_id ` set tasks)) c \<or> (\<exists>n. c \<in> set (or_during oracle n))) cs)
   \<and> (\<exists>cs. br_store (snd (run_propose run_id week dedup access (brain_after oracle env calls))) = run env (calls @ cs)
     \<and> list_all (\<lambda>c. ai_call Cap_Propose (plans_week (wk_id week)) c \<or> (\<exists>n. c \<in> set (or_during oracle n))) cs)
   \<and> (\<exists>cs. br_store (snd (run_summarize run_id review access (brain_after oracle env calls))) = run env (calls @ cs)
     \<and> list_all (\<lambda>c. ai_call Cap_Summarize (drafts_body (rv_id review)) c \<or> (\<exists>n. c \<in> set (or_during oracle n))) cs)"
proof -
  have calls: "\<exists>cs. br_store (snd (m (brain_after oracle env calls))) = run env (calls @ cs)
      \<and> list_all (\<lambda>c. own c \<or> (\<exists>n. c \<in> set (or_during oracle n))) cs"
    if "effects (by_ai_calls own) m" for own and m :: "'x brain"
  proof -
    from that have "by_ai_calls own (brain_after oracle env calls) (snd (m (brain_after oracle env calls)))"
      by (simp add: effects_def)
    then show ?thesis by (simp add: by_ai_calls_def brain_after_def run_def)
  qed
  show ?thesis
    by (intro conjI calls run_classify_moves run_propose_moves run_summarize_moves subset_refl)
qed

end
