(* ===== verification/Reply_Laws.thy ===== *)
theory Reply_Laws
  imports Summarize "HOL-Library.Multiset"
begin

text \<open>
  What the three capabilities take from the model: a reply can choose among what the program offered
  and nothing else. The rules that need no model are compared with a reference definition.
\<close>

section \<open>Keys\<close>

lemma find_nth: "find P xs = Some x \<Longrightarrow> \<exists>n. n < length xs \<and> x = xs ! n \<and> P x"
  by (auto simp: find_Some_iff)

lemma candidate_keys_nth: "n < length cs \<Longrightarrow> candidate_keys cs ! n =
    \<lparr>kc_key = ''d'' @ dec (n + 1), kc_direction_id = dc_direction_id (cs ! n), kc_title = dc_title (cs ! n),
     kc_area_title = dc_area_title (cs ! n)\<rparr>"
  by (simp add: candidate_keys_def nth_enumerate_eq)

lemma candidate_keys_length [simp]: "length (candidate_keys cs) = length cs"
  by (simp add: candidate_keys_def)

lemma keyed_tasks_keys: "map kt_key (keyed_tasks p ts) = map (\<lambda>i. p @ dec (i + 1)) [0..<length ts]"
  by (rule nth_equalityI) (simp_all add: keyed_tasks_def nth_enumerate_eq)

lemma keyed_tasks_distinct: "distinct (map kt_key (keyed_tasks p ts))"
  by (auto simp: keyed_tasks_keys distinct_map inj_on_def simp del: map_map dest: dec_inj)

lemma keyed_tasks_ids [simp]: "map kt_task_id (keyed_tasks p ts) = map tk_id ts"
  by (rule nth_equalityI) (simp_all add: keyed_tasks_def nth_enumerate_eq)

section \<open>Classify\<close>

text \<open>
  C20: a reply to classify is refused as bad output or names what was offered: its choice is the key
  of a candidate and the decision is the direction of just that candidate, at medium or high
  confidence; or it decides for no direction, because the model said so or was not sure. The flag for
  a low confidence says just that, for an explicit "none" too: the comment in the code's branch for
  "none" asks for it, the doc comment of the field \<open>low_confidence\<close> denies it.
\<close>
theorem classify_reply_exact:
  "case parse_classify_reply json_of reply (candidate_keys cs) of
     Inl e \<Rightarrow> e = ''bad_output''
   | Inr d \<Rightarrow> cd_low_confidence d = (cd_confidence d = Some ''low'') \<and>
       cd_confidence d \<in> {Some ''low'', Some ''medium'', Some ''high''} \<and>
       (case (cd_choice d, cd_direction_id d) of
          (Some k, Some i) \<Rightarrow> \<not> cd_low_confidence d \<and> (\<exists>n. n < length cs \<and> k = ''d'' @ dec (n + 1) \<and> i = dc_direction_id (cs ! n))
        | (Some k, None) \<Rightarrow> k = ''none'' \<or> cd_low_confidence d
        | (None, _) \<Rightarrow> False)"
proof (cases "parse_classify_reply json_of reply (candidate_keys cs)")
  case (Inl e)
  then show ?thesis by (auto simp: parse_classify_reply_def bad_output_def split: option.splits if_splits)
next
  case (Inr d)
  then obtain m c where m: "Confidence_parse (mc_confidence m) = Some c" "d = decide_choice m c (candidate_keys cs)"
      "mc_choice m = ''none'' \<or> list_ex (\<lambda>k. kc_key k = mc_choice m) (candidate_keys cs)"
    by (auto simp: parse_classify_reply_def split: option.splits if_splits)
  have low: "c < CLASSIFY_CONFIDENCE_THRESHOLD \<longleftrightarrow> Confidence_as_str c = ''low''"
    and conf: "Confidence_as_str c \<in> {''low'', ''medium'', ''high''}"
    by (cases c; simp add: CLASSIFY_CONFIDENCE_THRESHOLD_def less_Confidence_def)+
  show ?thesis
  proof (cases "mc_choice m = ''none'' \<or> c < CLASSIFY_CONFIDENCE_THRESHOLD")
    case True
    with m(2) Inr low conf show ?thesis by (auto simp: decide_choice_def Let_def)
  next
    case False
    with m(3) obtain x where x: "find (\<lambda>k. kc_key k = mc_choice m) (candidate_keys cs) = Some x"
      by (cases "find (\<lambda>k. kc_key k = mc_choice m) (candidate_keys cs)") (auto simp: find_None_iff list_ex_iff)
    obtain n where "n < length cs" "mc_choice m = ''d'' @ dec (n + 1)" "kc_direction_id x = dc_direction_id (cs ! n)"
      using find_nth[OF x] by (auto simp: candidate_keys_nth)
    with False x m(2) Inr low conf show ?thesis by (auto simp: decide_choice_def Let_def)
  qed
qed

text \<open>The second rule as a definition: the only candidate with the most in common, if that is enough.\<close>

definition overlap :: "nat list set \<times> nat list set \<Rightarrow> KeyedCandidate \<Rightarrow> nat" where
  "overlap t c = fst (hits t c) + snd (hits t c)"

definition leaders :: "nat list set \<times> nat list set \<Rightarrow> KeyedCandidate list \<Rightarrow> KeyedCandidate list" where
  "leaders t cs = filter (\<lambda>c. 0 < overlap t c \<and> list_all (\<lambda>d. overlap t d \<le> overlap t c) cs) cs"

definition race_ok :: "nat list set \<times> nat list set \<Rightarrow> KeyedCandidate list \<Rightarrow> Race \<Rightarrow> bool" where
  "race_ok t ds r = ((\<forall>d\<in>set ds. overlap t d \<le> ra_best_total r) \<and>
     (case ra_best r of
        None \<Rightarrow> ra_best_total r = 0 \<and> \<not> ra_tie r
      | Some (w, b, c) \<Rightarrow> 0 < ra_best_total r \<and> hits t c = (w, b) \<and>
          (\<exists>xs. filter (\<lambda>d. overlap t d = ra_best_total r) ds = c # xs \<and> ra_tie r = (xs \<noteq> []))))"

lemma race_step_ok: "race_ok t ds r \<Longrightarrow> race_ok t (ds @ [c]) (race_step t c r)"
proof -
  assume ok: "race_ok t ds r"
  obtain w b where h: "hits t c = (w, b)" by (cases "hits t c")
  have above: "filter (\<lambda>d. overlap t d = n) ds = []" if "ra_best_total r < n" for n
    using ok that by (auto simp: race_ok_def filter_empty_conv)
  consider "w + b = 0" | "ra_best_total r < w + b" | "0 < w + b" "w + b = ra_best_total r" | "0 < w + b" "w + b < ra_best_total r"
    by linarith
  then show ?thesis
  proof cases
    case 2
    with ok h above[OF 2] show ?thesis
      by (auto simp: race_ok_def race_step_def overlap_def Let_def)
  qed (use ok h in \<open>auto simp: race_ok_def race_step_def overlap_def Let_def split: option.splits\<close>)
qed

lemma race_fold_ok: "race_ok t ds (fold (race_step t) ds \<lparr>ra_best_total = 0, ra_best = None, ra_tie = False\<rparr>)"
  by (induction ds rule: rev_induct) (simp_all add: race_step_ok, simp add: race_ok_def)

lemma leaders_ok: "race_ok t ds r \<Longrightarrow> leaders t ds = (case ra_best r of None \<Rightarrow> []
    | Some _ \<Rightarrow> filter (\<lambda>d. overlap t d = ra_best_total r) ds)"
proof (cases "ra_best r")
  case (Some x)
  assume ok: "race_ok t ds r"
  obtain w b c xs where x: "x = (w, b, c)" "0 < ra_best_total r"
      and f: "filter (\<lambda>d. overlap t d = ra_best_total r) ds = c # xs"
    using ok Some by (cases x) (auto simp: race_ok_def)
  have "c \<in> set ds" "overlap t c = ra_best_total r" using filter_eq_ConsD[OF f] by auto
  with ok x Some show ?thesis
    by (auto simp: leaders_def race_ok_def list_all_iff intro!: filter_cong) (metis order.antisym)+
qed (auto simp: leaders_def race_ok_def)

lemma no_words: "fst t = {} \<Longrightarrow> snd t = {} \<Longrightarrow> leaders t cs = []"
  by (simp add: leaders_def overlap_def hits_def)

text \<open>
  A candidate with one pair in common, which would not be enough for it to win, still takes the win
  from a candidate with one word in common.
\<close>

definition fix_things :: KeyedCandidate where
  "fix_things = \<lparr>kc_key = ''d1'', kc_direction_id = ''fix'', kc_title = ''fix things'', kc_area_title = None\<rparr>"

definition study_plan :: KeyedCandidate where
  "study_plan = \<lparr>kc_key = ''d2'', kc_direction_id = ''study'', kc_title = utf8 [0x5B66, 0x4E60, 0x8BA1, 0x5212], kc_area_title = None\<rparr>"

lemma unqualified_ties:
  "r2_reflex (''fix '' @ utf8 [0x5B66, 0x4E60]) [fix_things, study_plan] = None"
  "r2_reflex (''fix '' @ utf8 [0x5B66, 0x4E60]) [fix_things] = Some ''fix''"
  "r2_reflex (''fix '' @ utf8 [0x5B66, 0x4E60]) [study_plan] = None"
  by code_simp+

text \<open>
  C22: the second rule of classify, which keeps a running best score and a flag for ties, picks a
  direction exactly when one candidate alone has the most words and character pairs in common with
  the title, and then needs one word or two pairs. All candidates race, also those that would not
  reach that threshold themselves, as the comment inside of the function says; its doc comment has
  only the qualifying ones compete (lemma \<open>unqualified_ties\<close>).
\<close>
theorem r2_is_unique_best:
  "r2_reflex title cs = (let t = tokenize title in
     case leaders t cs of
       [c] \<Rightarrow> if 1 \<le> fst (hits t c) \<or> 2 \<le> snd (hits t c) then Some (kc_direction_id c) else None
     | _ \<Rightarrow> None)"
proof (cases "fst (tokenize title) = {} \<and> snd (tokenize title) = {}")
  case True
  then show ?thesis by (simp add: r2_reflex_def no_words)
next
  case False
  define t where "t = tokenize title"
  define r where "r = fold (race_step t) cs \<lparr>ra_best_total = 0, ra_best = None, ra_tie = False\<rparr>"
  have ok: "race_ok t cs r" by (simp add: r_def race_fold_ok)
  have "r2_reflex title cs = (if ra_tie r then None else case ra_best r of None \<Rightarrow> None
      | Some (words, bigrams, winner) \<Rightarrow> if 1 \<le> words \<or> 2 \<le> bigrams then Some (kc_direction_id winner) else None)"
    using False by (auto simp: r2_reflex_def t_def r_def Let_def)
  with ok leaders_ok[OF ok] show ?thesis
    by (auto simp: race_ok_def t_def[symmetric] split: option.splits list.splits)
qed

section \<open>Propose\<close>

lemma resolve_task_keys:
  "resolve_keys (task_by_key cs) ks = Some xs \<Longrightarrow>
     \<exists>ds. length ds = length ks \<and> set ds \<subseteq> set cs \<and> map kt_key ds = ks \<and> xs = map kt_task_id ds"
proof (induction ks arbitrary: xs)
  case (Cons k ks)
  then obtain x ys where x: "task_by_key cs k = Some x" "resolve_keys (task_by_key cs) ks = Some ys" "xs = x # ys"
    by (auto split: option.splits)
  obtain d where d: "find (\<lambda>c. kt_key c = k) cs = Some d" "x = kt_task_id d"
    using x(1) by (auto simp: task_by_key_def)
  obtain ds where "length ds = length ks" "set ds \<subseteq> set cs" "map kt_key ds = ks" "ys = map kt_task_id ds"
    using Cons.IH[OF x(2)] by blast
  with x(3) d find_nth[OF d(1)] show ?case by (intro exI[of _ "d # ds"]) auto
qed auto

text \<open>A choice of keys without repetition and the candidates it leaves out are all candidates.\<close>

lemma chosen_and_rest:
  assumes "distinct ks" and keys: "distinct (map kt_key cs)" and r: "resolve_keys (task_by_key cs) ks = Some xs"
  shows "mset (complete_order cs ks xs) = mset (map kt_task_id cs)" and "mset xs \<subseteq># mset (map kt_task_id cs)"
proof -
  obtain ds where ds: "set ds \<subseteq> set cs" "map kt_key ds = ks" "xs = map kt_task_id ds"
    using resolve_task_keys[OF r] by blast
  have "distinct ds" using assms(1) ds(2) by (auto simp: distinct_map)
  moreover have "set ds = set (filter (\<lambda>c. kt_key c \<in> set ks) cs)"
    using ds keys by (auto simp: distinct_map) (metis inj_onD subsetD)
  ultimately have "mset ds = mset (filter (\<lambda>c. kt_key c \<in> set ks) cs)"
    using keys by (intro set_eq_iff_mset_eq_distinct[THEN iffD1]) (auto simp: distinct_map)
  then have all: "mset ds + mset (filter (\<lambda>c. kt_key c \<notin> set ks) cs) = mset cs"
    by (simp add: multiset_partition[symmetric])
  then show "mset (complete_order cs ks xs) = mset (map kt_task_id cs)"
    by (simp add: complete_order_def ds(3) flip: image_mset_union)
  from all have "mset ds \<subseteq># mset cs" by (metis mset_subset_eq_add_left)
  then show "mset xs \<subseteq># mset (map kt_task_id cs)" by (simp add: ds(3) image_mset_subseteq_mono)
qed

definition new_task_ok :: "KeyedDirection list \<Rightarrow> NewTask \<Rightarrow> bool" where
  "new_task_ok gs n = (nt_title n \<noteq> [] \<and> char_count (nt_title n) \<le> 120 \<and> nt_direction_id n \<in> Some ` kd_direction_id ` set gs)"

lemma new_task_of_ok: "new_task_of gs m = Some n \<Longrightarrow> new_task_ok gs n"
  by (auto simp: new_task_of_def new_task_ok_def Let_def MAX_NEW_TASK_TITLE_CHARS_def split: if_splits dest: find_nth)

lemma new_tasks_ok: "those (map (new_task_of gs) ms) = Some ns \<Longrightarrow> length ns = length ms \<and> list_all (new_task_ok gs) ns"
  by (induction ms arbitrary: ns) (auto split: option.splits dest: new_task_of_ok)

text \<open>
  C21: a reply to propose is refused as bad output or stays inside what the program offered: the new
  order is a permutation of the week's open tasks, the tasks to carry are among the ones offered,
  each at most as often, and there are at most three new tasks, with a title of 1 to 120 characters
  and one of the offered directions.
\<close>
theorem propose_reply_exact:
  "case parse_propose_reply json_of reply (keyed_tasks ''p'' ps) (keyed_tasks ''w'' ws) gs of
     Inl e \<Rightarrow> e = ''bad_output''
   | Inr d \<Rightarrow> mset (pc_order d) = mset (map tk_id ws) \<and> mset (pc_carry d) \<subseteq># mset (map tk_id ps)
       \<and> length (pc_new_tasks d) \<le> 3 \<and> list_all (new_task_ok gs) (pc_new_tasks d) \<and> char_count (pc_reason d) \<le> 200"
proof (cases "parse_propose_reply json_of reply (keyed_tasks ''p'' ps) (keyed_tasks ''w'' ws) gs")
  case (Inl e)
  then show ?thesis by (auto simp: parse_propose_reply_def bad_output_def split: option.splits if_splits)
next
  case (Inr d)
  obtain m where p: "Option.bind (json_of (strip_json_fence reply)) parse_model_propose = Some m"
    using Inr by (cases "Option.bind (json_of (strip_json_fence reply)) parse_model_propose") (simp_all add: parse_propose_reply_def)
  obtain explicit where m: "distinct (mp_carry m)" "distinct (mp_order m)" "char_count (mp_reason m) \<le> 200"
      "resolve_keys (task_by_key (keyed_tasks ''p'' ps)) (mp_carry m) = Some (pc_carry d)"
      "resolve_keys (task_by_key (keyed_tasks ''w'' ws)) (mp_order m) = Some explicit"
      "length (mp_new_tasks m) \<le> 3" "those (map (new_task_of gs) (mp_new_tasks m)) = Some (pc_new_tasks d)"
      "pc_order d = complete_order (keyed_tasks ''w'' ws) (mp_order m) explicit" "pc_reason d = mp_reason m"
    using Inr p by (auto simp: parse_propose_reply_def MAX_REASON_CHARS_def MAX_NEW_TASKS_def split: option.splits if_splits)
  with new_tasks_ok[OF m(7)] chosen_and_rest(1)[OF m(2) keyed_tasks_distinct m(5)]
    chosen_and_rest(2)[OF m(1) keyed_tasks_distinct m(4)] Inr
  show ?thesis by (simp add: keyed_tasks_ids)
qed

text \<open>The order the rule asks for: tasks in progress first, then by share of the rhythm, then by age.\<close>

definition goes_before :: "Alloc list \<Rightarrow> Task \<Rightarrow> Task \<Rightarrow> bool" where
  "goes_before alloc a b =
     (let ta = status_tier (tk_status a); tb = status_tier (tk_status b);
          pa = pct_of alloc (tk_direction_id a); pb = pct_of alloc (tk_direction_id b) in
      ta < tb \<or> ta = tb \<and> (pb < pa \<or> pa = pb \<and> tk_created_at a \<le> tk_created_at b))"

lemma sort_key_stable_wrt:
  assumes "sorted_wrt R xs" and "\<And>x y. f x < f y \<Longrightarrow> S x y" and "\<And>x y. f x = f y \<Longrightarrow> R x y \<Longrightarrow> S x y"
  shows "sorted_wrt S (sort_key f xs)"
proof -
  let ?ys = "sort_key f xs"
  have "S (?ys ! i) (?ys ! j)" if ij: "i < j" "j < length ?ys" for i j
  proof -
    have le: "f (?ys ! i) \<le> f (?ys ! j)"
      using ij sorted_sort_key[of f xs] by (auto simp: sorted_wrt_iff_nth_less)
    show ?thesis
    proof (cases "f (?ys ! i) = f (?ys ! j)")
      case False
      with le assms(2) show ?thesis by simp
    next
      case True
      let ?P = "\<lambda>x. f x = f (?ys ! i)"
      have "sorted_wrt R (filter ?P xs)" using assms(1) by (rule sorted_wrt_filter)
      then have "sorted_wrt R (filter ?P ?ys)" by (simp add: sort_key_stable)
      moreover have "filter ?P ?ys = filter ?P (take i ?ys) @ ?ys ! i # filter ?P (drop (Suc i) ?ys)"
        using ij by (subst id_take_nth_drop[of i ?ys]) auto
      moreover have "?ys ! j \<in> set (filter ?P (drop (Suc i) ?ys))"
        using ij True by (auto simp: in_set_conv_nth intro!: exI[of _ "j - Suc i"])
      ultimately have "R (?ys ! i) (?ys ! j)" by (auto simp: sorted_wrt_append)
      with True assms(3) show ?thesis by simp
    qed
  qed
  then show ?thesis by (auto simp: sorted_wrt_iff_nth_less)
qed

text \<open>
  the rule that reorders a week without a model gives a permutation of its open tasks, in
  progress before planned before backlog, larger shares of the rhythm first within a status and the
  older task first within a share.
\<close>
lemma reorder_reflex_sorted:
  "\<exists>ts. reorder_reflex open_tasks alloc = map tk_id ts \<and> mset ts = mset open_tasks \<and> sorted_wrt (goes_before alloc) ts"
proof -
  let ?a = "sort_key tk_created_at open_tasks"
  let ?b = "sort_key (\<lambda>t. - int (pct_of alloc (tk_direction_id t))) ?a"
  let ?c = "sort_key (\<lambda>t. status_tier (tk_status t)) ?b"
  have "sorted_wrt (\<lambda>x y. tk_created_at x \<le> tk_created_at y) ?a"
    using sorted_sort_key[of tk_created_at open_tasks] by (simp add: sorted_wrt_map)
  then have "sorted_wrt (\<lambda>x y. pct_of alloc (tk_direction_id y) < pct_of alloc (tk_direction_id x) \<or>
      pct_of alloc (tk_direction_id x) = pct_of alloc (tk_direction_id y) \<and> tk_created_at x \<le> tk_created_at y) ?b"
    by (rule sort_key_stable_wrt) auto
  then have "sorted_wrt (goes_before alloc) ?c"
    by (rule sort_key_stable_wrt) (auto simp: goes_before_def)
  then show ?thesis by (intro exI[of _ ?c]) (simp add: reorder_reflex_def)
qed

end
