(* ===== verification/Narrative_Laws.thy ===== *)
theory Narrative_Laws
  imports Summarize
begin

text \<open>
  The filter on the model's narrative: what it lets through contains no numeric character and no
  bracket of the program's units except inside the units themselves, no Chinese numeral in front of
  a measure word, and no line that Markdown or HTML would read as more than a paragraph.
\<close>

section \<open>Characters of the filter\<close>

definition guarded :: "nat \<Rightarrow> bool" where
  "guarded c = (is_numeric c \<or> c \<in> set RESERVED)"

definition whitespace_list :: "nat list" where
  "whitespace_list = [9, 10, 11, 12, 13, 32, 133, 160, 5760, 8192, 8193, 8194, 8195, 8196, 8197, 8198, 8199, 8200, 8201, 8202,
     8232, 8233, 8239, 8287, 12288]"

lemma whitespace_in_list: "is_whitespace c \<Longrightarrow> c \<in> set whitespace_list"
proof -
  assume "is_whitespace c"
  then have "c \<in> set ([9 ..< 14] @ [32, 133, 160, 5760] @ [8192 ..< 8203] @ [8232 ..< 8234] @ [8239, 8287, 12288])"
    by (auto simp: is_whitespace_def in_ranges_def simp del: upt_rec_numeral)
  then show ?thesis by (simp add: whitespace_list_def)
qed

lemma unguarded_lists: "list_all (\<lambda>c. \<not> guarded c) (whitespace_list @ line_marks @ [60, 38, 0xFF1C, 0xFF06, 123, 125])"
  by (simp add: whitespace_list_def line_marks_def guarded_def RESERVED_def is_numeric_def in_ranges_def numeric_ranges_def)

lemma unguarded [simp]: "\<not> guarded 60" "\<not> guarded 38" "\<not> guarded 0xFF1C" "\<not> guarded 0xFF06" "\<not> guarded 10" "\<not> guarded 32"
  "is_whitespace c \<Longrightarrow> \<not> guarded c" "c \<in> set line_marks \<Longrightarrow> \<not> guarded c"
  using unguarded_lists whitespace_in_list[of c] by (auto simp: list_all_iff whitespace_list_def)

lemma literal_unguarded: "check_literal seg = Inr () \<Longrightarrow> filter guarded seg = []"
  by (auto simp: check_literal_def find_None_iff guarded_def filter_empty_conv split: option.splits)

lemma map_sum_Inr: "map_sum f g x = Inr y \<longleftrightarrow> (\<exists>z. x = Inr z \<and> y = g z)"
  by (cases x) auto

section \<open>Numerals in front of a measure word\<close>

text \<open>A Chinese numeral with one of the measure words right after it or after one space.\<close>

definition counted :: "nat list \<Rightarrow> bool" where
  "counted seg = (\<exists>c m. is_cjk_numeral c \<and> m \<in> set MEASURE \<and> (sublist (c # m) seg \<or> sublist (c # 32 # m) seg))"

text \<open>A text that starts with a measure word, or with one after one space.\<close>

definition measured :: "nat list \<Rightarrow> bool" where
  "measured seg = (\<exists>m\<in>set MEASURE. prefix m seg \<or> prefix (32 # m) seg)"

lemma measure_words: "m \<in> set MEASURE \<Longrightarrow> m \<noteq> [] \<and> length m \<le> 2 \<and> hd m \<noteq> 32 \<and> \<not> is_cjk_numeral (hd m)"
proof -
  have "list_all (\<lambda>m. m \<noteq> [] \<and> length m \<le> 2 \<and> hd m \<noteq> 32 \<and> \<not> is_cjk_numeral (hd m)) MEASURE" by code_simp
  then show "m \<in> set MEASURE \<Longrightarrow> ?thesis" by (auto simp: list_all_iff)
qed

lemma measure_found: "m \<in> set MEASURE \<Longrightarrow> measure_follows (m @ b) \<noteq> None \<and> measure_follows (32 # m @ b) \<noteq> None"
  using measure_words[of m] by (cases m) (auto simp: measure_follows_def find_None_iff begins_prefix intro!: bexI[of _ m])

lemma not_measured: "measure_follows rest = None \<Longrightarrow> rest = lit @ tail \<Longrightarrow> \<not> measured lit"
  unfolding measured_def prefix_def by (metis measure_found append.assoc append_Cons)

lemma numeral_no_measure: "is_cjk_numeral c \<Longrightarrow> measure_follows (c # cs) = None"
proof -
  assume c: "is_cjk_numeral c"
  have "\<not> is_cjk_numeral 32" by code_simp
  with c have "c \<noteq> 32" by auto
  moreover have "\<not> begins m (c # cs)" if "m \<in> set MEASURE" for m
    using measure_words[OF that] c by (cases m) (auto simp: begins_prefix)
  ultimately show ?thesis by (auto simp: measure_follows_def find_None_iff)
qed

lemma scan_numerals_all:
  "scan_numerals seg = Inr () \<Longrightarrow> seg = a @ c # b \<Longrightarrow> is_cjk_numeral c \<Longrightarrow> measure_follows (take 3 b) = None"
proof (induction seg arbitrary: a rule: scan_numerals.induct)
  case (2 d ds)
  show ?case
  proof (cases "is_cjk_numeral d")
    case False
    with "2.prems" obtain a' where "a = d # a'" "ds = a' @ c # b" by (cases a) auto
    with False 2 show ?thesis by simp
  next
    case True
    let ?run = "takeWhile is_cjk_numeral (d # ds)" and ?rest = "dropWhile is_cjk_numeral (d # ds)"
    from True "2.prems"(1) have rest: "measure_follows (take 3 ?rest) = None" "scan_numerals ?rest = Inr ()"
      by (auto simp: Let_def split: option.splits)
    have "?run @ ?rest = (a @ [c]) @ b" using "2.prems"(2) by simp
    then consider (inside) e es where "b = (e # es) @ ?rest" "?run = (a @ [c]) @ e # es" | (last) "b = ?rest"
      | (after) a' where "a @ [c] = ?run @ a'" "?rest = a' @ b" "a' \<noteq> []"
      unfolding append_eq_append_conv2 by (metis append_Nil append_Nil2 list.exhaust)
    then show ?thesis
    proof cases
      case inside
      have "is_cjk_numeral e" using inside(2) by (metis in_set_conv_decomp set_takeWhileD append.assoc append_Cons)
      with inside(1) show ?thesis by (simp add: numeral_no_measure)
    next
      case last
      with rest show ?thesis by simp
    next
      case after
      then obtain a'' where "a' = a'' @ [c]" by (metis append_butlast_last_id last_appendR last_snoc)
      with after(2) have "?rest = a'' @ c # b" by simp
      from "2.IH"(1)[OF True refl refl rest(1) rest(2) this "2.prems"(3)] show ?thesis .
    qed
  qed
qed simp

lemma scanned_not_counted: "scan_numerals seg = Inr () \<Longrightarrow> \<not> counted seg"
proof
  assume s: "scan_numerals seg = Inr ()" and "counted seg"
  then obtain c m where c: "is_cjk_numeral c" and m: "m \<in> set MEASURE" and "sublist (c # m) seg \<or> sublist (c # 32 # m) seg"
    by (auto simp: counted_def)
  then obtain a b where "seg = a @ c # m @ b \<or> seg = a @ c # 32 # m @ b" by (auto simp: sublist_def)
  with scan_numerals_all[OF s _ c] have "measure_follows (take 3 (m @ b)) = None \<or> measure_follows (take 3 (32 # m @ b)) = None"
    by (metis append_Cons)
  moreover have "take 3 (m @ b) = m @ take (3 - length m) b" "take 3 (32 # m @ b) = 32 # m @ take (2 - length m) b"
    using measure_words[OF m] by simp_all
  ultimately show False using measure_found[OF m] by metis
qed

section \<open>Filling in the units\<close>

text \<open>What the program writes itself: the units of the facts and the titles in their brackets.\<close>

definition program_texts :: "Fact list \<Rightarrow> string list \<Rightarrow> nat list list" where
  "program_texts fs titles = map (\<lambda>f. chars (render_unit f)) fs @
     map (\<lambda>t. [0x300C] @ chars (sanitize_inline t) @ [0x300D]) titles"

lemma parse_key_kind: "parse_key key = Some (kind, n) \<Longrightarrow> kind = 102 \<or> kind = 116"
  by (auto simp: parse_key_def split: list.splits if_splits)

lemma rendered_program: "rendered fs titles key = Some u \<Longrightarrow> u \<in> set (program_texts fs titles)"
  by (auto simp: rendered_def program_texts_def split: option.splits if_splits dest!: parse_key_kind)
    (auto simp: find_Some_iff)

text \<open>
  A filled text: pieces of the model's own text, each but the last one before a placeholder and the
  program's text for it. No own text has a guarded character or a numeral in front of a measure word,
  and none starts with a measure word after the number of a fact.
\<close>

fun pieces_ok :: "Fact list \<Rightarrow> string list \<Rightarrow> (nat list \<times> nat list \<times> nat list) list \<Rightarrow> nat list \<Rightarrow> bool" where
  "pieces_ok fs titles [] end_lit = (filter guarded end_lit = [] \<and> \<not> counted end_lit)"
| "pieces_ok fs titles ((lit, key, u) # ps) end_lit =
     (filter guarded lit = [] \<and> \<not> counted lit \<and> rendered fs titles key = Some u \<and> u \<in> set (program_texts fs titles) \<and>
      \<not> (prefix [102] key \<and> measured (case ps of [] \<Rightarrow> end_lit | (lit', _) # _ \<Rightarrow> lit')) \<and> pieces_ok fs titles ps end_lit)"

text \<open>What the model wrote, and what becomes of it.\<close>

definition written :: "(nat list \<times> nat list \<times> nat list) list \<Rightarrow> nat list \<Rightarrow> nat list" where
  "written ps end_lit = concat (map (\<lambda>(lit, key, u). lit @ [123, 123] @ key @ [125, 125]) ps) @ end_lit"

definition filled :: "(nat list \<times> nat list \<times> nat list) list \<Rightarrow> nat list \<Rightarrow> nat list" where
  "filled ps end_lit = concat (map (\<lambda>(lit, key, u). lit @ u) ps) @ end_lit"

lemma literal_ok: "check_literal seg = Inr () \<Longrightarrow> filter guarded seg = [] \<and> \<not> counted seg"
  using literal_unguarded[of seg] scanned_not_counted[of seg] by (auto simp: check_literal_def split: option.splits)

lemma written_start: "\<exists>tail. written ps end_lit = (case ps of [] \<Rightarrow> end_lit | (lit', _) # _ \<Rightarrow> lit') @ tail"
  by (auto simp: written_def split: list.split)

lemma fill_from_pieces:
  "fill_from fs titles rest = Inr out \<Longrightarrow>
     \<exists>ps end_lit. rest = written ps end_lit \<and> out = filled ps end_lit \<and> pieces_ok fs titles ps end_lit"
proof (induction fs titles rest arbitrary: out rule: fill_from.induct)
  case (1 fs titles rest)
  show ?case
  proof (cases "cut_at [123, 123] rest")
    case None
    with "1.prems" have "check_literal rest = Inr ()" "out = rest"
      by (auto simp: fill_from.simps[of fs titles rest] map_sum_Inr)
    then show ?thesis
      by (intro exI[of _ "[]"] exI[of _ rest]) (simp add: written_def filled_def literal_ok)
  next
    case (Some p)
    obtain lit after where p: "p = (lit, after)" by (cases p)
    with Some "1.prems" have lit: "check_literal lit = Inr ()"
      by (auto simp: fill_from.simps[of fs titles rest] split: sum.splits)
    with Some p "1.prems" obtain key rest1 where c: "cut_at [125, 125] after = Some (key, rest1)"
      by (auto simp: fill_from.simps[of fs titles rest] split: option.splits)
    with Some p lit "1.prems" obtain u where u: "rendered fs titles key = Some u"
      by (auto simp: fill_from.simps[of fs titles rest] split: option.splits)
    with Some p lit c "1.prems" have m: "(if begins [102] key then measure_follows rest1 else None) = None"
      by (auto simp: fill_from.simps[of fs titles rest] split: option.splits if_splits)
    with Some p lit c u "1.prems" obtain out1 where out1: "fill_from fs titles rest1 = Inr out1" "out = lit @ u @ out1"
      by (auto simp: fill_from.simps[of fs titles rest] map_sum_Inr split: option.splits if_splits)
    from "1.IH"[OF Some p[symmetric] lit c refl u m out1(1)] obtain ps end_lit
      where ih: "rest1 = written ps end_lit" "out1 = filled ps end_lit" "pieces_ok fs titles ps end_lit" by blast
    have "\<not> (prefix [102] key \<and> measured (case ps of [] \<Rightarrow> end_lit | (lit', _) # _ \<Rightarrow> lit'))"
      using m not_measured[of rest1] written_start[of ps end_lit] ih(1) by (auto simp: begins_prefix)
    with ih literal_ok[OF lit] u rendered_program[OF u] have "pieces_ok fs titles ((lit, key, u) # ps) end_lit" by simp
    moreover have "rest = written ((lit, key, u) # ps) end_lit"
      using cut_at_Some[OF Some[unfolded p]] cut_at_Some[OF c] ih(1) by (simp add: written_def)
    moreover have "out = filled ((lit, key, u) # ps) end_lit" using out1(2) ih(2) by (simp add: filled_def)
    ultimately show ?thesis by blast
  qed
qed

text \<open>The guarded characters of a filled text are those of the program's texts.\<close>

lemma pieces_guarded: "pieces_ok fs titles ps end_lit \<Longrightarrow>
    filter guarded (filled ps end_lit) = concat (map (\<lambda>(lit, key, u). filter guarded u) ps)"
  by (induction fs titles ps end_lit rule: pieces_ok.induct) (simp_all add: filled_def)

section \<open>Paragraphs\<close>

lemma filter_drop_start: "(\<And>c. p c \<Longrightarrow> \<not> q c) \<Longrightarrow> filter q (drop_start p us) = filter q us"
  by (induction us) (auto simp: drop_start_def)

lemma strip_marks_keeps: "filter guarded (strip_marks t) = filter guarded t"
proof (induction t rule: strip_marks.induct)
  case (1 t)
  have "filter guarded (drop_start is_whitespace (drop_start (\<lambda>c. c \<in> set line_marks) t)) = filter guarded t"
    by (simp add: filter_drop_start)
  with 1 show ?case by (subst strip_marks.simps) (simp add: Let_def)
qed

lemma plain_line_keeps: "filter guarded (plain_line l) = filter guarded l"
proof -
  have "filter guarded (map (\<lambda>c. if c = 60 then 0xFF1C else if c = 38 then 0xFF06 else c) us) = filter guarded us" for us
    by (induction us) auto
  then show ?thesis by (simp add: plain_line_def strip_marks_keeps filter_drop_start)
qed

definition plain_start :: "nat list \<Rightarrow> bool" where
  "plain_start l = (case l of [] \<Rightarrow> True | c # _ \<Rightarrow> c \<notin> set line_marks \<and> \<not> is_whitespace c)"

lemma drops_nothing: "dropWhile p (dropWhile q us) = us \<Longrightarrow> (case us of [] \<Rightarrow> True | c # _ \<Rightarrow> \<not> q c \<and> \<not> p c)"
proof (cases us)
  case (Cons c cs)
  assume "dropWhile p (dropWhile q us) = us"
  moreover have "length (dropWhile p (dropWhile q cs)) \<le> length cs" "length (dropWhile p cs) \<le> length cs"
    using length_dropWhile_le[of p "dropWhile q cs"] length_dropWhile_le[of q cs] length_dropWhile_le[of p cs] by linarith+
  ultimately show ?thesis using Cons by (auto split: if_splits)
qed simp

lemma strip_marks_start: "plain_start (strip_marks t)"
proof (induction t rule: strip_marks.induct)
  case (1 t)
  let ?t1 = "drop_start is_whitespace (drop_start (\<lambda>c. c \<in> set line_marks) t)"
  show ?case
  proof (cases "?t1 = t")
    case True
    have "plain_start t" using drops_nothing[of is_whitespace "\<lambda>c. c \<in> set line_marks" t] True
      by (simp add: plain_start_def drop_start_def split: list.split_asm)
    with True show ?thesis by (subst strip_marks.simps) (simp add: Let_def)
  next
    case False
    with 1 show ?thesis by (subst strip_marks.simps) (simp add: Let_def)
  qed
qed

lemma plain_line_start: "plain_start (plain_line l)"
proof -
  have "0xFF1C \<notin> set line_marks" "0xFF06 \<notin> set line_marks" "\<not> is_whitespace 0xFF1C" "\<not> is_whitespace 0xFF06"
    by (simp_all add: line_marks_def is_whitespace_def in_ranges_def)
  then show ?thesis
    using strip_marks_start[of "drop_start is_whitespace l"]
    by (cases "strip_marks (drop_start is_whitespace l)") (simp_all add: plain_line_def plain_start_def)
qed

lemma plain_line_chars: "60 \<notin> set (plain_line l)" "38 \<notin> set (plain_line l)"
  by (auto simp: plain_line_def)

lemma plain_line_newline: "10 \<notin> set l \<Longrightarrow> 10 \<notin> set (plain_line l)"
proof -
  assume l: "10 \<notin> set l"
  have "set (strip_marks t) \<subseteq> set t" for t
  proof (induction t rule: strip_marks.induct)
    case (1 t)
    have "set (drop_start is_whitespace (drop_start (\<lambda>c. c \<in> set line_marks) t)) \<subseteq> set t"
      by (auto simp: drop_start_def dest!: set_dropWhileD)
    with 1 show ?case by (subst strip_marks.simps) (auto simp: Let_def)
  qed
  with l show ?thesis by (fastforce simp: plain_line_def drop_start_def dest: set_dropWhileD)
qed

lemma split_on_set: "l \<in> set (split_on sep us) \<Longrightarrow> sep \<notin> set l"
  by (induction us arbitrary: l) (auto split: if_splits list.splits)

lemma split_on_filter: "\<not> q sep \<Longrightarrow> concat (map (filter q) (split_on sep us)) = filter q us"
  by (induction us) (auto split: list.splits)

lemma split_on_not_Nil: "split_on sep us \<noteq> []"
  by (induction us) (auto split: list.splits)

lemma split_on_append: "sep \<notin> set f \<Longrightarrow> split_on sep (f @ sep # us) = f # split_on sep us"
  by (induction f) auto

lemma split_on_plain: "sep \<notin> set f \<Longrightarrow> split_on sep f = [f]"
  by (induction f) auto

lemma split_join: "list_all (\<lambda>l. 10 \<notin> set l) ls \<Longrightarrow> set (split_on 10 (join_chars [10, 10] ls)) \<subseteq> insert [] (set ls)"
  by (induction "[10, 10] :: nat list" ls rule: join_chars.induct) (auto simp: split_on_plain split_on_append)

lemma join_filter: "\<not> q 10 \<Longrightarrow> filter q (join_chars [10, 10] ls) = concat (map (filter q) ls)"
  by (induction "[10, 10] :: nat list" ls rule: join_chars.induct) auto

lemma drop_empty_filter: "concat (map (filter q) (filter (\<lambda>l. l \<noteq> []) ls)) = concat (map (filter q) ls)"
  by (induction ls) auto

definition plain_paragraph :: "nat list \<Rightarrow> bool" where
  "plain_paragraph l = (plain_start l \<and> 60 \<notin> set l \<and> 38 \<notin> set l)"

definition paragraphs :: "nat list \<Rightarrow> nat list" where
  "paragraphs out = join_chars [10, 10] (filter (\<lambda>l. l \<noteq> []) (map plain_line (split_on 10 out)))"

lemma paragraphs_keep: "filter guarded (paragraphs out) = filter guarded out"
  by (simp add: paragraphs_def join_filter drop_empty_filter comp_def plain_line_keeps split_on_filter)

lemma paragraphs_plain: "list_all plain_paragraph (split_on 10 (paragraphs out))"
proof -
  let ?ls = "filter (\<lambda>l. l \<noteq> []) (map plain_line (split_on 10 out))"
  have "list_all (\<lambda>l. 10 \<notin> set l) ?ls"
    by (auto simp: list_all_iff plain_line_newline split_on_set)
  from split_join[OF this] have "set (split_on 10 (join_chars [10, 10] ?ls)) \<subseteq> insert [] (set ?ls)" .
  moreover have "plain_paragraph l" if "l \<in> insert [] (set ?ls)" for l
    using that plain_line_start plain_line_chars by (auto simp: plain_paragraph_def plain_start_def[of "[]"])
  ultimately show ?thesis by (auto simp: paragraphs_def list_all_iff)
qed

section \<open>The property\<close>

text \<open>Three cats in Chinese numerals: the word after the numeral is none of the measure words the scan knows.\<close>

lemma three_cats_pass: "fill_narrative [0x4E09, 0x53EA, 0x732B] [] [] = Inr [0x4E09, 0x53EA, 0x732B]"
  by code_simp

text \<open>
  C17: a narrative that passes the filter is the model's text with its placeholders replaced by texts
  the program has rendered (the unit of a fact or a title of the week), line by line made plain. In
  the model's own pieces of it there is no numeric character (Unicode category N) and no bracket of
  the program's units, so these stand only inside of rendered texts, in their order; no Chinese
  numeral is followed by one of the measure words, directly or after one space, and no measure word
  follows the number of a fact that way. A Chinese numeral in front of anything else may stand there,
  for it is, but for U+3007, a letter of Unicode (lemma \<open>three_cats_pass\<close>). No line of the result starts with white
  space or with a mark of Markdown or contains the characters HTML starts with.
\<close>
theorem narrative_numbers_are_facts:
  "case fill_narrative narr fs titles of
     Inl e \<Rightarrow> True
   | Inr out \<Rightarrow>
       (\<exists>ps end_lit. normalize narr = written ps end_lit \<and> out = paragraphs (filled ps end_lit) \<and> pieces_ok fs titles ps end_lit
          \<and> filter guarded out = concat (map (\<lambda>(lit, key, u). filter guarded u) ps))
       \<and> list_all plain_paragraph (split_on 10 out)"
proof (cases "fill_narrative narr fs titles")
  case (Inr out)
  then obtain out1 where o: "fill_from fs titles (normalize narr) = Inr out1" "out = paragraphs out1"
    by (auto simp: fill_narrative_def paragraphs_def Let_def map_sum_Inr split: option.splits if_splits)
  obtain ps end_lit where p: "normalize narr = written ps end_lit" "out1 = filled ps end_lit" "pieces_ok fs titles ps end_lit"
    using fill_from_pieces[OF o(1)] by blast
  have "filter guarded out = concat (map (\<lambda>(lit, key, u). filter guarded u) ps)"
    unfolding o(2) p(2) using paragraphs_keep pieces_guarded[OF p(3)] by simp
  with p o(2) paragraphs_plain[of out1] Inr show ?thesis by auto
qed simp

end
