(* ===== verification/Actor.thy ===== *)
theory Actor
  imports RustStr "HOL-Library.Word"
begin

unbundle bit_operations_syntax

text \<open>
  The two keys that tell the human from automation, \<open>src/http/actor.rs\<close> and the guards of
  \<open>src/http/state.rs\<close>: how a key is recognised, and how the processes of an installation come by
  the pair when each may be the first to start.
\<close>

section \<open>Keys\<close>

datatype Actor = Human | Automation

datatype KeyError =
    KE_TooShort string | KE_NotHeaderSafe string | KE_Identical | KE_PartialEnv | KE_NoSource
  | KE_TooOpen nat | KE_Io | KE_Parse

record ActorKeys =
  ak_human :: string
  ak_automation :: string

definition MIN_KEY_LEN :: nat where
  "MIN_KEY_LEN = 32"

definition validate_key :: "string \<Rightarrow> string \<Rightarrow> KeyError + unit" where
  "validate_key which key =
     (if length key < MIN_KEY_LEN then Inl (KE_TooShort which)
      else if \<not> list_all (\<lambda>c. 0x21 \<le> code c \<and> code c \<le> 0x7e) key then Inl (KE_NotHeaderSafe which)
      else Inr ())"

definition ActorKeys_new :: "string \<Rightarrow> string \<Rightarrow> KeyError + ActorKeys" where
  "ActorKeys_new human automation =
     (case validate_key ''human'' human of Inl e \<Rightarrow> Inl e
      | Inr _ \<Rightarrow> (case validate_key ''automation'' automation of Inl e \<Rightarrow> Inl e
        | Inr _ \<Rightarrow> if human = automation then Inl KE_Identical
            else Inr \<lparr>ak_human = human, ak_automation = automation\<rparr>))"

text \<open>The comparison that does not stop at the first difference, on bytes.\<close>

definition byte_of :: "char \<Rightarrow> 8 word" where
  "byte_of c = of_nat (code c)"

definition constant_time_eq :: "string \<Rightarrow> string \<Rightarrow> bool" where
  "constant_time_eq a b =
     (if length a \<noteq> length b then False
      else fold (\<lambda>(x, y) diff. diff OR (byte_of x XOR byte_of y)) (zip a b) 0 = 0)"

text \<open>The key is the value of the header \<open>x-sin90-actor-key\<close>, if it is there and readable.\<close>

definition identify :: "ActorKeys \<Rightarrow> string option \<Rightarrow> Actor option" where
  "identify keys header =
     (case header of None \<Rightarrow> None
      | Some key \<Rightarrow>
          if constant_time_eq key (ak_human keys) then Some Human
          else if constant_time_eq key (ak_automation keys) then Some Automation
          else None)"

section \<open>Loading\<close>

text \<open>
  The key file as the processes see it: its permission bits and its content, \<open>None\<close> when serde
  cannot read it. Reading checks the mode first.
\<close>

record KeyFile =
  kf_mode :: nat
  kf_keys :: "(string \<times> string) option"

definition read_file :: "KeyFile option \<Rightarrow> KeyError + ActorKeys" where
  "read_file file =
     (case file of None \<Rightarrow> Inl KE_Io
      | Some f \<Rightarrow>
          let mode = kf_mode f mod 512 in
          if mode mod 64 \<noteq> 0 then Inl (KE_TooOpen mode)
          else (case kf_keys f of None \<Rightarrow> Inl KE_Parse | Some (h, a) \<Rightarrow> ActorKeys_new h a))"

text \<open>
  A process on its way through \<open>load_or_create_file\<close>: it looks whether the file exists, writes its
  own keys to a private temporary file, publishes them by a hard link, which fails when the name is
  taken, and reads the file whenever another one is there. Any step may fail with an error of the
  file system.
\<close>

datatype Loader = Looking | Publishing string string | Reading | Finished "KeyError + ActorKeys"

inductive load_step :: "KeyFile option \<times> Loader \<Rightarrow> KeyFile option \<times> Loader \<Rightarrow> bool" where
  exists: "load_step (Some f, Looking) (Some f, Reading)"
| absent: "load_step (None, Looking) (None, Publishing h a)"
| linked: "load_step (None, Publishing h a) (Some \<lparr>kf_mode = 384, kf_keys = Some (h, a)\<rparr>, Finished (ActorKeys_new h a))"
| already: "load_step (Some f, Publishing h a) (Some f, Reading)"
| read: "load_step (file, Reading) (file, Finished (read_file file))"
| io_error: "load_step (file, l) (file, Finished (Inl KE_Io))" if "\<forall>r. l \<noteq> Finished r"

inductive_cases load_stepE: "load_step (file, l) (file', l')"

text \<open>The processes of an installation, each at its own step; one of them moves.\<close>

inductive processes_step :: "KeyFile option \<times> Loader list \<Rightarrow> KeyFile option \<times> Loader list \<Rightarrow> bool" where
  "load_step (file, ls ! i) (file', l) \<Longrightarrow> i < length ls \<Longrightarrow> processes_step (file, ls) (file', ls[i := l])"

definition started :: "KeyFile option \<Rightarrow> nat \<Rightarrow> KeyFile option \<times> Loader list" where
  "started file n = (file, replicate n Looking)"

text \<open>\<open>ActorKeys::load\<close>: both keys from the environment, or the file of the data directory.\<close>

definition load :: "string option \<Rightarrow> string option \<Rightarrow> (KeyError + ActorKeys) option \<Rightarrow> KeyError + ActorKeys" where
  "load human automation from_file =
     (case (human, automation) of
        (Some h, Some a) \<Rightarrow> ActorKeys_new h a
      | (None, None) \<Rightarrow> (case from_file of None \<Rightarrow> Inl KE_NoSource | Some r \<Rightarrow> r)
      | _ \<Rightarrow> Inl KE_PartialEnv)"

section \<open>Laws\<close>

lemma or_zero: "(x :: 8 word) OR y = 0 \<longleftrightarrow> x = 0 \<and> y = 0"
proof -
  have "x = 0 \<and> y = 0" if "x OR y = 0"
  proof -
    have "\<not> bit (x OR y) n" for n unfolding that by simp
    then have "\<not> bit x n \<and> \<not> bit y n" for n by (simp add: bit_or_iff)
    then show ?thesis by (auto intro!: bit_word_eqI)
  qed
  then show ?thesis by auto
qed

lemma xor_zero: "(x :: 8 word) XOR y = 0 \<longleftrightarrow> x = y"
proof -
  have "x = y" if "x XOR y = 0"
  proof (rule bit_word_eqI)
    fix n
    have "\<not> bit (x XOR y) n" unfolding that by simp
    then show "bit x n = bit y n" by (simp add: bit_xor_iff)
  qed
  then show ?thesis by auto
qed

lemma byte_inj: "byte_of x = byte_of y \<longleftrightarrow> x = y"
proof -
  have "unat (byte_of c) = code c" for c
    using code_less[of c] by (simp add: byte_of_def unat_of_nat)
  then show ?thesis by (metis char_eq_code)
qed

lemma or_diff: "d OR (byte_of x XOR byte_of y) = 0 \<longleftrightarrow> d = 0 \<and> x = y"
  by (simp only: or_zero xor_zero byte_inj)

lemma diff_zero: "fold (\<lambda>(x, y) diff. diff OR (byte_of x XOR byte_of y)) xys d = 0 \<longleftrightarrow>
    d = 0 \<and> list_all (\<lambda>(x, y). x = y) xys"
proof (induction xys arbitrary: d)
  case (Cons p xys)
  obtain x y where p: "p = (x, y)" by (cases p)
  show ?case using Cons[of "d OR (byte_of x XOR byte_of y)"] by (simp only: p fold_Cons comp_apply case_prod_conv or_diff list.pred_inject conj_assoc)
qed simp

lemma constant_time_eq_iff: "constant_time_eq a b = (a = b)"
proof -
  have "list_all (\<lambda>(x, y). x = y) (zip a b) \<longleftrightarrow> a = b" if "length a = length b"
    using that by (induction a b rule: list_induct2) auto
  then show ?thesis by (auto simp: constant_time_eq_def diff_zero)
qed

lemma ActorKeys_new_distinct: "ActorKeys_new h a = Inr keys \<Longrightarrow> ak_human keys \<noteq> ak_automation keys"
  by (auto simp: ActorKeys_new_def split: sum.splits if_splits)

lemma identify_exact: "identify keys header =
    (if header = Some (ak_human keys) then Some Human
     else if header = Some (ak_automation keys) then Some Automation else None)"
  by (auto simp: identify_def constant_time_eq_iff split: option.split)

lemma read_none: "read_file None = Inl KE_Io"
  by (simp add: read_file_def)

lemma loaded_agree_step:
  assumes "processes_step (file, ls) (file', ls')" and ok: "\<And>k. Finished (Inr k) \<in> set ls \<Longrightarrow> read_file file = Inr k"
  shows "\<And>k. Finished (Inr k) \<in> set ls' \<Longrightarrow> read_file file' = Inr k" and "file = None \<or> file' = file"
proof -
  obtain i l where i: "load_step (file, ls ! i) (file', l)" "i < length ls" "ls' = ls[i := l]"
    using assms(1) by (cases rule: processes_step.cases) auto
  have keeps: "file = None \<or> file' = file" and l: "\<And>k. l = Finished (Inr k) \<Longrightarrow> read_file file' = Inr k"
    using i(1) by (cases; auto simp: read_file_def)+
  then show "file = None \<or> file' = file" by blast
  fix k assume "Finished (Inr k) \<in> set ls'"
  then consider "l = Finished (Inr k)" | "Finished (Inr k) \<in> set ls"
    using i(2,3) set_update_subset_insert[of ls i l] by auto
  then show "read_file file' = Inr k"
  proof cases
    case 2
    then have "read_file file = Inr k" by (rule ok)
    moreover from this have "file \<noteq> None" by (metis read_none Inl_Inr_False)
    ultimately show ?thesis using keeps by auto
  qed (rule l)
qed

lemma loaded_agree: "processes_step\<^sup>*\<^sup>* (started file n) s \<Longrightarrow> Finished (Inr k) \<in> set (snd s) \<Longrightarrow> read_file (fst s) = Inr k"
proof (induction arbitrary: k rule: rtranclp_induct)
  case (step s t)
  then show ?case using loaded_agree_step(1)[of "fst s" "snd s" "fst t" "snd t"] by auto
qed (simp add: started_def)

text \<open>
  C37: however many processes start on one data directory and however their steps interleave, all
  that end with keys have the same pair; the two keys of it differ, are fit for a header, and are the
  ones every later start will read.
\<close>
theorem processes_share_keys:
  assumes "processes_step\<^sup>*\<^sup>* (started file n) (file', ls)" and "Finished (Inr a) \<in> set ls" and "Finished (Inr b) \<in> set ls"
  shows "a = b \<and> read_file file' = Inr a \<and> ak_human a \<noteq> ak_automation a
    \<and> validate_key ''human'' (ak_human a) = Inr () \<and> validate_key ''automation'' (ak_automation a) = Inr ()"
proof -
  have a: "read_file file' = Inr a" and b: "read_file file' = Inr b"
    using loaded_agree[OF assms(1), of a] loaded_agree[OF assms(1), of b] assms(2,3) by simp_all
  from a obtain h x where "ActorKeys_new h x = Inr a" by (auto simp: read_file_def Let_def split: option.splits if_splits)
  with a b show ?thesis by (auto simp: ActorKeys_new_def split: sum.splits if_splits)
qed

definition key_a :: string where
  "key_a = replicate 32 CHR ''a''"

definition key_b :: string where
  "key_b = replicate 32 CHR ''b''"

text \<open>Two processes race: both find no file, the first publishes its pair, the second reads it.\<close>

lemma race: "processes_step\<^sup>*\<^sup>* (started None 2)
    (Some \<lparr>kf_mode = 384, kf_keys = Some (key_a, key_b)\<rparr>,
     [Finished (ActorKeys_new key_a key_b), Finished (read_file (Some \<lparr>kf_mode = 384, kf_keys = Some (key_a, key_b)\<rparr>))])"
proof -
  let ?f = "Some \<lparr>kf_mode = 384, kf_keys = Some (key_a, key_b)\<rparr>"
  have "processes_step (None, [Looking, Looking]) (None, [Publishing key_a key_b, Looking])"
    using processes_step.intros[of None "[Looking, Looking]" 0 None "Publishing key_a key_b"] load_step.absent by simp
  moreover have "processes_step (None, [Publishing key_a key_b, Looking]) (None, [Publishing key_a key_b, Publishing key_b key_a])"
    using processes_step.intros[of None "[Publishing key_a key_b, Looking]" 1 None "Publishing key_b key_a"] load_step.absent by simp
  moreover have "processes_step (None, [Publishing key_a key_b, Publishing key_b key_a])
      (?f, [Finished (ActorKeys_new key_a key_b), Publishing key_b key_a])"
    using processes_step.intros[of None "[Publishing key_a key_b, Publishing key_b key_a]" 0 ?f] load_step.linked by simp
  moreover have "processes_step (?f, [Finished (ActorKeys_new key_a key_b), Publishing key_b key_a])
      (?f, [Finished (ActorKeys_new key_a key_b), Reading])"
    using processes_step.intros[of ?f "[Finished (ActorKeys_new key_a key_b), Publishing key_b key_a]" 1 ?f Reading] load_step.already by simp
  moreover have "processes_step (?f, [Finished (ActorKeys_new key_a key_b), Reading])
      (?f, [Finished (ActorKeys_new key_a key_b), Finished (read_file ?f)])"
    using processes_step.intros[of ?f "[Finished (ActorKeys_new key_a key_b), Reading]" 1 ?f] load_step.read by simp
  ultimately show ?thesis
    by (auto simp: started_def numeral_2_eq_2 intro: converse_rtranclp_into_rtranclp)
qed

lemma race_keys: "ActorKeys_new key_a key_b = Inr \<lparr>ak_human = key_a, ak_automation = key_b\<rparr>"
  by (simp add: ActorKeys_new_def validate_key_def MIN_KEY_LEN_def key_a_def key_b_def list_all_iff)

theorem processes_share_keys_witness:
  "read_file (Some \<lparr>kf_mode = 384, kf_keys = Some (key_a, key_b)\<rparr>) = Inr \<lparr>ak_human = key_a, ak_automation = key_b\<rparr>"
  using processes_share_keys[OF race, of "\<lparr>ak_human = key_a, ak_automation = key_b\<rparr>" "\<lparr>ak_human = key_a, ak_automation = key_b\<rparr>"]
  by (simp add: race_keys)

end
