(* ===== verification/Run_Registry.thy ===== *)
theory Run_Registry
  imports Ai_Ports "HOL-Library.Multiset"
begin

text \<open>
  The log of AI runs, \<open>src/http/ai_runs.rs\<close>: one slot per capability, so that a capability never
  runs twice at once, and the last 64 runs. A run holds its slot through a guard that gives it back
  when the run ends, however it ends.
\<close>

section \<open>The registry\<close>

definition MAX_TRACKED_RUNS :: nat where
  "MAX_TRACKED_RUNS = 64"

record AiRunItem =
  it_target :: string
  it_result :: string
  it_reason :: "string option"

record AiRunRecord =
  ar_run_id :: string
  ar_capability :: string
  ar_state :: string
  ar_items :: "AiRunItem list"

record RunRegistry =
  rr_order :: "string list"
  rr_runs :: "AiRunRecord list"
  rr_busy :: "Capability \<Rightarrow> string option"

definition RunRegistry_default :: RunRegistry where
  "RunRegistry_default = \<lparr>rr_order = [], rr_runs = [], rr_busy = (\<lambda>_. None)\<rparr>"

text \<open>The map from ids to records as the list of its records.\<close>

definition run_of :: "string \<Rightarrow> RunRegistry \<Rightarrow> AiRunRecord option" where
  "run_of i r = find (\<lambda>x. ar_run_id x = i) (rr_runs r)"

definition busy_run :: "Capability \<Rightarrow> RunRegistry \<Rightarrow> string option" where
  "busy_run cap r = rr_busy r cap"

definition evictable :: "RunRegistry \<Rightarrow> string \<Rightarrow> bool" where
  "evictable r i = (case run_of i r of None \<Rightarrow> True | Some x \<Rightarrow> ar_state x \<noteq> ''running'')"

definition evict_one_non_running :: "RunRegistry \<Rightarrow> RunRegistry" where
  "evict_one_non_running r =
     (case find (evictable r) (rr_order r) of
        None \<Rightarrow> r
      | Some i \<Rightarrow> r\<lparr>rr_order := remove1 i (rr_order r), rr_runs := filter (\<lambda>x. ar_run_id x \<noteq> i) (rr_runs r)\<rparr>)"

definition start_run :: "Capability \<Rightarrow> string \<Rightarrow> RunRegistry \<Rightarrow> RunRegistry" where
  "start_run cap i r =
     (let r1 = r\<lparr>rr_busy := (rr_busy r)(cap := Some i)\<rparr>;
          r2 = (if MAX_TRACKED_RUNS \<le> length (rr_runs r1) then evict_one_non_running r1 else r1)
      in r2\<lparr>rr_order := rr_order r2 @ [i],
            rr_runs := filter (\<lambda>x. ar_run_id x \<noteq> i) (rr_runs r2) @
              [\<lparr>ar_run_id = i, ar_capability = capability_wire cap, ar_state = ''running'', ar_items = []\<rparr>]\<rparr>)"

definition finish_run :: "Capability \<Rightarrow> string \<Rightarrow> string \<Rightarrow> AiRunItem list \<Rightarrow> RunRegistry \<Rightarrow> RunRegistry" where
  "finish_run cap i state items r =
     r\<lparr>rr_busy := (rr_busy r)(cap := None),
       rr_runs := map (\<lambda>x. if ar_run_id x = i then x\<lparr>ar_state := state, ar_items := items\<rparr> else x) (rr_runs r)\<rparr>"

section \<open>Runs and their guards\<close>

text \<open>
  The registry with the guards that are alive and the ids ever drawn, which are ULIDs and never
  repeat. A trigger claims a free slot under the lock, or leaves everything as it is. A run gives its
  slot back with a final state, or its guard does when the task is dropped or panics.
\<close>

record Runs =
  rs_registry :: RunRegistry
  rs_guards :: "(Capability \<times> string) set"
  rs_ids :: "string set"

definition Runs_start :: Runs where
  "Runs_start = \<lparr>rs_registry = RunRegistry_default, rs_guards = {}, rs_ids = {}\<rparr>"

inductive runs_step :: "Runs \<Rightarrow> Runs \<Rightarrow> bool" where
  triggered: "busy_run cap (rs_registry s) = None \<Longrightarrow> i \<notin> rs_ids s \<Longrightarrow>
    runs_step s (s\<lparr>rs_registry := start_run cap i (rs_registry s), rs_guards := insert (cap, i) (rs_guards s),
      rs_ids := insert i (rs_ids s)\<rparr>)"
| refused: "busy_run cap (rs_registry s) = Some j \<Longrightarrow> i \<notin> rs_ids s \<Longrightarrow> runs_step s (s\<lparr>rs_ids := insert i (rs_ids s)\<rparr>)"
| finished: "(cap, i) \<in> rs_guards s \<Longrightarrow> state \<in> {''done'', ''aborted''} \<Longrightarrow>
    runs_step s (s\<lparr>rs_registry := finish_run cap i state items (rs_registry s), rs_guards := rs_guards s - {(cap, i)}\<rparr>)"
| dropped: "(cap, i) \<in> rs_guards s \<Longrightarrow>
    runs_step s (s\<lparr>rs_registry := finish_run cap i ''aborted'' [] (rs_registry s), rs_guards := rs_guards s - {(cap, i)}\<rparr>)"

text \<open>The log is in step with its order, and exactly the runs with a guard hold slots and are running.\<close>

definition log_ok :: "RunRegistry \<Rightarrow> bool" where
  "log_ok r = (distinct (rr_order r) \<and> mset (map ar_run_id (rr_runs r)) = mset (rr_order r) \<and> length (rr_runs r) \<le> MAX_TRACKED_RUNS)"

definition entry_ok :: "Runs \<Rightarrow> AiRunRecord \<Rightarrow> bool" where
  "entry_ok s x = (ar_run_id x \<in> rs_ids s \<and> ar_state x \<in> {''running'', ''done'', ''aborted''}
     \<and> (ar_state x = ''running'' \<longrightarrow> (\<exists>cap. rr_busy (rs_registry s) cap = Some (ar_run_id x))))"

definition slot_ok :: "RunRegistry \<Rightarrow> Capability \<Rightarrow> string \<Rightarrow> bool" where
  "slot_ok r cap i = (\<exists>x \<in> set (rr_runs r). ar_run_id x = i \<and> ar_state x = ''running'' \<and> ar_capability x = capability_wire cap)"

definition runs_ok :: "Runs \<Rightarrow> bool" where
  "runs_ok s = (log_ok (rs_registry s)
     \<and> (\<forall>cap i. (cap, i) \<in> rs_guards s \<longleftrightarrow> rr_busy (rs_registry s) cap = Some i)
     \<and> (\<forall>x \<in> set (rr_runs (rs_registry s)). entry_ok s x)
     \<and> (\<forall>cap i. rr_busy (rs_registry s) cap = Some i \<longrightarrow> slot_ok (rs_registry s) cap i))"

lemma runs_okI:
  assumes "log_ok (rs_registry s)" and "\<And>cap i. (cap, i) \<in> rs_guards s \<longleftrightarrow> rr_busy (rs_registry s) cap = Some i"
    and "\<And>x. x \<in> set (rr_runs (rs_registry s)) \<Longrightarrow> entry_ok s x"
    and "\<And>cap i. rr_busy (rs_registry s) cap = Some i \<Longrightarrow> slot_ok (rs_registry s) cap i"
  shows "runs_ok s"
  using assms by (auto simp: runs_ok_def)

lemma runs_okD:
  assumes "runs_ok s"
  shows "log_ok (rs_registry s)" and "(cap, i) \<in> rs_guards s \<longleftrightarrow> rr_busy (rs_registry s) cap = Some i"
    and "x \<in> set (rr_runs (rs_registry s)) \<Longrightarrow> entry_ok s x"
    and "rr_busy (rs_registry s) cap = Some i \<Longrightarrow> slot_ok (rs_registry s) cap i"
  using assms by (auto simp: runs_ok_def)

section \<open>Eviction\<close>

lemma capabilities: "(UNIV :: Capability set) = {Cap_Classify, Cap_Summarize, Cap_Propose}"
  by (auto intro: Capability.exhaust)

lemma busy_few: "card {i. \<exists>cap. f (cap :: Capability) = Some i} \<le> 3" "finite {i. \<exists>cap. f (cap :: Capability) = Some i}"
proof -
  have sub: "{i. \<exists>cap. f cap = Some i} \<subseteq> (\<lambda>cap. the (f cap)) ` {Cap_Classify, Cap_Summarize, Cap_Propose}"
    by (auto simp: image_iff) (metis Capability.exhaust option.sel)
  then show "finite {i. \<exists>cap. f cap = Some i}" by (rule finite_subset) simp
  from sub have "card {i. \<exists>cap. f cap = Some i} \<le> card ((\<lambda>cap. the (f cap)) ` {Cap_Classify, Cap_Summarize, Cap_Propose})"
    by (rule card_mono[rotated]) simp
  also have "\<dots> \<le> card {Cap_Classify, Cap_Summarize, Cap_Propose}" by (rule card_image_le) simp
  finally show "card {i. \<exists>cap. f cap = Some i} \<le> 3" by simp
qed

lemma log_ids: "log_ok r \<Longrightarrow> distinct (map ar_run_id (rr_runs r)) \<and> set (map ar_run_id (rr_runs r)) = set (rr_order r)"
  by (metis log_ok_def mset_eq_imp_distinct_iff mset_eq_setD)

lemma run_of_Some: "log_ok r \<Longrightarrow> run_of i r = Some x \<longleftrightarrow> x \<in> set (rr_runs r) \<and> ar_run_id x = i"
  using log_ids[of r] by (simp add: run_of_def find_key_Some)

text \<open>A full log has a run that is not running, as at most three are.\<close>

lemma evict_room:
  assumes ok: "log_ok r" and busy: "\<And>x. x \<in> set (rr_runs r) \<Longrightarrow> ar_state x = ''running'' \<Longrightarrow> \<exists>cap. f (cap :: Capability) = Some (ar_run_id x)"
    and full: "MAX_TRACKED_RUNS \<le> length (rr_runs r)"
  shows "\<exists>i. i \<in> set (rr_order r) \<and> evictable r i \<and>
    evict_one_non_running r = r\<lparr>rr_order := remove1 i (rr_order r), rr_runs := filter (\<lambda>x. ar_run_id x \<noteq> i) (rr_runs r)\<rparr>"
proof (cases "find (evictable r) (rr_order r)")
  case (Some i)
  with find_Some_mem[OF Some] show ?thesis
    by (intro exI[of _ i]) (simp add: evict_one_non_running_def)
next
  case None
  have "set (rr_order r) \<subseteq> {i. \<exists>cap. f cap = Some i}"
  proof
    fix i assume i: "i \<in> set (rr_order r)"
    with None have "\<not> evictable r i" by (auto simp: find_None_iff)
    then obtain x where "run_of i r = Some x" "ar_state x = ''running''" by (auto simp: evictable_def split: option.splits)
    moreover from this have "x \<in> set (rr_runs r)" "ar_run_id x = i" using run_of_Some[OF ok] by auto
    ultimately show "i \<in> {i. \<exists>cap. f cap = Some i}" using busy[of x] by simp
  qed
  then have "card (set (rr_order r)) \<le> 3"
    using busy_few[of f] by (meson card_mono le_trans)
  moreover have "card (set (rr_order r)) = length (rr_runs r)"
    using ok mset_eq_length[of "map ar_run_id (rr_runs r)" "rr_order r"] by (simp add: log_ok_def distinct_card)
  ultimately show ?thesis using full by (simp add: MAX_TRACKED_RUNS_def)
qed

lemma evicted_log: "log_ok r \<Longrightarrow> i \<in> set (rr_order r) \<Longrightarrow>
    distinct (remove1 i (rr_order r)) \<and> mset (map ar_run_id (filter (\<lambda>x. ar_run_id x \<noteq> i) (rr_runs r))) = mset (remove1 i (rr_order r))
    \<and> length (filter (\<lambda>x. ar_run_id x \<noteq> i) (rr_runs r)) < length (rr_runs r)"
proof -
  assume ok: "log_ok r" and i: "i \<in> set (rr_order r)"
  have d: "distinct (map ar_run_id (rr_runs r))" and s: "set (map ar_run_id (rr_runs r)) = set (rr_order r)"
    using log_ids[OF ok] by auto
  have "map ar_run_id (filter (\<lambda>x. ar_run_id x \<noteq> i) (rr_runs r)) = remove1 i (map ar_run_id (rr_runs r))"
    using d by (simp add: distinct_remove1_removeAll removeAll_filter_not_eq filter_map comp_def) (metis (mono_tags, lifting) filter_cong)
  moreover obtain x where "x \<in> set (rr_runs r)" "ar_run_id x = i" using i s by (metis (no_types, lifting) imageE list.set_map)
  ultimately show ?thesis using ok by (auto simp: log_ok_def intro!: length_filter_less)
qed

section \<open>The invariant\<close>

lemma started_ok:
  assumes ok: "runs_ok s" and free: "rr_busy (rs_registry s) cap = None" and fresh: "i \<notin> rs_ids s"
  defines "r2 \<equiv> (if MAX_TRACKED_RUNS \<le> length (rr_runs (rs_registry s)) then evict_one_non_running (rs_registry s) else rs_registry s)"
  shows "distinct (rr_order r2) \<and> mset (map ar_run_id (rr_runs r2)) = mset (rr_order r2) \<and> length (rr_runs r2) < MAX_TRACKED_RUNS
    \<and> set (rr_runs r2) \<subseteq> set (rr_runs (rs_registry s)) \<and> rr_busy r2 = rr_busy (rs_registry s)
    \<and> (\<forall>x \<in> set (rr_runs (rs_registry s)). ar_state x = ''running'' \<longrightarrow> x \<in> set (rr_runs r2))"
proof (cases "MAX_TRACKED_RUNS \<le> length (rr_runs (rs_registry s))")
  case False
  with ok show ?thesis by (simp add: r2_def runs_ok_def log_ok_def)
next
  case True
  let ?r = "rs_registry s"
  have log: "log_ok ?r" using ok by (rule runs_okD)
  have busy: "\<exists>cap. rr_busy ?r cap = Some (ar_run_id x)" if "x \<in> set (rr_runs ?r)" "ar_state x = ''running''" for x
    using runs_okD(3)[OF ok that(1)] that(2) by (simp add: entry_ok_def)
  obtain j where j: "j \<in> set (rr_order ?r)" "evictable ?r j"
      "evict_one_non_running ?r = ?r\<lparr>rr_order := remove1 j (rr_order ?r), rr_runs := filter (\<lambda>x. ar_run_id x \<noteq> j) (rr_runs ?r)\<rparr>"
    using evict_room[OF log busy True] by blast
  have "x \<in> set (filter (\<lambda>x. ar_run_id x \<noteq> j) (rr_runs ?r))" if "x \<in> set (rr_runs ?r)" "ar_state x = ''running''" for x
    using that j(2) run_of_Some[OF log, of j x] by (auto simp: evictable_def)
  with evicted_log[OF log j(1)] log True j(3) show ?thesis by (auto simp: r2_def log_ok_def)
qed

lemma start_busy: "rr_busy (start_run cap i r) = (rr_busy r)(cap := Some i)"
  by (auto simp: start_run_def Let_def evict_one_non_running_def split: option.split)

lemma evict_busy: "evict_one_non_running (r\<lparr>rr_busy := f\<rparr>) = (evict_one_non_running r)\<lparr>rr_busy := f\<rparr>"
proof -
  have "evictable (r\<lparr>rr_busy := f\<rparr>) = evictable r" by (rule ext) (simp add: evictable_def run_of_def)
  then show ?thesis by (auto simp: evict_one_non_running_def split: option.split)
qed

lemma runs_triggered:
  assumes ok: "runs_ok s" and free: "rr_busy (rs_registry s) cap = None" and fresh: "i \<notin> rs_ids s"
  shows "runs_ok (s\<lparr>rs_registry := start_run cap i (rs_registry s), rs_guards := insert (cap, i) (rs_guards s), rs_ids := insert i (rs_ids s)\<rparr>)"
proof -
  let ?r = "rs_registry s"
  define r2 where "r2 = (if MAX_TRACKED_RUNS \<le> length (rr_runs ?r) then evict_one_non_running ?r else ?r)"
  let ?new = "\<lparr>ar_run_id = i, ar_capability = capability_wire cap, ar_state = ''running'', ar_items = []\<rparr>"
  have r2: "distinct (rr_order r2)" "mset (map ar_run_id (rr_runs r2)) = mset (rr_order r2)" "length (rr_runs r2) < MAX_TRACKED_RUNS"
      "set (rr_runs r2) \<subseteq> set (rr_runs ?r)" "\<And>x. x \<in> set (rr_runs ?r) \<Longrightarrow> ar_state x = ''running'' \<Longrightarrow> x \<in> set (rr_runs r2)"
    using started_ok[OF ok free fresh] by (simp_all add: r2_def[symmetric])
  have new: "ar_run_id x \<noteq> i" if "x \<in> set (rr_runs r2)" for x
    using that r2(4) runs_okD(3)[OF ok, of x] fresh by (auto simp: entry_ok_def)
  then have kept: "filter (\<lambda>x. ar_run_id x \<noteq> i) (rr_runs r2) = rr_runs r2" by (simp add: filter_id_conv)
  have "i \<notin> set (rr_order r2)"
    using new mset_eq_setD[OF r2(2)] by (metis (no_types, lifting) imageE list.set_map)
  moreover have st: "rr_order (start_run cap i ?r) = rr_order r2 @ [i]" "rr_runs (start_run cap i ?r) = rr_runs r2 @ [?new]"
    using kept by (auto simp: start_run_def Let_def r2_def evict_busy split: if_splits)
  ultimately have log: "log_ok (start_run cap i ?r)" using r2(1-3) by (simp add: log_ok_def)
  show ?thesis
  proof (rule runs_okI)
    fix x assume "x \<in> set (rr_runs (rs_registry (s\<lparr>rs_registry := start_run cap i ?r, rs_guards := insert (cap, i) (rs_guards s), rs_ids := insert i (rs_ids s)\<rparr>)))"
    then consider "x = ?new" | "x \<in> set (rr_runs ?r)" using st r2(4) by auto
    then show "entry_ok (s\<lparr>rs_registry := start_run cap i ?r, rs_guards := insert (cap, i) (rs_guards s), rs_ids := insert i (rs_ids s)\<rparr>) x"
    proof cases
      case 2
      with runs_okD(3)[OF ok, of x] free show ?thesis by (force simp: entry_ok_def start_busy)
    qed (auto simp: entry_ok_def start_busy)
  next
    fix cap' j assume b: "rr_busy (rs_registry (s\<lparr>rs_registry := start_run cap i ?r, rs_guards := insert (cap, i) (rs_guards s), rs_ids := insert i (rs_ids s)\<rparr>)) cap' = Some j"
    show "slot_ok (rs_registry (s\<lparr>rs_registry := start_run cap i ?r, rs_guards := insert (cap, i) (rs_guards s), rs_ids := insert i (rs_ids s)\<rparr>)) cap' j"
    proof (cases "cap' = cap")
      case False
      with b have "slot_ok ?r cap' j" by (intro runs_okD(4)[OF ok]) (simp add: start_busy)
      then obtain x where "x \<in> set (rr_runs ?r)" "ar_run_id x = j" "ar_state x = ''running''" "ar_capability x = capability_wire cap'"
        by (auto simp: slot_ok_def)
      with r2(5)[of x] st show ?thesis by (auto simp: slot_ok_def)
    qed (use b st in \<open>auto simp: slot_ok_def start_busy\<close>)
  qed (use log free runs_okD(2)[OF ok] in \<open>auto simp: start_busy\<close>)
qed

lemma runs_released:
  assumes ok: "runs_ok s" and g: "(cap, i) \<in> rs_guards s" and state: "state \<in> {''done'', ''aborted''}"
  shows "runs_ok (s\<lparr>rs_registry := finish_run cap i state items (rs_registry s), rs_guards := rs_guards s - {(cap, i)}\<rparr>)"
proof -
  let ?r = "rs_registry s"
  have log: "log_ok ?r" and busy: "rr_busy ?r cap = Some i" using runs_okD(1)[OF ok] runs_okD(2)[OF ok] g by auto
  have other: "cap' = cap" if b: "rr_busy ?r cap' = Some i" for cap'
  proof -
    obtain x y where "x \<in> set (rr_runs ?r)" "ar_run_id x = i" "ar_capability x = capability_wire cap'"
        "y \<in> set (rr_runs ?r)" "ar_run_id y = i" "ar_capability y = capability_wire cap"
      using runs_okD(4)[OF ok busy] runs_okD(4)[OF ok b] by (auto simp: slot_ok_def)
    moreover from this have "x = y" using log_ids[OF log] by (auto simp: distinct_map dest: inj_onD)
    ultimately show ?thesis by (cases cap; cases cap') auto
  qed
  let ?f = "\<lambda>x. if ar_run_id x = i then x\<lparr>ar_state := state, ar_items := items\<rparr> else x"
  let ?t = "s\<lparr>rs_registry := finish_run cap i state items ?r, rs_guards := rs_guards s - {(cap, i)}\<rparr>"
  have runs: "rr_runs (finish_run cap i state items ?r) = map ?f (rr_runs ?r)" and slots: "rr_busy (finish_run cap i state items ?r) = (rr_busy ?r)(cap := None)"
    and order: "rr_order (finish_run cap i state items ?r) = rr_order ?r" by (simp_all add: finish_run_def)
  have ids: "map ar_run_id (map ?f xs) = map ar_run_id xs" for xs by (induction xs) auto
  show ?thesis
  proof (rule runs_okI)
    have "log_ok (finish_run cap i state items ?r)" using log by (simp only: log_ok_def runs order ids length_map)
    then show "log_ok (rs_registry ?t)" by simp
    show "(cap', j) \<in> rs_guards ?t \<longleftrightarrow> rr_busy (rs_registry ?t) cap' = Some j" for cap' j
      using runs_okD(2)[OF ok, of cap' j] busy by (auto simp: slots)
  next
    fix x assume "x \<in> set (rr_runs (rs_registry ?t))"
    then obtain y where y: "y \<in> set (rr_runs ?r)" "x = ?f y" by (auto simp: runs)
    then show "entry_ok ?t x"
      using runs_okD(3)[OF ok y(1)] state busy
      by (auto simp: entry_ok_def slots split: if_splits) (metis option.inject)+
  next
    fix cap' j assume b: "rr_busy (rs_registry ?t) cap' = Some j"
    then have b': "rr_busy ?r cap' = Some j" and "cap' \<noteq> cap" by (auto simp: slots split: if_splits)
    with other have "j \<noteq> i" by auto
    with runs_okD(4)[OF ok b'] show "slot_ok (rs_registry ?t) cap' j" by (auto simp: slot_ok_def runs)
  qed
qed

lemma runs_step_ok: "runs_step s t \<Longrightarrow> runs_ok s \<Longrightarrow> runs_ok t"
proof (induction rule: runs_step.induct)
  case (triggered cap s i)
  then show ?case by (intro runs_triggered) (simp_all add: busy_run_def)
next
  case (refused cap s j i)
  then show ?case by (auto simp: runs_ok_def entry_ok_def)
next
  case (finished cap i s state items)
  then show ?case by (intro runs_released)
next
  case (dropped cap i s)
  then show ?case by (intro runs_released) auto
qed

lemma runs_reachable: "runs_step\<^sup>*\<^sup>* Runs_start s \<Longrightarrow> runs_ok s"
proof (induction rule: rtranclp_induct)
  case base
  show ?case by (simp add: runs_ok_def log_ok_def Runs_start_def RunRegistry_default_def MAX_TRACKED_RUNS_def)
qed (rule runs_step_ok)

text \<open>
  The registry under any interleaving of triggers, ends and panics: each capability has at most one
  live run and its slot is taken exactly while that run lives; a live run is found in the log, as
  running and under its capability; what the log calls running is live.
\<close>

lemma run_registry_sound:
  assumes "runs_step\<^sup>*\<^sup>* Runs_start s"
  shows "(busy_run cap (rs_registry s) = Some i \<longleftrightarrow> (cap, i) \<in> rs_guards s)
    \<and> ((cap, i) \<in> rs_guards s \<and> (cap, j) \<in> rs_guards s \<longrightarrow> i = j)
    \<and> ((\<exists>x. run_of i (rs_registry s) = Some x \<and> ar_state x = ''running'') \<longleftrightarrow> (\<exists>cap. (cap, i) \<in> rs_guards s))
    \<and> ((cap, i) \<in> rs_guards s \<longrightarrow> map_option ar_capability (run_of i (rs_registry s)) = Some (capability_wire cap))
    \<and> length (rr_runs (rs_registry s)) \<le> 64"
proof -
  have ok: "runs_ok s" using assms by (rule runs_reachable)
  have slot: "\<exists>x. run_of i (rs_registry s) = Some x \<and> ar_state x = ''running'' \<and> ar_capability x = capability_wire cap"
    if "(cap, i) \<in> rs_guards s" for cap i
    using runs_okD(4)[OF ok] runs_okD(2)[OF ok] that run_of_Some[OF runs_okD(1)[OF ok]] by (auto simp: slot_ok_def)
  have "(\<exists>x. run_of i (rs_registry s) = Some x \<and> ar_state x = ''running'') \<longleftrightarrow> (\<exists>cap. (cap, i) \<in> rs_guards s)"
    using slot[of _ i] runs_okD(3)[OF ok] runs_okD(2)[OF ok] run_of_Some[OF runs_okD(1)[OF ok]] by (fastforce simp: entry_ok_def)
  moreover have "length (rr_runs (rs_registry s)) \<le> 64"
    using runs_okD(1)[OF ok] by (simp add: log_ok_def MAX_TRACKED_RUNS_def)
  ultimately show ?thesis
    using slot[of cap i] runs_okD(2)[OF ok] by (auto simp: busy_run_def)
qed

end
