(* ===== verification/Service.thy ===== *)
theory Service
  imports Ai_Run Actor Run_Registry Messages
begin

text \<open>
  What every route of \<open>src/http\<close> shares: requests and answers, the state of \<open>src/http/state.rs\<close>, the
  error table \<open>map_err\<close>, the guards on the actor key and the reading of bodies. A handler is a
  program over the service that may end early with an answer, or without one when its client has
  gone and the future is dropped at an await.

  axum and serde are libraries: the decoders of the bodies and query strings, which serde derives
  from the structs, are the record \<open>Decoders\<close>; a path arrives as its segments and a header as its
  value, if there is one that is visible ASCII. A body of an answer is the value the handler
  serialises.
\<close>

section \<open>Requests\<close>

datatype Method = GET | HEAD | POST | PATCH | PUT | Other_Method

record Request =
  rq_method :: Method
  rq_path :: "string list"
  rq_query :: string
  rq_actor_key :: "string option"
  rq_fire_id :: "string option"
  rq_body :: string

record NewTaskReq =
  ntr_title :: string
  ntr_direction_id :: "string option"
  ntr_parent_task_id :: "string option"
  ntr_kind :: "TaskKind option"
  ntr_energy :: "Energy option"
  ntr_est_minutes :: "u32 option"

record NewDirectionReq =
  ndr_title :: string
  ndr_target_window :: string
  ndr_area_id :: "string option"

record TaskListQuery =
  tlq_direction_id :: "string option"
  tlq_area_id :: "string option"
  tlq_status :: "TaskStatus option"

record NewBlockReq =
  nbr_direction_id :: "string option"
  nbr_task_id :: "string option"
  nbr_planned_minutes :: u32

record AttentionQuery =
  aq_start :: string
  aq_end :: string

record EventsQuery =
  eq_entity :: "string option"
  eq_entity_id :: "string option"
  eq_since_seq :: "int option"
  eq_limit :: "int option"

record RoutineListQuery =
  rlq_status :: "RoutineStatus option"
  rlq_area_id :: "string option"
  rlq_direction_id :: "string option"

record ReviewListQuery =
  vlq_kind :: "ReviewKind option"
  vlq_period :: "string option"

record FiredReq =
  fr_key :: string
  fr_scheduled_for :: string
  fr_fired_at :: string
  fr_trigger :: FireTrigger

section \<open>Answers\<close>

datatype Body =
    Body_Error string string
  | Body_Text string
  | Body_Json Json
  | Body_Area Area
  | Body_Areas "Area list"
  | Body_Direction Direction
  | Body_Directions "Direction list"
  | Body_Task Task
  | Body_Tasks "Task list"
  | Body_Block ScheduleBlock
  | Body_Blocks "ScheduleBlock list"
  | Body_Week Week
  | Body_Weeks "Week list"
  | Body_WeekAttention WeekAttention
  | Body_Rhythm Rhythm
  | Body_Rhythms "Rhythm list"
  | Body_Receipt AppliedProposal
  | Body_Proposal ProposalRow
  | Body_Proposals "ProposalRow list"
  | Body_Attention "AttentionRow list"
  | Body_Events "Event list"
  | Body_Today TodayView
  | Body_Routine Routine
  | Body_Routines "Routine list"
  | Body_Review Review
  | Body_Reviews "Review list"
  | Body_Draft WeeklyDraft
  | Body_AiSettings AiSettings
  | Body_AiRun string "string option" string "AiRunItem list" "AiCallRecord list"

record Response =
  re_status :: nat
  re_body :: Body

definition error_response :: "nat \<Rightarrow> string \<Rightarrow> string \<Rightarrow> Response" where
  "error_response status err_code message = \<lparr>re_status = status, re_body = Body_Error err_code message\<rparr>"

definition forbidden :: "string \<Rightarrow> Response" where
  "forbidden why = error_response 403 ''forbidden'' why"

fun error_of_store :: "StoreError \<Rightarrow> Response" where
  "error_of_store (SE_NotFound m) = error_response 404 ''not_found'' m"
| "error_of_store (SE_Transition e) = error_response 409 ''conflict'' (transition_error_text e)"
| "error_of_store (SE_Proposal e) = error_response 422 ''unprocessable'' (proposal_error_text e)"
| "error_of_store (SE_Conflict m) = error_response 409 ''conflict'' m"
| "error_of_store (SE_Invalid m) = error_response 400 ''invalid_request'' m"
| "error_of_store (SE_WeekNotOpen m) = error_response 409 ''conflict'' (''task '' @ m @ [CHR 0x27] @ ''s week is not open'')"
| "error_of_store (SE_SameWeekCarry m) = error_response 409 ''conflict'' (''cannot carry task '' @ m @ '' into its own week'')"
| "error_of_store (SE_Internal m) = error_response 500 ''internal'' ''store error''"
| "error_of_store (SE_Sqlx e) = error_response 500 ''internal'' ''store error''"

definition response_of_error :: "StoreError \<Rightarrow> Response" where
  "response_of_error err =
     (if is_fk_violation err then error_response 404 ''not_found'' ''a referenced entity does not exist''
      else error_of_store err)"

section \<open>The service\<close>

text \<open>A body is decoded or refused with serde's message; a query string is refused by an answer of axum.\<close>

record Decoders =
  de_title :: "string \<Rightarrow> string + string"
  de_area_to :: "string \<Rightarrow> string + AreaStatus"
  de_direction :: "string \<Rightarrow> string + NewDirectionReq"
  de_task :: "string \<Rightarrow> string + NewTaskReq"
  de_task_to :: "string \<Rightarrow> string + TaskStatus"
  de_block :: "string \<Rightarrow> string + NewBlockReq"
  de_block_to :: "string \<Rightarrow> string + ScheduleBlockStatus"
  de_iso_week :: "string \<Rightarrow> string + string"
  de_week_to :: "string \<Rightarrow> string + WeekStatus"
  de_allocations :: "string \<Rightarrow> string + Alloc list"
  de_proposal :: "string \<Rightarrow> string + Sin90Proposal"
  de_reject :: "string \<Rightarrow> string + string option"
  de_capture :: "string \<Rightarrow> string + string"
  de_routine :: "string \<Rightarrow> string + NewRoutine"
  de_routine_patch :: "string \<Rightarrow> string + RoutinePatch"
  de_routine_to :: "string \<Rightarrow> string + RoutineStatus"
  de_review :: "string \<Rightarrow> string + NewReview"
  de_review_patch :: "string \<Rightarrow> string + string"
  de_ai_settings :: "string \<Rightarrow> string + bool"
  de_fired :: "string \<Rightarrow> string + FiredReq"
  de_classify :: "string \<Rightarrow> string + TaskId list option"
  de_propose :: "string \<Rightarrow> string + WeekId"
  de_summarize :: "string \<Rightarrow> string + string"
  de_task_query :: "string \<Rightarrow> Response + TaskListQuery"
  de_attention_query :: "string \<Rightarrow> Response + AttentionQuery"
  de_events_query :: "string \<Rightarrow> Response + EventsQuery"
  de_routine_query :: "string \<Rightarrow> Response + RoutineListQuery"
  de_review_query :: "string \<Rightarrow> Response + ReviewListQuery"
  de_draft_query :: "string \<Rightarrow> Response + string"

text \<open>
  \<open>Sin90State\<close>: the store, the oracle with the model and the events handed out are in the brain.
  The tasks a trigger spawned and that have not ended yet are its jobs.
\<close>

datatype Job =
    Job_Classify string "Task list option"
  | Job_Propose string Week
  | Job_Summarize string Review

record Service =
  sv_brain :: Brain
  sv_keys :: ActorKeys
  sv_decoders :: Decoders
  sv_access :: ModelAccess
  sv_registry :: RunRegistry
  sv_jobs :: "Job list"

type_synonym 'a handler = "(Service, Response option, 'a) prog"

definition answer_early :: "Response \<Rightarrow> 'a handler" where
  "answer_early r = mfail (Some r)"

definition on_brain :: "'a brain \<Rightarrow> 'a handler" where
  "on_brain m s = (case m (sv_brain s) of (r, b) \<Rightarrow> (map_sum (\<lambda>_. None) id r, s\<lparr>sv_brain := b\<rparr>))"

definition emit :: "string \<Rightarrow> (string \<times> Json) list \<Rightarrow> unit handler" where
  "emit kind payload = on_brain (ai_emit kind (JObj payload))"

text \<open>\<open>match state.store.m().await \{ Ok(x) => .., Err(e) => map_err(e) \}\<close>\<close>

definition call_store :: "'a store \<Rightarrow> 'a handler" where
  "call_store m = mbind (on_brain (mthen ai_await (ai_at_once m))) (\<lambda>r.
     case r of Inl e \<Rightarrow> answer_early (response_of_error e) | Inr x \<Rightarrow> mret x)"

definition reply :: "nat \<Rightarrow> Body \<Rightarrow> Response handler" where
  "reply status body = mret \<lparr>re_status = status, re_body = body\<rparr>"

definition require_human :: "Request \<Rightarrow> unit handler" where
  "require_human req = mbind (mget (\<lambda>s. identify (sv_keys s) (rq_actor_key req))) (\<lambda>actor.
     case actor of
       Some Human \<Rightarrow> mret ()
     | Some Automation \<Rightarrow> answer_early (forbidden ''the automation key may only submit/accept Proposals, not write directly'')
     | None \<Rightarrow> answer_early (forbidden ''missing or unrecognized actor key''))"

definition require_any_actor :: "Request \<Rightarrow> unit handler" where
  "require_any_actor req = mbind (mget (\<lambda>s. identify (sv_keys s) (rq_actor_key req))) (\<lambda>actor.
     case actor of
       Some _ \<Rightarrow> mret ()
     | None \<Rightarrow> answer_early (forbidden ''missing or unrecognized actor key''))"

definition parse :: "(Decoders \<Rightarrow> string \<Rightarrow> string + 'a) \<Rightarrow> string \<Rightarrow> Request \<Rightarrow> 'a handler" where
  "parse decoder what req = mbind (mget (\<lambda>s. decoder (sv_decoders s) (rq_body req))) (\<lambda>r.
     case r of
       Inl e \<Rightarrow> answer_early (error_response 400 ''invalid_request'' (''invalid '' @ what @ '': '' @ e))
     | Inr x \<Rightarrow> mret x)"

definition parse_query :: "(Decoders \<Rightarrow> string \<Rightarrow> Response + 'a) \<Rightarrow> Request \<Rightarrow> 'a handler" where
  "parse_query decoder req = mbind (mget (\<lambda>s. decoder (sv_decoders s) (rq_query req))) (\<lambda>r.
     case r of Inl rejection \<Rightarrow> answer_early rejection | Inr x \<Rightarrow> mret x)"

end
