(* ===== verification/Http.thy ===== *)
theory Http
  imports Service
begin

text \<open>
  The handlers of \<open>src/http/mod.rs\<close>, in the order of the file. Each is the whole function: its guard,
  its body, its one call of the store, the event it mirrors and its answer. The names get the
  suffix \<open>_handler\<close> where the store has an operation of the same name.
\<close>

section \<open>Areas and directions\<close>

definition create_area_handler :: "Request \<Rightarrow> Response handler" where
  "create_area_handler req =
     mthen (require_human req)
     (mbind (parse de_title ''area'' req) (\<lambda>title.
      mbind (call_store (create_area title)) (\<lambda>a.
      mthen (emit ''area.created'' [(''id'', JStr (ar_id a)), (''title'', JStr (ar_title a))])
        (reply 201 (Body_Area a)))))"

definition list_areas_handler :: "Response handler" where
  "list_areas_handler = mbind (call_store list_areas) (\<lambda>v. reply 200 (Body_Areas v))"

definition transition_area_handler :: "string \<Rightarrow> Request \<Rightarrow> Response handler" where
  "transition_area_handler i req =
     mthen (require_human req)
     (mbind (parse de_area_to ''area transition'' req) (\<lambda>to.
      mbind (call_store (transition_area i to)) (\<lambda>a.
      mthen (emit ''area.transitioned'' [(''area_id'', JStr (ar_id a)), (''to'', JStr (area_status_wire (ar_status a)))])
        (reply 200 (Body_Area a)))))"

definition create_direction_handler :: "Request \<Rightarrow> Response handler" where
  "create_direction_handler req =
     mthen (require_human req)
     (mbind (parse de_direction ''direction'' req) (\<lambda>new.
      mbind (call_store (create_direction (ndr_title new) (ndr_target_window new) (ndr_area_id new))) (\<lambda>d.
      mthen (emit ''direction.created'' [(''id'', JStr (di_id d)), (''title'', JStr (di_title d)), (''area_id'', jopt JStr (di_area_id d))])
        (reply 201 (Body_Direction d)))))"

definition list_directions_handler :: "Response handler" where
  "list_directions_handler = mbind (call_store list_directions) (\<lambda>v. reply 200 (Body_Directions v))"

section \<open>Tasks and blocks\<close>

definition emit_task_created :: "Task \<Rightarrow> unit handler" where
  "emit_task_created t = emit ''task.created''
     [(''id'', JStr (tk_id t)), (''direction_id'', jopt JStr (tk_direction_id t)), (''parent_task_id'', jopt JStr (tk_parent_task_id t))]"

definition create_task_handler :: "Request \<Rightarrow> Response handler" where
  "create_task_handler req =
     mthen (require_human req)
     (mbind (parse de_task ''task'' req) (\<lambda>new.
      mbind (call_store (create_task (ntr_title new) (ntr_direction_id new) (ntr_parent_task_id new)
          (or_current (ntr_kind new) TaskKind_Other) (or_current (ntr_energy new) Energy_Mid) (ntr_est_minutes new))) (\<lambda>t.
      mthen (emit_task_created t) (reply 201 (Body_Task t)))))"

definition list_tasks_handler :: "Request \<Rightarrow> Response handler" where
  "list_tasks_handler req =
     mbind (parse_query de_task_query req) (\<lambda>q.
     mbind (call_store (list_tasks (tlq_direction_id q) (tlq_area_id q) (tlq_status q))) (\<lambda>v. reply 200 (Body_Tasks v)))"

definition transition_task_handler :: "string \<Rightarrow> Request \<Rightarrow> Response handler" where
  "transition_task_handler i req =
     mthen (require_human req)
     (mbind (parse de_task_to ''task transition'' req) (\<lambda>to.
      mbind (call_store (transition_task i to)) (\<lambda>t.
      mthen (emit ''task.transitioned'' [(''task_id'', JStr (tk_id t)), (''to'', JStr (task_status_wire (tk_status t)))])
        (reply 200 (Body_Task t)))))"

definition create_block_handler :: "Request \<Rightarrow> Response handler" where
  "create_block_handler req =
     mthen (require_human req)
     (mbind (parse de_block ''block'' req) (\<lambda>new.
      mbind (call_store (create_block (nbr_direction_id new) (nbr_task_id new) (nbr_planned_minutes new))) (\<lambda>b.
      mthen (emit ''block.created'' [(''block_id'', JStr (bl_id b)), (''direction_id'', jopt JStr (bl_direction_id b))])
        (reply 201 (Body_Block b)))))"

definition transition_block_handler :: "string \<Rightarrow> Request \<Rightarrow> Response handler" where
  "transition_block_handler i req =
     mthen (require_human req)
     (mbind (parse de_block_to ''transition'' req) (\<lambda>to.
      mbind (call_store (transition_block i to)) (\<lambda>b.
      mthen (emit ''block.transitioned'' [(''block_id'', JStr (bl_id b)), (''to'', JStr (schedule_block_status_wire (bl_status b)))])
        (reply 200 (Body_Block b)))))"

definition list_blocks_handler :: "Response handler" where
  "list_blocks_handler = mbind (call_store list_blocks) (\<lambda>v. reply 200 (Body_Blocks v))"

section \<open>Weeks and rhythms\<close>

definition create_week_handler :: "Request \<Rightarrow> Response handler" where
  "create_week_handler req =
     mthen (require_human req)
     (mbind (parse de_iso_week ''week'' req) (\<lambda>iso_week.
      mbind (call_store (create_week iso_week)) (\<lambda>w.
      mthen (emit ''week.created'' [(''id'', JStr (wk_id w)), (''iso_week'', JStr (wk_iso_week w))])
        (reply 201 (Body_Week w)))))"

definition list_weeks_handler :: "Response handler" where
  "list_weeks_handler = mbind (call_store list_weeks) (\<lambda>v. reply 200 (Body_Weeks v))"

definition transition_week_handler :: "string \<Rightarrow> Request \<Rightarrow> Response handler" where
  "transition_week_handler i req =
     mthen (require_human req)
     (mbind (parse de_week_to ''week transition'' req) (\<lambda>to.
      mbind (call_store (transition_week i to)) (\<lambda>w.
      mthen (emit ''week.transitioned'' [(''week_id'', JStr (wk_id w)), (''to'', JStr (week_status_wire (wk_status w)))])
        (reply 200 (Body_Week w)))))"

definition week_attention_handler :: "string \<Rightarrow> Response handler" where
  "week_attention_handler i = mbind (call_store (week_attention i)) (\<lambda>a. reply 200 (Body_WeekAttention a))"

definition create_rhythm_handler :: "Request \<Rightarrow> Response handler" where
  "create_rhythm_handler req =
     mthen (require_human req)
     (mbind (parse de_allocations ''rhythm'' req) (\<lambda>allocations.
      mbind (call_store (create_rhythm allocations)) (\<lambda>rh.
      mthen (emit ''rhythm.created'' [(''id'', JStr (rh_id rh)), (''allocations'', alloc_json (rh_allocations rh))])
        (reply 201 (Body_Rhythm rh)))))"

definition list_rhythms_handler :: "Response handler" where
  "list_rhythms_handler = mbind (call_store list_rhythms) (\<lambda>v. reply 200 (Body_Rhythms v))"

definition get_rhythm_handler :: "string \<Rightarrow> Response handler" where
  "get_rhythm_handler i = mbind (call_store (get_rhythm i)) (\<lambda>r. reply 200 (Body_Rhythm r))"

section \<open>Proposals\<close>

definition submit_proposal_handler :: "Request \<Rightarrow> Response handler" where
  "submit_proposal_handler req =
     mthen (require_any_actor req)
     (mbind (parse de_proposal ''proposal'' req) (\<lambda>proposal.
      mthen (call_store (submit_proposal proposal))
      (mthen (emit ''proposal.submitted'' [(''id'', JStr (pr_id proposal))])
        (reply 202 (Body_Json (JObj [(''id'', JStr (pr_id proposal)), (''status'', JStr ''pending'')]))))))"

definition accept_proposal :: "string \<Rightarrow> Request \<Rightarrow> Response handler" where
  "accept_proposal i req =
     mthen (require_human req)
     (mbind (call_store (apply_proposal i)) (\<lambda>outcome.
      mthen (if ao_applied_now outcome
             then emit ''proposal.applied'' [(''proposal_id'', JStr (ap_proposal_id (ao_receipt outcome)))]
             else mret ())
        (reply 200 (Body_Receipt (ao_receipt outcome)))))"

definition MAX_REJECT_REASON_CHARS :: nat where
  "MAX_REJECT_REASON_CHARS = 1000"

definition normalize_reject_reason :: "string option \<Rightarrow> Response + string option" where
  "normalize_reject_reason raw =
     (case raw of None \<Rightarrow> Inr None
      | Some r \<Rightarrow>
          let trimmed = trim r in
          if trimmed = [] then Inr None
          else if MAX_REJECT_REASON_CHARS < char_count trimmed
          then Inl (error_response 400 ''invalid_request''
            (''reason must be at most '' @ dec MAX_REJECT_REASON_CHARS @ '' characters''))
          else Inr (Some trimmed))"

definition reject_reason :: "Request \<Rightarrow> string option handler" where
  "reject_reason req =
     mbind (if rq_body req = [] then mret None else parse de_reject ''proposal reject'' req) (\<lambda>raw.
     case normalize_reject_reason raw of Inl r \<Rightarrow> answer_early r | Inr reason \<Rightarrow> mret reason)"

definition reject_proposal_handler :: "string \<Rightarrow> Request \<Rightarrow> Response handler" where
  "reject_proposal_handler i req =
     mthen (require_human req)
     (mbind (reject_reason req) (\<lambda>reason.
      mbind (call_store (reject_proposal i reason)) (\<lambda>outcome.
      mthen (emit ''proposal.rejected''
          [(''proposal_id'', JStr i), (''capability_source'', JStr (rjo_capability_source outcome)),
           (''ops_summary'', JStr (rjo_ops_summary outcome)), (''reason'', jopt JStr reason)])
        (reply 200 (Body_Json (JObj [(''id'', JStr i), (''status'', JStr ''rejected'')]))))))"

definition list_proposals_handler :: "Response handler" where
  "list_proposals_handler = mbind (call_store list_proposals) (\<lambda>v. reply 200 (Body_Proposals v))"

definition get_proposal_handler :: "string \<Rightarrow> Response handler" where
  "get_proposal_handler i = mbind (call_store (get_proposal i)) (\<lambda>p. reply 200 (Body_Proposal p))"

section \<open>Attention, events, the seed pack\<close>

definition attention_handler :: "Request \<Rightarrow> Response handler" where
  "attention_handler req =
     mbind (parse_query de_attention_query req) (\<lambda>q.
     if \<not> is_fixed_iso8601 (aq_start q) \<or> \<not> is_fixed_iso8601 (aq_end q)
     then answer_early (error_response 400 ''invalid_request'' ''start and end must be fixed-width ISO-8601 (YYYY-MM-DDThh:mm:ssZ)'')
     else if aq_end q \<le> aq_start q
     then answer_early (error_response 400 ''invalid_request'' ''start must be strictly before end'')
     else mbind (call_store (attention (aq_start q) (aq_end q))) (\<lambda>rows. reply 200 (Body_Attention rows)))"

definition list_events_handler :: "Request \<Rightarrow> Response handler" where
  "list_events_handler req =
     mbind (parse_query de_events_query req) (\<lambda>q.
     mbind (call_store (list_events (eq_entity q) (eq_entity_id q) (eq_since_seq q) (eq_limit q))) (\<lambda>rows.
       reply 200 (Body_Events rows)))"

text \<open>\<open>five_life_systems\<close> of \<open>src/store/packs.rs\<close>; titles outside of ASCII are their code points.\<close>

definition five_life_systems :: "SeedArea list" where
  "five_life_systems =
     [\<lparr>sd_title = utf8 [0x8D22, 0x5BCC] @ '' Wealth'',
       sd_directions = [''4 '' @ utf8 [0x8D26, 0x6237, 0x7ED3, 0x6784, 0xFF1A, 0x751F, 0x6D3B] @ ''/'' @ utf8 [0x6295, 0x8D44] @ ''/'' @ utf8 [0x5E94, 0x6025] @ ''/'' @ utf8 [0x4E3B, 0x8D26, 0x6237, 0x81EA, 0x52A8, 0x8F6C, 0x8D26]]\<rparr>,
      \<lparr>sd_title = utf8 [0x5B66, 0x4E60] @ '' Learning'',
       sd_directions = [''IN'' @ utf8 [0x2192] @ ''OUT '' @ utf8 [0x95ED, 0x73AF, 0xFF1A, 0x6BCF, 0x65E5, 0x9605, 0x8BFB] @ '' + '' @ utf8 [0x6BCF, 0x5468, 0x8F93, 0x51FA]]\<rparr>,
      \<lparr>sd_title = utf8 [0x5DE5, 0x4F5C] @ '' Work'',
       sd_directions = [''3+90+'' @ utf8 [0x590D, 0x76D8, 0xFF1A, 0x6BCF, 0x65E5] @ '' 3 '' @ utf8 [0x4EF6, 0x4E8B] @ '' + 90 '' @ utf8 [0x5206, 0x949F, 0x6DF1, 0x5EA6, 0x5DE5, 0x4F5C] @ '' + '' @ utf8 [0x5468, 0x4E94, 0x590D, 0x76D8]]\<rparr>,
      \<lparr>sd_title = utf8 [0x5065, 0x5EB7] @ '' Health'',
       sd_directions = [utf8 [0x7761, 0x7720, 0x00B7, 0x8FD0, 0x52A8, 0x00B7, 0x996E, 0x98DF, 0x4E09, 0x652F, 0x67F1]]\<rparr>,
      \<lparr>sd_title = utf8 [0x5173, 0x7CFB] @ '' Relation'',
       sd_directions = [utf8 [0x6838, 0x5FC3] @ ''/'' @ utf8 [0x6DF1, 0x5C42] @ ''/'' @ utf8 [0x5916, 0x5708, 0x4E09, 0x5C42, 0x5173, 0x7CFB, 0x7EF4, 0x62A4, 0x8282, 0x594F]]\<rparr>]"

definition install_pack :: "Request \<Rightarrow> Response handler" where
  "install_pack req =
     mthen (require_human req)
     (mbind (call_store (install_seed_pack five_life_systems)) (\<lambda>areas.
      mthen (mfor (\<lambda>a. emit ''area.created'' [(''id'', JStr (ar_id a)), (''title'', JStr (ar_title a))]) areas)
        (reply 201 (Body_Areas areas))))"

section \<open>Capture and today\<close>

definition capture :: "Request \<Rightarrow> Response handler" where
  "capture req =
     mthen (require_any_actor req)
     (mbind (parse de_capture ''capture'' req) (\<lambda>note.
      mbind (call_store (create_task note None None TaskKind_Other Energy_Mid None)) (\<lambda>t.
      mthen (emit_task_created t) (reply 201 (Body_Task t)))))"

definition today :: "Response handler" where
  "today = mbind (call_store today_view) (\<lambda>view. reply 200 (Body_Today view))"

section \<open>Routines\<close>

definition create_routine_handler :: "Request \<Rightarrow> Response handler" where
  "create_routine_handler req =
     mthen (require_human req)
     (mbind (parse de_routine ''routine'' req) (\<lambda>new.
      mbind (call_store (create_routine new)) (\<lambda>routine.
      mthen (emit ''routine.created''
          [(''id'', JStr (ro_id routine)), (''area_id'', jopt JStr (ro_area_id routine)),
           (''direction_id'', jopt JStr (ro_direction_id routine)), (''status'', JStr (routine_status_wire (ro_status routine)))])
        (reply 201 (Body_Routine routine)))))"

definition list_routines_handler :: "Request \<Rightarrow> Response handler" where
  "list_routines_handler req =
     mbind (parse_query de_routine_query req) (\<lambda>q.
     mbind (call_store (list_routines (rlq_area_id q) (rlq_direction_id q) (rlq_status q))) (\<lambda>v. reply 200 (Body_Routines v)))"

definition get_routine_handler :: "string \<Rightarrow> Response handler" where
  "get_routine_handler i = mbind (call_store (get_routine i)) (\<lambda>r. reply 200 (Body_Routine r))"

text \<open>The payload is the one the store's own event has.\<close>

definition update_routine_handler :: "string \<Rightarrow> Request \<Rightarrow> Response handler" where
  "update_routine_handler i req =
     mthen (require_human req)
     (mbind (parse de_routine_patch ''routine patch'' req) (\<lambda>patch.
      mbind (call_store (update_routine i patch)) (\<lambda>outcome.
      mthen (if ru_changed outcome \<noteq> []
             then on_brain (ai_emit ''routine.updated'' (routine_snapshot (ru_routine outcome) (ru_changed outcome)))
             else mret ())
        (reply 200 (Body_Routine (ru_routine outcome))))))"

fun routine_event :: "RoutineStatus \<Rightarrow> string" where
  "routine_event Routine_Paused = ''routine.paused''"
| "routine_event Routine_Active = ''routine.resumed''"
| "routine_event Routine_Retired = ''routine.retired''"

definition transition_routine_handler :: "string \<Rightarrow> Request \<Rightarrow> Response handler" where
  "transition_routine_handler i req =
     mthen (require_human req)
     (mbind (parse de_routine_to ''routine transition'' req) (\<lambda>to.
      mbind (call_store (transition_routine i to)) (\<lambda>routine.
      mthen (emit (routine_event (ro_status routine)) [(''routine_id'', JStr (ro_id routine))])
        (reply 200 (Body_Routine routine)))))"

section \<open>Reviews\<close>

definition create_review_handler :: "Request \<Rightarrow> Response handler" where
  "create_review_handler req =
     mthen (require_human req)
     (mbind (parse de_review ''review'' req) (\<lambda>new.
      mbind (call_store (create_review new)) (\<lambda>review.
      mthen (emit ''review.created''
          [(''id'', JStr (rv_id review)), (''kind'', JStr (review_kind_wire (rv_kind review))), (''period'', JStr (rv_period review)),
           (''status'', JStr (review_status_wire (rv_status review))), (''source'', JStr ''human'')])
        (reply 201 (Body_Review review)))))"

definition list_reviews_handler :: "Request \<Rightarrow> Response handler" where
  "list_reviews_handler req =
     mbind (parse_query de_review_query req) (\<lambda>q.
     mbind (call_store (list_reviews (vlq_kind q) (vlq_period q))) (\<lambda>v. reply 200 (Body_Reviews v)))"

definition get_review_handler :: "string \<Rightarrow> Response handler" where
  "get_review_handler i = mbind (call_store (get_review i)) (\<lambda>r. reply 200 (Body_Review r))"

definition update_review :: "string \<Rightarrow> Request \<Rightarrow> Response handler" where
  "update_review i req =
     mthen (require_human req)
     (mbind (parse de_review_patch ''review patch'' req) (\<lambda>body.
      mbind (call_store (update_review_body i body)) (\<lambda>outcome.
      mthen (if rvu_changed outcome
             then emit ''review.updated'' [(''review_id'', JStr (rv_id (rvu_review outcome))), (''body'', JStr (rv_body (rvu_review outcome)))]
             else mret ())
        (reply 200 (Body_Review (rvu_review outcome))))))"

definition finalize_review_handler :: "string \<Rightarrow> Request \<Rightarrow> Response handler" where
  "finalize_review_handler i req =
     mthen (require_human req)
     (mbind (call_store (finalize_review i)) (\<lambda>review.
      mthen (emit ''review.finalized'' [(''review_id'', JStr (rv_id review))])
        (reply 200 (Body_Review review))))"

definition weekly_review_draft :: "Request \<Rightarrow> Response handler" where
  "weekly_review_draft req =
     mbind (parse_query de_draft_query req) (\<lambda>week.
     mbind (call_store (weekly_draft week)) (\<lambda>draft. reply 200 (Body_Draft draft)))"

section \<open>AI settings\<close>

definition get_ai_settings :: "Response handler" where
  "get_ai_settings = mbind (call_store read_ai_settings) (\<lambda>s. reply 200 (Body_AiSettings s))"

definition put_ai_settings :: "Request \<Rightarrow> Response handler" where
  "put_ai_settings req =
     mthen (require_human req)
     (mbind (parse de_ai_settings ''ai settings patch'' req) (\<lambda>enabled.
      mbind (call_store (put_ai_executive_enabled enabled)) (\<lambda>s.
      mthen (emit ''setting.changed'' [(''key'', JStr ''ai.executive_enabled''), (''value'', JBool (as_executive_enabled s))])
        (reply 200 (Body_AiSettings s)))))"

section \<open>The receipt of a fire\<close>

definition require_fire_id :: "Request \<Rightarrow> string handler" where
  "require_fire_id req = (case rq_fire_id req of
     Some i \<Rightarrow> if i \<noteq> [] then mret i
       else answer_early (error_response 400 ''invalid_request'' ''missing required header X-A24-Fire-Id'')
   | None \<Rightarrow> answer_early (error_response 400 ''invalid_request'' ''missing required header X-A24-Fire-Id''))"

definition emit_auto_review :: "AutoReviewCreated option \<Rightarrow> unit handler" where
  "emit_auto_review created = (case created of
     None \<Rightarrow> mret ()
   | Some r \<Rightarrow> emit ''review.created''
       [(''id'', JStr (arc_review_id r)), (''kind'', JStr ''weekly''), (''period'', JStr (arc_period r)),
        (''status'', JStr ''draft''), (''source'', JStr ''routine'')])"

definition answer_fire :: "string \<Rightarrow> FiredReq \<Rightarrow> RoutineFireOutcome \<Rightarrow> Response handler" where
  "answer_fire fire_id fired outcome =
     (case outcome of
        Fire_Recorded routine_id created \<Rightarrow>
          mthen (emit ''routine.fired''
            [(''routine_id'', JStr routine_id), (''fire_id'', JStr fire_id), (''scheduled_for'', JStr (fr_scheduled_for fired)),
             (''trigger'', JStr (fire_trigger_wire (fr_trigger fired)))])
          (mthen (emit_auto_review created)
            (reply 200 (Body_Json (JObj [(''status'', JStr ''recorded''), (''routine_id'', JStr routine_id),
              (''review_created'', jopt JStr (map_option arc_review_id created))]))))
      | Fire_Duplicate routine_id \<Rightarrow>
          reply 200 (Body_Json (JObj [(''status'', JStr ''duplicate''), (''routine_id'', JStr routine_id)]))
      | Fire_UnknownKey \<Rightarrow> reply 200 (Body_Json (JObj [(''status'', JStr ''unknown_key'')]))
      | Fire_RoutineRetired routine_id \<Rightarrow>
          reply 200 (Body_Json (JObj [(''status'', JStr ''routine_retired''), (''routine_id'', JStr routine_id)])))"

definition scheduler_fired :: "Request \<Rightarrow> Response handler" where
  "scheduler_fired req =
     mbind (require_fire_id req) (\<lambda>fire_id.
     mbind (parse de_fired ''fired'' req) (\<lambda>fired.
     if \<not> is_fixed_iso8601 (fr_scheduled_for fired) \<or> \<not> is_fixed_iso8601 (fr_fired_at fired)
     then answer_early (error_response 400 ''invalid_request''
       ''scheduled_for and fired_at must be fixed-width ISO-8601 (YYYY-MM-DDThh:mm:ssZ)'')
     else mbind (call_store (record_routine_fire fire_id (fr_key fired) (fr_scheduled_for fired) (fr_trigger fired)))
       (answer_fire fire_id fired)))"

end
