(* ===== verification/Ai_Trigger.thy ===== *)
theory Ai_Trigger
  imports Service Classify Propose Summarize
begin

text \<open>
  The triggers of AI runs, \<open>src/http/ai_classify.rs\<close>, \<open>ai_propose.rs\<close>, \<open>ai_summarize.rs\<close> and the rest
  of \<open>ai_runs.rs\<close>: a trigger checks its input, takes the slot of its capability and leaves a job; the
  job finds what is already covered by a pending or a rejected proposal, runs the capability under the
  hard deadline and gives the slot back.

  A trigger touches the registry once, after its last await, and a job once, at its end, so tasks that
  interleave with them meet the registry as if they had run one after the other.
\<close>

section \<open>Drafts that are already there\<close>

definition draft_of :: "ProposalRow \<Rightarrow> ProposalDraft" where
  "draft_of p = \<lparr>pd_id = pp_id p, pd_ops = pp_ops p, pd_rationale = pp_rationale p\<rparr>"

text \<open>A precheck that cannot even take the lock calls every draft invalid.\<close>

definition ai_precheck :: "Capability \<Rightarrow> ProposalDraft list \<Rightarrow> bool list brain" where
  "ai_precheck cap drafts = mbind (ai_read (sink_precheck cap drafts)) (\<lambda>r.
     mret (case r of Inl _ \<Rightarrow> replicate (length drafts) False | Inr valid \<Rightarrow> valid))"

definition precheck_some :: "Capability \<Rightarrow> ProposalDraft list \<Rightarrow> bool list brain" where
  "precheck_some cap drafts = (if drafts = [] then mret [] else ai_precheck cap drafts)"

definition newest_direction :: "string option store" where
  "newest_direction = query max_eligible_direction_created_at"

section \<open>Classify\<close>

text \<open>The pending proposals that file one of the targets.\<close>

definition assigned_task :: "Sin90Op list \<Rightarrow> TaskId option" where
  "assigned_task ops = (case ops of [AssignTaskDirection i d] \<Rightarrow> Some i | _ \<Rightarrow> None)"

definition pending_assignments :: "string set \<Rightarrow> ProposalRow list \<Rightarrow> (TaskId \<times> ProposalDraft) list" where
  "pending_assignments ids pending = List.map_filter (\<lambda>p.
     if pp_status p \<noteq> Proposal_Pending then None
     else case assigned_task (pp_ops p) of None \<Rightarrow> None
       | Some i \<Rightarrow> if i \<in> ids then Some (i, draft_of p) else None) pending"

text \<open>The last rejection of each target, by the time its proposal was made.\<close>

definition rejected_assignments :: "string set \<Rightarrow> RejectedOpsRow list \<Rightarrow> (TaskId \<times> string) list" where
  "rejected_assignments ids rejected =
     [(i, ror_proposed_at r). r \<leftarrow> rejected,
        i \<leftarrow> List.map_filter (\<lambda>op. case op of AssignTaskDirection i d \<Rightarrow> Some i | _ \<Rightarrow> None) (ror_ops r), i \<in> ids]"

fun suppress_rejected ::
  "(TaskId \<rightharpoonup> string) \<Rightarrow> string option \<Rightarrow> Task list \<Rightarrow> (TaskId \<rightharpoonup> string) \<Rightarrow> (TaskId \<rightharpoonup> string) brain" where
  "suppress_rejected latest newest [] skip = mret skip"
| "suppress_rejected latest newest (t # ts) skip =
     (case latest (tk_id t) of
        None \<Rightarrow> suppress_rejected latest newest ts skip
      | Some proposed_at \<Rightarrow>
          mbind (ai_read (task_modified_since (tk_id t) proposed_at)) (\<lambda>r.
          suppress_rejected latest newest ts
            (case r of
               Inl _ \<Rightarrow> skip
             | Inr modified \<Rightarrow>
                 if \<not> modified \<and> \<not> (case newest of None \<Rightarrow> False | Some c \<Rightarrow> proposed_at < c)
                 then skip(tk_id t \<mapsto> ''suppressed_rejected'') else skip)))"

definition rejected_skips :: "Task list \<Rightarrow> RejectedOpsRow list \<Rightarrow> (TaskId \<rightharpoonup> string) \<Rightarrow> (TaskId \<rightharpoonup> string) brain" where
  "rejected_skips targets rejected skip =
     (let rejectable = filter (\<lambda>t. skip (tk_id t) = None) targets;
          latest = rejected_assignments (tk_id ` set targets) rejected in
      if rejectable = [] \<or> latest = [] then mret skip
      else mbind (read_or None newest_direction) (\<lambda>newest.
        suppress_rejected (map_of (rev latest)) newest rejectable skip))"

definition split_targets :: "Task list \<Rightarrow> (TaskId \<rightharpoonup> string) \<Rightarrow> Task list \<times> (TaskId \<times> string) list" where
  "split_targets targets skip =
     (filter (\<lambda>t. skip (tk_id t) = None) targets,
      List.map_filter (\<lambda>t. map_option (\<lambda>reason. (tk_id t, reason)) (skip (tk_id t))) targets)"

definition dedup_targets_with_rejected ::
  "Task list \<Rightarrow> RejectedOpsRow list \<Rightarrow> (ReadError + Task list \<times> (TaskId \<times> string) list) brain" where
  "dedup_targets_with_rejected targets rejected =
     mbind (ai_read list_pending_proposals) (\<lambda>r.
     case r of
       Inl e \<Rightarrow> mret (Inl e)
     | Inr pending \<Rightarrow>
         let drafts = pending_assignments (tk_id ` set targets) pending in
         mbind (precheck_some Cap_Classify (map snd drafts)) (\<lambda>valid.
         mbind (rejected_skips targets rejected
           (fold (\<lambda>((i, d), ok) skip. if ok then skip(i \<mapsto> ''dedup'') else skip) (zip drafts valid) Map.empty)) (\<lambda>skip.
         mret (Inr (split_targets targets skip)))))"

definition dedup_targets :: "Task list \<Rightarrow> (ReadError + Task list \<times> (TaskId \<times> string) list) brain" where
  "dedup_targets targets =
     mbind (read_or [] (list_rejected_ops (capability_wire Cap_Classify))) (\<lambda>rejected.
     dedup_targets_with_rejected targets rejected)"

text \<open>
  Doubling the page until there are enough targets or no more tasks. A page of 0, which would never
  grow, is not one the caller starts with; the recursion stops there.
\<close>

definition AUTO_SELECT_MAX_PAGE :: nat where
  "AUTO_SELECT_MAX_PAGE = 2000"

function auto_select_page :: "RejectedOpsRow list \<Rightarrow> nat \<Rightarrow> Task list brain" where
  "auto_select_page rejected page =
     mbind (ai_read (ai_inbox page)) (\<lambda>r.
     case r of
       Inl _ \<Rightarrow> mret []
     | Inr candidates \<Rightarrow>
         mbind (dedup_targets_with_rejected candidates rejected) (\<lambda>d.
         let kept = (case d of Inl _ \<Rightarrow> candidates | Inr (kept, skipped) \<Rightarrow> kept) in
         if page = 0 \<or> MAX_CLASSIFY_TASK_IDS \<le> length kept \<or> length candidates < page \<or> AUTO_SELECT_MAX_PAGE \<le> page
         then mret (take MAX_CLASSIFY_TASK_IDS kept)
         else auto_select_page rejected (min (page * 2) AUTO_SELECT_MAX_PAGE)))"
  by pat_completeness auto

termination
  by (relation "measure (\<lambda>(rejected, page). AUTO_SELECT_MAX_PAGE - page)") (auto simp: AUTO_SELECT_MAX_PAGE_def)

declare auto_select_page.simps [simp del]

definition auto_select_targets :: "Task list brain" where
  "auto_select_targets =
     mbind (read_or [] (list_rejected_ops (capability_wire Cap_Classify))) (\<lambda>rejected.
     auto_select_page rejected MAX_CLASSIFY_TASK_IDS)"

text \<open>What a run reports for each of its targets.\<close>

definition ai_run_item :: "string \<Rightarrow> string \<Rightarrow> string option \<Rightarrow> AiRunItem" where
  "ai_run_item target result reason = \<lparr>it_target = target, it_result = result, it_reason = reason\<rparr>"

fun item_result_str :: "ItemResult \<Rightarrow> string" where
  "item_result_str (Item_Proposed i) = ''proposed''"
| "item_result_str Item_Nothing = ''nothing''"
| "item_result_str Item_Deferred = ''deferred''"
| "item_result_str Item_Rejected = ''rejected''"
| "item_result_str Item_Aborted = ''aborted''"

definition build_classify_run_items :: "(TaskId \<times> string) list \<Rightarrow> ClassifyItem list \<Rightarrow> AiRunItem list" where
  "build_classify_run_items skipped outcomes =
     map (\<lambda>(i, reason). ai_run_item i ''skipped'' (Some reason)) skipped @
     map (\<lambda>o'. ai_run_item (ci_task_id o') (item_result_str (ci_result o')) (ci_reason o')) outcomes"

text \<open>\<open>with_hard_deadline\<close>: the run is dropped at the await where the time is up.\<close>

definition with_hard_deadline :: "'a brain \<Rightarrow> 'a option brain" where
  "with_hard_deadline m b = (case m b of (Inl _, b') \<Rightarrow> (Inr None, b') | (Inr x, b') \<Rightarrow> (Inr (Some x), b'))"

definition final_state :: "bool \<Rightarrow> string" where
  "final_state aborted = (if aborted then ''aborted'' else ''done'')"

definition classify_job :: "string \<Rightarrow> Task list option \<Rightarrow> ModelAccess \<Rightarrow> (string \<times> AiRunItem list) brain" where
  "classify_job run_id explicit_targets access =
     mbind (case explicit_targets of Some t \<Rightarrow> mret t | None \<Rightarrow> auto_select_targets) (\<lambda>selected.
     mbind (dedup_targets selected) (\<lambda>r.
     let (targets, skipped) = (case r of Inl _ \<Rightarrow> (selected, []) | Inr x \<Rightarrow> x) in
     mbind (with_hard_deadline (run_classify run_id targets access)) (\<lambda>outcomes.
     mret (case outcomes of
         Some os \<Rightarrow> (final_state (list_ex (\<lambda>o'. ci_result o' = Item_Aborted) os), build_classify_run_items skipped os)
       | None \<Rightarrow> (''aborted'', build_classify_run_items skipped [])))))"

section \<open>Propose\<close>

text \<open>
  The three shapes of a proposal about the week: a batch of carries into it, one new order of it,
  one list of new tasks for it, which counts by its directions.
\<close>

datatype Shape = Shape_Carry "TaskId list" | Shape_Reorder "TaskId list" | Shape_Create "DirectionId list"

definition carries_into :: "WeekId \<Rightarrow> Sin90Op \<Rightarrow> bool" where
  "carries_into k op = (case op of CarryOverTask i k' \<Rightarrow> k' = k | _ \<Rightarrow> False)"

definition shape_of :: "WeekId \<Rightarrow> Sin90Op list \<Rightarrow> Shape option" where
  "shape_of k ops =
     (if ops = [] then None
      else if list_all (carries_into k) ops
      then Some (Shape_Carry (List.map_filter (\<lambda>op. case op of CarryOverTask i _ \<Rightarrow> Some i | _ \<Rightarrow> None) ops))
      else case ops of
          [ReorderTasks k' order] \<Rightarrow> if k' = k then Some (Shape_Reorder order) else None
        | [CreateTasks k' tasks] \<Rightarrow> if k' = k then Some (Shape_Create (List.map_filter nt_direction_id tasks)) else None
        | _ \<Rightarrow> None)"

definition carry_drafts :: "WeekId \<Rightarrow> ProposalRow list \<Rightarrow> (ProposalDraft \<times> TaskId list) list" where
  "carry_drafts k ps = List.map_filter (\<lambda>p. case shape_of k (pp_ops p) of Some (Shape_Carry is) \<Rightarrow> Some (draft_of p, is) | _ \<Rightarrow> None) ps"

definition reorder_drafts :: "WeekId \<Rightarrow> ProposalRow list \<Rightarrow> (ProposalDraft \<times> TaskId list) list" where
  "reorder_drafts k ps = List.map_filter (\<lambda>p. case shape_of k (pp_ops p) of Some (Shape_Reorder is) \<Rightarrow> Some (draft_of p, is) | _ \<Rightarrow> None) ps"

definition create_drafts :: "WeekId \<Rightarrow> ProposalRow list \<Rightarrow> (ProposalDraft \<times> DirectionId list) list" where
  "create_drafts k ps = List.map_filter (\<lambda>p. case shape_of k (pp_ops p) of Some (Shape_Create ds) \<Rightarrow> Some (draft_of p, ds) | _ \<Rightarrow> None) ps"

text \<open>The ids named by the drafts that are still valid.\<close>

definition valid_ids :: "bool list \<Rightarrow> (ProposalDraft \<times> string list) list \<Rightarrow> string set" where
  "valid_ids valid drafts = set (concat (map (\<lambda>(ok, d, is). if ok then is else []) (zip valid drafts)))"

definition current_gaps :: "Alloc list \<Rightarrow> Task list \<Rightarrow> DirectionId set brain" where
  "current_gaps alloc week_tasks_all = mbind (gap_directions alloc week_tasks_all) (\<lambda>gaps.
     mret (case gaps of Inl _ \<Rightarrow> {} | Inr gs \<Rightarrow> set (map kd_direction_id gs)))"

definition all_excluded :: "DirectionId set \<Rightarrow> DirectionId set \<Rightarrow> bool" where
  "all_excluded gaps excluded = (gaps \<noteq> {} \<and> gaps \<subseteq> excluded)"

definition pending_dedup :: "Week \<Rightarrow> Task list \<Rightarrow> Task list \<Rightarrow> ProposalRow list \<Rightarrow> ProposeDedup brain" where
  "pending_dedup week week_tasks_all open_tasks pending =
     (let carries = carry_drafts (wk_id week) pending; reorders = reorder_drafts (wk_id week) pending;
          creates = create_drafts (wk_id week) pending in
      mbind (precheck_some Cap_Propose (map fst carries @ map fst reorders @ map fst creates)) (\<lambda>valid.
      let carry_valid = take (length carries) valid;
          reorder_valid = take (length reorders) (drop (length carries) valid);
          create_valid = drop (length carries + length reorders) valid;
          d = ProposeDedup_default\<lparr>dd_excluded_carry_task_ids := valid_ids carry_valid carries,
            dd_skip_reorder := list_ex (\<lambda>(ok, _, order). ok \<and> set order = set (map tk_id open_tasks)) (zip reorder_valid reorders)\<rparr> in
      if creates = [] then mret d
      else
        mbind (read_or [] rhythm_alloc) (\<lambda>alloc.
        mbind (current_gaps alloc week_tasks_all) (\<lambda>gaps.
        let excluded = gaps \<inter> valid_ids create_valid creates in
        mret (d\<lparr>dd_excluded_create_direction_ids := excluded, dd_skip_create := all_excluded gaps excluded\<rparr>)))))"

text \<open>
  The rejected proposals are folded into the same sets; what the fold has read so far, the current
  gaps and the current allocation, it keeps.
\<close>

type_synonym RejectedFold = "ProposeDedup \<times> DirectionId set option \<times> Alloc list option"

definition reject_reorder :: "Task list \<Rightarrow> TaskId list \<Rightarrow> RejectedFold \<Rightarrow> RejectedFold brain" where
  "reject_reorder open_tasks order = (\<lambda>(d, gaps, cached).
     mbind (case cached of Some a \<Rightarrow> mret a | None \<Rightarrow> read_or [] rhythm_alloc) (\<lambda>alloc.
     mret (if reorder_reflex open_tasks alloc = order then d\<lparr>dd_skip_reorder := True\<rparr> else d, gaps, Some alloc)))"

definition reject_create :: "Task list \<Rightarrow> DirectionId list \<Rightarrow> RejectedFold \<Rightarrow> RejectedFold brain" where
  "reject_create week_tasks_all direction_ids = (\<lambda>(d, cached, alloc).
     mbind (case cached of Some g \<Rightarrow> mret g
            | None \<Rightarrow> mbind (read_or [] rhythm_alloc) (\<lambda>a. current_gaps a week_tasks_all)) (\<lambda>gaps.
     mret (d\<lparr>dd_excluded_create_direction_ids := dd_excluded_create_direction_ids d \<union> (set direction_ids \<inter> gaps)\<rparr>, Some gaps, alloc)))"

definition reject_one :: "Week \<Rightarrow> Task list \<Rightarrow> Task list \<Rightarrow> string option \<Rightarrow> RejectedOpsRow \<Rightarrow> RejectedFold \<Rightarrow> RejectedFold brain" where
  "reject_one week week_tasks_all open_tasks newest r st =
     (if (case newest of None \<Rightarrow> False | Some c \<Rightarrow> ror_proposed_at r < c) then mret st
      else case shape_of (wk_id week) (ror_ops r) of
          None \<Rightarrow> mret st
        | Some (Shape_Carry is) \<Rightarrow> (case st of (d, rest) \<Rightarrow>
            mret (d\<lparr>dd_excluded_carry_task_ids := dd_excluded_carry_task_ids d \<union> set is\<rparr>, rest))
        | Some (Shape_Reorder order) \<Rightarrow> reject_reorder open_tasks order st
        | Some (Shape_Create ds) \<Rightarrow> reject_create week_tasks_all ds st)"

fun reject_all :: "Week \<Rightarrow> Task list \<Rightarrow> Task list \<Rightarrow> string option \<Rightarrow> RejectedOpsRow list \<Rightarrow> RejectedFold \<Rightarrow> RejectedFold brain" where
  "reject_all week week_tasks_all open_tasks newest [] st = mret st"
| "reject_all week week_tasks_all open_tasks newest (r # rs) st =
     mbind (reject_one week week_tasks_all open_tasks newest r st) (reject_all week week_tasks_all open_tasks newest rs)"

definition rejected_dedup :: "Week \<Rightarrow> Task list \<Rightarrow> Task list \<Rightarrow> RejectedOpsRow list \<Rightarrow> ProposeDedup \<Rightarrow> (ReadError + ProposeDedup) brain" where
  "rejected_dedup week week_tasks_all open_tasks rejected d0 =
     (if rejected = [] then mret (Inr d0)
      else mbind (ai_read newest_direction) (\<lambda>r.
        case r of
          Inl e \<Rightarrow> mret (Inl e)
        | Inr newest \<Rightarrow>
            mbind (reject_all week week_tasks_all open_tasks newest rejected (d0, None, None)) (\<lambda>(d, gaps, _).
            mret (Inr (case gaps of None \<Rightarrow> d
              | Some g \<Rightarrow> d\<lparr>dd_skip_create := all_excluded g (dd_excluded_create_direction_ids d)\<rparr>)))))"

definition dedup_propose :: "Week \<Rightarrow> (ReadError + ProposeDedup) brain" where
  "dedup_propose week =
     mbind (ai_read (week_tasks (wk_id week))) (\<lambda>r1. case r1 of Inl e \<Rightarrow> mret (Inl e) | Inr week_tasks_all \<Rightarrow>
     mbind (ai_read (list_ai_produced_proposal_ids Cap_Propose)) (\<lambda>r2. case r2 of Inl e \<Rightarrow> mret (Inl e) | Inr produced \<Rightarrow>
     mbind (ai_read list_pending_proposals) (\<lambda>r3. case r3 of Inl e \<Rightarrow> mret (Inl e) | Inr pending \<Rightarrow>
     let open_tasks = filter (\<lambda>t. \<not> task_is_terminal (tk_status t)) week_tasks_all in
     mbind (pending_dedup week week_tasks_all open_tasks (filter (\<lambda>p. pp_id p \<in> produced) pending)) (\<lambda>d.
     mbind (ai_read (list_rejected_ops (capability_wire Cap_Propose))) (\<lambda>r4. case r4 of Inl e \<Rightarrow> mret (Inl e) | Inr rejected \<Rightarrow>
       rejected_dedup week week_tasks_all open_tasks rejected d)))))"

fun part_result_str :: "ProposeItemResult \<Rightarrow> string" where
  "part_result_str (Part_Proposed i) = ''proposed''"
| "part_result_str Part_Nothing = ''nothing''"
| "part_result_str Part_Deferred = ''deferred''"
| "part_result_str Part_Rejected = ''rejected''"
| "part_result_str Part_Aborted = ''aborted''"
| "part_result_str Part_Skipped = ''skipped''"

definition propose_items :: "ProposeItem list \<Rightarrow> AiRunItem list" where
  "propose_items outcomes = map (\<lambda>o'. ai_run_item (propose_kind_str (pi_kind o')) (part_result_str (pi_result o'))
     (if pi_result o' = Part_Skipped then Some ''dedup'' else None)) outcomes"

definition propose_job :: "string \<Rightarrow> Week \<Rightarrow> ModelAccess \<Rightarrow> (string \<times> AiRunItem list) brain" where
  "propose_job run_id week access =
     mbind (dedup_propose week) (\<lambda>r.
     mbind (with_hard_deadline (run_propose run_id week (case r of Inl _ \<Rightarrow> ProposeDedup_default | Inr d \<Rightarrow> d) access)) (\<lambda>outcomes.
     mret (case outcomes of
         Some os \<Rightarrow> (final_state (list_ex (\<lambda>o'. pi_result o' = Part_Aborted) os), propose_items os)
       | None \<Rightarrow> (''aborted'', []))))"

section \<open>Summarize\<close>

definition drafted_review :: "Sin90Op list \<Rightarrow> (string \<times> string) option" where
  "drafted_review ops = (case ops of [DraftReviewBody i base body] \<Rightarrow> Some (i, base) | _ \<Rightarrow> None)"

definition last_rejected_draft :: "string \<Rightarrow> RejectedOpsRow list \<Rightarrow> (string \<times> string) option" where
  "last_rejected_draft review_id rejected =
     (case List.map_filter (\<lambda>r. case drafted_review (ror_ops r) of
          Some (i, base) \<Rightarrow> if i = review_id then Some (base, ror_proposed_at r) else None | None \<Rightarrow> None) (rev rejected) of
        [] \<Rightarrow> None | x # _ \<Rightarrow> Some x)"

definition still_rejected :: "string \<Rightarrow> string \<Rightarrow> string \<Rightarrow> (ReadError + string option) brain" where
  "still_rejected review_id latest_hash proposed_at =
     mbind (ai_read (get_review review_id)) (\<lambda>r. case r of Inl e \<Rightarrow> mret (Inl e) | Inr current \<Rightarrow>
     mbind (body_sha256 (rv_body current)) (\<lambda>current_hash.
     if current_hash \<noteq> latest_hash then mret (Inr None)
     else mbind (ai_read (week_activity_since (rv_period current) proposed_at)) (\<lambda>w.
       let week_changed = (case w of Inl _ \<Rightarrow> True | Inr b \<Rightarrow> b) in
       mret (Inr (if week_changed then None else Some ''suppressed_rejected'')))))"

definition dedup_summarize :: "string \<Rightarrow> (ReadError + string option) brain" where
  "dedup_summarize review_id =
     mbind (ai_read list_pending_proposals) (\<lambda>r1. case r1 of Inl e \<Rightarrow> mret (Inl e) | Inr pending \<Rightarrow>
     mbind (precheck_some Cap_Summarize (map draft_of
         (filter (\<lambda>p. map_option fst (drafted_review (pp_ops p)) = Some review_id) pending))) (\<lambda>valid.
     if list_ex id valid then mret (Inr (Some ''dedup''))
     else mbind (ai_read (list_rejected_ops (capability_wire Cap_Summarize))) (\<lambda>r2. case r2 of Inl e \<Rightarrow> mret (Inl e) | Inr rejected \<Rightarrow>
       case last_rejected_draft review_id rejected of
         None \<Rightarrow> mret (Inr None)
       | Some (latest_hash, proposed_at) \<Rightarrow> still_rejected review_id latest_hash proposed_at)))"

fun body_result_str :: "SummarizeItemResult \<Rightarrow> string" where
  "body_result_str (Body_Proposed i) = ''proposed''"
| "body_result_str Body_Nothing = ''nothing''"
| "body_result_str Body_Deferred = ''deferred''"
| "body_result_str Body_Rejected = ''rejected''"
| "body_result_str Body_Aborted = ''aborted''"
| "body_result_str Body_Skipped = ''skipped''"
| "body_result_str (Body_ReadFailed e) = ''aborted''"

definition summarize_item :: "string \<Rightarrow> Review \<Rightarrow> ModelAccess \<Rightarrow> AiRunItem brain" where
  "summarize_item run_id review access =
     mbind (with_hard_deadline (run_summarize run_id review access)) (\<lambda>outcome. mret (case outcome of
         Some result \<Rightarrow> ai_run_item (rv_id review) (body_result_str result)
           (if result = Body_Skipped then Some ''human_text'' else None)
       | None \<Rightarrow> ai_run_item (rv_id review) ''aborted'' None))"

definition summarize_job :: "string \<Rightarrow> Review \<Rightarrow> ModelAccess \<Rightarrow> (string \<times> AiRunItem list) brain" where
  "summarize_job run_id review access =
     mbind (dedup_summarize (rv_id review)) (\<lambda>r.
     mbind (case r of
         Inr (Some reason) \<Rightarrow> mret (ai_run_item (rv_id review) ''skipped'' (Some reason))
       | _ \<Rightarrow> summarize_item run_id review access) (\<lambda>item.
     mret (final_state (it_result item = ''aborted''), [item])))"

section \<open>The triggers\<close>

text \<open>The slot of the capability, taken in one critical section with the check that it is free.\<close>

definition accepted :: "Capability \<Rightarrow> string \<Rightarrow> Response" where
  "accepted cap run_id = \<lparr>re_status = 202, re_body = Body_Json (JObj
     [(''run_id'', JStr run_id), (''capability'', JStr (capability_wire cap))])\<rparr>"

definition ai_busy :: "string \<Rightarrow> Response" where
  "ai_busy existing = \<lparr>re_status = 409, re_body = Body_Json (JObj [(''code'', JStr ''ai_busy''), (''run_id'', JStr existing)])\<rparr>"

definition claim :: "Capability \<Rightarrow> (string \<Rightarrow> Job) \<Rightarrow> Response handler" where
  "claim cap job =
     mbind (on_brain ai_ulid) (\<lambda>u.
     let run_id = ''run-'' @ u in
     mbind (mget (\<lambda>s. busy_run cap (sv_registry s))) (\<lambda>busy.
     case busy of
       Some existing \<Rightarrow> answer_early (ai_busy existing)
     | None \<Rightarrow>
         mthen (mmod (\<lambda>s. s\<lparr>sv_registry := start_run cap run_id (sv_registry s), sv_jobs := sv_jobs s @ [job run_id]\<rparr>))
           (mret (accepted cap run_id))))"

definition read_error_text :: "ReadError \<Rightarrow> string" where
  "read_error_text e = (case e of Read_Pool m \<Rightarrow> m | Read_Store (SE_Internal m) \<Rightarrow> m | Read_Store _ \<Rightarrow> ''store error'')"

fun classify_input_error :: "ClassifyInputError \<Rightarrow> Response" where
  "classify_input_error EmptyTaskIds = error_response 400 ''invalid_request''
     ''task_ids was given but empty; omit it entirely to auto-select from the inbox''"
| "classify_input_error TooManyTaskIds = error_response 400 ''invalid_request''
     (''task_ids must have at most '' @ dec MAX_CLASSIFY_TASK_IDS @ '' entries'')"
| "classify_input_error (TaskNotInInbox i) = error_response 400 ''invalid_request'' (''task '' @ i @ '' is not in the inbox'')"
| "classify_input_error (DuplicateTaskId i) = error_response 400 ''invalid_request'' (''task_ids contains '' @ i @ '' more than once'')"
| "classify_input_error (ClassifyReadFailed e) = error_response 500 ''internal'' (read_error_text e)"

fun propose_input_error :: "ProposeInputError \<Rightarrow> Response" where
  "propose_input_error (UnknownWeek i) = error_response 404 ''not_found'' (''week '' @ i @ '' does not exist'')"
| "propose_input_error (WeekNotOpen i status) = error_response 409 ''week_not_open''
     (''week '' @ i @ '' is not open (status '' @ week_status_debug status @ '')'')"
| "propose_input_error (ProposeReadFailed e) = error_response 500 ''internal'' (read_error_text e)"

fun summarize_input_error :: "SummarizeInputError \<Rightarrow> Response" where
  "summarize_input_error (UnknownReview i) = error_response 404 ''not_found'' (''review '' @ i @ '' does not exist'')"
| "summarize_input_error (UnsupportedKind kind) = error_response 400 ''unsupported_kind''
     (''summarize only supports weekly reviews, got '' @ review_kind_debug kind)"
| "summarize_input_error (ReviewNotDraft i status) = error_response 409 ''conflict''
     (''review '' @ i @ '' is not a draft (status '' @ review_status_debug status @ '')'')"
| "summarize_input_error (SummarizeReadFailed e) = error_response 500 ''internal'' (read_error_text e)"

definition checked_input :: "('e \<Rightarrow> Response) \<Rightarrow> ('e + 'a) brain \<Rightarrow> 'a handler" where
  "checked_input input_error m = mbind (on_brain m) (\<lambda>r.
     case r of Inl e \<Rightarrow> answer_early (input_error e) | Inr x \<Rightarrow> mret x)"

definition trigger_classify :: "Request \<Rightarrow> Response handler" where
  "trigger_classify req =
     mthen (require_any_actor req)
     (mbind (parse de_classify ''ai classify request'' req) (\<lambda>task_ids.
      mbind (case task_ids of
          Some ids \<Rightarrow> mbind (checked_input classify_input_error (select_targets (Some ids))) (\<lambda>t. mret (Some t))
        | None \<Rightarrow> mret None) (\<lambda>explicit_targets.
      claim Cap_Classify (\<lambda>run_id. Job_Classify run_id explicit_targets))))"

definition trigger_propose :: "Request \<Rightarrow> Response handler" where
  "trigger_propose req =
     mthen (require_any_actor req)
     (mbind (parse de_propose ''ai propose request'' req) (\<lambda>week_id.
      mbind (checked_input propose_input_error (select_week week_id)) (\<lambda>week.
      claim Cap_Propose (\<lambda>run_id. Job_Propose run_id week))))"

definition trigger_summarize :: "Request \<Rightarrow> Response handler" where
  "trigger_summarize req =
     mthen (require_any_actor req)
     (mbind (parse de_summarize ''ai summarize request'' req) (\<lambda>review_id.
      mbind (checked_input summarize_input_error (select_review review_id)) (\<lambda>review.
      claim Cap_Summarize (\<lambda>run_id. Job_Summarize run_id review))))"

text \<open>A run the registry has lost is told by its calls, whose first row names the capability.\<close>

definition get_ai_run :: "string \<Rightarrow> Response handler" where
  "get_ai_run run_id =
     mbind (mget (\<lambda>s. run_of run_id (sv_registry s))) (\<lambda>rec.
     mbind (on_brain (read_or [] (list_ai_calls_for_run run_id))) (\<lambda>calls.
     reply 200 (case rec of
         Some r \<Rightarrow> Body_AiRun (ar_run_id r) (Some (ar_capability r)) (ar_state r) (ar_items r) calls
       | None \<Rightarrow> Body_AiRun run_id (case calls of [] \<Rightarrow> None | c # _ \<Rightarrow> Some (capability_wire (ac_task_kind c))) ''unknown'' [] calls)))"

section \<open>A job to its end\<close>

fun job_capability :: "Job \<Rightarrow> Capability" where
  "job_capability (Job_Classify i t) = Cap_Classify"
| "job_capability (Job_Propose i w) = Cap_Propose"
| "job_capability (Job_Summarize i r) = Cap_Summarize"

fun job_run_id :: "Job \<Rightarrow> string" where
  "job_run_id (Job_Classify i t) = i"
| "job_run_id (Job_Propose i w) = i"
| "job_run_id (Job_Summarize i r) = i"

fun job_body :: "Job \<Rightarrow> ModelAccess \<Rightarrow> (string \<times> AiRunItem list) brain" where
  "job_body (Job_Classify i t) access = classify_job i t access"
| "job_body (Job_Propose i w) access = propose_job i w access"
| "job_body (Job_Summarize i r) access = summarize_job i r access"

text \<open>
  \<open>BusyGuard\<close>: a job that comes to its end reports it; one that is dropped outside of the deadline, by
  a panic or the end of the process, gives the slot back as aborted.
\<close>

definition finish_job :: "Job \<Rightarrow> string \<Rightarrow> AiRunItem list \<Rightarrow> Service \<Rightarrow> Service" where
  "finish_job job state items s = s\<lparr>sv_registry := finish_run (job_capability job) (job_run_id job) state items (sv_registry s),
     sv_jobs := remove1 job (sv_jobs s)\<rparr>"

definition run_job :: "Job \<Rightarrow> Service \<Rightarrow> Service" where
  "run_job job s =
     (case job_body job (sv_access s) (sv_brain s) of
        (Inl _, b) \<Rightarrow> finish_job job ''aborted'' [] (s\<lparr>sv_brain := b\<rparr>)
      | (Inr (state, items), b) \<Rightarrow> finish_job job state items (s\<lparr>sv_brain := b\<rparr>))"

end
