(* ===== verification/Router.thy ===== *)
theory Router
  imports Http Ai_Trigger
begin

text \<open>
  \<open>router\<close> of \<open>src/http/mod.rs\<close>: the table of routes, and a request from the match of its path to its
  answer. The route of the kernel's scheduler exists only behind the kernel's proxy (\<open>mounted\<close>).
\<close>

text \<open>A template of a path; \<open>Param\<close> is a segment in braces, which takes any segment but the empty one.\<close>

datatype Segment = Lit string | Param

fun match_path :: "Segment list \<Rightarrow> string list \<Rightarrow> string list option" where
  "match_path [] [] = Some []"
| "match_path (Lit s # ps) (x # xs) = (if s = x then match_path ps xs else None)"
| "match_path (Param # ps) (x # xs) = (if x = [] then None else map_option (\<lambda>is. x # is) (match_path ps xs))"
| "match_path _ _ = None"

type_synonym endpoint = "string \<Rightarrow> Request \<Rightarrow> Response handler"

type_synonym route = "Segment list \<times> (Method \<times> endpoint) list"

definition plan_routes :: "route list" where
  "plan_routes =
     [([Lit ''areas''], [(POST, \<lambda>i. create_area_handler), (GET, \<lambda>i r. list_areas_handler)]),
      ([Lit ''areas'', Param], [(PATCH, transition_area_handler)]),
      ([Lit ''directions''], [(POST, \<lambda>i. create_direction_handler), (GET, \<lambda>i r. list_directions_handler)]),
      ([Lit ''tasks''], [(POST, \<lambda>i. create_task_handler), (GET, \<lambda>i. list_tasks_handler)]),
      ([Lit ''tasks'', Param], [(PATCH, transition_task_handler)]),
      ([Lit ''schedule-blocks''], [(POST, \<lambda>i. create_block_handler), (GET, \<lambda>i r. list_blocks_handler)]),
      ([Lit ''schedule-blocks'', Param], [(PATCH, transition_block_handler)]),
      ([Lit ''weeks''], [(POST, \<lambda>i. create_week_handler), (GET, \<lambda>i r. list_weeks_handler)]),
      ([Lit ''weeks'', Param], [(PATCH, transition_week_handler)]),
      ([Lit ''weeks'', Param, Lit ''attention''], [(GET, \<lambda>i r. week_attention_handler i)]),
      ([Lit ''rhythms''], [(POST, \<lambda>i. create_rhythm_handler), (GET, \<lambda>i r. list_rhythms_handler)]),
      ([Lit ''rhythms'', Param], [(GET, \<lambda>i r. get_rhythm_handler i)])]"

definition gate_routes :: "route list" where
  "gate_routes =
     [([Lit ''proposals''], [(POST, \<lambda>i. submit_proposal_handler), (GET, \<lambda>i r. list_proposals_handler)]),
      ([Lit ''proposals'', Param], [(GET, \<lambda>i r. get_proposal_handler i)]),
      ([Lit ''proposals'', Param, Lit ''accept''], [(POST, accept_proposal)]),
      ([Lit ''proposals'', Param, Lit ''reject''], [(POST, reject_proposal_handler)]),
      ([Lit ''attention''], [(GET, \<lambda>i. attention_handler)]),
      ([Lit ''events''], [(GET, \<lambda>i. list_events_handler)]),
      ([Lit ''packs'', Lit ''install''], [(POST, \<lambda>i. install_pack)]),
      ([Lit ''capture''], [(POST, \<lambda>i. capture)]),
      ([Lit ''today''], [(GET, \<lambda>i r. today)])]"

definition rhythm_routes :: "route list" where
  "rhythm_routes =
     [([Lit ''routines''], [(POST, \<lambda>i. create_routine_handler), (GET, \<lambda>i. list_routines_handler)]),
      ([Lit ''routines'', Param], [(GET, \<lambda>i r. get_routine_handler i), (PATCH, update_routine_handler)]),
      ([Lit ''routines'', Param, Lit ''transition''], [(POST, transition_routine_handler)]),
      ([Lit ''reviews''], [(POST, \<lambda>i. create_review_handler), (GET, \<lambda>i. list_reviews_handler)]),
      ([Lit ''reviews'', Param], [(GET, \<lambda>i r. get_review_handler i), (PATCH, update_review)]),
      ([Lit ''reviews'', Param, Lit ''finalize''], [(POST, finalize_review_handler)]),
      ([Lit ''review'', Lit ''weekly'', Lit ''draft''], [(GET, \<lambda>i. weekly_review_draft)])]"

definition ai_routes :: "route list" where
  "ai_routes =
     [([Lit ''settings'', Lit ''ai''], [(GET, \<lambda>i r. get_ai_settings), (PUT, \<lambda>i. put_ai_settings)]),
      ([Lit ''ai'', Lit ''classify''], [(POST, \<lambda>i. trigger_classify)]),
      ([Lit ''ai'', Lit ''propose''], [(POST, \<lambda>i. trigger_propose)]),
      ([Lit ''ai'', Lit ''summarize''], [(POST, \<lambda>i. trigger_summarize)]),
      ([Lit ''ai'', Lit ''runs'', Param], [(GET, \<lambda>i r. get_ai_run i)])]"

definition routes :: "bool \<Rightarrow> route list" where
  "routes mounted = plan_routes @ gate_routes @ rhythm_routes @ ai_routes @
     (if mounted then [([Lit ''_a24'', Lit ''scheduler'', Lit ''fired''], [(POST, \<lambda>i. scheduler_fired)])] else [])"

text \<open>The first template that matches, with the segment its parameter takes. No path matches two.\<close>

fun find_route :: "route list \<Rightarrow> string list \<Rightarrow> (string \<times> (Method \<times> endpoint) list) option" where
  "find_route [] path = None"
| "find_route ((template, methods) # rs) path =
     (case match_path template path of
        None \<Rightarrow> find_route rs path
      | Some is \<Rightarrow> Some (case is of [] \<Rightarrow> [] | i # _ \<Rightarrow> i, methods))"

text \<open>\<open>HEAD\<close> is answered by the handler of \<open>GET\<close>, without the body.\<close>

definition method_of :: "Method \<Rightarrow> Method" where
  "method_of m = (if m = HEAD then GET else m)"

definition bare :: "nat \<Rightarrow> Response" where
  "bare status = \<lparr>re_status = status, re_body = Body_Text []\<rparr>"

definition router :: "bool \<Rightarrow> Request \<Rightarrow> Response handler" where
  "router mounted req =
     (case find_route (routes mounted) (rq_path req) of
        None \<Rightarrow> mret (bare 404)
      | Some (i, methods) \<Rightarrow>
          (case map_of methods (method_of (rq_method req)) of None \<Rightarrow> mret (bare 405) | Some h \<Rightarrow> h i req))"

definition body_for :: "Method \<Rightarrow> Response \<Rightarrow> Response" where
  "body_for m r = (if m = HEAD then r\<lparr>re_body := Body_Text []\<rparr> else r)"

text \<open>A request to its answer; none if the client has gone before.\<close>

definition serve :: "bool \<Rightarrow> Request \<Rightarrow> Service \<Rightarrow> Response option \<times> Service" where
  "serve mounted req s =
     (case router mounted req s of
        (Inr r, s') \<Rightarrow> (Some (body_for (rq_method req) r), s')
      | (Inl r, s') \<Rightarrow> (map_option (body_for (rq_method req)) r, s'))"

end
