(* ===== verification/Http_Laws.thy ===== *)
theory Http_Laws
  imports Router Ai_Laws
begin

text \<open>
  The service as a whole: what a request may do by the key it carries, what the jobs of the AI do, and
  that a request that is refused leaves the store as it was.
\<close>

section \<open>What a request may do\<close>

text \<open>By design: automation may propose and capture; only the human writes and decides.\<close>

fun proposes :: "Call \<Rightarrow> bool" where
  "proposes (Call_submit_proposal p) = True"
| "proposes (Call_create_task title d p kind energy est) = (d = None \<and> p = None \<and> kind = TaskKind_Other \<and> energy = Energy_Mid \<and> est = None)"
| "proposes _ = False"

fun plans :: "Call \<Rightarrow> bool" where
  "plans (Call_create_area title) = True"
| "plans (Call_transition_area i to) = True"
| "plans (Call_create_direction title win area) = True"
| "plans (Call_create_rhythm as) = True"
| "plans (Call_create_week label) = True"
| "plans (Call_transition_week i to) = True"
| "plans (Call_create_block d t n) = True"
| "plans (Call_transition_block i to) = True"
| "plans (Call_create_task title d p kind energy est) = True"
| "plans (Call_transition_task i to) = True"
| "plans (Call_create_routine new) = True"
| "plans (Call_update_routine i patch) = True"
| "plans (Call_transition_routine i to) = True"
| "plans (Call_create_review new) = True"
| "plans (Call_update_review_body i body) = True"
| "plans (Call_finalize_review i) = True"
| "plans (Call_apply_proposal i) = True"
| "plans (Call_reject_proposal i reason) = True"
| "plans (Call_install_seed_pack pack) = True"
| "plans (Call_put_ai_executive_enabled b) = True"
| "plans _ = False"

fun reports_fire :: "Call \<Rightarrow> bool" where
  "reports_fire (Call_record_routine_fire fire key at trigger) = True"
| "reports_fire _ = False"

definition permitted :: "bool \<Rightarrow> Actor option \<Rightarrow> Call \<Rightarrow> bool" where
  "permitted mounted actor c = (c = Call_today_view \<or> (mounted \<and> reports_fire c)
     \<or> (actor \<noteq> None \<and> proposes c) \<or> (actor = Some Human \<and> plans c))"

interpretation request: ai_calls "permitted mounted actor" for mounted actor .

interpretation no_calls: ai_calls "\<lambda>c. False" .

text \<open>
  A relation between services that survives what a handler does beside its call of the store: answering
  and decoding, and with the brain also reading and handing out events.
\<close>

locale handler_steps = world_order S for S :: "Service \<Rightarrow> Service \<Rightarrow> bool"
begin

lemma moves_early: "effects S (answer_early r)"
  unfolding answer_early_def by (intro moves_world)

lemma moves_reply: "effects S (reply n b)"
  unfolding reply_def by (intro moves_world)

lemma moves_parse: "effects S (parse d what req)"
  unfolding parse_def by (auto split: sum.split intro!: moves_world moves_early)

lemma moves_query: "effects S (parse_query d req)"
  unfolding parse_query_def by (auto split: sum.split intro!: moves_world moves_early)

lemma moves_reason: "effects S (reject_reason req)"
  unfolding reject_reason_def by (auto split: sum.split intro!: moves_world moves_early moves_parse)

lemma moves_fire_id: "effects S (require_fire_id req)"
  unfolding require_fire_id_def by (auto split: option.split intro!: moves_world moves_early)

lemma moves_if: "effects S m \<Longrightarrow> effects S k \<Longrightarrow> effects S (if b then m else k)"
  by simp

lemma moves_guards: "effects S (require_human req)" "effects S (require_any_actor req)"
  unfolding require_human_def require_any_actor_def
  by (auto split: option.split Actor.split intro!: moves_world moves_early)

lemmas moves_answer = moves_if moves_early moves_reply moves_parse moves_query moves_reason moves_fire_id

end

locale handlers = handler_steps S for S :: "Service \<Rightarrow> Service \<Rightarrow> bool" +
  assumes S_brain: "by_ai_calls (\<lambda>c. False) (sv_brain s) b \<Longrightarrow> S s (s\<lparr>sv_brain := b\<rparr>)"
begin

lemma moves_brain: "effects (by_ai_calls (\<lambda>c. False)) m \<Longrightarrow> effects S (on_brain m)"
  by (auto simp: effects_def on_brain_def split: prod.split intro!: S_brain) (metis snd_conv)

lemma moves_emit: "effects S (emit kind payload)" and moves_payload: "effects S (on_brain (ai_emit kind j))"
  unfolding emit_def by (intro moves_brain no_calls.moves_emit)+

lemma moves_read:
  assumes "\<And>w. snd (m w) = w"
  shows "effects S (call_store m)"
  unfolding call_store_def
  by (intro moves_world moves_brain no_calls.moves_world no_calls.moves_await no_calls.moves_read_only assms)
    (auto split: sum.split intro!: moves_world moves_early)

lemma moves_input: "effects (by_ai_calls (\<lambda>c. False)) m \<Longrightarrow> effects S (checked_input f m)"
  unfolding checked_input_def by (auto split: sum.split intro!: moves_world moves_early moves_brain)

lemmas moves_handler = moves_answer moves_emit moves_payload moves_world

end

text \<open>The services a request with this key may leave behind; the keys themselves never change.\<close>

definition served :: "bool \<Rightarrow> string option \<Rightarrow> ActorKeys \<Rightarrow> Service \<Rightarrow> Service \<Rightarrow> bool" where
  "served mounted key keys s s' = (sv_keys s = keys \<longrightarrow> sv_keys s' = keys
     \<and> by_ai_calls (permitted mounted (identify keys key)) (sv_brain s) (sv_brain s'))"

lemma fewer_calls: "by_ai_calls (\<lambda>c. False) b b' \<Longrightarrow> by_ai_calls own b b'"
  unfolding by_ai_calls_def by (metis (mono_tags, lifting) list.pred_mono_strong)

interpretation served: handlers "served mounted key keys" for mounted key keys
proof
  show "served mounted key keys p p" for p
    using world_order.R_refl[OF request.world] by (simp add: served_def)
  show "served mounted key keys p r" if "served mounted key keys p q" "served mounted key keys q r" for p q r
    using that world_order.R_trans[OF request.world] by (auto simp: served_def)
qed (simp add: served_def fewer_calls)

lemma served_store:
  assumes "\<And>w. snd (m w) = exec c w" and "permitted mounted (identify keys key) c"
  shows "effects (served mounted key keys) (call_store m)"
proof -
  have "effects (by_ai_calls (permitted mounted (identify keys key))) (mthen ai_await (ai_at_once m))"
    by (intro request.moves_world request.moves_await request.moves_call[of _ c] assms)
  then have "effects (served mounted key keys) (on_brain (mthen ai_await (ai_at_once m)))"
    by (auto simp: effects_def served_def on_brain_def split: prod.split) (metis snd_conv)
  then show ?thesis
    unfolding call_store_def by (intro served.moves_world) (auto split: sum.split intro!: served.moves_world served.moves_early)
qed

text \<open>Behind a guard the actor is known.\<close>

lemma served_human:
  assumes "identify keys (rq_actor_key req) = Some Human \<Longrightarrow> effects (served mounted (rq_actor_key req) keys) m"
  shows "effects (served mounted (rq_actor_key req) keys) (mthen (require_human req) m)"
proof (cases "identify keys (rq_actor_key req) = Some Human")
  case True
  then show ?thesis unfolding require_human_def
    by (auto split: option.split Actor.split intro!: served.moves_world served.moves_early assms)
next
  case False
  then show ?thesis
    by (auto simp: effects_def served_def require_human_def answer_early_def mthen_def mbind_def mget_def mfail_def
        split: option.split Actor.split intro!: world_order.R_refl[OF request.world])
qed

lemma served_any:
  assumes "identify keys (rq_actor_key req) \<noteq> None \<Longrightarrow> effects (served mounted (rq_actor_key req) keys) m"
  shows "effects (served mounted (rq_actor_key req) keys) (mthen (require_any_actor req) m)"
proof (cases "identify keys (rq_actor_key req) = None")
  case False
  then show ?thesis unfolding require_any_actor_def
    by (auto split: option.split intro!: served.moves_world served.moves_early assms)
next
  case True
  then show ?thesis
    by (auto simp: effects_def served_def require_any_actor_def answer_early_def mthen_def mbind_def mget_def mfail_def
        intro!: world_order.R_refl[OF request.world])
qed

lemmas served_all = served_human served_any served.moves_handler

section \<open>Reads\<close>

lemma only_bind: "(\<And>w. snd (m w) = w) \<Longrightarrow> (\<And>x w. snd (k x w) = w) \<Longrightarrow> snd (mbind m k w) = w"
  by (simp add: mbind_def split: prod.split sum.split) (metis prod.exhaust_sel snd_conv)

lemma only_then: "(\<And>w. snd (m w) = w) \<Longrightarrow> (\<And>w. snd (k w) = w) \<Longrightarrow> snd (mthen m k w) = w"
  unfolding mthen_def by (rule only_bind)

lemma only_ret: "snd (mret x w) = w" and only_fail: "snd (mfail e w) = w"
  by (simp_all add: mret_def mfail_def)

lemma only_some: "snd (msome x e w) = w"
  by (simp add: msome_def only_ret only_fail split: option.split)

lemma only_guard: "snd (mguard b e w) = w"
  by (simp add: mguard_def only_ret only_fail)

lemmas only_all = only_bind only_then only_ret only_fail only_some only_guard query_only

lemma reads_only:
  "snd (list_areas w) = w" "snd (list_directions w) = w" "snd (list_tasks d a s w) = w" "snd (list_blocks w) = w"
  "snd (list_weeks w) = w" "snd (week_attention i w) = w" "snd (list_rhythms w) = w" "snd (get_rhythm i w) = w"
  "snd (list_proposals w) = w" "snd (get_proposal i w) = w" "snd (attention from_at to_at w) = w"
  "snd (list_events ent eid n lim w) = w" "snd (list_routines a d rs w) = w" "snd (get_routine i w) = w"
  "snd (list_reviews rk p w) = w" "snd (get_review i w) = w" "snd (weekly_draft k w) = w" "snd (read_ai_settings w) = w"
  unfolding list_areas_def list_directions_def list_tasks_def list_blocks_def list_weeks_def week_attention_def list_rhythms_def
    get_rhythm_def list_proposals_def get_proposal_def attention_def attention_on_def list_events_def list_routines_def
    get_routine_def list_reviews_def get_review_def weekly_draft_def weekly_draft_on_def
  by (auto intro!: only_all simp: read_settings_only split: prod.split)

section \<open>Every route\<close>

lemmas exec_of = exec.simps[symmetric]

lemma area_handlers:
  "effects (served mounted (rq_actor_key req) keys) (create_area_handler req)"
  "effects (served mounted (rq_actor_key req) keys) list_areas_handler"
  "effects (served mounted (rq_actor_key req) keys) (transition_area_handler i req)"
  "effects (served mounted (rq_actor_key req) keys) (create_direction_handler req)"
  "effects (served mounted (rq_actor_key req) keys) list_directions_handler"
  unfolding create_area_handler_def list_areas_handler_def transition_area_handler_def create_direction_handler_def
    list_directions_handler_def
  by ((rule served_all | (rule served.moves_read, rule reads_only) | (rule served_store, rule exec_of, simp add: permitted_def))+)

lemma task_handlers:
  "effects (served mounted (rq_actor_key req) keys) (create_task_handler req)"
  "effects (served mounted (rq_actor_key req) keys) (list_tasks_handler req)"
  "effects (served mounted (rq_actor_key req) keys) (transition_task_handler i req)"
  "effects (served mounted (rq_actor_key req) keys) (create_block_handler req)"
  "effects (served mounted (rq_actor_key req) keys) (transition_block_handler i req)"
  "effects (served mounted (rq_actor_key req) keys) list_blocks_handler"
  unfolding emit_task_created_def create_task_handler_def list_tasks_handler_def transition_task_handler_def create_block_handler_def
    transition_block_handler_def list_blocks_handler_def
  by ((rule served_all | (rule served.moves_read, rule reads_only) | (rule served_store, rule exec_of, simp add: permitted_def))+)

lemma week_handlers:
  "effects (served mounted (rq_actor_key req) keys) (create_week_handler req)"
  "effects (served mounted (rq_actor_key req) keys) list_weeks_handler"
  "effects (served mounted (rq_actor_key req) keys) (transition_week_handler i req)"
  "effects (served mounted (rq_actor_key req) keys) (week_attention_handler i)"
  "effects (served mounted (rq_actor_key req) keys) (create_rhythm_handler req)"
  "effects (served mounted (rq_actor_key req) keys) list_rhythms_handler"
  "effects (served mounted (rq_actor_key req) keys) (get_rhythm_handler i)"
  unfolding create_week_handler_def list_weeks_handler_def transition_week_handler_def week_attention_handler_def
    create_rhythm_handler_def list_rhythms_handler_def get_rhythm_handler_def
  by ((rule served_all | (rule served.moves_read, rule reads_only) | (rule served_store, rule exec_of, simp add: permitted_def))+)

lemma served_fire: "effects (served mounted key keys) (answer_fire fire_id fired outcome)"
  unfolding answer_fire_def emit_auto_review_def by (auto split: RoutineFireOutcome.split option.split intro!: served_all)

lemma gate_handlers:
  "effects (served mounted (rq_actor_key req) keys) (submit_proposal_handler req)"
  "effects (served mounted (rq_actor_key req) keys) (accept_proposal i req)"
  "effects (served mounted (rq_actor_key req) keys) (reject_proposal_handler i req)"
  "effects (served mounted (rq_actor_key req) keys) list_proposals_handler"
  "effects (served mounted (rq_actor_key req) keys) (get_proposal_handler i)"
  unfolding submit_proposal_handler_def accept_proposal_def reject_proposal_handler_def list_proposals_handler_def
    get_proposal_handler_def
  by ((rule served_all | (rule served.moves_read, rule reads_only) | (rule served_store, rule exec_of, simp add: permitted_def))+)

lemma other_handlers:
  "effects (served mounted (rq_actor_key req) keys) (attention_handler req)"
  "effects (served mounted (rq_actor_key req) keys) (list_events_handler req)"
  "effects (served mounted (rq_actor_key req) keys) (install_pack req)"
  "effects (served mounted (rq_actor_key req) keys) (capture req)"
  "effects (served mounted (rq_actor_key req) keys) today"
  unfolding emit_task_created_def attention_handler_def list_events_handler_def install_pack_def capture_def today_def
  by ((rule served_all | (rule served.moves_read, rule reads_only) | (rule served_store, rule exec_of, simp add: permitted_def))+)

lemma fired_handler: "effects (served True (rq_actor_key req) keys) (scheduler_fired req)"
  unfolding scheduler_fired_def
  by ((rule served_all served_fire | (rule served_store, rule exec_of, simp add: permitted_def))+)

lemma routine_handlers:
  "effects (served mounted (rq_actor_key req) keys) (create_routine_handler req)"
  "effects (served mounted (rq_actor_key req) keys) (list_routines_handler req)"
  "effects (served mounted (rq_actor_key req) keys) (get_routine_handler i)"
  "effects (served mounted (rq_actor_key req) keys) (update_routine_handler i req)"
  "effects (served mounted (rq_actor_key req) keys) (transition_routine_handler i req)"
  unfolding create_routine_handler_def list_routines_handler_def get_routine_handler_def update_routine_handler_def
    transition_routine_handler_def
  by ((rule served_all | (rule served.moves_read, rule reads_only) | (rule served_store, rule exec_of, simp add: permitted_def))+)

lemma review_handlers:
  "effects (served mounted (rq_actor_key req) keys) (create_review_handler req)"
  "effects (served mounted (rq_actor_key req) keys) (list_reviews_handler req)"
  "effects (served mounted (rq_actor_key req) keys) (get_review_handler i)"
  "effects (served mounted (rq_actor_key req) keys) (update_review i req)"
  "effects (served mounted (rq_actor_key req) keys) (finalize_review_handler i req)"
  "effects (served mounted (rq_actor_key req) keys) (weekly_review_draft req)"
  "effects (served mounted (rq_actor_key req) keys) get_ai_settings"
  "effects (served mounted (rq_actor_key req) keys) (put_ai_settings req)"
  unfolding create_review_handler_def list_reviews_handler_def get_review_handler_def update_review_def finalize_review_handler_def
    weekly_review_draft_def get_ai_settings_def put_ai_settings_def
  by ((rule served_all | (rule served.moves_read, rule reads_only) | (rule served_store, rule exec_of, simp add: permitted_def))+)

text \<open>The triggers only read; their jobs do the rest.\<close>

lemma lookup_moves: "effects (by_ai_calls (\<lambda>c. False)) (lookup_targets ids)"
  by (induction ids) (auto simp: inbox_task_def split: sum.split option.split intro!: no_calls.moves_world no_calls.moves_read query_only)

lemma select_moves:
  "effects (by_ai_calls (\<lambda>c. False)) (select_targets task_ids)"
  "effects (by_ai_calls (\<lambda>c. False)) (select_week i)"
  "effects (by_ai_calls (\<lambda>c. False)) (select_review i)"
  unfolding select_targets_def select_week_def select_review_def ai_inbox_def week_lookup_def review_lookup_def
  by (auto split: option.split intro!: no_calls.moves_world no_calls.moves_read query_only lookup_moves)

lemma served_claim: "effects (served mounted key keys) (claim cap job)"
proof -
  have "effects (served mounted key keys) (mmod (\<lambda>s. s\<lparr>sv_registry := f s, sv_jobs := g s\<rparr>))" for f g
    using world_order.R_refl[OF request.world] by (auto simp: effects_def served_def mmod_def)
  then show ?thesis unfolding claim_def Let_def
    by (auto split: option.split intro!: served_all served.moves_brain no_calls.moves_ulid)
qed

lemma trigger_handlers:
  "effects (served mounted (rq_actor_key req) keys) (trigger_classify req)"
  "effects (served mounted (rq_actor_key req) keys) (trigger_propose req)"
  "effects (served mounted (rq_actor_key req) keys) (trigger_summarize req)"
  "effects (served mounted (rq_actor_key req) keys) (get_ai_run i)"
  unfolding trigger_classify_def trigger_propose_def trigger_summarize_def get_ai_run_def list_ai_calls_for_run_def
  by ((rule served_all served.moves_input served_claim select_moves served.moves_brain no_calls.moves_read_or query_only
      | auto split: option.split)+)

lemmas all_handlers = area_handlers task_handlers week_handlers gate_handlers other_handlers routine_handlers review_handlers trigger_handlers

lemma routed: "find_route rs path = Some (i, methods) \<Longrightarrow> map_of methods m = Some h \<Longrightarrow> h \<in> snd ` \<Union> (set ` snd ` set rs)"
  by (induction rs path rule: find_route.induct) (auto split: option.splits dest!: map_of_SomeD intro: image_eqI[of h snd "(m, h)"])

lemma every_route: "h \<in> snd ` \<Union> (set ` snd ` set (routes mounted)) \<Longrightarrow> effects (served mounted (rq_actor_key req) keys) (h i req)"
  by (auto simp: routes_def plan_routes_def gate_routes_def rhythm_routes_def ai_routes_def fired_handler split: if_splits
      intro: all_handlers)

lemma served_router: "effects (served mounted (rq_actor_key req) keys) (router mounted req)"
  unfolding router_def by (auto split: option.split intro!: served.moves_world every_route routed)

lemma serve_brain: "sv_brain (snd (serve mounted req s)) = sv_brain (snd (router mounted req s))"
  by (simp add: serve_def split: prod.split sum.split)

section \<open>The jobs of the AI\<close>

text \<open>What a job may submit.\<close>

fun job_ops :: "Job \<Rightarrow> Sin90Op list \<Rightarrow> bool" where
  "job_ops (Job_Classify i targets) = files_one_of (case targets of None \<Rightarrow> UNIV | Some ts \<Rightarrow> tk_id ` set ts)"
| "job_ops (Job_Propose i week) = plans_week (wk_id week)"
| "job_ops (Job_Summarize i review) = drafts_body (rv_id review)"

context ai_run
begin

lemma moves_deadline: "effects R m \<Longrightarrow> effects R (with_hard_deadline m)"
  by (rule movesI) (auto simp: with_hard_deadline_def split: prod.splits sum.splits dest: movesD)

lemma moves_precheck: "(\<And>ds. own (Call_sink_precheck cap ds)) \<Longrightarrow> effects R (precheck_some cap drafts)"
  unfolding precheck_some_def ai_precheck_def
  by (auto intro!: moves_world moves_read_at_once moves_call[of _ "Call_sink_precheck cap drafts"])

lemma moves_suppress: "effects R (suppress_rejected latest newest ts skip)"
  by (induction ts arbitrary: skip) (auto simp: task_modified_since_def split: option.split intro!: moves_all)

lemma moves_gaps: "effects R (gaps_from used seen n as)"
  by (induction as arbitrary: seen n) (auto simp: Let_def direction_lookup_def split: sum.split option.split intro!: moves_all)

lemma moves_current_gaps: "effects R (current_gaps alloc ts)"
  unfolding current_gaps_def gap_directions_def by (intro moves_all moves_gaps)

lemma moves_dedup_with: "(\<And>ds. own (Call_sink_precheck Cap_Classify ds)) \<Longrightarrow> effects R (dedup_targets_with_rejected targets rejected)"
  unfolding dedup_targets_with_rejected_def rejected_skips_def Let_def newest_direction_def list_pending_proposals_def
  by (auto split: sum.split intro!: moves_all moves_precheck moves_suppress)

lemma moves_dedup: "(\<And>ds. own (Call_sink_precheck Cap_Classify ds)) \<Longrightarrow> effects R (dedup_targets targets)"
  unfolding dedup_targets_def list_rejected_ops_def by (intro moves_all moves_dedup_with)

lemma moves_auto_page: "(\<And>ds. own (Call_sink_precheck Cap_Classify ds)) \<Longrightarrow> effects R (auto_select_page rejected page)"
proof (induction "AUTO_SELECT_MAX_PAGE - page" arbitrary: page rule: less_induct)
  case less
  have again: "effects R (auto_select_page rejected (min (page * 2) AUTO_SELECT_MAX_PAGE))"
    if "0 < page" "page < AUTO_SELECT_MAX_PAGE"
    by (rule less(1)) (use that less(2) in auto)
  show ?case
    by (subst auto_select_page.simps)
      (auto simp: ai_inbox_def Let_def split: sum.split intro!: moves_all moves_dedup_with less(2) again)
qed

lemma moves_auto: "(\<And>ds. own (Call_sink_precheck Cap_Classify ds)) \<Longrightarrow> effects R auto_select_targets"
  unfolding auto_select_targets_def list_rejected_ops_def by (intro moves_all moves_auto_page)

lemma moves_rejected_dedup: "effects R (rejected_dedup week all_tasks open_tasks rejected d)"
proof -
  have one: "effects R (reject_one week all_tasks open_tasks newest r st)" for newest r st
    unfolding reject_one_def reject_reorder_def reject_create_def rhythm_alloc_def
    by (auto split: option.split prod.split Shape.split intro!: moves_all moves_current_gaps)
  have "effects R (reject_all week all_tasks open_tasks newest rs st)" for newest rs st
    by (induction rs arbitrary: st) (auto intro!: moves_all one)
  then show ?thesis
    unfolding rejected_dedup_def newest_direction_def by (auto split: sum.split prod.split intro!: moves_all)
qed

lemma moves_dedup_propose: "(\<And>ds. own (Call_sink_precheck Cap_Propose ds)) \<Longrightarrow> effects R (dedup_propose week)"
  unfolding dedup_propose_def pending_dedup_def Let_def week_tasks_def list_ai_produced_proposal_ids_def
    list_pending_proposals_def list_rejected_ops_def rhythm_alloc_def
  by (auto split: sum.split intro!: moves_all moves_precheck moves_current_gaps moves_rejected_dedup)

lemma moves_dedup_summarize: "(\<And>ds. own (Call_sink_precheck Cap_Summarize ds)) \<Longrightarrow> effects R (dedup_summarize i)"
proof -
  assume own: "\<And>ds. own (Call_sink_precheck Cap_Summarize ds)"
  have "snd (get_review i w) = w" "snd (week_activity_since k t w) = w" for w k t
    unfolding week_activity_since_def by (auto intro!: only_all simp: reads_only split: prod.split)
  then show ?thesis
    unfolding dedup_summarize_def still_rejected_def body_sha256_def Let_def list_pending_proposals_def list_rejected_ops_def
    by (auto split: sum.split option.split intro!: moves_all moves_precheck[OF own])
qed

end

text \<open>What is left of the targets is among them.\<close>

lemma dedup_with_within:
  "dedup_targets_with_rejected targets rejected b = (Inr (Inr (kept, skipped)), b') \<Longrightarrow> set kept \<subseteq> set targets"
  unfolding dedup_targets_with_rejected_def mbind_iff
  by (elim disjE exE conjE) (auto simp: Let_def split_targets_def monad_iff split: sum.split_asm)

lemma dedup_within: "dedup_targets targets b = (Inr (Inr (kept, skipped)), b') \<Longrightarrow> set kept \<subseteq> set targets"
  by (auto simp: dedup_targets_def monad_iff dest: dedup_with_within)

lemma classify_job_moves: "effects (by_ai_calls (ai_call Cap_Classify (job_ops (Job_Classify i targets)))) (classify_job i targets access)"
proof -
  let ?ids = "case targets of None \<Rightarrow> UNIV | Some ts \<Rightarrow> tk_id ` set ts"
  have run: "effects (by_classify ?ids) (with_hard_deadline (run_classify i ts access))" if "tk_id ` set ts \<subseteq> ?ids" for ts
    using that by (intro classify_run.moves_deadline run_classify_moves)
  have selected: "effects (by_classify ?ids) (case targets of Some t \<Rightarrow> mret t | None \<Rightarrow> auto_select_targets)"
    by (auto split: option.split intro!: classify_run.moves_all classify_run.moves_auto)
  show ?thesis
    unfolding classify_job_def job_ops.simps Let_def
  proof (rule world_order.moves_bind_post[OF classify_run.world selected, where P = "\<lambda>ts. tk_id ` set ts \<subseteq> ?ids"])
    show "tk_id ` set ts \<subseteq> ?ids" if "(case targets of Some t \<Rightarrow> mret t | None \<Rightarrow> auto_select_targets) b = (Inr ts, b')" for b ts b'
      using that by (auto simp: monad_iff split: option.splits)
    fix ts :: "Task list" assume ts: "tk_id ` set ts \<subseteq> ?ids"
    show "effects (by_classify ?ids) (mbind (dedup_targets ts) (\<lambda>r. case case r of Inl _ \<Rightarrow> (ts, []) | Inr x \<Rightarrow> x of
        (targets, skipped) \<Rightarrow> mbind (with_hard_deadline (run_classify i targets access)) (\<lambda>outcomes. mret (case outcomes of
          None \<Rightarrow> (''aborted'', build_classify_run_items skipped [])
        | Some os \<Rightarrow> (final_state (list_ex (\<lambda>o'. ci_result o' = Item_Aborted) os), build_classify_run_items skipped os)))))"
    proof (rule world_order.moves_bind_post[OF classify_run.world, where P = "\<lambda>r. case r of Inl _ \<Rightarrow> True | Inr (kept, _) \<Rightarrow> tk_id ` set kept \<subseteq> ?ids"])
      show "effects (by_classify ?ids) (dedup_targets ts)" by (rule classify_run.moves_dedup) simp
      show "case r of Inl _ \<Rightarrow> True | Inr (kept, _) \<Rightarrow> tk_id ` set kept \<subseteq> ?ids" if "dedup_targets ts b = (Inr r, b')" for b r b'
        using that order_trans[OF image_mono[OF dedup_within[of ts b _ _ b']] ts] by (auto split: sum.split)
    qed (use ts in \<open>auto split: sum.splits prod.splits intro!: classify_run.moves_world run\<close>)
  qed
qed

lemma propose_job_moves: "effects (by_ai_calls (ai_call Cap_Propose (job_ops (Job_Propose i week)))) (propose_job i week access)"
  unfolding propose_job_def job_ops.simps
  by (intro propose_run.moves_world propose_run.moves_dedup_propose propose_run.moves_deadline run_propose_moves) simp

lemma summarize_job_moves: "effects (by_ai_calls (ai_call Cap_Summarize (job_ops (Job_Summarize i review)))) (summarize_job i review access)"
  unfolding summarize_job_def summarize_item_def job_ops.simps
  by (auto split: sum.split option.split
      intro!: summarize_run.moves_world summarize_run.moves_dedup_summarize summarize_run.moves_deadline run_summarize_moves)

lemma job_moves: "effects (by_ai_calls (ai_call (job_capability job) (job_ops job))) (job_body job access)"
  by (cases job) (auto intro: classify_job_moves propose_job_moves summarize_job_moves simp del: job_ops.simps)

lemma run_job_brain: "sv_brain (run_job job s) = snd (job_body job (sv_access s) (sv_brain s))"
  by (auto simp: run_job_def finish_job_def split: prod.split sum.split)

section \<open>Properties\<close>

text \<open>
  C6: the service is a sequence of public calls of the store, whatever other tasks do at its awaits. A
  request makes of itself only what its key permits: with no key reads, and the kernel's fires where
  the route is mounted; with automation's also the filing of proposals and captured notes; with the
  human's every write of the plan and the decisions on proposals. A job of the AI makes only its own
  capability's submissions, trials and records.
\<close>
theorem service_is_calls:
  "(\<exists>cs. br_store (sv_brain (snd (serve mounted req s))) = fold exec cs (br_store (sv_brain s))
     \<and> list_all (\<lambda>c. permitted mounted (identify (sv_keys s) (rq_actor_key req)) c
         \<or> (\<exists>n. c \<in> set (or_during (br_oracle (sv_brain s)) n))) cs)
   \<and> (\<exists>cs. br_store (sv_brain (run_job job s)) = fold exec cs (br_store (sv_brain s))
     \<and> list_all (\<lambda>c. ai_call (job_capability job) (job_ops job) c
         \<or> (\<exists>n. c \<in> set (or_during (br_oracle (sv_brain s)) n))) cs)"
proof -
  have "served mounted (rq_actor_key req) (sv_keys s) s (snd (router mounted req s))"
    using served_router by (auto simp: effects_def)
  moreover have "by_ai_calls (ai_call (job_capability job) (job_ops job)) (sv_brain s) (snd (job_body job (sv_access s) (sv_brain s)))"
    using job_moves by (auto simp: effects_def)
  ultimately show ?thesis by (simp add: served_def by_ai_calls_def serve_brain run_job_brain)
qed

end
