(* ===== verification/Refusal_Laws.thy ===== *)
theory Refusal_Laws
  imports Http_Laws Demo
begin

text \<open>
  A request that is answered by an error leaves no trace: the operation that failed rolled its
  transaction back, and the handler had called no other before, handed out no event and started no
  run.
\<close>

section \<open>Operations that fail as if they had not run\<close>

definition clean :: "(Sin90Store, 'e, 'a) prog \<Rightarrow> bool" where
  "clean m = (\<forall>w e w'. m w = (Inl e, w') \<longrightarrow> st_db w' = st_db w)"

definition sure :: "('w, 'e, 'a) prog \<Rightarrow> bool" where
  "sure m = (\<forall>w. \<not> isl (fst (m w)))"

lemma cleanD: "clean m \<Longrightarrow> m w = (Inl e, w') \<Longrightarrow> st_db w' = st_db w"
  by (simp add: clean_def)

lemma clean_tx: "clean (with_tx m)"
  by (auto simp: clean_def with_tx_def split: prod.splits sum.splits)

lemma clean_still: "keeps (=) m \<Longrightarrow> clean m"
  by (auto simp: clean_def dest: keepsD)

lemma clean_bind:
  assumes "keeps (=) m" and "\<And>x. clean (k x)"
  shows "clean (mbind m k)"
proof (unfold clean_def, intro allI impI)
  fix w e w' assume "mbind m k w = (Inl e, w')"
  then consider "m w = (Inl e, w')" | x w1 where "m w = (Inr x, w1)" "k x w1 = (Inl e, w')"
    by (auto simp: monad_iff)
  then show "st_db w' = st_db w"
  proof cases
    case 1
    then show ?thesis using keepsD[OF assms(1)] by simp
  next
    case 2
    with keepsD[OF assms(1), of w "Inr x" w1] cleanD[OF assms(2), of x w1 e w'] show ?thesis by simp
  qed
qed

lemma clean_then: "keeps (=) m \<Longrightarrow> clean k \<Longrightarrow> clean (mthen m k)"
  unfolding mthen_def by (rule clean_bind)

lemma clean_before: "clean m \<Longrightarrow> (\<And>x. sure (k x)) \<Longrightarrow> clean (mbind m k)"
  unfolding clean_def sure_def by (auto simp: monad_iff) (metis fst_conv isl_def)

lemma clean_if: "clean m \<Longrightarrow> clean k \<Longrightarrow> clean (if b then m else k)"
  by simp

lemma sure_ret: "sure (mret x)" and sure_notify: "sure notify_one"
  by (simp_all add: sure_def mret_def notify_one_def mmod_def)

lemma sure_bind: "sure m \<Longrightarrow> (\<And>x. sure (k x)) \<Longrightarrow> sure (mbind m k)"
  by (auto simp: sure_def mbind_def split: prod.split sum.split) (metis fst_conv sum.disc(1))

lemma sure_then: "sure m \<Longrightarrow> sure k \<Longrightarrow> sure (mthen m k)"
  unfolding mthen_def by (rule sure_bind)

lemma sure_if: "sure m \<Longrightarrow> sure k \<Longrightarrow> sure (if b then m else k)"
  by simp

lemma clean_option: "clean m \<Longrightarrow> (\<And>x. clean (k x)) \<Longrightarrow> clean (case r of None \<Rightarrow> m | Some x \<Rightarrow> k x)"
  by (cases r) auto

interpretation same: step_order "(=)"
  by unfold_locales auto

lemma still: "keeps (=) ulid" "keeps (=) now_iso8601" "keeps (=) (query f)" "keeps (=) (mguard b e)" "keeps (=) (mlift r)"
    "keeps (=) (msome q e)" "keeps (=) (mget g)" "keeps (=) (mret x)"
  by (simp_all add: keeps_def)

lemma still_checks: "keeps (=) (opt_check f x)" if "\<And>y. keeps (=) (f y)" for f x
  using that by (auto simp: opt_check_def still split: option.split)

lemmas clean_all = clean_tx clean_if clean_then clean_bind

lemmas still_all = same.keeps_bind same.keeps_then still

lemma still_create_routine_checks: "keeps (=) (cron_check c)" "keeps (=) (tz_check z)"
  unfolding cron_check_def tz_check_def by (intro still_all)+

lemma still_patch_checks: "keeps (=) (patch_checks patch)"
  unfolding patch_checks_def by (intro still_all still_checks still_create_routine_checks)

text \<open>Every write a route can call, the seed pack apart.\<close>

lemma clean_writes:
  "clean (create_area title)" "clean (transition_area i a)" "clean (create_direction title win area)" "clean (create_rhythm as)"
  "clean (create_week label)" "clean (transition_week i k)" "clean (create_block d t n)" "clean (transition_block i b)"
  "clean (create_task title d q kind energy est)" "clean (transition_task i s)"
  unfolding create_area_def transition_area_def create_direction_def create_rhythm_def create_week_def transition_week_def
    create_block_def transition_block_def create_task_def transition_task_def
  by ((rule clean_all still_all | simp only: Let_def)+)

lemma clean_later_writes:
  "clean (create_routine new)" "clean (update_routine i patch)" "clean (transition_routine i rs)"
  "clean (record_routine_fire fire key at trigger)" "clean (create_review nr)" "clean (update_review_body i body)"
  "clean (finalize_review i)" "clean (submit_proposal p)" "clean (apply_proposal i)" "clean (reject_proposal i reason)"
  "clean (put_ai_executive_enabled en)"
  unfolding create_routine_def update_routine_def transition_routine_def record_routine_fire_def create_review_def
    update_review_body_def finalize_review_def submit_proposal_def apply_proposal_def reject_proposal_def put_ai_executive_enabled_def
  by ((rule clean_tx clean_before[OF clean_tx] sure_then sure_if sure_notify sure_ret clean_if clean_option clean_then clean_bind clean_still[OF still(8)] still_all
      still_patch_checks still_create_routine_checks | simp only: Let_def)+)

lemma clean_today: "clean today_view"
  by (rule clean_still) (simp add: keeps_def today_view_def local_day_start_utc_def mbind_def mthen_def mget_def mmod_def mret_def query_def)

section \<open>Handlers that are refused without a trace\<close>

text \<open>
  The store holds what other tasks alone would have made of it, no event was handed out, and the
  runs are the ones there were.
\<close>

definition no_trace :: "Service \<Rightarrow> Service \<Rightarrow> bool" where
  "no_trace s s' = ((\<exists>cs. st_db (br_store (sv_brain s')) = st_db (fold exec cs (br_store (sv_brain s)))
       \<and> list_all (\<lambda>c. \<exists>n. c \<in> set (or_during (br_oracle (sv_brain s)) n)) cs)
     \<and> br_emitted (sv_brain s') = br_emitted (sv_brain s)
     \<and> sv_registry s' = sv_registry s \<and> sv_jobs s' = sv_jobs s)"

text \<open>Reading hands out no event.\<close>

definition hushed :: "Brain \<Rightarrow> Brain \<Rightarrow> bool" where
  "hushed b b' = (by_ai_calls (\<lambda>c. False) b b' \<and> br_emitted b' = br_emitted b)"

interpretation hushed: world_order hushed
  by unfold_locales (auto simp: hushed_def intro: world_order.R_refl[OF no_calls.world] world_order.R_trans[OF no_calls.world])

lemma hushedI: "effects (by_ai_calls (\<lambda>c. False)) m \<Longrightarrow> (\<And>b. br_emitted (snd (m b)) = br_emitted b) \<Longrightarrow> effects hushed m"
  by (auto simp: effects_def hushed_def)

lemma hushed_await: "effects hushed ai_await"
  by (rule hushedI[OF no_calls.moves_await]) (simp add: ai_await_def mbind_def mthen_def mget_def mmod_def mfail_def mret_def)

lemma hushed_at_once: "(\<And>w. snd (m w) = w) \<Longrightarrow> effects hushed (ai_at_once m)"
  by (rule hushedI[OF no_calls.moves_read_only]) (auto simp: ai_at_once_def split: prod.split)

lemma hushed_ulid: "effects hushed ai_ulid"
  by (rule hushedI[OF no_calls.moves_ulid]) (simp add: ai_ulid_def mbind_def mthen_def mget_def mmod_def mret_def)

lemma hushed_read: "(\<And>w. snd (m w) = w) \<Longrightarrow> effects hushed (ai_read m)"
  unfolding ai_read_def by (auto split: option.split intro!: hushed.moves_world hushed_await hushed_at_once)

lemma hushed_read_or: "(\<And>w. snd (m w) = w) \<Longrightarrow> effects hushed (read_or d m)"
  unfolding read_or_def by (intro hushed.moves_world hushed_read)

lemma hushed_lookup: "effects hushed (lookup_targets ids)"
  by (induction ids) (auto simp: inbox_task_def split: sum.split option.split intro!: hushed.moves_world hushed_read query_only)

lemma hushed_select: "effects hushed (select_targets task_ids)" "effects hushed (select_week i)" "effects hushed (select_review i)"
  unfolding select_targets_def select_week_def select_review_def ai_inbox_def week_lookup_def review_lookup_def
  by (auto split: option.split intro!: hushed.moves_world hushed_read query_only hushed_lookup)

definition untouched :: "Service \<Rightarrow> Service \<Rightarrow> bool" where
  "untouched s s' = (hushed (sv_brain s) (sv_brain s') \<and> sv_registry s' = sv_registry s \<and> sv_jobs s' = sv_jobs s)"

interpretation untouched: handler_steps untouched
  by unfold_locales (auto simp: untouched_def intro: hushed.R_refl hushed.R_trans)

lemma untouched_brain: "effects hushed m \<Longrightarrow> effects untouched (on_brain m)"
  by (auto simp: effects_def on_brain_def untouched_def split: prod.split) (metis snd_conv)

lemma untouched_input: "effects hushed m \<Longrightarrow> effects untouched (checked_input f m)"
  unfolding checked_input_def by (auto split: sum.split intro!: untouched.moves_world untouched.moves_early untouched_brain)

lemma untouched_no_trace: "untouched s s' \<Longrightarrow> no_trace s s'"
  by (auto simp: untouched_def hushed_def by_ai_calls_def no_trace_def)

lemma untouched_then:
  assumes "untouched s s1" and "no_trace s1 s'"
  shows "no_trace s s'"
proof -
  obtain cs ds where "br_store (sv_brain s1) = fold exec cs (br_store (sv_brain s))"
      "st_db (br_store (sv_brain s')) = st_db (fold exec ds (br_store (sv_brain s1)))"
      "list_all (\<lambda>c. \<exists>n. c \<in> set (or_during (br_oracle (sv_brain s)) n)) (cs @ ds)"
    using assms by (auto simp: untouched_def hushed_def by_ai_calls_def no_trace_def)
  with assms show ?thesis by (auto simp: untouched_def hushed_def no_trace_def intro!: exI[of _ "cs @ ds"])
qed

text \<open>An early answer leaves no trace, and every other answer is no error.\<close>

definition refuses :: "Response handler \<Rightarrow> bool" where
  "refuses m = (\<forall>s r s'. (m s = (Inl (Some r), s') \<longrightarrow> no_trace s s') \<and> (m s = (Inr r, s') \<longrightarrow> re_status r < 400))"

text \<open>No early answer, and every answer is no error.\<close>

definition answers :: "Response handler \<Rightarrow> bool" where
  "answers m = (\<forall>s r s'. m s \<noteq> (Inl (Some r), s') \<and> (m s = (Inr r, s') \<longrightarrow> re_status r < 400))"

definition steady :: "'a handler \<Rightarrow> bool" where
  "steady m = (\<forall>s r s'. m s \<noteq> (Inl (Some r), s'))"

lemma steady_brain: "steady (on_brain m)"
proof (unfold steady_def, intro allI)
  fix s r s'
  show "on_brain m s \<noteq> (Inl (Some r), s')"
    by (cases "m (sv_brain s)", cases "fst (m (sv_brain s))") (auto simp: on_brain_def)
qed

lemma steady_ret: "steady (mret x)"
  by (simp add: steady_def mret_def)

lemma steady_bind: "steady m \<Longrightarrow> (\<And>x. steady (k x)) \<Longrightarrow> steady (mbind m k)"
  by (auto simp: steady_def monad_iff)

lemma steady_for: "(\<And>x. steady (f x)) \<Longrightarrow> steady (mfor f xs)"
  by (induction xs) (auto intro!: steady_bind steady_ret)

lemma steady_emit: "steady (emit kind payload)"
  unfolding emit_def by (rule steady_brain)

lemma steady_if: "steady m \<Longrightarrow> steady k \<Longrightarrow> steady (if b then m else k)"
  by simp

lemma answers_reply: "n < 400 \<Longrightarrow> answers (reply n b)"
  by (simp add: answers_def reply_def mret_def)

lemma answers_bind: "steady m \<Longrightarrow> (\<And>x. answers (k x)) \<Longrightarrow> answers (mbind m k)"
  by (auto simp: answers_def steady_def monad_iff)

lemma answers_then: "steady m \<Longrightarrow> answers k \<Longrightarrow> answers (mthen m k)"
  unfolding mthen_def by (rule answers_bind)

lemma refuses_early: "refuses (answer_early r)"
  by (auto simp: refuses_def answer_early_def mfail_def intro: untouched_no_trace untouched.R_refl)

lemma refuses_bind:
  assumes "effects untouched m" and "\<And>x. refuses (k x)"
  shows "refuses (mbind m k)"
proof (unfold refuses_def, intro allI conjI impI)
  fix s r s'
  show "no_trace s s'" if "mbind m k s = (Inl (Some r), s')"
  proof -
    from that consider "m s = (Inl (Some r), s')" | x s1 where "m s = (Inr x, s1)" "k x s1 = (Inl (Some r), s')"
      by (auto simp: monad_iff)
    then show ?thesis
    proof cases
      case 1
      then show ?thesis by (intro untouched_no_trace movesD[OF assms(1)])
    next
      case 2
      with assms(2) have "no_trace s1 s'" by (auto simp: refuses_def)
      with movesD[OF assms(1) 2(1)] show ?thesis by (rule untouched_then)
    qed
  qed
  show "re_status r < 400" if "mbind m k s = (Inr r, s')"
    using that assms(2) by (auto simp: monad_iff refuses_def)
qed

lemma refuses_then: "effects untouched m \<Longrightarrow> refuses k \<Longrightarrow> refuses (mthen m k)"
  unfolding mthen_def by (rule refuses_bind)

lemma refuses_if: "refuses m \<Longrightarrow> refuses k \<Longrightarrow> refuses (if b then m else k)"
  by simp

lemma refuses_answers: "answers m \<Longrightarrow> refuses m"
  by (simp add: refuses_def answers_def)

text \<open>The one call of the store, and what follows its success.\<close>

lemma on_brain_iff [monad_iff]:
  "(on_brain m s = (Inr x, s')) = (\<exists>b. m (sv_brain s) = (Inr x, b) \<and> s' = s\<lparr>sv_brain := b\<rparr>)"
  "(on_brain m s = (Inl q, s')) = (q = None \<and> (\<exists>b. m (sv_brain s) = (Inl (), b) \<and> s' = s\<lparr>sv_brain := b\<rparr>))"
  by (cases "m (sv_brain s)", cases "fst (m (sv_brain s))", auto simp: on_brain_def)+

lemma ai_at_once_iff [monad_iff]:
  "(ai_at_once m b = (q, b')) = (\<exists>r w. q = Inr r \<and> m (br_store b) = (r, w) \<and> b' = b\<lparr>br_store := w\<rparr>)"
  by (auto simp: ai_at_once_def split: prod.split)

lemma refuses_store:
  assumes m: "clean m" and k: "\<And>x. answers (k x)"
  shows "refuses (mbind (call_store m) k)"
proof (unfold refuses_def, intro allI conjI impI)
  fix s r s'
  show "re_status r < 400" if "mbind (call_store m) k s = (Inr r, s')"
    using that k by (auto simp: monad_iff answers_def)
  assume run: "mbind (call_store m) k s = (Inl (Some r), s')"
  then have "call_store m s = (Inl (Some r), s')" using k by (auto simp: monad_iff answers_def)
  then obtain q s1 where once: "on_brain (mthen ai_await (ai_at_once m)) s = (Inr q, s1)"
      and rest: "(case q of Inl e \<Rightarrow> answer_early (response_of_error e) | Inr x \<Rightarrow> mret x) s1 = (Inl (Some r), s')"
    by (auto simp: call_store_def monad_iff)
  from rest obtain e where q: "q = Inl e" and s': "s' = s1"
    by (cases q) (auto simp: answer_early_def monad_iff)
  from once q s' obtain b1 w where await: "ai_await (sv_brain s) = (Inr (), b1)"
      and fails: "m (br_store b1) = (Inl e, w)" and now: "s' = s\<lparr>sv_brain := b1\<lparr>br_store := w\<rparr>\<rparr>"
    by (auto simp: mthen_def monad_iff)
  have "untouched s (s\<lparr>sv_brain := b1\<rparr>)"
    using movesD[OF hushed_await await] by (simp add: untouched_def)
  moreover have "no_trace (s\<lparr>sv_brain := b1\<rparr>) s'"
    using cleanD[OF m fails] by (auto simp: no_trace_def now intro!: exI[of _ "[]"])
  ultimately show "no_trace s s'" by (rule untouched_then)
qed

lemma refuses_store_then: "clean m \<Longrightarrow> answers k \<Longrightarrow> refuses (mthen (call_store m) k)"
  unfolding mthen_def by (rule refuses_store)

lemma clean_read: "(\<And>w. snd (m w) = w) \<Longrightarrow> clean m"
  by (auto simp: clean_def) (metis snd_conv)

lemmas refusals = refuses_store refuses_store_then refuses_early refuses_if
  refuses_then[OF untouched.moves_guards(1)] refuses_then[OF untouched.moves_guards(2)] refuses_bind[OF untouched.moves_parse]
  refuses_bind[OF untouched.moves_query] refuses_bind[OF untouched.moves_reason] refuses_bind[OF untouched.moves_fire_id]
  clean_writes clean_later_writes clean_today

lemmas answering = answers_then answers_bind answers_reply steady_emit steady_brain steady_ret steady_if steady_for

section \<open>Every handler\<close>

lemma plan_refused:
  "refuses (create_area_handler req)" "refuses list_areas_handler" "refuses (transition_area_handler i req)"
  "refuses (create_direction_handler req)" "refuses list_directions_handler" "refuses (create_task_handler req)"
  "refuses (list_tasks_handler req)" "refuses (transition_task_handler i req)" "refuses (create_block_handler req)"
  "refuses (transition_block_handler i req)" "refuses list_blocks_handler" "refuses (create_week_handler req)"
  "refuses list_weeks_handler" "refuses (transition_week_handler i req)" "refuses (week_attention_handler i)"
  "refuses (create_rhythm_handler req)" "refuses list_rhythms_handler" "refuses (get_rhythm_handler i)"
  unfolding create_area_handler_def list_areas_handler_def transition_area_handler_def create_direction_handler_def
    list_directions_handler_def create_task_handler_def list_tasks_handler_def transition_task_handler_def create_block_handler_def
    transition_block_handler_def list_blocks_handler_def create_week_handler_def list_weeks_handler_def transition_week_handler_def
    week_attention_handler_def create_rhythm_handler_def list_rhythms_handler_def get_rhythm_handler_def emit_task_created_def
  by (rule refusals answering | (rule clean_read, rule reads_only) | (simp; fail))+


lemma gate_refused:
  "refuses (submit_proposal_handler req)" "refuses (accept_proposal i req)" "refuses (reject_proposal_handler i req)"
  "refuses list_proposals_handler" "refuses (get_proposal_handler i)" "refuses (attention_handler req)"
  "refuses (list_events_handler req)" "refuses (capture req)" "refuses today"
  unfolding submit_proposal_handler_def accept_proposal_def reject_proposal_handler_def list_proposals_handler_def
    get_proposal_handler_def attention_handler_def list_events_handler_def capture_def today_def emit_task_created_def
  by (rule refusals answering | (rule clean_read, rule reads_only) | (simp; fail))+

lemma rhythm_refused:
  "refuses (create_routine_handler req)" "refuses (list_routines_handler req)" "refuses (get_routine_handler i)"
  "refuses (update_routine_handler i req)" "refuses (transition_routine_handler i req)" "refuses (create_review_handler req)"
  "refuses (list_reviews_handler req)" "refuses (get_review_handler i)" "refuses (update_review i req)"
  "refuses (finalize_review_handler i req)" "refuses (weekly_review_draft req)" "refuses get_ai_settings"
  "refuses (put_ai_settings req)"
  unfolding create_routine_handler_def list_routines_handler_def get_routine_handler_def update_routine_handler_def
    transition_routine_handler_def create_review_handler_def list_reviews_handler_def get_review_handler_def update_review_def
    finalize_review_handler_def weekly_review_draft_def get_ai_settings_def put_ai_settings_def
  by (rule refusals answering | (rule clean_read, rule reads_only) | (simp; fail))+

lemma answers_fire: "answers (answer_fire fire_id fired outcome)"
  unfolding answer_fire_def emit_auto_review_def
  by (auto split: RoutineFireOutcome.split option.split intro!: answering)

lemma fired_refused: "refuses (scheduler_fired req)"
  unfolding scheduler_fired_def by (rule refusals answers_fire | (simp; fail))+

lemma claim_refused: "refuses (claim cap job)"
proof -
  have "steady (mmod f)" "steady (mget g)" for f :: "Service \<Rightarrow> Service" and g :: "Service \<Rightarrow> 'x"
    by (simp_all add: steady_def mmod_def mget_def)
  moreover have "answers (mret (accepted cap run_id))" for run_id
    by (simp add: answers_def mret_def accepted_def)
  ultimately have "refuses (case busy of Some existing \<Rightarrow> answer_early (ai_busy existing)
    | None \<Rightarrow> mthen (mmod f) (mret (accepted cap run_id)))" for busy f run_id
    by (cases busy) (simp_all add: refuses_early refuses_answers answers_then)
  then show ?thesis
    unfolding claim_def Let_def
    by (intro refuses_bind[OF untouched_brain[OF hushed_ulid]] refuses_bind[OF untouched.moves_get])
qed

lemma trigger_refused:
  "refuses (trigger_classify req)" "refuses (trigger_propose req)" "refuses (trigger_summarize req)"
proof -
  have "effects untouched (case task_ids of
      Some ids \<Rightarrow> mbind (checked_input classify_input_error (select_targets (Some ids))) (\<lambda>t. mret (Some t))
    | None \<Rightarrow> mret None)" for task_ids
    by (auto split: option.split intro!: untouched.moves_world untouched_input hushed_select)
  then show "refuses (trigger_classify req)"
    unfolding trigger_classify_def by (intro refusals refuses_bind claim_refused)
  show "refuses (trigger_propose req)" "refuses (trigger_summarize req)"
    unfolding trigger_propose_def trigger_summarize_def
    by (intro refusals refuses_bind[OF untouched_input[OF hushed_select(2)]] refuses_bind[OF untouched_input[OF hushed_select(3)]] claim_refused)+
qed

lemma run_refused: "refuses (get_ai_run i)"
  unfolding get_ai_run_def list_ai_calls_for_run_def
  by (intro refuses_bind[OF untouched.moves_get] refuses_bind[OF untouched_brain[OF hushed_read_or[OF query_only]]] refuses_answers answering) simp

lemmas all_refused = plan_refused gate_refused rhythm_refused trigger_refused run_refused

text \<open>The installation of a pack, a call per area, is the only route that is not one transaction.\<close>

lemma find_route_in: "find_route rs path = Some (i, methods) \<Longrightarrow> \<exists>t is. (t, methods) \<in> set rs \<and> match_path t path = Some is"
  by (induction rs path rule: find_route.induct) (auto split: option.splits)

lemma match_packs: "match_path [Lit ''packs'', Lit ''install''] path = Some is \<Longrightarrow> path = [''packs'', ''install'']"
  by (cases path; cases "tl path"; cases "tl (tl path)") (auto split: if_splits)

lemma tables_refused:
  "list_all (\<lambda>(t, methods). list_all (\<lambda>(m, h). \<forall>i req. refuses (h i req)) methods \<or> t = [Lit ''packs'', Lit ''install'']) (routes mounted)"
  by (simp add: routes_def plan_routes_def gate_routes_def rhythm_routes_def ai_routes_def all_refused fired_refused)

lemma route_refused:
  assumes "(t, methods) \<in> set (routes mounted)" and "t \<noteq> [Lit ''packs'', Lit ''install'']" and "(m, h) \<in> set methods"
  shows "refuses (h i req)"
  using tables_refused[of mounted] assms by (fastforce simp: list_all_iff)

lemma router_refused:
  assumes path: "rq_path req \<noteq> [''packs'', ''install'']"
    and run: "router mounted req s = (q, s')"
    and q: "case q of Inl r \<Rightarrow> r \<noteq> None | Inr r \<Rightarrow> 400 \<le> re_status r"
  shows "no_trace s s'"
proof (cases "find_route (routes mounted) (rq_path req)")
  case None
  with run show ?thesis by (auto simp: router_def mret_def intro: untouched_no_trace untouched.R_refl)
next
  case (Some found)
  obtain i methods where found: "found = (i, methods)" by (cases found)
  show ?thesis
  proof (cases "map_of methods (method_of (rq_method req))")
    case None
    with run Some found show ?thesis by (auto simp: router_def mret_def intro: untouched_no_trace untouched.R_refl)
  next
    case (Some h)
    note route = \<open>find_route (routes mounted) (rq_path req) = Some found\<close>[unfolded found]
    from find_route_in[OF route] obtain t "is" where t: "(t, methods) \<in> set (routes mounted)" "match_path t (rq_path req) = Some is"
      by auto
    with match_packs path have "t \<noteq> [Lit ''packs'', Lit ''install'']" by auto
    then have "refuses (h i req)" by (rule route_refused[OF t(1) _ map_of_SomeD[OF Some]])
    moreover have "h i req s = (q, s')" using run route Some by (simp add: router_def)
    ultimately show ?thesis using q by (cases q) (auto simp: refuses_def not_less[symmetric])
  qed
qed

text \<open>
  C7: an answer of 400 and above leaves no trace: in the database only what other tasks did while it
  was made, no event handed out, no run started or ended. The seed pack, one call for each of its
  areas, is the exception.
\<close>
theorem refused_leaves_no_trace:
  assumes "serve mounted req s = (Some r, s')" and "400 \<le> re_status r" and "rq_path req \<noteq> [''packs'', ''install'']"
  shows "no_trace s s'"
proof -
  obtain q s1 where run: "router mounted req s = (q, s1)" by (cases "router mounted req s")
  have "re_status (body_for m x) = re_status x" for m x by (simp add: body_for_def)
  with assms(1,2) run have "case q of Inl r \<Rightarrow> r \<noteq> None | Inr r \<Rightarrow> 400 \<le> re_status r" and "s1 = s'"
    by (auto simp: serve_def split: sum.splits)
  with router_refused[OF assms(3) run] show ?thesis by simp
qed

text \<open>A service on a store with a closed week, whose decoders take every body for the move to active and for a run without targets.\<close>

definition demo_service :: Service where
  "demo_service = \<lparr>
     sv_brain = \<lparr>br_oracle = \<lparr>or_during = (\<lambda>n. []), or_dropped = (\<lambda>n. False), or_read_fails = (\<lambda>n. None), or_model = None,
         or_settings = (\<lambda>n. None), or_past_deadline = (\<lambda>n. False), or_now = (\<lambda>n. []), or_call_id = (\<lambda>n. []), or_ulid = (\<lambda>n. []),
         or_elapsed_ms = (\<lambda>n. 0), or_json = (\<lambda>t. None), or_json_text = (\<lambda>j. []), or_lowercase = (\<lambda>t. t)\<rparr>,
       br_store = run demo_env week_calls, br_awaits = 0, br_minted = 0, br_emitted = []\<rparr>,
     sv_keys = \<lparr>ak_human = ''human'', ak_automation = ''automation''\<rparr>,
     sv_decoders = \<lparr>de_title = \<lambda>b. Inr b, de_area_to = \<lambda>b. Inl b, de_direction = \<lambda>b. Inl b, de_task = \<lambda>b. Inl b, de_task_to = \<lambda>b. Inl b,
       de_block = \<lambda>b. Inl b, de_block_to = \<lambda>b. Inl b, de_iso_week = \<lambda>b. Inr b, de_week_to = \<lambda>b. Inr Week_Active, de_allocations = \<lambda>b. Inl b,
       de_proposal = \<lambda>b. Inl b, de_reject = \<lambda>b. Inl b, de_capture = \<lambda>b. Inr b, de_routine = \<lambda>b. Inl b, de_routine_patch = \<lambda>b. Inl b,
       de_routine_to = \<lambda>b. Inl b, de_review = \<lambda>b. Inl b, de_review_patch = \<lambda>b. Inr b, de_ai_settings = \<lambda>b. Inl b, de_fired = \<lambda>b. Inl b,
       de_classify = \<lambda>b. Inr None, de_propose = \<lambda>b. Inr b, de_summarize = \<lambda>b. Inr b, de_task_query = \<lambda>b. Inl (bare 400),
       de_attention_query = \<lambda>b. Inl (bare 400), de_events_query = \<lambda>b. Inl (bare 400), de_routine_query = \<lambda>b. Inl (bare 400),
       de_review_query = \<lambda>b. Inl (bare 400), de_draft_query = \<lambda>b. Inr b\<rparr>,
     sv_access = Access_LocalOnly, sv_registry = RunRegistry_default, sv_jobs = []\<rparr>"

definition demo_request :: Request where
  "demo_request = \<lparr>rq_method = PATCH, rq_path = [''weeks'', ''00000000000000000000000000''], rq_query = [],
     rq_actor_key = Some ''human'', rq_fire_id = None, rq_body = []\<rparr>"

lemma closed_refuses: "check_week_transition Week_Closed Week_Active = Inl (TE_Week Week_Closed Week_Active)"
  by code_simp

lemma demo_refusal:
  assumes "week_view (st_db w) i = Some Week_Closed"
  shows "transition_week i Week_Active w = (Inl (SE_Transition (TE_Week Week_Closed Week_Active)), w)"
  using assms
  by (auto simp: transition_week_def week_view_def with_tx_def mbind_def mthen_def query_def msome_def mlift_def transition_err_def
      closed_refuses mret_def mfail_def mget_def split: prod.splits)

lemma demo_serve: "serve False demo_request demo_service =
    (Some (error_response 409 ''conflict'' (transition_error_text (TE_Week Week_Closed Week_Active))), snd (serve False demo_request demo_service))"
proof -
  have "week_view (st_db (run demo_env week_calls)) ''00000000000000000000000000'' = Some Week_Closed"
    using week_closed by (simp add: db_after_def)
  note fails = demo_refusal[OF this]
  show ?thesis
    by (simp add: serve_def router_def demo_request_def demo_service_def routes_def plan_routes_def gate_routes_def rhythm_routes_def ai_routes_def
      method_of_def transition_week_handler_def require_human_def identify_exact parse_def call_store_def on_brain_def ai_await_def
      ai_at_once_def fails answer_early_def mbind_def mthen_def mget_def mmod_def mret_def mfail_def body_for_def response_of_error_def
      is_fk_violation_def)
qed

theorem refused_leaves_no_trace_witness: "no_trace demo_service (snd (serve False demo_request demo_service))"
  by (rule refused_leaves_no_trace[OF demo_serve]) (simp_all add: error_response_def demo_request_def)

end
