(* ===== verification/Service_Runs.thy ===== *)
theory Service_Runs
  imports Refusal_Laws
begin

text \<open>
  The runs of the AI in the whole service: whatever requests come and whenever the jobs end, each
  capability has at most one job. The service refines the steps of the registry with its guards.
\<close>

section \<open>What a request does to the runs\<close>

definition same_runs :: "Service \<Rightarrow> Service \<Rightarrow> bool" where
  "same_runs s s' = (sv_registry s' = sv_registry s \<and> sv_jobs s' = sv_jobs s)"

text \<open>One job is started, on a free slot.\<close>

definition one_started :: "Service \<Rightarrow> Service \<Rightarrow> bool" where
  "one_started s s' = (\<exists>job. busy_run (job_capability job) (sv_registry s) = None
     \<and> sv_registry s' = start_run (job_capability job) (job_run_id job) (sv_registry s) \<and> sv_jobs s' = sv_jobs s @ [job])"

definition runs_move :: "Service \<Rightarrow> Service \<Rightarrow> bool" where
  "runs_move s s' = (same_runs s s' \<or> one_started s s')"

interpretation same_runs: handlers same_runs
  by unfold_locales (auto simp: same_runs_def)

lemma runs_brain: "effects same_runs (on_brain m)"
  by (auto simp: effects_def same_runs_def on_brain_def split: prod.split)

lemma runs_store: "effects same_runs (call_store m)"
  unfolding call_store_def by (auto split: sum.split intro!: same_runs.moves_world same_runs.moves_early runs_brain)

lemma runs_input: "effects same_runs (checked_input f m)"
  unfolding checked_input_def by (auto split: sum.split intro!: same_runs.moves_world same_runs.moves_early runs_brain)

lemma runs_fire: "effects same_runs (answer_fire fire_id fired outcome)"
  unfolding answer_fire_def emit_auto_review_def by (auto split: RoutineFireOutcome.split option.split intro!: same_runs.moves_handler)

lemmas runs_all = runs_store runs_brain runs_fire same_runs.moves_guards same_runs.moves_handler

lemma plan_runs:
  "effects same_runs (create_area_handler req)" "effects same_runs list_areas_handler" "effects same_runs (transition_area_handler i req)"
  "effects same_runs (create_direction_handler req)" "effects same_runs list_directions_handler" "effects same_runs (create_task_handler req)"
  "effects same_runs (list_tasks_handler req)" "effects same_runs (transition_task_handler i req)" "effects same_runs (create_block_handler req)"
  "effects same_runs (transition_block_handler i req)" "effects same_runs list_blocks_handler" "effects same_runs (create_week_handler req)"
  "effects same_runs list_weeks_handler" "effects same_runs (transition_week_handler i req)" "effects same_runs (week_attention_handler i)"
  "effects same_runs (create_rhythm_handler req)" "effects same_runs list_rhythms_handler" "effects same_runs (get_rhythm_handler i)"
  unfolding create_area_handler_def list_areas_handler_def transition_area_handler_def create_direction_handler_def
    list_directions_handler_def create_task_handler_def list_tasks_handler_def transition_task_handler_def create_block_handler_def
    transition_block_handler_def list_blocks_handler_def create_week_handler_def list_weeks_handler_def transition_week_handler_def
    week_attention_handler_def create_rhythm_handler_def list_rhythms_handler_def get_rhythm_handler_def emit_task_created_def
  by (rule runs_all)+

lemma gate_runs:
  "effects same_runs (submit_proposal_handler req)" "effects same_runs (accept_proposal i req)" "effects same_runs (reject_proposal_handler i req)"
  "effects same_runs list_proposals_handler" "effects same_runs (get_proposal_handler i)" "effects same_runs (attention_handler req)"
  "effects same_runs (list_events_handler req)" "effects same_runs (install_pack req)" "effects same_runs (capture req)"
  "effects same_runs today" "effects same_runs (scheduler_fired req)"
  unfolding submit_proposal_handler_def accept_proposal_def reject_proposal_handler_def list_proposals_handler_def scheduler_fired_def
    get_proposal_handler_def attention_handler_def list_events_handler_def install_pack_def capture_def today_def emit_task_created_def
  by (rule runs_all)+

lemma rhythm_runs:
  "effects same_runs (create_routine_handler req)" "effects same_runs (list_routines_handler req)" "effects same_runs (get_routine_handler i)"
  "effects same_runs (update_routine_handler i req)" "effects same_runs (transition_routine_handler i req)" "effects same_runs (create_review_handler req)"
  "effects same_runs (list_reviews_handler req)" "effects same_runs (get_review_handler i)" "effects same_runs (update_review i req)"
  "effects same_runs (finalize_review_handler i req)" "effects same_runs (weekly_review_draft req)" "effects same_runs get_ai_settings"
  "effects same_runs (put_ai_settings req)" "effects same_runs (get_ai_run i)"
  unfolding create_routine_handler_def list_routines_handler_def get_routine_handler_def update_routine_handler_def get_ai_run_def
    transition_routine_handler_def create_review_handler_def list_reviews_handler_def get_review_handler_def update_review_def
    finalize_review_handler_def weekly_review_draft_def get_ai_settings_def put_ai_settings_def
  by (rule runs_all)+

lemma moves_same: "effects same_runs m \<Longrightarrow> effects runs_move m"
  by (simp add: effects_def runs_move_def)

lemma moves_after:
  assumes "effects same_runs m" and "\<And>x. effects runs_move (k x)"
  shows "effects runs_move (mbind m k)"
proof (rule movesI)
  fix s q s' assume "mbind m k s = (q, s')"
  then consider "\<exists>e. m s = (e, s')" | x s1 where "m s = (Inr x, s1)" "k x s1 = (q, s')"
    by (auto simp: mbind_def split: prod.splits sum.splits)
  then show "runs_move s s'"
  proof cases
    case 1
    then show ?thesis using movesD[OF assms(1)] by (auto simp: runs_move_def)
  next
    case 2
    with movesD[OF assms(1) 2(1)] movesD[OF assms(2) 2(2)] show ?thesis by (auto simp: runs_move_def same_runs_def one_started_def)
  qed
qed

lemma moves_claim: "(\<And>i. job_capability (job i) = cap \<and> job_run_id (job i) = i) \<Longrightarrow> effects runs_move (claim cap job)"
proof -
  assume job: "\<And>i. job_capability (job i) = cap \<and> job_run_id (job i) = i"
  have "runs_move s (s\<lparr>sv_registry := start_run cap i (sv_registry s), sv_jobs := sv_jobs s @ [job i]\<rparr>)"
    if "busy_run cap (sv_registry s) = None" for s i
    using that job[of i] by (auto simp: runs_move_def one_started_def)
  then have "effects runs_move (mbind (mget (\<lambda>s. busy_run cap (sv_registry s))) (\<lambda>busy.
     case busy of Some existing \<Rightarrow> answer_early (ai_busy existing)
     | None \<Rightarrow> mthen (mmod (\<lambda>s. s\<lparr>sv_registry := start_run cap i (sv_registry s), sv_jobs := sv_jobs s @ [job i]\<rparr>))
           (mret (accepted cap i))))" for i
    by (auto simp: effects_def mbind_def mthen_def mget_def mmod_def mret_def answer_early_def mfail_def runs_move_def same_runs_def
        split: option.split)
  then show ?thesis unfolding claim_def Let_def by (auto intro!: moves_after[OF runs_brain])
qed

lemma trigger_runs: "effects runs_move (trigger_classify req)" "effects runs_move (trigger_propose req)" "effects runs_move (trigger_summarize req)"
proof -
  have "effects same_runs (case ids of Some is \<Rightarrow> mbind (checked_input f (m is)) (\<lambda>t. mret (Some t)) | None \<Rightarrow> mret None)" for ids f m
    by (auto split: option.split intro!: same_runs.moves_world runs_input)
  then show "effects runs_move (trigger_classify req)"
    unfolding trigger_classify_def mthen_def by (auto intro!: moves_after same_runs.moves_guards same_runs.moves_parse moves_claim)
  show "effects runs_move (trigger_propose req)" "effects runs_move (trigger_summarize req)"
    unfolding trigger_propose_def trigger_summarize_def mthen_def
    by (auto intro!: moves_after same_runs.moves_guards same_runs.moves_parse runs_input moves_claim)
qed

lemma tables_move: "list_all (\<lambda>(t, methods). list_all (\<lambda>(m, h). \<forall>i req. effects runs_move (h i req)) methods) (routes mounted)"
  by (simp add: routes_def plan_routes_def gate_routes_def rhythm_routes_def ai_routes_def trigger_runs
      plan_runs[THEN moves_same] gate_runs[THEN moves_same] rhythm_runs[THEN moves_same])

lemma serve_moves: "runs_move s (snd (serve mounted req s))"
proof -
  have "effects runs_move (h i req)" if route: "find_route (routes mounted) (rq_path req) = Some (i, methods)" and h: "map_of methods m = Some h"
    for i methods m h
    using find_route_in[OF route] map_of_SomeD[OF h] tables_move[of mounted] by (fastforce simp: list_all_iff)
  moreover have "effects runs_move (mret r :: Response handler)" for r
    by (rule moves_same[OF same_runs.moves_ret])
  ultimately have "effects runs_move (router mounted req)"
    by (auto simp: router_def split: option.split)
  moreover have "snd (serve mounted req s) = snd (router mounted req s)"
    by (simp add: serve_def split: prod.split sum.split)
  ultimately show ?thesis by (simp add: effects_def)
qed

section \<open>The end of a job\<close>

definition ends_well :: "(string \<times> AiRunItem list) brain \<Rightarrow> bool" where
  "ends_well m = (\<forall>b state items b'. m b = (Inr (state, items), b') \<longrightarrow> state \<in> {''done'', ''aborted''})"

lemma run_ends_bind: "(\<And>x. ends_well (k x)) \<Longrightarrow> ends_well (mbind m k)"
  unfolding ends_well_def mbind_iff by blast

lemma run_ends_ret: "state \<in> {''done'', ''aborted''} \<Longrightarrow> ends_well (mret (state, items))"
  by (auto simp: ends_well_def mret_def)

lemma final_state_ends: "final_state b \<in> {''done'', ''aborted''}"
  by (simp add: final_state_def)

lemma job_ends: "ends_well (job_body job access)"
  by (cases job) (auto simp: classify_job_def propose_job_def summarize_job_def Let_def split: prod.split option.split
      intro!: run_ends_bind run_ends_ret final_state_ends)

section \<open>The service as a registry with guards\<close>

text \<open>
  One of the tasks of the service moves: a request is answered or dropped, a job ends, or anything
  else happens to the store. The run ids ever drawn are kept beside the service; they are ULIDs and
  never repeat.
\<close>

inductive service_step :: "Service \<times> string set \<Rightarrow> Service \<times> string set \<Rightarrow> bool" where
  request: "set (map job_run_id (sv_jobs s')) \<inter> ids \<subseteq> set (map job_run_id (sv_jobs s)) \<Longrightarrow> distinct (map job_run_id (sv_jobs s')) \<Longrightarrow>
    serve mounted req s = (r, s') \<Longrightarrow> service_step (s, ids) (s', ids \<union> set (map job_run_id (sv_jobs s')))"
| ended: "job \<in> set (sv_jobs s) \<Longrightarrow> service_step (s, ids) (run_job job s, ids)"
| elsewhere: "service_step (s, ids) (s\<lparr>sv_brain := b\<rparr>, ids)"

definition runs_of :: "Service \<times> string set \<Rightarrow> Runs" where
  "runs_of = (\<lambda>(s, ids). \<lparr>rs_registry = sv_registry s, rs_guards = (\<lambda>j. (job_capability j, job_run_id j)) ` set (sv_jobs s), rs_ids = ids\<rparr>)"

definition jobs_ok :: "Service \<times> string set \<Rightarrow> bool" where
  "jobs_ok = (\<lambda>(s, ids). distinct (map job_run_id (sv_jobs s)) \<and> set (map job_run_id (sv_jobs s)) \<subseteq> ids)"

lemma run_job_runs:
  "\<exists>state items. state \<in> {''done'', ''aborted''}
    \<and> sv_registry (run_job job s) = finish_run (job_capability job) (job_run_id job) state items (sv_registry s)
    \<and> sv_jobs (run_job job s) = remove1 job (sv_jobs s)"
proof (cases "job_body job (sv_access s) (sv_brain s)")
  case (Pair q b)
  show ?thesis
  proof (cases q)
    case (Inl e)
    with Pair show ?thesis by (auto simp: run_job_def finish_job_def)
  next
    case (Inr x)
    then obtain state items where "job_body job (sv_access s) (sv_brain s) = (Inr (state, items), b)"
      using Pair by (cases x) auto
    with job_ends[of job "sv_access s"] show ?thesis
      by (intro exI[of _ state] exI[of _ items]) (auto simp: run_job_def finish_job_def ends_well_def)
  qed
qed

lemma guards_removed:
  "job \<in> set js \<Longrightarrow> distinct (map job_run_id js) \<Longrightarrow>
    (\<lambda>j. (job_capability j, job_run_id j)) ` set (remove1 job js) = (\<lambda>j. (job_capability j, job_run_id j)) ` set js - {(job_capability job, job_run_id job)}"
  by (auto simp: distinct_map inj_on_def)

lemma service_refines:
  assumes "service_step c c'" and "jobs_ok c"
  shows "runs_step\<^sup>*\<^sup>* (runs_of c) (runs_of c') \<and> jobs_ok c'"
  using assms
proof cases
  case (request s' ids s mounted req r)
  have "runs_move s s'" using serve_moves[of s mounted req] request by simp
  then consider "same_runs s s'" | job where "busy_run (job_capability job) (sv_registry s) = None"
      "sv_registry s' = start_run (job_capability job) (job_run_id job) (sv_registry s)" "sv_jobs s' = sv_jobs s @ [job]"
    by (auto simp: runs_move_def one_started_def)
  then show ?thesis
  proof cases
    case 1
    then show ?thesis using request assms(2) by (simp add: same_runs_def runs_of_def jobs_ok_def sup.absorb1)
  next
    case 2
    then have "job_run_id job \<notin> ids" using request by auto
    with 2(1) have "runs_step (runs_of (s, ids)) (runs_of (s', insert (job_run_id job) ids))"
      using triggered[of "job_capability job" "runs_of (s, ids)" "job_run_id job"] 2 by (simp add: runs_of_def)
    then show ?thesis using 2 request assms(2) by (auto simp: jobs_ok_def sup.absorb1 Un_insert_right insert_absorb)
  qed
next
  case (ended job s ids)
  then obtain state items where "state \<in> {''done'', ''aborted''}"
      "sv_registry (run_job job s) = finish_run (job_capability job) (job_run_id job) state items (sv_registry s)"
      "sv_jobs (run_job job s) = remove1 job (sv_jobs s)"
    using run_job_runs[of job s] assms(2) by (auto simp: jobs_ok_def)
  moreover from this have "runs_step (runs_of (s, ids)) (runs_of (run_job job s, ids))"
    using finished[of "job_capability job" "job_run_id job" "runs_of (s, ids)" state items] guards_removed[of job "sv_jobs s"] ended assms(2)
    by (simp add: runs_of_def jobs_ok_def)
  moreover have "distinct (map job_run_id (remove1 job (sv_jobs s)))" "set (map job_run_id (remove1 job (sv_jobs s))) \<subseteq> ids"
    using ended assms(2) set_remove1_subset[of job "sv_jobs s"] by (auto simp: jobs_ok_def distinct_map intro: inj_on_subset)
  ultimately show ?thesis using ended by (simp add: jobs_ok_def)
next
  case (elsewhere s ids b)
  then show ?thesis using assms(2) by (simp add: runs_of_def jobs_ok_def)
qed

lemma service_reached:
  assumes "service_step\<^sup>*\<^sup>* (s0, {}) c" and "sv_registry s0 = RunRegistry_default" and "sv_jobs s0 = []"
  shows "runs_step\<^sup>*\<^sup>* Runs_start (runs_of c) \<and> jobs_ok c"
  using assms(1)
proof (induction rule: rtranclp_induct)
  case base
  then show ?case using assms(2,3) by (simp add: runs_of_def Runs_start_def jobs_ok_def)
next
  case (step c d)
  then show ?case using service_refines[of c d] by auto
qed

text \<open>
  C11: however requests, ends of jobs and other tasks follow one another, no capability of the AI ever
  has two jobs; a capability is busy exactly while its job is there, the runs told as running are
  those of the jobs, and the log never holds more than 64.
\<close>
theorem single_flight:
  assumes "service_step\<^sup>*\<^sup>* (s0, {}) (s, ids)" and "sv_registry s0 = RunRegistry_default" and "sv_jobs s0 = []"
  shows "distinct (map job_capability (sv_jobs s))
    \<and> (busy_run cap (sv_registry s) = Some i \<longleftrightarrow> (\<exists>job \<in> set (sv_jobs s). job_capability job = cap \<and> job_run_id job = i))
    \<and> ((\<exists>x. run_of i (sv_registry s) = Some x \<and> ar_state x = ''running'') \<longleftrightarrow> (\<exists>job \<in> set (sv_jobs s). job_run_id job = i))
    \<and> length (rr_runs (sv_registry s)) \<le> 64"
proof -
  have reached: "runs_step\<^sup>*\<^sup>* Runs_start (runs_of (s, ids))" and ok: "jobs_ok (s, ids)"
    using service_reached[OF assms] by auto
  let ?guards = "(\<lambda>j. (job_capability j, job_run_id j)) ` set (sv_jobs s)"
  note sound = run_registry_sound[OF reached, unfolded runs_of_def prod.case Runs.simps]
  have "distinct (sv_jobs s)" using ok by (auto simp: jobs_ok_def distinct_map)
  moreover have "inj_on job_capability (set (sv_jobs s))"
  proof (rule inj_onI)
    fix a b assume a: "a \<in> set (sv_jobs s)" and b: "b \<in> set (sv_jobs s)" and same: "job_capability a = job_capability b"
    have "(job_capability a, job_run_id a) \<in> ?guards" using a by (rule imageI)
    moreover have "(job_capability a, job_run_id b) \<in> ?guards" unfolding same using b by (rule imageI)
    ultimately have "job_run_id a = job_run_id b" using sound by blast
    then show "a = b" using a b ok by (auto simp: jobs_ok_def distinct_map dest: inj_onD)
  qed
  ultimately have "distinct (map job_capability (sv_jobs s))" by (simp add: distinct_map)
  with sound[of cap i i] show ?thesis by (auto simp: image_iff)
qed

text \<open>A run of classify is asked for, on a service without runs.\<close>

definition classify_request :: Request where
  "classify_request = \<lparr>rq_method = POST, rq_path = [''ai'', ''classify''], rq_query = [],
     rq_actor_key = Some ''automation'', rq_fire_id = None, rq_body = []\<rparr>"

lemma classify_started: "sv_jobs (snd (serve False classify_request demo_service)) = [Job_Classify ''run-'' None]"
  by (simp add: serve_def router_def classify_request_def demo_service_def routes_def plan_routes_def gate_routes_def rhythm_routes_def
      ai_routes_def method_of_def trigger_classify_def require_any_actor_def identify_exact parse_def claim_def on_brain_def ai_ulid_def
      busy_run_def RunRegistry_default_def Let_def mbind_def mthen_def mget_def mmod_def mret_def)

lemma demo_runs: "sv_registry demo_service = RunRegistry_default" "sv_jobs demo_service = []"
  by (simp_all add: demo_service_def)

lemma classify_reached: "service_step\<^sup>*\<^sup>* (demo_service, {}) (snd (serve False classify_request demo_service), {''run-''})"
  using request[of "snd (serve False classify_request demo_service)" "{}" demo_service False classify_request
      "fst (serve False classify_request demo_service)"]
  by (simp add: classify_started)

theorem single_flight_witness:
  "distinct (map job_capability (sv_jobs (snd (serve False classify_request demo_service))))
   \<and> busy_run Cap_Classify (sv_registry (snd (serve False classify_request demo_service))) = Some ''run-''"
  using single_flight[OF classify_reached demo_runs, of Cap_Classify "''run-''"] by (simp add: classify_started)

end
