(* ===== verification/Kernel_Clients.thy ===== *)
theory Kernel_Clients
  imports Ai_Run
begin

text \<open>
  The edge towards the kernel, \<open>src/adapter_agent24\<close> without the reconciler: which manifest is sent at
  the handshake (\<open>manifest.rs\<close>, \<open>load_manifest\<close> of \<open>src/main.rs\<close>), which clients are wired
  (\<open>mod.rs\<close>) and the client of the kernel's models (\<open>clients/model.rs\<close>). The YAML parser and the
  SDK's transport are parameters. The two permits in front of the client (\<open>SemaphoredModelCaller\<close> of
  \<open>src/http/state.rs\<close>) are a semaphore of tokio and are not modelled.
\<close>

section \<open>The manifest\<close>

text \<open>
  What serde reads from a text; the values of entries are only compared. A key may carry a tag, which
  \<open>as_str\<close> looks through but a comparison of keys does not.
\<close>

datatype 'v YamlKey = Key_Str string | Key_Tagged string "'v YamlKey" | Key_Other 'v

fun as_str :: "'v YamlKey \<Rightarrow> string option" where
  "as_str (Key_Str s) = Some s"
| "as_str (Key_Tagged tag k) = as_str k"
| "as_str (Key_Other v) = None"

datatype 'v Yaml = Yaml_Mapping "('v YamlKey \<times> 'v) list" | Yaml_Other 'v

datatype ManifestError = InvalidYaml string | InvalidMapping string | Mismatch string

type_synonym 'v mapping_entries = "('v YamlKey \<times> 'v) list"

definition parse_manifest :: "(string \<Rightarrow> 'v Yaml option) \<Rightarrow> string \<Rightarrow> string \<Rightarrow> ManifestError + 'v mapping_entries" where
  "parse_manifest yaml body origin =
     (case yaml body of
        None \<Rightarrow> Inl (InvalidYaml origin)
      | Some (Yaml_Mapping kvs) \<Rightarrow> if list_all (\<lambda>(k, v). as_str k \<noteq> None) kvs then Inr kvs else Inl (InvalidMapping origin)
      | Some (Yaml_Other _) \<Rightarrow> Inl (InvalidMapping origin))"

text \<open>Mappings are equal when they have the same entries, in any order.\<close>

definition differing :: "'v mapping_entries \<Rightarrow> 'v mapping_entries \<Rightarrow> 'v YamlKey list" where
  "differing a b = filter (\<lambda>k. map_of a k \<noteq> map_of b k) (map fst a)"

definition unknown_key :: string where
  "unknown_key = ''<unknown keys>''"

definition manifest_to_send :: "(string \<Rightarrow> 'v Yaml option) \<Rightarrow> string \<Rightarrow> string option \<Rightarrow> ManifestError + string" where
  "manifest_to_send yaml embedded on_disk =
     (case on_disk of
        None \<Rightarrow> Inr embedded
      | Some disk \<Rightarrow>
          (case parse_manifest yaml embedded ''embedded'' of
             Inl e \<Rightarrow> Inl e
           | Inr baseline \<Rightarrow>
               (case parse_manifest yaml disk ''on-disk'' of
                  Inl e \<Rightarrow> Inl e
                | Inr found \<Rightarrow>
                    let published = filter (\<lambda>(k, v). k \<noteq> Key_Str ''integrity'') found in
                    if differing baseline published = [] \<and> differing published baseline = [] then Inr disk
                    else Inl (Mismatch (join_with '', ''
                      (sort (remdups (List.map_filter as_str (differing baseline published))) @
                       (if list_ex (\<lambda>(k, v). map_of baseline k = None) published then [unknown_key] else [])))))))"

text \<open>\<open>load_manifest\<close> of \<open>src/main.rs\<close>: only a missing file counts as none; one that cannot be read ends the start.\<close>

datatype ManifestFile = File_Text string | File_Missing | File_Unreadable

definition load_manifest :: "(string \<Rightarrow> 'v Yaml option) \<Rightarrow> string \<Rightarrow> ManifestFile \<Rightarrow> ManifestError option + string" where
  "load_manifest yaml embedded file =
     (case file of
        File_Text disk \<Rightarrow> map_sum Some id (manifest_to_send yaml embedded (Some disk))
      | File_Missing \<Rightarrow> map_sum Some id (manifest_to_send yaml embedded None)
      | File_Unreadable \<Rightarrow> Inl None)"

section \<open>Wiring\<close>

definition SIN90_CAPABILITY_PREFIXES :: "string list" where
  "SIN90_CAPABILITY_PREFIXES = [''_a24/events/'', ''_a24/scheduler/'', ''_a24/memory/private/'', ''_a24/approval/'', ''_a24/model/'']"

definition provides_any_known_capability :: "string list \<Rightarrow> bool" where
  "provides_any_known_capability offer =
     list_ex (\<lambda>granted. list_ex (\<lambda>known. starts_with known granted \<or> starts_with granted known) SIN90_CAPABILITY_PREFIXES) offer"

text \<open>The SDK hands out a client, or none if its prefix is not in the offer.\<close>

definition wire_kernel_clients :: "string list \<Rightarrow> 'events option \<Rightarrow> 'model option \<Rightarrow> 'events option \<times> 'model option" where
  "wire_kernel_clients offer events model = (if provides_any_known_capability offer then (events, model) else (None, None))"

section \<open>The client of the models\<close>

datatype SdkError =
    Sdk_Unavailable bool UnavailableCause | Sdk_Busy string | Sdk_RateLimited string | Sdk_NotReady string | Sdk_Timeout string
  | Sdk_Forbidden string | Sdk_InvalidParams string | Sdk_PayloadTooLarge string | Sdk_NotFound string | Sdk_QuotaExceeded string
  | Sdk_TokenInvalid string | Sdk_RequestNotInFlight string | Sdk_Other string | Sdk_Draining string | Sdk_Revoked string
  | Sdk_NotSent string | Sdk_ConnectionLost | Sdk_Cancelled

record CompleteRequest =
  cq_messages :: "(Role \<times> string) list"
  cq_response_format :: "(string \<times> Json \<times> bool) option"
  cq_max_tokens :: "nat option"
  cq_complexity :: "Complexity option"

record CompleteResult =
  cs_text :: string
  cs_model_id :: "string option"
  cs_tier :: ServedTier
  cs_prompt_tokens :: "64 word"
  cs_completion_tokens :: "64 word"

definition build_request :: "ModelRequest \<Rightarrow> CompleteRequest" where
  "build_request req = \<lparr>cq_messages = mq_messages req, cq_response_format = Some (mq_schema_name req, mq_schema req, True),
     cq_max_tokens = Some (mq_max_tokens req), cq_complexity = Some (mq_complexity req)\<rparr>"

text \<open>\<open>u32::try_from\<close> on the counts of the reply.\<close>

definition try_u32 :: "string \<Rightarrow> 64 word \<Rightarrow> SdkError + u32" where
  "try_u32 field n =
     (if unat n < 2 ^ 32 then Inr (ucast n)
      else Inl (Sdk_Other (''model/complete: bad response shape: usage.'' @ field @ '' '' @ dec (unat n) @ '' does not fit u32'')))"

definition complete :: "(CompleteRequest \<Rightarrow> SdkError + CompleteResult) \<Rightarrow> ModelRequest \<Rightarrow> SdkError + ModelReply" where
  "complete sdk req =
     (case sdk (build_request req) of
        Inl e \<Rightarrow> Inl e
      | Inr result \<Rightarrow>
          (case try_u32 ''prompt_tokens'' (cs_prompt_tokens result) of
             Inl e \<Rightarrow> Inl e
           | Inr prompt_tokens \<Rightarrow>
               (case try_u32 ''completion_tokens'' (cs_completion_tokens result) of
                  Inl e \<Rightarrow> Inl e
                | Inr completion_tokens \<Rightarrow>
                    Inr \<lparr>mr_text = cs_text result, mr_model_id = cs_model_id result, mr_tier = cs_tier result,
                      mr_prompt_tokens = Some prompt_tokens, mr_completion_tokens = Some completion_tokens\<rparr>)))"

fun map_client_error_to_model_failure :: "SdkError \<Rightarrow> ModelFailure" where
  "map_client_error_to_model_failure (Sdk_Unavailable retryable cause) = MF_Unavailable retryable cause"
| "map_client_error_to_model_failure (Sdk_Busy m) = MF_Busy"
| "map_client_error_to_model_failure (Sdk_RateLimited m) = MF_RateLimited"
| "map_client_error_to_model_failure (Sdk_NotReady m) = MF_NotReady"
| "map_client_error_to_model_failure (Sdk_Timeout m) = MF_Timeout"
| "map_client_error_to_model_failure (Sdk_Forbidden m) = MF_Forbidden"
| "map_client_error_to_model_failure (Sdk_InvalidParams m) = MF_BadRequest"
| "map_client_error_to_model_failure (Sdk_PayloadTooLarge m) = MF_BadRequest"
| "map_client_error_to_model_failure (Sdk_NotFound m) = MF_Other"
| "map_client_error_to_model_failure (Sdk_QuotaExceeded m) = MF_Other"
| "map_client_error_to_model_failure (Sdk_TokenInvalid m) = MF_Other"
| "map_client_error_to_model_failure (Sdk_RequestNotInFlight m) = MF_Other"
| "map_client_error_to_model_failure (Sdk_Other m) = MF_Other"
| "map_client_error_to_model_failure (Sdk_Draining m) = MF_GenerationEnding"
| "map_client_error_to_model_failure (Sdk_Revoked m) = MF_GenerationEnding"
| "map_client_error_to_model_failure (Sdk_NotSent m) = MF_GenerationEnding"
| "map_client_error_to_model_failure Sdk_ConnectionLost = MF_ConnectionLost"
| "map_client_error_to_model_failure Sdk_Cancelled = MF_Cancelled"

definition model_port :: "(CompleteRequest \<Rightarrow> SdkError + CompleteResult) \<Rightarrow> ModelRequest \<Rightarrow> ModelFailure + ModelReply" where
  "model_port sdk req = map_sum map_client_error_to_model_failure id (complete sdk req)"

section \<open>Laws\<close>

definition key_names :: "'v mapping_entries \<Rightarrow> string set" where
  "key_names m = {s. \<exists>k\<in>fst ` set m. as_str k = Some s}"

lemma differing_none: "differing a b = [] \<Longrightarrow> differing b a = [] \<Longrightarrow> map_of a = map_of b"
proof
  fix k assume "differing a b = []" and "differing b a = []"
  then have "k \<in> fst ` set a \<union> fst ` set b \<Longrightarrow> map_of a k = map_of b k"
    by (auto simp: differing_def filter_empty_conv)
  then show "map_of a k = map_of b k" by (metis UnCI map_of_eq_None_iff)
qed

lemma map_of_without: "map_of (filter (\<lambda>(k, v). k \<noteq> j) m) k = (if k = j then None else map_of m k)"
  by (induction m) auto

text \<open>
  A text that is sent says what the baseline says; the keys a refusal names are the baseline's.
\<close>

lemma manifest_sent:
  "case manifest_to_send yaml embedded on_disk of
     Inr sent \<Rightarrow> (on_disk = None \<and> sent = embedded)
       \<or> (on_disk = Some sent \<and> (\<exists>b d. parse_manifest yaml embedded ''embedded'' = Inr b \<and> parse_manifest yaml sent ''on-disk'' = Inr d
           \<and> map_of b = (map_of d)(Key_Str ''integrity'' := None)))
   | Inl (Mismatch body) \<Rightarrow> (\<exists>b ks. parse_manifest yaml embedded ''embedded'' = Inr b
       \<and> body = join_with '', '' ks \<and> set ks \<subseteq> insert unknown_key (key_names b))
   | Inl e \<Rightarrow> e \<in> {InvalidYaml ''embedded'', InvalidYaml ''on-disk'', InvalidMapping ''embedded'', InvalidMapping ''on-disk''}"
proof -
  have bad: "e \<in> {InvalidYaml origin, InvalidMapping origin}" if "parse_manifest yaml body origin = Inl e" for body origin e
    using that by (auto simp: parse_manifest_def split: option.splits Yaml.splits if_splits)
  show ?thesis
  proof (cases on_disk)
    case (Some disk)
    show ?thesis
    proof (cases "parse_manifest yaml embedded ''embedded''")
      case (Inl e)
      with bad[OF Inl] Some show ?thesis by (auto simp: manifest_to_send_def)
    next
      case base: (Inr b)
      show ?thesis
      proof (cases "parse_manifest yaml disk ''on-disk''")
        case (Inl e)
        with bad[OF Inl] Some base show ?thesis by (auto simp: manifest_to_send_def)
      next
        case (Inr d)
        let ?p = "filter (\<lambda>(k, v). k \<noteq> Key_Str ''integrity'') d"
        show ?thesis
        proof (cases "differing b ?p = [] \<and> differing ?p b = []")
          case True
          then have "map_of b = (map_of d)(Key_Str ''integrity'' := None)"
            using differing_none[of b ?p] map_of_without[of "Key_Str ''integrity''" d] by (simp add: fun_eq_iff)
          with True Some base Inr show ?thesis by (simp add: manifest_to_send_def)
        next
          case False
          let ?ks = "sort (remdups (List.map_filter as_str (differing b ?p))) @ (if list_ex (\<lambda>(k, v). map_of b k = None) ?p then [unknown_key] else [])"
          have "set ?ks \<subseteq> insert unknown_key (key_names b)" by (auto simp: differing_def key_names_def List.map_filter_def split: option.splits) force
          moreover have "manifest_to_send yaml embedded on_disk = Inl (Mismatch (join_with '', '' ?ks))"
            using False Some base Inr by (auto simp: manifest_to_send_def Let_def)
          ultimately have "\<exists>ks. manifest_to_send yaml embedded on_disk = Inl (Mismatch (join_with '', '' ks)) \<and> set ks \<subseteq> insert unknown_key (key_names b)"
            by blast
          with base show ?thesis by auto
        qed
      qed
    qed
  qed (simp add: manifest_to_send_def)
qed

text \<open>
  C35: what is sent at the handshake is the compiled manifest itself, or a file that says the same but
  for its integrity entry. A file that says anything else is refused, and the refusal, which goes into
  the log, is made of key names of the compiled manifest and one fixed phrase, never of text from the
  file; a file that is there and cannot be read is no reason to fall back.
\<close>
theorem manifest_is_compiled_one:
  "case load_manifest yaml embedded found of
     Inr sent \<Rightarrow> (found = File_Missing \<and> sent = embedded)
       \<or> (found = File_Text sent \<and> (\<exists>b d. parse_manifest yaml embedded ''embedded'' = Inr b \<and> parse_manifest yaml sent ''on-disk'' = Inr d
           \<and> map_of b = (map_of d)(Key_Str ''integrity'' := None)))
   | Inl (Some (Mismatch body)) \<Rightarrow> (\<exists>b ks. parse_manifest yaml embedded ''embedded'' = Inr b
       \<and> body = join_with '', '' ks \<and> set ks \<subseteq> insert unknown_key (key_names b))
   | Inl (Some e) \<Rightarrow> e \<in> {InvalidYaml ''embedded'', InvalidYaml ''on-disk'', InvalidMapping ''embedded'', InvalidMapping ''on-disk''}
   | Inl None \<Rightarrow> found = File_Unreadable"
  using manifest_sent[of yaml embedded "case found of File_Text t \<Rightarrow> Some t | _ \<Rightarrow> None"]
  by (cases found) (auto simp: load_manifest_def split: sum.splits ManifestError.splits option.splits)

end
