(* ===== verification/Spec2Isabelle.thy ===== *)
theory Spec2Isabelle
  imports Calendar_Laws Proposal_Laws Store_Properties Write_Laws Ladder_Laws Pump_Laws Ai_Laws Reply_Laws Narrative_Laws
    Service_Runs Kernel_Clients
begin

text \<open>
  A verification of Sin90, a personal planner with an AI that may only propose (Rust, \<open>src/src\<close>).
  The program keeps areas, directions, weeks, rhythms, tasks, schedule blocks, reviews and routines
  in one SQLite database, with an event log, an outbox towards a kernel that runs schedules and
  keeps memories, and a gate through which every change an AI wants has to pass as a proposal that a
  human accepts or rejects.

  \<^bold>\<open>How the model is built.\<close> The store is a record of tables (\<open>Db\<close> in \<open>Database\<close>) inside a world
  (\<open>Sin90Store\<close>) that also holds the clock, the id source, the files of the export and the wake-up
  flag of the outbox pump. A method of the source is a program of the error monad of \<open>Prelude\<close>: it
  takes the world and returns an error or a value, and the world afterwards. A statement of SQL is a
  function on the tables, a constraint of the schema (migrations \<open>0001\<close> to \<open>0015\<close>) a check in front
  of the insertion, \<open>with_tx\<close> an \<open>IMMEDIATE\<close> transaction that restores the tables on an error. What
  the source takes from outside is a field of the environment \<open>Env\<close>: the clock, the random bits and
  the time of ULIDs, SHA-256, the cron and time-zone parsers, the start of the local day, the data
  directory and the paths the file system refuses. Texts are lists of bytes, so a Rust string is its
  UTF-8 form; \<open>u32\<close> is a 32-bit word; SQLite integers are \<open>int\<close> or \<open>nat\<close>.

  \<^bold>\<open>The theories of the model\<close>, in the order of the code:
  \<^item> \<open>RustStr\<close>: the methods of \<open>str\<close> the source uses, on UTF-8 bytes.
  \<^item> \<open>Types\<close>, \<open>Transitions\<close>: \<open>core/types.rs\<close> and the nine status machines of
    \<open>core/transitions.rs\<close>.
  \<^item> \<open>Calendar\<close>: \<open>core/util.rs\<close>, ULIDs, timestamps, ISO weeks and dates.
  \<^item> \<open>Proposal\<close>: \<open>core/proposal.rs\<close>, the ten operations and the pure validator.
  \<^item> \<open>Json\<close>, \<open>Database\<close>: payloads, tables, constraints, transactions and the event log.
  \<^item> \<open>Store_Plan\<close>, \<open>Store_Task\<close>, \<open>Attention\<close>, \<open>Weekly_Draft\<close>, \<open>Outbox\<close>, \<open>Store_Routine\<close>,
    \<open>Store_Review\<close>, \<open>Store_Proposal\<close>: the methods of \<open>store/repo.rs\<close>, \<open>store/attention.rs\<close>,
    \<open>store/weekly_draft.rs\<close> and \<open>store/packs.rs\<close>.
  \<^item> \<open>Messages\<close>: the texts of the errors of \<open>core/transitions.rs\<close> and \<open>core/proposal.rs\<close>.
  \<^item> \<open>Ai_Ports\<close>, \<open>Ladder\<close>, \<open>Ai_Port\<close>: \<open>ai/ports.rs\<close>, \<open>ai/ladder.rs\<close> and \<open>store/ai_port.rs\<close>,
    the vocabulary of the AI, its ladder of engines and the store's side of it.
  \<^item> \<open>Api\<close>: every write of the store as a call, \<open>exec\<close>, and \<open>db_after env calls\<close>, the tables after a
    sequence of calls from the freshly migrated database.
  \<^item> \<open>Unicode\<close>, \<open>Ai_Run\<close>, \<open>Classify\<close>, \<open>Propose\<close>, \<open>Summarize\<close>: \<open>ai/classify.rs\<close>, \<open>ai/propose.rs\<close> and
    \<open>ai/summarize.rs\<close>, each from its reads to its submissions: rules, prompts, the parsing of replies,
    the filter of narratives. A run is a program over a \<open>Brain\<close>: the store and an \<open>Oracle\<close>.
  \<^item> \<open>Programs\<close>, \<open>Payloads\<close>, \<open>Reconciler\<close>: \<open>adapter_agent24/reconciler.rs\<close>, the pump that carries
    the outbox to the kernel: one row, a pass, the full comparison, a tick, the loop.
  \<^item> \<open>Kernel_Clients\<close>: the manifest of the handshake, the wiring and the model client.
  \<^item> \<open>Actor\<close>, \<open>Run_Registry\<close>: \<open>http/actor.rs\<close> and \<open>http/ai_runs.rs\<close>, the two keys and the log of runs.
  \<^item> \<open>Service\<close>, \<open>Http\<close>, \<open>Ai_Trigger\<close>, \<open>Router\<close>: \<open>http/mod.rs\<close>, \<open>http/state.rs\<close> and the triggers
    \<open>http/ai_*.rs\<close>. A handler is a program over a \<open>Service\<close> (the brain, the keys, the registry, the
    jobs started and not yet ended) that may end early with an answer; \<open>router\<close> is the table of
    routes, \<open>serve\<close> a request from its path to its answer, \<open>run_job\<close> a job of the AI to its end.

  \<^bold>\<open>Interleaving.\<close> A program of the pump, of a run or of a handler meets other tasks at its awaits.
  Each await is a point where the oracle inserts a list of calls of the store, which stand for what
  the other tasks do there, and where it may drop the future (a deadline, a client that has gone). A
  method of the store runs between two awaits as one transaction. The theorems hold for every oracle.

  \<^bold>\<open>The theories of the proofs\<close>:
  \<^item> \<open>Statements\<close> says what each statement does when it succeeds or fails (\<open>store_iff\<close>) and holds the
    interfaces \<open>step_refl\<close> and \<open>step_order\<close>: what a call may do to the tables, as a relation.
  \<^item> \<open>Steps\<close> is the abstract database: three layered step relations (a batch, a direct write, the
    proposals) that list the changes a write may commit with the condition the code establishes.
    \<open>Refinement\<close>, \<open>Writes\<close> and \<open>Gate\<close> show that every method of the store is a sequence of steps.
  \<^item> \<open>Invariants\<close> (interface \<open>store_invariant\<close>), \<open>Event_Log\<close> (interface \<open>event_sourced\<close>) and
    \<open>Store_Laws\<close> prove invariants over the steps; \<open>Store_Properties\<close> states them of \<open>db_after\<close>.
  \<^item> \<open>Gate_Laws\<close>: the proposal gate as an abstract machine, the receipts, and that the validator's
    simulation of a batch is exact. \<open>Write_Laws\<close>: closed rows, fires, the AI sink.
  \<^item> \<open>Attention_Laws\<close>: the attention views as functions of the log. \<open>Calendar_Laws\<close>, \<open>Id_Laws\<close>,
    \<open>Proposal_Laws\<close>, \<open>Ladder_Laws\<close>: the pure parts. \<open>Demo\<close>: the run the witnesses use.
  \<^item> \<open>Reconciler_Laws\<close>, \<open>Pump_Laws\<close>: the pump is a sequence of public calls (interface \<open>world_order\<close>
    of \<open>Programs\<close>), marks done only what the kernel took in its current version, sends nothing after a
    revocation and delivers all to an obliging kernel.
  \<^item> \<open>Ai_Laws\<close> (interfaces \<open>ai_calls\<close>, \<open>ai_run\<close>): a run is a sequence of public calls, its own of one
    shape. \<open>Reply_Laws\<close>: what a parsed reply can be, and the second rule of classify.
    \<open>Narrative_Laws\<close>: what a narrative that passes the filter can hold, piece by piece.
  \<^item> \<open>Http_Laws\<close> (interfaces \<open>handler_steps\<close>, \<open>handlers\<close>): a request makes only the calls its key
    permits. \<open>Refusal_Laws\<close>: an answer of an error has left no trace. \<open>Service_Runs\<close>: the service
    refines the registry of runs with its guards.

  \<^bold>\<open>Bounds and fuel.\<close> The search for a free slug counts in a u32 that wraps, so it may go on for
  ever; it ends, with the counter below its end, while there are fewer than \<open>2 ^ 32 - 2\<close> areas; a call
  it does not end for is an error in the model. The calendar is closed arithmetic; a run of the ladder recurs over the items and the steps of
  its plan; \<open>auto_select_page\<close> doubles a page below 2000. The loop of the pump, which does not end by
  itself, is cut after any number of wakes, and its theorems hold for each.

  \<^bold>\<open>Parameters.\<close> The serde decoders of bodies, the JSON and YAML parsers, the lower-case mapping of
  Unicode, the answers of the kernel and of the model are arguments or fields of \<open>Env\<close>, \<open>Oracle\<close> and
  \<open>Decoders\<close>. Nothing is assumed about them, but for the delivery of all due rows, which is against an
  obliging kernel.

  \<^bold>\<open>Not modelled.\<close> Failures of SQLite itself and the connection pool, beyond a read of the AI that
  fails; the order of rows the source leaves open (they come in order of insertion here); log lines;
  axum and tokio below the table of routes and the awaits; the scheduler, memory and approval clients,
  which forward to the SDK; the two permits in front of the model client (\<open>SemaphoredModelCaller\<close>,
  a semaphore of tokio); the debug routes of test builds; \<open>main.rs\<close> beyond
  the choice of the manifest: it parses arguments, opens the store and starts the tasks.
\<close>

end
